(* ===== verification/Prelude.thy ===== *)
theory Prelude
  imports Main "HOL-Library.Word" "HOL-Library.Monad_Syntax" "HOL-Library.AList"
begin

text \<open>
  Shared vocabulary of the development: the machine integers of the Rust sources, the checked
  and saturating operations the code calls on them, the result type of a Rust function that can
  return early or panic, and the lemmas about both that carry the component proofs.

  \<^item> \<open>u8 .. u128\<close> are words; \<open>i64\<close> is a word read through \<open>sint\<close>.
  \<^item> A \<open>Result\<close> is a sum whose left side is the failure. The \<open>?\<close> operator is \<open>and_then\<close>;
    on \<open>Option\<close> it is the bind of the option monad.
  \<^item> The release profile of the workspace sets \<open>overflow-checks = true\<close>, so an unchecked
    \<open>+\<close> or \<open>-\<close> that overflows panics. Such an operation is written with the checked operation
    and \<open>unwrap\<close>.
\<close>

section \<open>Machine integers\<close>

type_synonym u8 = "8 word"
type_synonym u16 = "16 word"
type_synonym u32 = "32 word"
type_synonym u64 = "64 word"
type_synonym u128 = "128 word"
type_synonym i64 = "64 word"

text \<open>A public key is 32 bytes, kept as one number.\<close>

type_synonym pubkey = "256 word"

named_theorems checked_simps \<open>characterisation of the checked machine operations\<close>
named_theorems res_simps \<open>characterisation of the result combinators\<close>

definition checked_add :: "'a::len word \<Rightarrow> 'a word \<Rightarrow> 'a word option" where
  "checked_add a b = (if unat a + unat b < 2 ^ LENGTH('a) then Some (a + b) else None)"

definition checked_sub :: "'a::len word \<Rightarrow> 'a word \<Rightarrow> 'a word option" where
  "checked_sub a b = (if unat b \<le> unat a then Some (a - b) else None)"

definition checked_mul :: "'a::len word \<Rightarrow> 'a word \<Rightarrow> 'a word option" where
  "checked_mul a b = (if unat a * unat b < 2 ^ LENGTH('a) then Some (a * b) else None)"

definition checked_div :: "'a::len word \<Rightarrow> 'a word \<Rightarrow> 'a word option" where
  "checked_div a b = (if b = 0 then None else Some (a div b))"

definition saturating_add :: "'a::len word \<Rightarrow> 'a word \<Rightarrow> 'a word" where
  "saturating_add a b = (if unat a + unat b < 2 ^ LENGTH('a) then a + b else - 1)"

definition saturating_sub :: "'a::len word \<Rightarrow> 'a word \<Rightarrow> 'a word" where
  "saturating_sub a b = (if unat b \<le> unat a then a - b else 0)"

text \<open>The signed operations of \<open>i64\<close>.\<close>

definition fits_i64 :: "int \<Rightarrow> bool" where
  "fits_i64 z \<longleftrightarrow> - (2 ^ 63) \<le> z \<and> z < 2 ^ 63"

definition checked_add_i64 :: "i64 \<Rightarrow> i64 \<Rightarrow> i64 option" where
  "checked_add_i64 a b = (if fits_i64 (sint a + sint b) then Some (a + b) else None)"

definition checked_sub_i64 :: "i64 \<Rightarrow> i64 \<Rightarrow> i64 option" where
  "checked_sub_i64 a b = (if fits_i64 (sint a - sint b) then Some (a - b) else None)"

text \<open>\<open>u64::try_from\<close> on an \<open>i64\<close> and on a \<open>u128\<close>.\<close>

definition u64_of_i64 :: "i64 \<Rightarrow> u64 option" where
  "u64_of_i64 a = (if 0 \<le> sint a then Some a else None)"

definition u64_of_u128 :: "u128 \<Rightarrow> u64 option" where
  "u64_of_u128 a = (if unat a < 2 ^ 64 then Some (ucast a) else None)"

text \<open>Arithmetic goals stay in \<open>unat\<close>: the rewriting of \<open>of_nat (unat a)\<close> to \<open>uint a\<close> is off.\<close>

lemma word_of_unat [simp]: "of_nat (unat a) = a" for a :: "'a::len word"
  by simp

declare of_nat_unat [simp del]

lemma checked_add_Some [checked_simps]:
  "checked_add a b = Some c \<longleftrightarrow> unat a + unat b < 2 ^ LENGTH('a) \<and> c = a + b"
  for a b c :: "'a::len word"
  by (auto simp: checked_add_def)

lemma checked_sub_Some [checked_simps]:
  "checked_sub a b = Some c \<longleftrightarrow> unat b \<le> unat a \<and> c = a - b"
  by (auto simp: checked_sub_def)

lemma checked_mul_Some [checked_simps]:
  "checked_mul a b = Some c \<longleftrightarrow> unat a * unat b < 2 ^ LENGTH('a) \<and> c = a * b"
  for a b c :: "'a::len word"
  by (auto simp: checked_mul_def)

lemma checked_div_Some [checked_simps]:
  "checked_div a b = Some c \<longleftrightarrow> b \<noteq> 0 \<and> c = a div b"
  by (auto simp: checked_div_def)

lemma checked_add_None [checked_simps]:
  "checked_add a b = None \<longleftrightarrow> 2 ^ LENGTH('a) \<le> unat a + unat b" for a b :: "'a::len word"
  by (auto simp: checked_add_def)

lemma checked_sub_None [checked_simps]: "checked_sub a b = None \<longleftrightarrow> unat a < unat b"
  by (auto simp: checked_sub_def)

lemma checked_mul_None [checked_simps]:
  "checked_mul a b = None \<longleftrightarrow> 2 ^ LENGTH('a) \<le> unat a * unat b" for a b :: "'a::len word"
  by (auto simp: checked_mul_def)

lemma checked_div_None [checked_simps]: "checked_div a b = None \<longleftrightarrow> b = 0"
  by (auto simp: checked_div_def)

lemma unat_add_checked:
  "unat a + unat b < 2 ^ LENGTH('a) \<Longrightarrow> unat (a + b) = unat a + unat b" for a b :: "'a::len word"
  by (simp add: unat_word_ariths)

lemma unat_mul_checked:
  "unat a * unat b < 2 ^ LENGTH('a) \<Longrightarrow> unat (a * b) = unat a * unat b" for a b :: "'a::len word"
  by (simp add: unat_word_ariths)

lemma unat_sub_checked: "unat b \<le> unat a \<Longrightarrow> unat (a - b) = unat a - unat b"
  for a b :: "'a::len word"
  by (simp add: unat_sub word_le_nat_alt)

lemmas unat_checked = unat_add_checked unat_mul_checked unat_sub_checked

lemma unat_of_nat_fits: "n < 2 ^ LENGTH('a) \<Longrightarrow> unat (of_nat n :: 'a::len word) = n"
  by (simp add: unat_of_nat take_bit_nat_eq_self)

lemma unat_eqI: "unat a = unat b \<Longrightarrow> a = b" for a b :: "'a::len word"
  by (rule unsigned_word_eqI)

lemma checked_sub_eq: "unat a = unat b + unat c \<Longrightarrow> checked_sub a b = Some c"
  for a b c :: "'a::len word"
proof -
  assume a: "unat a = unat b + unat c"
  then have "unat (a - b) = unat c"
    by (simp add: unat_sub_checked)
  then have "a - b = c"
    by (rule unat_eqI)
  with a show ?thesis
    by (simp add: checked_sub_def)
qed

lemma unat_saturating_sub: "unat (saturating_sub a b) = unat a - unat b" for a b :: "'a::len word"
  by (simp add: saturating_sub_def unat_sub_checked)

lemma unat_top_up: "unat (a + saturating_sub b a) = max (unat a) (unat b)" for a b :: "'a::len word"
proof -
  have "unat a + unat (saturating_sub b a) = max (unat a) (unat b)"
    by (simp add: unat_saturating_sub)
  moreover have "max (unat a) (unat b) < 2 ^ LENGTH('a)"
    using unsigned_less [where 'a = nat, of a] unsigned_less [where 'a = nat, of b] by simp
  ultimately show ?thesis
    by (simp add: unat_add_checked)
qed

lemma unat_u64_less: "unat (a :: u64) < 2 ^ 64"
  using unsigned_less [where 'a = nat, of a] by simp

lemma unat_ucast_up:
  "LENGTH('a) \<le> LENGTH('b) \<Longrightarrow> unat (ucast (a :: 'a::len word) :: 'b::len word) = unat a"
  by (simp add: unsigned_ucast_eq take_bit_nat_eq_self less_le_trans [OF unsigned_less])

lemma unat_ucast_down:
  "unat a < 2 ^ LENGTH('b) \<Longrightarrow> unat (ucast (a :: 'a::len word) :: 'b::len word) = unat a"
  by (simp add: unsigned_ucast_eq take_bit_nat_eq_self)

lemma u64_of_u128_Some [checked_simps]:
  "u64_of_u128 a = Some b \<longleftrightarrow> unat a = unat b"
proof (cases "unat a < 2 ^ 64")
  case True
  then have "unat (ucast a :: u64) = unat a"
    by (simp add: unat_ucast_down)
  with True show ?thesis
    by (metis option.inject u64_of_u128_def unsigned_word_eqI)
next
  case False
  then show ?thesis
    using unat_u64_less [of b] by (auto simp: u64_of_u128_def)
qed

lemma sint_of_small: "unat (a :: i64) < 2 ^ 63 \<Longrightarrow> sint a = int (unat a)"
proof -
  assume "unat a < 2 ^ 63"
  then have "int (unat a) < int (2 ^ 63)"
    by (simp only: of_nat_less_iff)
  then have "uint a < 2 ^ 63"
    by (simp add: of_nat_unat)
  then have "signed_take_bit 63 (uint a) = uint a"
    by (intro signed_take_bit_int_eq_self) (auto intro: order.trans [of _ 0])
  then show "sint a = int (unat a)"
    by (subst sint_uint) (simp add: of_nat_unat)
qed

lemma sint_checked:
  "fits_i64 (sint a + sint b) \<Longrightarrow> sint (a + b) = sint a + sint b"
  "fits_i64 (sint a - sint b) \<Longrightarrow> sint (a - b) = sint a - sint b" for a b :: i64
  by (simp_all add: sint_word_add sint_word_diff fits_i64_def signed_take_bit_int_eq_self)

lemma checked_add_i64_Some [checked_simps]:
  "checked_add_i64 a b = Some c \<longleftrightarrow> fits_i64 (sint a + sint b) \<and> c = a + b"
  by (auto simp: checked_add_i64_def)

lemma checked_sub_i64_Some [checked_simps]:
  "checked_sub_i64 a b = Some c \<longleftrightarrow> fits_i64 (sint a - sint b) \<and> c = a - b"
  by (auto simp: checked_sub_i64_def)

lemma sint_i64_bounds: "- (2 ^ 63) \<le> sint (a :: i64)" "sint a < 2 ^ 63"
  using sint_ge [of a] sint_lt [of a] by simp_all

lemma unat_of_sint: "0 \<le> sint (a :: i64) \<Longrightarrow> int (unat a) = sint a"
proof -
  assume "0 \<le> sint a"
  then have "take_bit 64 (sint a) = sint a"
    using sint_i64_bounds [of a] by (intro take_bit_int_eq_self) simp_all
  then show "int (unat a) = sint a"
    by (simp add: uint_sint of_nat_unat)
qed

section \<open>Results, early returns and panics\<close>

text \<open>
  A failing call either returned an error value or panicked. The runtime rolls the whole
  transaction back in both cases, so a failure carries no state.
\<close>

datatype 'e failure = Err 'e | Panic

definition and_then :: "'f + 'a \<Rightarrow> ('a \<Rightarrow> 'f + 'b) \<Rightarrow> 'f + 'b" where
  "and_then m f = (case m of Inl e \<Rightarrow> Inl e | Inr x \<Rightarrow> f x)"

definition ok_or :: "'e \<Rightarrow> 'a option \<Rightarrow> 'e failure + 'a" where
  "ok_or e m = (case m of None \<Rightarrow> Inl (Err e) | Some x \<Rightarrow> Inr x)"

definition unwrap :: "'a option \<Rightarrow> 'e failure + 'a" where
  "unwrap m = (case m of None \<Rightarrow> Inl Panic | Some x \<Rightarrow> Inr x)"

text \<open>\<open>if !c { return Err(e) }\<close> and \<open>assert!(c)\<close>.\<close>

definition ensure :: "bool \<Rightarrow> 'e \<Rightarrow> 'e failure + unit" where
  "ensure c e = (if c then Inr () else Inl (Err e))"

definition assert_that :: "bool \<Rightarrow> 'e failure + unit" where
  "assert_that c = (if c then Inr () else Inl Panic)"

lemma and_then_simps [simp]:
  "and_then (Inl e) f = Inl e" "and_then (Inr x) f = f x"
  by (simp_all add: and_then_def)

lemma and_then_Inr [res_simps]:
  "and_then m f = Inr y \<longleftrightarrow> (\<exists>x. m = Inr x \<and> f x = Inr y)"
  by (cases m) auto

lemma and_then_Inl [res_simps]:
  "and_then m f = Inl e \<longleftrightarrow> m = Inl e \<or> (\<exists>x. m = Inr x \<and> f x = Inl e)"
  by (cases m) auto

lemma and_then_assoc: "and_then (and_then m f) g = and_then m (\<lambda>x. and_then (f x) g)"
  by (cases m) auto

lemma and_then_cong [fundef_cong]:
  "m = m' \<Longrightarrow> (\<And>x. m' = Inr x \<Longrightarrow> f x = f' x) \<Longrightarrow> and_then m f = and_then m' f'"
  by (cases m) auto

lemma ok_or_simps [simp]: "ok_or e None = Inl (Err e)" "ok_or e (Some x) = Inr x"
  by (simp_all add: ok_or_def)

lemma ok_or_Inr [res_simps]: "ok_or e m = Inr x \<longleftrightarrow> m = Some x"
  by (cases m) auto

lemma ok_or_Inl [res_simps]: "ok_or e m = Inl f \<longleftrightarrow> m = None \<and> f = Err e"
  by (cases m) auto

lemma unwrap_simps [simp]: "unwrap None = Inl Panic" "unwrap (Some x) = Inr x"
  by (simp_all add: unwrap_def)

lemma unwrap_Inr [res_simps]: "unwrap m = Inr x \<longleftrightarrow> m = Some x"
  by (cases m) auto

lemma unwrap_Inl [res_simps]: "unwrap m = Inl f \<longleftrightarrow> m = None \<and> f = Panic"
  by (cases m) auto

lemma ensure_simps [simp]: "ensure True e = Inr ()" "ensure False e = Inl (Err e)"
  by (simp_all add: ensure_def)

lemma ensure_Inr [res_simps]: "ensure c e = Inr x \<longleftrightarrow> c"
  by (simp add: ensure_def)

lemma ensure_Inl [res_simps]: "ensure c e = Inl f \<longleftrightarrow> \<not> c \<and> f = Err e"
  by (auto simp: ensure_def)

lemma assert_that_simps [simp]: "assert_that True = Inr ()" "assert_that False = Inl Panic"
  by (simp_all add: assert_that_def)

lemma assert_that_Inr [res_simps]: "assert_that c = Inr x \<longleftrightarrow> c"
  by (simp add: assert_that_def)

lemma assert_that_Inl [res_simps]: "assert_that c = Inl f \<longleftrightarrow> \<not> c \<and> f = Panic"
  by (auto simp: assert_that_def)

lemma bind_option_Some [res_simps]:
  "Option.bind m f = Some y \<longleftrightarrow> (\<exists>x. m = Some x \<and> f x = Some y)"
  by (cases m) auto

text \<open>\<open>iter().sum()\<close> over \<open>u64\<close> values: an overflow panics.\<close>

fun sum_u64 :: "u64 \<Rightarrow> u64 list \<Rightarrow> 'e failure + u64" where
  "sum_u64 acc [] = Inr acc"
| "sum_u64 acc (x # xs) = and_then (unwrap (checked_add acc x)) (\<lambda>acc'. sum_u64 acc' xs)"

lemma sum_u64_fits:
  "unat acc + sum_list (map unat xs) < 2 ^ 64 \<Longrightarrow>
   \<exists>s. sum_u64 acc xs = Inr s \<and> unat s = unat acc + sum_list (map unat xs)"
proof (induction xs arbitrary: acc)
  case Nil
  then show ?case by simp
next
  case (Cons x xs)
  have "unat acc + unat x < 2 ^ 64"
    using Cons.prems by simp
  then have add: "checked_add acc x = Some (acc + x)" "unat (acc + x) = unat acc + unat x"
    by (simp_all add: checked_add_def unat_add_checked)
  show ?case
    using Cons.IH [of "acc + x"] Cons.prems by (simp add: add add.assoc)
qed

lemma sum_u64_overflow:
  "2 ^ 64 \<le> unat acc + sum_list (map unat xs) \<Longrightarrow> sum_u64 acc xs = Inl Panic"
proof (induction xs arbitrary: acc)
  case Nil
  then show ?case using unat_u64_less [of acc] by simp
next
  case (Cons x xs)
  show ?case
  proof (cases "unat acc + unat x < 2 ^ 64")
    case True
    then have "checked_add acc x = Some (acc + x)" "unat (acc + x) = unat acc + unat x"
      by (simp_all add: checked_add_def unat_add_checked)
    then show ?thesis using Cons by (simp add: add.assoc)
  next
    case False
    then show ?thesis by (simp add: checked_add_def)
  qed
qed

end
