(* ===== verification/Precise.thy ===== *)
theory Precise
  imports Prelude
begin

text \<open>
  The fixed-point numbers of the crate \<open>spl-math\<close> (\<open>precise_number::PreciseNumber\<close>). The
  crate is not part of the repository: a record of its operations is an argument of every
  definition that uses it, and what the code relies on is the locale \<open>precise_number\<close>: a
  value with twelve decimals in 256 bits, multiplication and division that round down or to the
  nearest unit of the last place, conversion back to an integer that rounds half up, and \<open>None\<close>
  on division by zero. The locale is interpreted on \<open>fixed12\<close>, an executable fixed-point
  arithmetic with these rules, which the witnesses evaluate.
\<close>

record 'n precise =
  pn_new :: "u128 \<Rightarrow> 'n option"
  pn_add :: "'n \<Rightarrow> 'n \<Rightarrow> 'n option"
  pn_sub :: "'n \<Rightarrow> 'n \<Rightarrow> 'n option"
  pn_mul :: "'n \<Rightarrow> 'n \<Rightarrow> 'n option"
  pn_div :: "'n \<Rightarrow> 'n \<Rightarrow> 'n option"
  pn_floor :: "'n \<Rightarrow> 'n option"
  pn_imprecise :: "'n \<Rightarrow> u128 option"
  pn_le :: "'n \<Rightarrow> 'n \<Rightarrow> bool"

abbreviation pn_one :: nat where "pn_one \<equiv> 1000000000000"

abbreviation pn_half :: nat where "pn_half \<equiv> 500000000000"

text \<open>Rounding to the nearest integer, halves up.\<close>

definition div_round :: "nat \<Rightarrow> nat \<Rightarrow> nat" where
  "div_round a b = (2 * a + b) div (2 * b)"

lemma div_round_bounds:
  assumes "0 < b"
  shows "2 * a < 2 * b * div_round a b + b" and "2 * b * div_round a b \<le> 2 * a + b"
proof -
  have "2 * a + b = 2 * b * div_round a b + (2 * a + b) mod (2 * b)"
    by (simp add: div_round_def)
  moreover have "(2 * a + b) mod (2 * b) < 2 * b"
    using assms by simp
  ultimately show "2 * a < 2 * b * div_round a b + b" "2 * b * div_round a b \<le> 2 * a + b"
    by linarith+
qed

lemma div_round_unique:
  assumes "2 * a < 2 * b * r + b" "2 * b * r \<le> 2 * a + b"
  shows "div_round a b = r"
proof -
  have "2 * b * r \<le> 2 * a + b" "2 * a + b < 2 * b * Suc r"
    using assms by simp_all
  then show ?thesis
    unfolding div_round_def by (intro div_nat_eqI) (simp_all add: ac_simps)
qed

lemma div_round_exact: "0 < b \<Longrightarrow> div_round (b * k) b = k"
  by (rule div_round_unique) (simp_all add: ac_simps)

lemma div_round_mono: "a \<le> a' \<Longrightarrow> div_round a b \<le> div_round a' b"
  by (simp add: div_round_def div_le_mono)

lemma div_round_le: "0 < b \<Longrightarrow> a \<le> b * k \<Longrightarrow> div_round a b \<le> k"
  using div_round_mono [of a "b * k" b] by (simp add: div_round_exact)

text \<open>A quotient that rounds down or to nearest of an exact multiple is the exact quotient.\<close>

lemma div_round_sandwich:
  assumes "0 < b" "a = b * k" "a div b \<le> z" "z \<le> div_round a b"
  shows "z = k"
  using assms by (simp add: div_round_exact)

text \<open>The share of \<open>a\<close> that \<open>b\<close> basis points are, to the nearest unit.\<close>

definition bps_of :: "nat \<Rightarrow> nat \<Rightarrow> nat" where
  "bps_of a b = div_round (a * b) 10000"

lemma bps_of_eq: "bps_of a b = (a * b + 5000) div 10000"
proof -
  have "2 * (a * b) + 10000 = 2 * (a * b + 5000)"
    by simp
  then show ?thesis
    unfolding bps_of_def div_round_def by (simp add: div_mult_mult1 del: distrib_left_numeral)
qed

lemma bps_of_bounds: "20000 * bps_of a b \<le> 2 * (a * b) + 10000" "2 * (a * b) < 20000 * bps_of a b + 10000"
  using div_round_bounds [of 10000 "a * b"] by (simp_all add: bps_of_def)

lemma bps_of_le: "b \<le> 10000 \<Longrightarrow> bps_of a b \<le> a"
  unfolding bps_of_def by (rule div_round_le) (simp_all add: mult.commute)

lemma bps_of_full [simp]: "bps_of a 10000 = a" "bps_of a 0 = 0" "bps_of 0 b = 0"
  by (simp_all add: bps_of_eq)

text \<open>
  How far the rounded share \<open>r\<close> of \<open>T\<close> for \<open>u\<close> parts of \<open>B\<close> is from the exact one: half a unit,
  and what the last decimal of the quotient contributes in proportion to \<open>T\<close>.
\<close>

definition share_close :: "nat \<Rightarrow> nat \<Rightarrow> nat \<Rightarrow> nat \<Rightarrow> bool" where
  "share_close u B T r \<longleftrightarrow>
     2 * pn_one * (r * B) \<le> 2 * pn_one * (u * T) + B * (T + pn_one)
     \<and> 2 * pn_one * (u * T) \<le> 2 * pn_one * (r * B) + B * (2 * T + pn_one)"

lemma share_close_chain:
  assumes pos: "0 < B" and z: "(u * pn_one) div B \<le> z" "z \<le> div_round (u * pn_one) B"
  shows "share_close u B T (div_round (z * T) pn_one)"
proof -
  let ?r = "div_round (z * T) pn_one"
  have up: "2 * B * z \<le> 2 * (u * pn_one) + B"
    using mult_left_mono [OF z(2), of "2 * B"] div_round_bounds(2) [OF pos, of "u * pn_one"] by linarith
  have "u * pn_one = B * ((u * pn_one) div B) + (u * pn_one) mod B"
    by simp
  then have low: "u * pn_one \<le> B * z + B"
    using mult_left_mono [OF z(1), of B] mod_less_divisor [OF pos, of "u * pn_one"] by linarith
  have r_up: "2 * pn_one * ?r \<le> 2 * (z * T) + pn_one" and r_low: "2 * (z * T) \<le> 2 * pn_one * ?r + pn_one"
    using div_round_bounds [of pn_one "z * T"] by simp_all
  have "B * (2 * pn_one * ?r) \<le> B * (2 * (z * T) + pn_one)"
    using r_up by (rule mult_left_mono) simp
  moreover have "2 * B * z * T \<le> (2 * (u * pn_one) + B) * T"
    using up by (rule mult_right_mono) simp
  ultimately have 1: "2 * pn_one * (?r * B) \<le> 2 * pn_one * (u * T) + B * (T + pn_one)"
    by (simp add: algebra_simps)
  have "2 * (u * pn_one) * T \<le> 2 * (B * z + B) * T"
    using low by (intro mult_right_mono) simp_all
  moreover have "B * (2 * (z * T)) \<le> B * (2 * pn_one * ?r + pn_one)"
    using r_low by (rule mult_left_mono) simp
  ultimately have 2: "2 * pn_one * (u * T) \<le> 2 * pn_one * (?r * B) + B * (2 * T + pn_one)"
    by (simp add: algebra_simps)
  show ?thesis
    unfolding share_close_def using 1 2 by blast
qed

locale precise_number =
  fixes P :: "'n precise" and val :: "'n \<Rightarrow> nat"
  assumes new_val: "\<exists>x. pn_new P k = Some x \<and> val x = unat k * pn_one"
    and add_val: "val x + val y < 2 ^ 256 \<Longrightarrow>
      \<exists>z. pn_add P x y = Some z \<and> val z = val x + val y"
    and sub_val: "val y \<le> val x \<Longrightarrow> \<exists>z. pn_sub P x y = Some z \<and> val z = val x - val y"
    and sub_None: "val x < val y \<Longrightarrow> pn_sub P x y = None"
    and mul_val: "val x * val y + pn_one < 2 ^ 256 \<Longrightarrow>
      \<exists>z. pn_mul P x y = Some z \<and> (val x * val y) div pn_one \<le> val z
        \<and> val z \<le> div_round (val x * val y) pn_one"
    and div_val: "pn_one \<le> val y \<Longrightarrow> val x * pn_one + pn_one < 2 ^ 256 \<Longrightarrow>
      \<exists>z. pn_div P x y = Some z \<and> (val x * pn_one) div val y \<le> val z
        \<and> val z \<le> div_round (val x * pn_one) (val y)"
    and div_zero: "val y = 0 \<Longrightarrow> pn_div P x y = None"
    and floor_val: "\<exists>z. pn_floor P x = Some z \<and> val z = val x div pn_one * pn_one"
    and imprecise_val: "div_round (val x) pn_one < 2 ^ 128 \<Longrightarrow>
      \<exists>r. pn_imprecise P x = Some r \<and> unat r = div_round (val x) pn_one"
    and le_val: "pn_le P x y \<longleftrightarrow> val x \<le> val y"
begin

lemma new_obtain: obtains x where "pn_new P k = Some x" "val x = unat k * pn_one"
  using new_val by blast

text \<open>Multiplying two integers is exact.\<close>

lemma mul_ints:
  assumes "val x = a * pn_one" "val y = b * pn_one" "a * b < 2 ^ 128"
  shows "\<exists>z. pn_mul P x y = Some z \<and> val z = a * b * pn_one"
proof -
  have prod: "val x * val y = pn_one * (a * b * pn_one)"
    by (simp add: assms)
  have "val x * val y + pn_one < 2 ^ 256"
    unfolding prod using assms(3) by simp
  from mul_val [OF this] obtain z where z: "pn_mul P x y = Some z"
    "(val x * val y) div pn_one \<le> val z" "val z \<le> div_round (val x * val y) pn_one"
    by blast
  then have "val z = a * b * pn_one"
    using div_round_sandwich [OF _ prod] by simp
  with z(1) show ?thesis by blast
qed

text \<open>Dividing by a positive integer whose quotient has at most twelve decimals is exact.\<close>

lemma div_ints:
  assumes "val x = a * pn_one" "val y = b * pn_one" "0 < b" "a * pn_one = b * q" "a < 2 ^ 128"
  shows "\<exists>z. pn_div P x y = Some z \<and> val z = q"
proof -
  have prod: "val x * pn_one = val y * q"
    using assms(1,2,4) by simp
  have "pn_one \<le> val y"
    using assms(2,3) by simp
  moreover have "val x * pn_one + pn_one < 2 ^ 256"
    using assms(1,5) by simp
  ultimately obtain z where z: "pn_div P x y = Some z"
    "(val x * pn_one) div val y \<le> val z" "val z \<le> div_round (val x * pn_one) (val y)"
    using div_val by blast
  have "0 < val y"
    using assms(2,3) by simp
  then have "val z = q"
    using div_round_sandwich [OF _ prod z(2,3)] by simp
  with z(1) show ?thesis by blast
qed

lemma imprecise_int:
  assumes "val x = a * pn_one" "a < 2 ^ 128"
  shows "\<exists>r. pn_imprecise P x = Some r \<and> unat r = a"
proof -
  have "div_round (val x) pn_one = a"
    using div_round_exact [of pn_one a] assms(1) by (simp add: mult.commute)
  then show ?thesis
    using imprecise_val [of x] assms(2) by simp
qed

text \<open>
  The chain every percentage of the sources is computed with: multiply, divide by ten thousand,
  round to an integer, convert to \<open>u64\<close>. On a \<open>u64\<close> amount and at most \<open>100%\<close> it returns
  the basis points of the amount to the nearest unit, and never \<open>None\<close>.
\<close>

lemma bps_chain:
  assumes x: "val x = m * pn_one" and y: "val y = n * pn_one" and z: "val z = 10000 * pn_one"
    and mn: "m * n = a * b" and a: "a < 2 ^ 64" and b: "b < 2 ^ 16" and fits: "bps_of a b < 2 ^ 64"
  shows "Option.bind (pn_mul P x y) (\<lambda>p. Option.bind (pn_div P p z)
    (\<lambda>q. Option.bind (pn_imprecise P q) u64_of_u128)) = Some (of_nat (bps_of a b))"
proof -
  have "a * b \<le> 2 ^ 64 * 2 ^ 16"
    using a b by (intro mult_le_mono) simp_all
  then have ab: "a * b < 2 ^ 128"
    by simp
  obtain p where p: "pn_mul P x y = Some p" "val p = a * b * pn_one"
    using mul_ints [OF x y] ab mn by auto
  have "a * b * pn_one = 10000 * (a * b * 100000000)"
    by simp
  from div_ints [OF p(2) z _ this ab]
  obtain q where q: "pn_div P p z = Some q" "val q = a * b * 100000000"
    by auto
  have bound: "div_round (val q) pn_one = bps_of a b"
    using bps_of_bounds [of a b] by (intro div_round_unique) (simp_all add: q(2))
  then obtain r where r: "pn_imprecise P q = Some r" "unat r = bps_of a b"
    using imprecise_val [of q] fits by auto
  have "u64_of_u128 r = Some (of_nat (bps_of a b))"
    using r(2) fits by (simp add: checked_simps unat_of_nat)
  with r p(1) q(1) show ?thesis
    by simp
qed

text \<open>
  The chain of the other shares: divide a part by the whole, multiply by an amount, round to an
  integer. The quotient is exact up to the last of its twelve decimals, the product is exact.
\<close>

lemma ratio_chain:
  assumes x: "val x = u * pn_one" and b: "val b = B * pn_one" and t: "val t = T * pn_one"
    and pos: "0 < B" and le: "u \<le> B" and u: "u < 2 ^ 64" and T: "T < 2 ^ 64"
  shows "\<exists>q p p'. pn_div P x b = Some q \<and> (u * pn_one) div B \<le> val q \<and> val q \<le> div_round (u * pn_one) B
    \<and> val q \<le> pn_one \<and> div_round (val q * T) pn_one \<le> T
    \<and> pn_mul P q t = Some p \<and> Option.bind (pn_imprecise P p) u64_of_u128
        = Some (of_nat (div_round (val q * T) pn_one))
    \<and> pn_mul P t q = Some p' \<and> Option.bind (pn_imprecise P p') u64_of_u128
        = Some (of_nat (div_round (val q * T) pn_one))"
proof -
  have scaled: "(a * pn_one) div (c * pn_one) = a div c" "div_round (a * pn_one) (c * pn_one) = div_round a c" for a c
  proof -
    show "(a * pn_one) div (c * pn_one) = a div c"
      by simp
    have "2 * (a * pn_one) + c * pn_one = (2 * a + c) * pn_one" "2 * (c * pn_one) = (2 * c) * pn_one"
      by simp_all
    then show "div_round (a * pn_one) (c * pn_one) = div_round a c"
      by (simp only: div_round_def) (rule div_mult_mult2, simp)
  qed
  have "val x * pn_one + pn_one < 2 ^ 256"
    using u by (simp add: x)
  moreover have "pn_one \<le> val b"
    using pos by (simp add: b)
  ultimately obtain q where q: "pn_div P x b = Some q"
    "(u * pn_one) div B \<le> val q" "val q \<le> div_round (u * pn_one) B"
    using div_val [of b x] unfolding b x scaled by blast
  have q_le: "val q \<le> pn_one"
    using q(3) div_round_le [OF pos, of "u * pn_one" pn_one] le by simp
  have "val q * val t \<le> pn_one * (2 ^ 64 * pn_one)"
    unfolding t using q_le T by (intro mult_le_mono) simp_all
  then have fits: "val q * val t + pn_one < 2 ^ 256" "val t * val q + pn_one < 2 ^ 256"
    by (simp_all add: mult.commute)
  have exact: "z = val q * T" if "(val q * val t) div pn_one \<le> z" "z \<le> div_round (val q * val t) pn_one" for z
    using div_round_sandwich [of pn_one "val q * val t" "val q * T" z] that by (simp add: t)
  obtain p where p: "pn_mul P q t = Some p" "val p = val q * T"
    using mul_val [OF fits(1)] exact by blast
  obtain p' where p': "pn_mul P t q = Some p'" "val p' = val q * T"
    using mul_val [OF fits(2)] exact by (metis mult.commute)
  have small: "div_round (val q * T) pn_one \<le> T"
    using q_le by (intro div_round_le) simp_all
  have conv: "Option.bind (pn_imprecise P y) u64_of_u128 = Some (of_nat (div_round (val q * T) pn_one))"
    if y: "val y = val q * T" for y
  proof -
    have "div_round (val y) pn_one < 2 ^ 128"
      using small T by (simp add: y)
    then obtain r where "pn_imprecise P y = Some r" "unat r = div_round (val q * T) pn_one"
      using imprecise_val [of y] y by auto
    moreover have "unat (of_nat (div_round (val q * T) pn_one) :: u64) = div_round (val q * T) pn_one"
      using small T by (simp add: unat_of_nat)
    ultimately show ?thesis
      by (simp add: checked_simps)
  qed
  show ?thesis
    using q q_le small p p' conv by blast
qed

end

section \<open>An executable instance\<close>

definition u256_fits :: "nat \<Rightarrow> nat option" where
  "u256_fits n = (if n < 2 ^ 256 then Some n else None)"

definition fixed12 :: "nat precise" where
  "fixed12 =
    \<lparr>pn_new = (\<lambda>k. Some (unat k * pn_one)),
     pn_add = (\<lambda>x y. u256_fits (x + y)),
     pn_sub = (\<lambda>x y. if y \<le> x then Some (x - y) else None),
     pn_mul = (\<lambda>x y. Option.bind (u256_fits (x * y + pn_half)) (\<lambda>v. Some (v div pn_one))),
     pn_div = (\<lambda>x y. if y = 0 then None
       else Option.bind (u256_fits (x * pn_one + pn_half)) (\<lambda>v. Some (v div y))),
     pn_floor = (\<lambda>x. Some (x div pn_one * pn_one)),
     pn_imprecise = (\<lambda>x. let r = (x + pn_half) div pn_one
       in if r < 2 ^ 128 then Some (of_nat r) else None),
     pn_le = (\<lambda>x y. x \<le> y)\<rparr>"

lemma half_up_div_round: "(x + pn_half) div pn_one = div_round x pn_one"
proof -
  have "2 * x + pn_one = 2 * (x + pn_half)"
    by simp
  then show ?thesis
    unfolding div_round_def by (simp add: div_mult_mult1 del: distrib_left_numeral)
qed

lemma half_unit_div:
  assumes "pn_one \<le> y"
  shows "x div y \<le> (x + pn_half) div y" and "(x + pn_half) div y \<le> div_round x y"
proof -
  show "x div y \<le> (x + pn_half) div y"
    by (simp add: div_le_mono)
  have "(x + pn_half) div y = (2 * (x + pn_half)) div (2 * y)"
    by (simp add: div_mult_mult1 del: distrib_left_numeral)
  also have "\<dots> \<le> (2 * x + y) div (2 * y)"
    using assms by (intro div_le_mono) simp
  finally show "(x + pn_half) div y \<le> div_round x y"
    by (simp add: div_round_def)
qed

interpretation fixed12: precise_number fixed12 "\<lambda>x. x"
proof (unfold_locales, goal_cases)
  case (5 x y)
  then show ?case
    using half_unit_div [of pn_one "x * y"] by (simp add: fixed12_def u256_fits_def)
next
  case (6 y x)
  then show ?case
    using half_unit_div [of y "x * pn_one"] by (simp add: fixed12_def u256_fits_def)
next
  case (9 x)
  then have "unat (of_nat (div_round x pn_one) :: u128) = div_round x pn_one"
    by (simp add: unat_of_nat)
  with 9 show ?case
    by (simp add: fixed12_def half_up_div_round)
qed (simp_all add: fixed12_def u256_fits_def)

end
