(* ===== verification/Errors.thy ===== *)
theory Errors
  imports Prelude
begin

text \<open>
  The error values of the five programs (the \<open>error.rs\<close> files) and the part of
  \<open>ProgramError\<close> the sources return. The three native programs convert their own enum into
  \<open>ProgramError::Custom\<close> with its discriminant; the two Anchor programs return their enum as an
  Anchor error.
\<close>

datatype human_error =
    HumanOverflow | DropPriceZero | DropInvalidDate | DropAlreadyExists | NoDrop
  | DropTimeframeExpired | ExpectedPriceMismatch | RepostWindowExpired | CantRedeemNow

datatype royalty_error =
    LessThanDepositMinimum | BlackistedForEnroll | NoOtherProgramsAllowed | VoucherNotEligible
  | RoyaltyOverflow | InvalidVoucher | NotEnoughToStartDistribution | ZeroTokenBalance
  | TemporaryUnavailable | InsufficientBalance | UnrelinquishedVotes

datatype escrow_error = EscrowOverflow

datatype fanout_error =
    FanoutOverflow | InvalidMemberCount | InvalidShares | DuplicateMember | MemberNotFound
  | NonZeroBalance | InvalidCloseAuthority

datatype round_error =
    RoundOverflow | SuspiciousOfferInterval | NoDelegatedAmount | BiddingNotStarted | BiddingEnded
  | BiddingIsNotOver | InactivityTimeoutHasNotPassed | CantWithdrawPendingOffer
  | CantWithdrawAcceptedOffer | OfferIsNotPending | OfferTimedOut | BiddingStillGoing
  | CantAcceptZeroOffering | CantWithdrawWithoutUserSignature | CantRedeemNotAcceptedRound
  | CantCancelStartedRound | VouchersNotWithdrawn | CantCloseBeforeHeirTimeout
  | CantCloseDuringReconciliation | CantWithdrawDuringReconciliation
  | CantContributeFiatNotInReconciliation

text \<open>
  \<open>ProgramError\<close>, restricted to the variants the sources name. \<open>AnchorError\<close> stands for
  a failed check of an Anchor account constraint, \<open>External\<close> for any error an invoked program
  returns.
\<close>

datatype program_error =
    Custom u32
  | InvalidArgument | InvalidInstructionData | InvalidAccountData | AccountDataTooSmall
  | InsufficientFunds | IncorrectProgramId | MissingRequiredSignature
  | AccountAlreadyInitialized | UninitializedAccount | NotEnoughAccountKeys
  | AccountBorrowFailed | InvalidSeeds | BorshIoError | AccountNotRentExempt | IllegalOwner
  | UnsupportedSysvar
  | Fanout_Error fanout_error | Round_Error round_error | AnchorError | External u32

type_synonym 'a res = "program_error failure + 'a"

text \<open>The discriminants, \<open>e as u32\<close>, and \<open>From<Error> for ProgramError\<close>.\<close>

fun human_error_code :: "human_error \<Rightarrow> u32" where
  "human_error_code HumanOverflow = 0"
| "human_error_code DropPriceZero = 1"
| "human_error_code DropInvalidDate = 2"
| "human_error_code DropAlreadyExists = 3"
| "human_error_code NoDrop = 4"
| "human_error_code DropTimeframeExpired = 5"
| "human_error_code ExpectedPriceMismatch = 6"
| "human_error_code RepostWindowExpired = 7"
| "human_error_code CantRedeemNow = 8"

definition from_human_error :: "human_error \<Rightarrow> program_error" where
  "from_human_error e = Custom (human_error_code e)"

fun royalty_error_code :: "royalty_error \<Rightarrow> u32" where
  "royalty_error_code LessThanDepositMinimum = 0"
| "royalty_error_code BlackistedForEnroll = 1"
| "royalty_error_code NoOtherProgramsAllowed = 2"
| "royalty_error_code VoucherNotEligible = 3"
| "royalty_error_code RoyaltyOverflow = 4"
| "royalty_error_code InvalidVoucher = 5"
| "royalty_error_code NotEnoughToStartDistribution = 6"
| "royalty_error_code ZeroTokenBalance = 7"
| "royalty_error_code TemporaryUnavailable = 8"
| "royalty_error_code InsufficientBalance = 9"
| "royalty_error_code UnrelinquishedVotes = 10"

definition from_royalty_error :: "royalty_error \<Rightarrow> program_error" where
  "from_royalty_error e = Custom (royalty_error_code e)"

fun escrow_error_code :: "escrow_error \<Rightarrow> u32" where
  "escrow_error_code EscrowOverflow = 0"

definition from_escrow_error :: "escrow_error \<Rightarrow> program_error" where
  "from_escrow_error e = Custom (escrow_error_code e)"

lemma human_error_code_inject: "human_error_code a = human_error_code b \<Longrightarrow> a = b"
  by (cases a; cases b) simp_all

lemma royalty_error_code_inject: "royalty_error_code a = royalty_error_code b \<Longrightarrow> a = b"
  by (cases a; cases b) simp_all

lemma from_human_error_eq [simp]: "from_human_error a = from_human_error b \<longleftrightarrow> a = b"
  by (auto simp: from_human_error_def dest: human_error_code_inject)

lemma from_royalty_error_eq [simp]: "from_royalty_error a = from_royalty_error b \<longleftrightarrow> a = b"
  by (auto simp: from_royalty_error_def dest: royalty_error_code_inject)

end
