(* ===== verification/FanoutState.thy ===== *)
theory FanoutState
  imports Precise Errors
begin

text \<open>
  The account of the fanout program and the computation of a distribution
  (\<open>fanout/src/state.rs\<close>): its members with their shares in basis points, and
  \<open>calculate_split\<close>, which gives each member the rounded share of an amount and lets the first
  member absorb the rounding difference. The reference \<open>split_ref\<close> says directly what the first
  member gets: whatever the others leave.
\<close>

record member =
  address :: pubkey
  share :: u16

record fanout =
  distributed :: u64
  members :: "member list"

text \<open>
  The \<open>HashMap\<close> of the code is an association list with distinct keys: \<open>insert\<close> is
  \<open>AList.update\<close>, which replaces the value of a key already present.
\<close>

lemma update_append_new: "k \<notin> fst ` set al \<Longrightarrow> AList.update k v al = al @ [(k, v)]"
  by (induction al) auto

type_synonym split_map = "(pubkey \<times> u64) list"

text \<open>The body of the loop over the members, and the loop.\<close>

definition member_share :: "'n precise \<Rightarrow> 'n \<Rightarrow> 'n \<Rightarrow> member \<Rightarrow> u64 option" where
  "member_share P amount_precise bsp m = do {
     share \<leftarrow> pn_new P (ucast (share m));
     prod \<leftarrow> pn_mul P share amount_precise;
     share_amount \<leftarrow> pn_div P prod bsp;
     r \<leftarrow> pn_imprecise P share_amount;
     u64_of_u128 r
   }"

fun split_loop :: "'n precise \<Rightarrow> 'n \<Rightarrow> 'n \<Rightarrow> member list \<Rightarrow> split_map \<Rightarrow> split_map option" where
  "split_loop P amount_precise bsp [] split = Some split"
| "split_loop P amount_precise bsp (m # ms) split =
     Option.bind (member_share P amount_precise bsp m)
       (\<lambda>v. split_loop P amount_precise bsp ms (AList.update (address m) v split))"

text \<open>
  The correction of the rounding difference: \<open>split.get_mut(&self.members[0].address).unwrap()\<close>
  panics without members, and the new value of the first member is computed in \<open>i64\<close>.
\<close>

definition fix_first :: "member list \<Rightarrow> split_map \<Rightarrow> i64 \<Rightarrow> split_map option res" where
  "fix_first ms split diff = (case ms of [] \<Rightarrow> Inl Panic
     | m # _ \<Rightarrow> and_then (unwrap (map_of split (address m))) (\<lambda>v.
         Inr (do {
           s \<leftarrow> checked_add_i64 v diff;
           v' \<leftarrow> u64_of_i64 s;
           Some (AList.update (address m) v' split)
         })))"

text \<open>
  \<open>None\<close> is the overflow the caller reports, \<open>Inl Panic\<close> a panic: \<open>unwrap\<close> of the
  constant, the sum of the values, or the difference in \<open>i64\<close>.
\<close>

definition calculate_split :: "'n precise \<Rightarrow> fanout \<Rightarrow> u64 \<Rightarrow> split_map option res" where
  "calculate_split P fo amount =
     and_then (unwrap (pn_new P 10000)) (\<lambda>bsp.
       case do {
         amount_precise \<leftarrow> pn_new P (ucast amount);
         split_loop P amount_precise bsp (members fo) []
       } of None \<Rightarrow> Inr None
       | Some split \<Rightarrow>
           and_then (sum_u64 0 (map snd split)) (\<lambda>total.
           and_then (unwrap (checked_sub_i64 amount total)) (\<lambda>diff.
             if diff \<noteq> 0 then fix_first (members fo) split diff else Inr (Some split))))"

section \<open>The shares of a valid configuration\<close>

definition share_of :: "u64 \<Rightarrow> member \<Rightarrow> nat" where
  "share_of amount m = bps_of (unat amount) (unat (share m))"

text \<open>The configurations \<open>initialize\<close> accepts (see \<open>Fanout\<close>), with distinct addresses.\<close>

definition valid_members :: "member list \<Rightarrow> bool" where
  "valid_members ms \<longleftrightarrow> ms \<noteq> [] \<and> length ms \<le> 10
     \<and> (\<forall>m \<in> set ms. 0 < unat (share m) \<and> unat (share m) \<le> 10000)
     \<and> sum_list (map (\<lambda>m. unat (share m)) ms) = 10000"

definition distinct_members :: "member list \<Rightarrow> bool" where
  "distinct_members ms \<longleftrightarrow> distinct (map address ms)"

text \<open>The reference: every member but the first gets the rounded share, the first the rest.\<close>

fun split_ref :: "member list \<Rightarrow> u64 \<Rightarrow> (pubkey \<times> nat) list option" where
  "split_ref [] amount = None"
| "split_ref (m # ms) amount =
     (let others = sum_list (map (share_of amount) ms)
      in if others \<le> unat amount
         then Some ((address m, unat amount - others) # map (\<lambda>m. (address m, share_of amount m)) ms)
         else None)"

lemma share_of_le: "unat (share m) \<le> 10000 \<Longrightarrow> share_of amount m \<le> unat amount"
  by (simp add: share_of_def bps_of_le)

lemma sum_shares_le:
  "20000 * sum_list (map (share_of amount) ms)
     \<le> 2 * (unat amount * sum_list (map (\<lambda>m. unat (share m)) ms)) + 10000 * length ms"
proof (induction ms)
  case (Cons m ms)
  have "20000 * share_of amount m \<le> 2 * (unat amount * unat (share m)) + 10000"
    using bps_of_bounds(1) by (simp add: share_of_def)
  with Cons show ?case
    by (simp add: distrib_left)
qed simp

lemma sum_shares_ge:
  "2 * (unat amount * sum_list (map (\<lambda>m. unat (share m)) ms))
     \<le> 20000 * sum_list (map (share_of amount) ms) + 10000 * length ms"
proof (induction ms)
  case (Cons m ms)
  have "2 * (unat amount * unat (share m)) \<le> 20000 * share_of amount m + 10000"
    using bps_of_bounds(2) by (simp add: share_of_def less_imp_le)
  with Cons show ?case
    by (simp add: distrib_left)
qed simp

context precise_number
begin

lemma member_share_eq:
  assumes "val ap = unat amount * pn_one" "val bsp = 10000 * pn_one" "unat (share m) \<le> 10000"
  shows "member_share P ap bsp m = Some (of_nat (share_of amount m))"
proof -
  obtain s where s: "pn_new P (ucast (share m)) = Some s" "val s = unat (share m) * pn_one"
    by (rule new_obtain [of "ucast (share m)"]) (simp add: unat_ucast_up)
  have "share_of amount m < 2 ^ 64"
    using share_of_le [OF assms(3), of amount] unat_u64_less [of amount] by simp
  then have "Option.bind (pn_mul P s ap) (\<lambda>p. Option.bind (pn_div P p bsp)
    (\<lambda>q. Option.bind (pn_imprecise P q) u64_of_u128)) = Some (of_nat (share_of amount m))"
    unfolding share_of_def
    by (intro bps_chain [OF s(2) assms(1) assms(2)])
      (use assms(3) unat_u64_less [of amount] in simp_all)
  then show ?thesis
    by (simp add: member_share_def s(1))
qed

lemma split_loop_eq:
  assumes "val ap = unat amount * pn_one" "val bsp = 10000 * pn_one"
    and "\<forall>m \<in> set ms. unat (share m) \<le> 10000"
    and "distinct (map address ms)" "set (map address ms) \<inter> fst ` set sp = {}"
  shows "split_loop P ap bsp ms sp
    = Some (sp @ map (\<lambda>m. (address m, of_nat (share_of amount m))) ms)"
  using assms(3-)
proof (induction ms arbitrary: sp)
  case (Cons m ms)
  have "AList.update (address m) (of_nat (share_of amount m)) sp
    = sp @ [(address m, of_nat (share_of amount m))]"
    using Cons.prems(3) by (simp add: update_append_new)
  then show ?case
    using Cons by (simp add: member_share_eq [OF assms(1,2)])
qed simp

lemma calculate_split_loop:
  assumes "\<forall>m \<in> set (members fo). unat (share m) \<le> 10000" "distinct_members (members fo)"
  shows "calculate_split P fo amount =
    (let split = map (\<lambda>m. (address m, of_nat (share_of amount m))) (members fo) in
       and_then (sum_u64 0 (map snd split)) (\<lambda>total.
       and_then (unwrap (checked_sub_i64 amount total)) (\<lambda>diff.
         if diff \<noteq> 0 then fix_first (members fo) split diff else Inr (Some split))))"
proof -
  obtain bsp where bsp: "pn_new P 10000 = Some bsp" "val bsp = 10000 * pn_one"
    by (rule new_obtain [of 10000]) simp
  obtain ap where ap: "pn_new P (ucast amount) = Some ap" "val ap = unat amount * pn_one"
    by (rule new_obtain [of "ucast amount"]) (simp add: unat_ucast_up)
  have "split_loop P ap bsp (members fo) []
    = Some (map (\<lambda>m. (address m, of_nat (share_of amount m))) (members fo))"
    using split_loop_eq [OF ap(2) bsp(2), of "members fo" "[]"] assms
    by (simp add: distinct_members_def)
  then show ?thesis
    by (simp add: calculate_split_def bsp(1) ap(1) Let_def)
qed

end

text \<open>The rounding difference is at most half a unit per member.\<close>

lemma total_shares:
  assumes "valid_members ms"
  shows "sum_list (map (share_of amount) ms) \<le> unat amount + 5"
    and "unat amount \<le> sum_list (map (share_of amount) ms) + 5"
proof -
  let ?t = "sum_list (map (share_of amount) ms)"
  have "20000 * ?t \<le> 20000 * unat amount + 10000 * length ms"
    "20000 * unat amount \<le> 20000 * ?t + 10000 * length ms" "length ms \<le> 10"
    using sum_shares_le [of amount ms] sum_shares_ge [of amount ms] assms
    by (simp_all add: valid_members_def mult.commute)
  then show "?t \<le> unat amount + 5" "unat amount \<le> ?t + 5"
    by linarith+
qed

text \<open>A first member whose exact share is at least four and a half units absorbs the difference.\<close>

lemma split_ref_exists:
  assumes valid: "valid_members (m # ms)" and big: "45000 \<le> unat amount * unat (share m)"
  shows "\<exists>sp. split_ref (m # ms) amount = Some sp"
proof -
  let ?o = "sum_list (map (share_of amount) ms)" and ?s = "sum_list (map (\<lambda>m. unat (share m)) ms)"
  have "unat amount * (unat (share m) + ?s) = unat amount * 10000"
    using valid by (simp add: valid_members_def)
  then have "unat amount * unat (share m) + unat amount * ?s = 10000 * unat amount"
    by (simp add: distrib_left mult.commute)
  moreover have "20000 * ?o \<le> 2 * (unat amount * ?s) + 10000 * length ms" "length ms \<le> 9"
    using sum_shares_le [of amount ms] valid by (simp_all add: valid_members_def)
  ultimately have "?o \<le> unat amount"
    using big by linarith
  then show ?thesis by (simp add: Let_def)
qed

lemma unat_share [simp]:
  "unat (share m) \<le> 10000 \<Longrightarrow> unat (of_nat (share_of amount m) :: u64) = share_of amount m"
  using share_of_le [of m amount] unat_u64_less [of amount] by (simp add: unat_of_nat)

lemma fix_first_eq:
  assumes "unat v < 2 ^ 63" "fits_i64 (sint diff)" "int (unat v) + sint diff < 2 ^ 63"
  shows "fix_first (m # ms) ((address m, v) # sp) diff = Inr
    (if 0 \<le> int (unat v) + sint diff
     then Some ((address m, of_nat (nat (int (unat v) + sint diff))) # sp) else None)"
proof -
  have sv: "sint v = int (unat v)"
    using assms(1) by (rule sint_of_small)
  have fits: "fits_i64 (sint v + sint diff)"
    using assms(2,3) of_nat_0_le_iff [of "unat v", where 'a = int]
    unfolding fits_i64_def sv by linarith
  then have sum: "sint (v + diff) = int (unat v) + sint diff"
    using sint_checked(1) sv by simp
  have "v + diff = of_nat (nat (int (unat v) + sint diff))" if "0 \<le> int (unat v) + sint diff"
    using that unat_of_sint [of "v + diff"] unfolding sum
    by (metis nat_int word_of_unat)
  then show ?thesis
    using fits sum sv
    by (simp add: fix_first_def checked_add_i64_def u64_of_i64_def)
qed

definition words_of :: "(pubkey \<times> nat) list \<Rightarrow> split_map" where
  "words_of xs = map (\<lambda>(k, n). (k, of_nat n)) xs"

context precise_number
begin

lemma calculate_split_eq_ref:
  assumes valid: "valid_members (members fo)" and dist: "distinct_members (members fo)"
    and amount: "unat amount < 2 ^ 62"
  shows "calculate_split P fo amount = Inr (map_option words_of (split_ref (members fo) amount))"
proof -
  obtain m ms where ms: "members fo = m # ms"
    using valid by (cases "members fo") (auto simp: valid_members_def)
  have le: "\<forall>m \<in> set (members fo). unat (share m) \<le> 10000"
    using valid by (simp add: valid_members_def)
  let ?split = "map (\<lambda>m. (address m, of_nat (share_of amount m) :: u64)) (members fo)"
  let ?others = "sum_list (map (share_of amount) ms)"
  let ?t = "share_of amount m + ?others"
  have t: "?t \<le> unat amount + 5" "unat amount \<le> ?t + 5"
    using total_shares [OF valid, of amount] by (simp_all add: ms)
  have sum: "sum_list (map unat (map snd ?split)) = ?t"
    using le by (simp add: ms comp_def cong: map_cong)
  obtain total where total: "sum_u64 0 (map snd ?split) = (Inr total :: u64 res)" "unat total = ?t"
    using sum_u64_fits [of 0 "map snd ?split"] t(1) amount
    unfolding sum by auto
  have sints: "sint amount = int (unat amount)" "sint total = int ?t"
    using sint_of_small [of amount] sint_of_small [of total] amount t(1) total(2) by simp_all
  then have fits: "fits_i64 (sint amount - sint total)"
    using t amount by (auto simp: fits_i64_def)
  let ?diff = "amount - total"
  have sdiff: "sint ?diff = int (unat amount) - int ?t"
    using sint_checked(2) [OF fits] sints by simp
  have head: "unat (of_nat (share_of amount m) :: u64) = share_of amount m"
    using le by (simp add: ms)
  have le0: "share_of amount m \<le> unat amount"
    using le by (simp add: ms share_of_le)
  have "fix_first (members fo) ?split ?diff = Inr (map_option words_of (split_ref (members fo) amount))"
    unfolding ms list.map
    apply (subst fix_first_eq)
    using head amount le0 sdiff t by (auto simp: fits_i64_def words_of_def comp_def nat_diff_distrib)
  moreover have "map_option words_of (split_ref (members fo) amount) = Some ?split" if "?diff = 0"
  proof -
    have "unat amount = ?t"
      using that total(2) by simp
    then show ?thesis
      by (simp add: ms words_of_def comp_def Let_def)
  qed
  ultimately show ?thesis
    unfolding calculate_split_loop [OF le dist] Let_def total(1)
    using fits by (cases "?diff = 0") (auto simp: checked_sub_i64_def)
qed

end

end
