(* ===== verification/RoundState.thy ===== *)
theory RoundState
  imports Precise Errors
begin

text \<open>
  The accounts of the round program and the guards of its operations (\<open>round/src/state.rs\<close>):
  a round sells an offered token for bids, a voucher records one user's bid. The guards compare
  the clock with the bidding window and the seven days the heir has to decide.
\<close>

datatype round_status = Pending | Accepted | Rejected | Reconciliation

record round =
  r_status :: round_status
  r_bid_mint :: pubkey
  r_offer_mint :: pubkey
  r_heir :: pubkey
  r_recipient :: pubkey
  r_payer :: pubkey
  r_vouchers_count :: u64
  r_created_at :: i64
  r_bidding_start :: i64
  r_bidding_end :: i64
  r_total_bid :: "u64 option"
  r_total_offer :: "u64 option"
  r_target_bid :: u64
  r_return_wallet :: pubkey
  r_reconciliation_authority :: pubkey
  r_reserved1 :: "u8 list"
  r_reserved2 :: pubkey

text \<open>\<open>Round::default()\<close>.\<close>

definition round_default :: round where
  "round_default =
    \<lparr>r_status = Pending, r_bid_mint = 0, r_offer_mint = 0, r_heir = 0, r_recipient = 0,
     r_payer = 0, r_vouchers_count = 0, r_created_at = 0, r_bidding_start = 0, r_bidding_end = 0,
     r_total_bid = None, r_total_offer = None, r_target_bid = 0, r_return_wallet = 0,
     r_reconciliation_authority = 0, r_reserved1 = replicate 24 0, r_reserved2 = 0\<rparr>"

record voucher =
  v_user :: pubkey
  v_round :: pubkey
  v_payer :: pubkey
  v_amount_contributed :: u64
  v_is_fiat :: bool
  v_reserved1 :: "u8 list"
  v_reserved2 :: pubkey
  v_reserved3 :: pubkey

text \<open>A zero-initialised voucher account, as \<open>init_if_needed\<close> creates it.\<close>

definition voucher_default :: voucher where
  "voucher_default =
    \<lparr>v_user = 0, v_round = 0, v_payer = 0, v_amount_contributed = 0, v_is_fiat = False,
     v_reserved1 = replicate 31 0, v_reserved2 = 0, v_reserved3 = 0\<rparr>"

definition voucher_space :: nat where
  "voucher_space = 8 + 32 + 32 + 32 + 8 + 32 + 32 + 32"

definition round_init_space :: nat where
  "round_init_space = 339"

definition inactivity_timeout :: i64 where
  "inactivity_timeout = 7 * 24 * 60 * 60"

section \<open>The guards\<close>

definition heir_timeout_date :: "round \<Rightarrow> i64 res" where
  "heir_timeout_date r =
     ok_or (Round_Error RoundOverflow) (checked_add_i64 (r_bidding_end r) inactivity_timeout)"

definition can_withdraw_due_heir_inactivity :: "round \<Rightarrow> i64 \<Rightarrow> bool res" where
  "can_withdraw_due_heir_inactivity r now =
     and_then (heir_timeout_date r) (\<lambda>t. Inr (sint t < sint now))"

definition assert_can_accept_or_reject :: "round \<Rightarrow> i64 \<Rightarrow> unit res" where
  "assert_can_accept_or_reject r now =
     and_then (ensure (r_status r = Pending) (Round_Error OfferIsNotPending)) (\<lambda>_.
     and_then (can_withdraw_due_heir_inactivity r now) (\<lambda>timed_out.
     and_then (ensure (\<not> timed_out) (Round_Error OfferTimedOut)) (\<lambda>_.
     ensure (\<not> sint now < sint (r_bidding_end r)) (Round_Error BiddingStillGoing))))"

definition assert_can_contribute :: "round \<Rightarrow> i64 \<Rightarrow> unit res" where
  "assert_can_contribute r now =
     and_then (ensure (\<not> sint now < sint (r_bidding_start r)) (Round_Error BiddingNotStarted)) (\<lambda>_.
     ensure (\<not> sint (r_bidding_end r) < sint now) (Round_Error BiddingEnded))"

definition assert_can_contribute_offchain :: "round \<Rightarrow> unit res" where
  "assert_can_contribute_offchain r =
     ensure (r_status r = Reconciliation) (Round_Error CantContributeFiatNotInReconciliation)"

definition assert_can_finish_reconciliation :: "round \<Rightarrow> unit res" where
  "assert_can_finish_reconciliation r =
     ensure (r_status r = Reconciliation) (Round_Error CantContributeFiatNotInReconciliation)"

text \<open>
  The third check evaluates the timeout only for a pending round after the end of the bidding,
  as the short-circuit \<open>&&\<close> does.
\<close>

definition assert_can_withdraw :: "round \<Rightarrow> i64 \<Rightarrow> bool \<Rightarrow> unit res" where
  "assert_can_withdraw r now user_is_signer =
     and_then (ensure (\<not> sint now < sint (r_bidding_start r)) (Round_Error BiddingNotStarted)) (\<lambda>_.
     and_then (ensure (r_status r \<noteq> Reconciliation) (Round_Error CantWithdrawAcceptedOffer)) (\<lambda>_.
     and_then (ensure (r_status r \<noteq> Accepted) (Round_Error CantWithdrawDuringReconciliation)) (\<lambda>_.
     and_then
       (if r_status r = Pending \<and> sint (r_bidding_end r) < sint now
        then and_then (can_withdraw_due_heir_inactivity r now)
          (\<lambda>timed_out. ensure timed_out (Round_Error InactivityTimeoutHasNotPassed))
        else Inr ()) (\<lambda>_.
     ensure (\<not> (\<not> user_is_signer \<and> sint now < sint (r_bidding_end r)))
       (Round_Error CantWithdrawWithoutUserSignature)))))"

definition assert_can_reject_bid :: "round \<Rightarrow> i64 \<Rightarrow> unit res" where
  "assert_can_reject_bid r now =
     and_then (ensure (r_status r = Pending) (Round_Error OfferIsNotPending)) (\<lambda>_.
     and_then (ensure (\<not> sint now < sint (r_bidding_end r)) (Round_Error BiddingStillGoing)) (\<lambda>_.
     and_then (heir_timeout_date r) (\<lambda>t.
     ensure (\<not> sint t < sint now) (Round_Error OfferTimedOut))))"

definition assert_can_redeem :: "round \<Rightarrow> unit res" where
  "assert_can_redeem r = ensure (r_status r = Accepted) (Round_Error CantRedeemNotAcceptedRound)"

definition assert_can_cancel :: "round \<Rightarrow> i64 \<Rightarrow> unit res" where
  "assert_can_cancel r now =
     ensure (\<not> sint (r_bidding_start r) < sint now) (Round_Error CantCancelStartedRound)"

definition assert_can_close :: "round \<Rightarrow> i64 \<Rightarrow> unit res" where
  "assert_can_close r now =
     and_then (ensure (\<not> 0 < unat (r_vouchers_count r)) (Round_Error VouchersNotWithdrawn)) (\<lambda>_.
     case r_status r of
       Accepted \<Rightarrow> Inr ()
     | Rejected \<Rightarrow> Inr ()
     | Pending \<Rightarrow> and_then (heir_timeout_date r)
         (\<lambda>t. ensure (sint t < sint now) (Round_Error CantCloseBeforeHeirTimeout))
     | Reconciliation \<Rightarrow> Inl (Err (Round_Error CantCloseDuringReconciliation)))"

text \<open>What one voucher redeems of the offer.\<close>

definition calculate_redeem_amount :: "'n precise \<Rightarrow> u64 \<Rightarrow> u64 \<Rightarrow> u64 \<Rightarrow> u64 \<Rightarrow> u64 option" where
  "calculate_redeem_amount P target_bid bid_balance user_bid total_offer = do {
     let bid = max target_bid bid_balance;
     target_bid \<leftarrow> pn_new P (ucast bid);
     user_bid \<leftarrow> pn_new P (ucast user_bid);
     total \<leftarrow> pn_new P (ucast total_offer);
     q \<leftarrow> pn_div P user_bid target_bid;
     p \<leftarrow> pn_mul P q total;
     r \<leftarrow> pn_imprecise P p;
     u64_of_u128 r
   }"

section \<open>Phases\<close>

text \<open>
  The end of the window in which the heir decides, over the integers. The code computes it in
  \<open>i64\<close>; \<open>timeout_fits\<close> says that it does not overflow.
\<close>

definition deadline :: "round \<Rightarrow> int" where
  "deadline r = sint (r_bidding_end r) + 604800"

definition timeout_fits :: "round \<Rightarrow> bool" where
  "timeout_fits r \<longleftrightarrow> deadline r < 2 ^ 63"

lemma sint_inactivity_timeout [simp]: "sint inactivity_timeout = 604800"
  by (simp add: inactivity_timeout_def)

lemma heir_timeout_date_eq:
  "heir_timeout_date r =
     (if timeout_fits r then Inr (r_bidding_end r + inactivity_timeout)
      else Inl (Err (Round_Error RoundOverflow)))"
  using sint_i64_bounds [of "r_bidding_end r"]
  by (auto simp: heir_timeout_date_def checked_add_i64_def timeout_fits_def deadline_def fits_i64_def)

lemma sint_heir_timeout: "timeout_fits r \<Longrightarrow> sint (r_bidding_end r + inactivity_timeout) = deadline r"
  using sint_i64_bounds [of "r_bidding_end r"]
  by (subst sint_checked(1)) (auto simp: timeout_fits_def deadline_def fits_i64_def)

lemmas timeout_simps = heir_timeout_date_eq sint_heir_timeout can_withdraw_due_heir_inactivity_def

lemma end_le_deadline: "sint (r_bidding_end r) < deadline r"
  by (simp add: deadline_def)

text \<open>Which calls each guard lets through.\<close>

lemma can_accept_iff:
  "assert_can_accept_or_reject r now = Inr () \<longleftrightarrow>
     r_status r = Pending \<and> timeout_fits r \<and> sint (r_bidding_end r) \<le> sint now \<and> sint now \<le> deadline r"
  by (auto simp: assert_can_accept_or_reject_def timeout_simps res_simps)

lemma can_reject_bid_iff:
  "assert_can_reject_bid r now = Inr () \<longleftrightarrow>
     r_status r = Pending \<and> timeout_fits r \<and> sint (r_bidding_end r) \<le> sint now \<and> sint now \<le> deadline r"
  by (auto simp: assert_can_reject_bid_def timeout_simps res_simps)

lemma can_withdraw_iff:
  "assert_can_withdraw r now signer = Inr () \<longleftrightarrow>
     sint (r_bidding_start r) \<le> sint now
     \<and> (r_status r = Rejected
        \<or> r_status r = Pending \<and> (sint now \<le> sint (r_bidding_end r) \<or> timeout_fits r \<and> deadline r < sint now))
     \<and> (signer \<or> sint (r_bidding_end r) \<le> sint now)"
  by (cases "r_status r") (auto simp: assert_can_withdraw_def timeout_simps res_simps)

lemma can_close_iff:
  "assert_can_close r now = Inr () \<longleftrightarrow> r_vouchers_count r = 0
     \<and> (r_status r = Accepted \<or> r_status r = Rejected
        \<or> r_status r = Pending \<and> timeout_fits r \<and> deadline r < sint now)"
  by (cases "r_status r") (auto simp: assert_can_close_def timeout_simps res_simps unat_gt_0)

lemmas guard_iffs = can_accept_iff can_reject_bid_iff can_withdraw_iff can_close_iff

end
