(* ===== verification/Accounts.thy ===== *)
theory Accounts
  imports FanoutState RoundState
begin

text \<open>
  What a Solana program sees of the chain. A \<open>world\<close> maps every address to an account
  (lamports, owning program, data); an instruction gets a list of \<open>account_info\<close>s, which name
  accounts and say whether they signed and are writable. Two infos with the same key share one
  account, as the \<open>RefCell\<close>s of the runtime do, so the model keeps the set of lamport and data
  cells that are mutably borrowed and a second borrow fails.

  The data of an account is either bytes, which the native programs read with Borsh, or the value
  a library reads from them: an SPL token account or mint (\<open>Account::unpack\<close>,
  \<open>Mint::unpack\<close>) or the typed account of an Anchor program of the repository.

  Everything outside the repository is a field of the record \<open>ext\<close>: program derived addresses,
  associated token addresses, the rent and clock sysvars, the creation of an account by Anchor's
  \<open>init\<close> and the invocation of another program.
  What the code relies on is in the locales of \<open>Programs\<close>.
\<close>

record token_account =
  t_mint :: pubkey
  t_owner :: pubkey
  t_amount :: u64
  t_delegate :: "pubkey option"
  t_is_native :: "u64 option"
  t_delegated_amount :: u64
  t_close_authority :: "pubkey option"

record mint =
  mt_authority :: "pubkey option"
  mt_supply :: u64

datatype acct_data =
    Raw "u8 list"
  | TokenData token_account
  | MintData mint
  | FanoutData fanout
  | RoundData round
  | VoucherData voucher

record account =
  lamports :: u64
  acc_owner :: pubkey
  data :: acct_data

record account_info =
  key :: pubkey
  is_signer :: bool
  is_writable :: bool

record world =
  accts :: "pubkey \<Rightarrow> account"
  lam_locked :: "pubkey list"
  data_locked :: "pubkey list"

datatype seed = SeedStr string | SeedKey pubkey

text \<open>The instructions of other programs the sources build.\<close>

datatype cpi =
    TokenTransfer (tt_from: pubkey) (tt_to: pubkey) (tt_authority: pubkey) (tt_amount: u64)
  | TokenClose (tc_account: pubkey) (tc_destination: pubkey) (tc_authority: pubkey)
  | TokenInit (ti_account: pubkey) (ti_mint: pubkey) (ti_owner: pubkey)
  | SystemTransfer (st_from: pubkey) (st_to: pubkey) (st_lamports: u64)
  | SystemCreate (sc_from: pubkey) (sc_to: pubkey) (sc_lamports: u64) (sc_space: nat) (sc_owner: pubkey)

record ext =
  x_pda :: "seed list \<Rightarrow> pubkey \<Rightarrow> pubkey"
  x_ata :: "pubkey \<Rightarrow> pubkey \<Rightarrow> pubkey"
  x_rent :: "nat \<Rightarrow> u64"
  x_now :: i64
  x_space :: "acct_data \<Rightarrow> nat"
  x_token_id :: pubkey
  x_system_id :: pubkey
  x_native_mint :: pubkey
  x_init :: "account_info \<Rightarrow> account_info \<Rightarrow> nat \<Rightarrow> pubkey \<Rightarrow> seed list list \<Rightarrow> world \<Rightarrow> world res"
  x_cpi :: "account_info list \<Rightarrow> cpi \<Rightarrow> seed list list \<Rightarrow> world \<Rightarrow> world res"

section \<open>Reading and writing accounts\<close>

definition data_len :: "ext \<Rightarrow> acct_data \<Rightarrow> nat" where
  "data_len X d = (case d of Raw bs \<Rightarrow> length bs | _ \<Rightarrow> x_space X d)"

text \<open>\<open>rent.is_exempt(lamports, len)\<close>.\<close>

definition rent_exempt :: "ext \<Rightarrow> u64 \<Rightarrow> nat \<Rightarrow> bool" where
  "rent_exempt X l n \<longleftrightarrow> unat (x_rent X n) \<le> unat l"

definition put :: "pubkey \<Rightarrow> account \<Rightarrow> world \<Rightarrow> world" where
  "put k a w = w\<lparr>accts := (accts w)(k := a)\<rparr>"

definition lamports_of :: "world \<Rightarrow> pubkey \<Rightarrow> u64" where
  "lamports_of w k = lamports (accts w k)"

definition data_of :: "world \<Rightarrow> pubkey \<Rightarrow> acct_data" where
  "data_of w k = data (accts w k)"

definition owner_of :: "world \<Rightarrow> pubkey \<Rightarrow> pubkey" where
  "owner_of w k = acc_owner (accts w k)"

definition set_lamports :: "pubkey \<Rightarrow> u64 \<Rightarrow> world \<Rightarrow> world" where
  "set_lamports k l w = put k ((accts w k)\<lparr>lamports := l\<rparr>) w"

definition set_data :: "pubkey \<Rightarrow> acct_data \<Rightarrow> world \<Rightarrow> world" where
  "set_data k d w = put k ((accts w k)\<lparr>data := d\<rparr>) w"

definition set_owner :: "pubkey \<Rightarrow> pubkey \<Rightarrow> world \<Rightarrow> world" where
  "set_owner k p w = put k ((accts w k)\<lparr>acc_owner := p\<rparr>) w"

lemma accts_put [simp]: "accts (put k a w) j = (if j = k then a else accts w j)"
  by (simp add: put_def)

lemma accts_set [simp]:
  "j \<noteq> k \<Longrightarrow> accts (set_lamports k l w) j = accts w j"
  "j \<noteq> k \<Longrightarrow> accts (set_data k d w) j = accts w j"
  "j \<noteq> k \<Longrightarrow> accts (set_owner k p w) j = accts w j"
  by (simp_all add: set_lamports_def set_data_def set_owner_def)

lemma view_put [simp]:
  "lamports_of (put k a w) j = (if j = k then lamports a else lamports_of w j)"
  "data_of (put k a w) j = (if j = k then data a else data_of w j)"
  "owner_of (put k a w) j = (if j = k then acc_owner a else owner_of w j)"
  by (simp_all add: lamports_of_def data_of_def owner_of_def)

lemma view_set_lamports [simp]:
  "lamports_of (set_lamports k l w) j = (if j = k then l else lamports_of w j)"
  "data_of (set_lamports k l w) j = data_of w j" "owner_of (set_lamports k l w) j = owner_of w j"
  by (simp_all add: set_lamports_def lamports_of_def data_of_def owner_of_def)

lemma view_set_data [simp]:
  "data_of (set_data k d w) j = (if j = k then d else data_of w j)"
  "lamports_of (set_data k d w) j = lamports_of w j" "owner_of (set_data k d w) j = owner_of w j"
  by (simp_all add: set_data_def lamports_of_def data_of_def owner_of_def)

lemma view_set_owner [simp]:
  "owner_of (set_owner k p w) j = (if j = k then p else owner_of w j)"
  "lamports_of (set_owner k p w) j = lamports_of w j" "data_of (set_owner k p w) j = data_of w j"
  by (simp_all add: set_owner_def lamports_of_def data_of_def owner_of_def)

lemma locked_set [simp]:
  "lam_locked (set_lamports k l w) = lam_locked w" "lam_locked (set_data k d w) = lam_locked w"
  "lam_locked (set_owner k p w) = lam_locked w" "lam_locked (put k a w) = lam_locked w"
  "data_locked (set_lamports k l w) = data_locked w" "data_locked (set_data k d w) = data_locked w"
  "data_locked (set_owner k p w) = data_locked w" "data_locked (put k a w) = data_locked w"
  by (simp_all add: set_lamports_def set_data_def set_owner_def put_def)

text \<open>\<open>try_borrow_mut_lamports\<close> and the end of the borrow.\<close>

definition borrow_lamports :: "pubkey \<Rightarrow> world \<Rightarrow> world res" where
  "borrow_lamports k w =
     (if k \<in> set (lam_locked w) then Inl (Err AccountBorrowFailed)
      else Inr (w\<lparr>lam_locked := k # lam_locked w\<rparr>))"

definition release_lamports :: "pubkey \<Rightarrow> world \<Rightarrow> world" where
  "release_lamports k w = w\<lparr>lam_locked := remove1 k (lam_locked w)\<rparr>"

text \<open>\<open>try_borrow_data\<close>: fails while the data is mutably borrowed.\<close>

definition read_data :: "pubkey \<Rightarrow> world \<Rightarrow> acct_data res" where
  "read_data k w =
     (if k \<in> set (data_locked w) then Inl (Err AccountBorrowFailed) else Inr (data_of w k))"

lemma view_release [simp]:
  "lamports_of (release_lamports k w) j = lamports_of w j" "data_of (release_lamports k w) j = data_of w j"
  "owner_of (release_lamports k w) j = owner_of w j"
  "data_locked (release_lamports k w) = data_locked w"
  by (simp_all add: release_lamports_def lamports_of_def data_of_def owner_of_def)

lemma view_lock [simp]:
  "lamports_of (w\<lparr>lam_locked := ks\<rparr>) j = lamports_of w j" "data_of (w\<lparr>lam_locked := ks\<rparr>) j = data_of w j"
  "owner_of (w\<lparr>lam_locked := ks\<rparr>) j = owner_of w j"
  by (simp_all add: lamports_of_def data_of_def owner_of_def)

lemma borrow_lamports_Inr [res_simps]:
  "borrow_lamports k w = Inr w' \<longleftrightarrow> k \<notin> set (lam_locked w) \<and> w' = w\<lparr>lam_locked := k # lam_locked w\<rparr>"
  by (auto simp: borrow_lamports_def)

text \<open>\<open>next_account_info\<close> on the iterator over the accounts of the instruction.\<close>

definition next_account_info :: "account_info list \<Rightarrow> (account_info \<times> account_info list) res" where
  "next_account_info it = (case it of [] \<Rightarrow> Inl (Err NotEnoughAccountKeys) | a # rest \<Rightarrow> Inr (a, rest))"

lemma next_account_info_Inr [res_simps]:
  "next_account_info it = Inr (a, rest) \<longleftrightarrow> it = a # rest"
  by (cases it) (auto simp: next_account_info_def)

text \<open>\<open>token_state::Account::unpack\<close>: the other kinds of data are refused.\<close>

definition unpack_token :: "acct_data \<Rightarrow> token_account res" where
  "unpack_token d = (case d of TokenData t \<Rightarrow> Inr t | _ \<Rightarrow> Inl (Err InvalidAccountData))"

lemma unpack_token_Inr [res_simps]: "unpack_token d = Inr t \<longleftrightarrow> d = TokenData t"
  by (cases d) (auto simp: unpack_token_def)

definition token_balance :: "world \<Rightarrow> pubkey \<Rightarrow> nat" where
  "token_balance w k = (case data_of w k of TokenData t \<Rightarrow> unat (t_amount t) | _ \<Rightarrow> 0)"

end
