(* ===== verification/Programs.thy ===== *)
theory Programs
  imports Accounts
begin

text \<open>
  The system program and the SPL token program, which the sources invoke and which are not part
  of the repository: what a successful invocation does, stated over the views of \<open>Accounts\<close>.
  The locale \<open>system_program\<close> has the documented effect of a transfer of lamports and of the
  creation of an account, \<open>token_program\<close> adds transfer, close and initialisation of token
  accounts. Both are interpreted on \<open>sim\<close>, an executable chain the witnesses run on.
\<close>

definition is_token :: "world \<Rightarrow> pubkey \<Rightarrow> bool" where
  "is_token w k \<longleftrightarrow> (\<exists>t. data_of w k = TokenData t)"

text \<open>What never changes during the life of a token account: mint, owner and native reserve.\<close>

definition token_meta :: "world \<Rightarrow> pubkey \<Rightarrow> (pubkey \<times> pubkey \<times> u64 option) option" where
  "token_meta w k = (case data_of w k of TokenData t \<Rightarrow> Some (t_mint t, t_owner t, t_is_native t) | _ \<Rightarrow> None)"

definition token_delegate :: "world \<Rightarrow> pubkey \<Rightarrow> pubkey option" where
  "token_delegate w k = (case data_of w k of TokenData t \<Rightarrow> t_delegate t | _ \<Rightarrow> None)"

definition may_spend :: "world \<Rightarrow> pubkey \<Rightarrow> pubkey \<Rightarrow> bool" where
  "may_spend w k auth \<longleftrightarrow>
     (\<exists>m n. token_meta w k = Some (m, auth, n)) \<or> token_delegate w k = Some auth"

definition same_locks :: "world \<Rightarrow> world \<Rightarrow> bool" where
  "same_locks w w' \<longleftrightarrow> lam_locked w' = lam_locked w \<and> data_locked w' = data_locked w"

text \<open>The effect of a successful token transfer.\<close>

definition token_transferred :: "pubkey \<Rightarrow> pubkey \<Rightarrow> pubkey \<Rightarrow> u64 \<Rightarrow> world \<Rightarrow> world \<Rightarrow> bool" where
  "token_transferred src dst auth n w w' \<longleftrightarrow>
     is_token w src \<and> is_token w dst \<and> may_spend w src auth \<and> unat n \<le> token_balance w src
     \<and> (\<forall>k. k \<noteq> src \<longrightarrow> k \<noteq> dst \<longrightarrow> accts w' k = accts w k)
     \<and> (\<forall>k. token_meta w' k = token_meta w k \<and> owner_of w' k = owner_of w k)
     \<and> (\<forall>k. token_delegate w' k = token_delegate w k \<or> token_delegate w' k = None)
     \<and> token_balance w' src = (if src = dst then token_balance w src else token_balance w src - unat n)
     \<and> token_balance w' dst = (if src = dst then token_balance w dst else token_balance w dst + unat n)
     \<and> (snd (snd (the (token_meta w src))) = None \<longrightarrow> (\<forall>k. lamports_of w' k = lamports_of w k))
     \<and> same_locks w w'"

text \<open>Closing an account sends its lamports to the destination; only a native account may hold tokens.\<close>

definition token_closed :: "pubkey \<Rightarrow> pubkey \<Rightarrow> pubkey \<Rightarrow> pubkey \<Rightarrow> world \<Rightarrow> world \<Rightarrow> bool" where
  "token_closed sys a dst auth w w' \<longleftrightarrow>
     a \<noteq> dst \<and> is_token w a
     \<and> (snd (snd (the (token_meta w a))) \<noteq> None \<or> token_balance w a = 0)
     \<and> (\<forall>k. k \<noteq> a \<longrightarrow> k \<noteq> dst \<longrightarrow> accts w' k = accts w k)
     \<and> data_of w' a = Raw [] \<and> lamports_of w' a = 0 \<and> owner_of w' a = sys
     \<and> data_of w' dst = data_of w dst \<and> owner_of w' dst = owner_of w dst
     \<and> unat (lamports_of w' dst) = unat (lamports_of w dst) + unat (lamports_of w a)
     \<and> same_locks w w'"

definition token_initialized :: "pubkey \<Rightarrow> pubkey \<Rightarrow> pubkey \<Rightarrow> world \<Rightarrow> world \<Rightarrow> bool" where
  "token_initialized a mnt own w w' \<longleftrightarrow>
     (\<exists>bs. data_of w a = Raw bs)
     \<and> (\<forall>k. k \<noteq> a \<longrightarrow> accts w' k = accts w k)
     \<and> (\<exists>nat. token_meta w' a = Some (mnt, own, nat)) \<and> token_delegate w' a = None
     \<and> lamports_of w' a = lamports_of w a \<and> owner_of w' a = owner_of w a
     \<and> same_locks w w'"

definition lamports_transferred :: "pubkey \<Rightarrow> pubkey \<Rightarrow> u64 \<Rightarrow> world \<Rightarrow> world \<Rightarrow> bool" where
  "lamports_transferred src dst n w w' \<longleftrightarrow>
     unat n \<le> unat (lamports_of w src)
     \<and> (\<forall>k. k \<noteq> src \<longrightarrow> k \<noteq> dst \<longrightarrow> accts w' k = accts w k)
     \<and> (\<forall>k. data_of w' k = data_of w k \<and> owner_of w' k = owner_of w k)
     \<and> (src = dst \<longrightarrow> lamports_of w' src = lamports_of w src)
     \<and> (src \<noteq> dst \<longrightarrow> unat (lamports_of w' src) = unat (lamports_of w src) - unat n
         \<and> unat (lamports_of w' dst) = unat (lamports_of w dst) + unat n)
     \<and> same_locks w w'"

definition account_created ::
  "pubkey \<Rightarrow> pubkey \<Rightarrow> pubkey \<Rightarrow> u64 \<Rightarrow> nat \<Rightarrow> pubkey \<Rightarrow> world \<Rightarrow> world \<Rightarrow> bool" where
  "account_created sys src a l space own w w' \<longleftrightarrow>
     src \<noteq> a \<and> unat l \<le> unat (lamports_of w src)
     \<and> lamports_of w a = 0 \<and> data_of w a = Raw [] \<and> owner_of w a = sys
     \<and> (\<forall>k. k \<noteq> src \<longrightarrow> k \<noteq> a \<longrightarrow> accts w' k = accts w k)
     \<and> accts w' a = \<lparr>lamports = l, acc_owner = own, data = Raw (replicate space 0)\<rparr>
     \<and> data_of w' src = data_of w src \<and> owner_of w' src = owner_of w src
     \<and> unat (lamports_of w' src) = unat (lamports_of w src) - unat l
     \<and> same_locks w w'"

text \<open>
  Anchor's \<open>init\<close>: an account of the system program, without data, becomes a zeroed account of
  the given size and owner; only the payer is charged.
\<close>

definition account_initialized ::
  "ext \<Rightarrow> pubkey \<Rightarrow> pubkey \<Rightarrow> nat \<Rightarrow> pubkey \<Rightarrow> world \<Rightarrow> world \<Rightarrow> bool" where
  "account_initialized X payer a space own w w' \<longleftrightarrow>
     payer \<noteq> a \<and> data_of w a = Raw [] \<and> owner_of w a = x_system_id X
     \<and> (\<forall>k. k \<noteq> payer \<longrightarrow> k \<noteq> a \<longrightarrow> accts w' k = accts w k)
     \<and> data_of w' a = Raw (replicate space 0) \<and> owner_of w' a = own
     \<and> rent_exempt X (lamports_of w' a) space
     \<and> data_of w' payer = data_of w payer \<and> owner_of w' payer = owner_of w payer
     \<and> unat (lamports_of w' payer) + unat (lamports_of w' a)
       = unat (lamports_of w payer) + unat (lamports_of w a)
     \<and> same_locks w w'"

locale system_program =
  fixes X :: ext
  assumes transfer_lamports:
      "x_cpi X infos (SystemTransfer src dst n) seeds w = Inr w' \<Longrightarrow> lamports_transferred src dst n w w'"
    and create_account:
      "x_cpi X infos (SystemCreate src a l space own) seeds w = Inr w'
       \<Longrightarrow> account_created (x_system_id X) src a l space own w w'"
    and init_account:
      "x_init X payer acc space own seeds w = Inr w'
       \<Longrightarrow> account_initialized X (key payer) (key acc) space own w w'"

locale token_program = system_program +
  assumes transfer_tokens:
      "x_cpi X infos (TokenTransfer src dst auth n) seeds w = Inr w' \<Longrightarrow> token_transferred src dst auth n w w'"
    and close_account:
      "x_cpi X infos (TokenClose a dst auth) seeds w = Inr w' \<Longrightarrow> token_closed (x_system_id X) a dst auth w w'"
    and initialize_account:
      "x_cpi X infos (TokenInit a mnt own) seeds w = Inr w' \<Longrightarrow> token_initialized a mnt own w w'"

section \<open>Consequences for the views\<close>

lemma views_of_accts:
  "accts w' k = accts w k \<Longrightarrow> data_of w' k = data_of w k"
  "accts w' k = accts w k \<Longrightarrow> lamports_of w' k = lamports_of w k"
  "accts w' k = accts w k \<Longrightarrow> owner_of w' k = owner_of w k"
  "accts w' k = accts w k \<Longrightarrow> token_balance w' k = token_balance w k"
  "accts w' k = accts w k \<Longrightarrow> token_meta w' k = token_meta w k"
  by (simp_all add: data_of_def lamports_of_def owner_of_def token_balance_def token_meta_def)

lemma not_token_views:
  "\<not> is_token w k \<Longrightarrow> token_balance w k = 0" "\<not> is_token w k \<Longrightarrow> token_meta w k = None"
  by (auto simp: is_token_def token_balance_def token_meta_def split: acct_data.splits)

lemma is_token_meta: "is_token w k \<longleftrightarrow> token_meta w k \<noteq> None"
  by (auto simp: is_token_def token_meta_def split: acct_data.splits)

text \<open>A transfer touches no account whose data is not a token account.\<close>

lemma token_transferred_other:
  "token_transferred src dst auth n w w' \<Longrightarrow> \<not> is_token w k \<Longrightarrow> accts w' k = accts w k"
  by (auto simp: token_transferred_def)

lemma token_transferred_not_token:
  "token_transferred src dst auth n w w' \<Longrightarrow> \<not> is_token w k \<Longrightarrow> data_of w' k = data_of w k"
  by (rule views_of_accts(1)) (rule token_transferred_other)

lemma token_transferred_balance:
  "token_transferred src dst auth n w w' \<Longrightarrow> k \<noteq> src \<Longrightarrow> token_balance w k \<le> token_balance w' k"
proof (cases "k = dst")
  case False
  assume "token_transferred src dst auth n w w'" "k \<noteq> src"
  with False have "accts w' k = accts w k"
    by (simp add: token_transferred_def)
  then show ?thesis
    by (simp add: views_of_accts(4) [of w' k w])
qed (simp add: token_transferred_def)

lemmas token_views = is_token_def may_spend_def token_meta_def token_delegate_def token_balance_def

section \<open>An executable chain\<close>

definition sim_transfer_tokens :: "pubkey \<Rightarrow> pubkey \<Rightarrow> pubkey \<Rightarrow> u64 \<Rightarrow> world \<Rightarrow> world res" where
  "sim_transfer_tokens src dst auth n w =
     (case (data_of w src, data_of w dst) of
        (TokenData s, TokenData d) \<Rightarrow>
          if (t_owner s = auth \<or> t_delegate s = Some auth) \<and> unat n \<le> unat (t_amount s)
             \<and> t_is_native s = None
             \<and> (src = dst \<or> unat (t_amount d) + unat n < 2 ^ 64)
          then Inr (if src = dst then w
            else set_data dst (TokenData (d\<lparr>t_amount := t_amount d + n\<rparr>))
              (set_data src (TokenData (s\<lparr>t_amount := t_amount s - n\<rparr>)) w))
          else Inl (Err (External 1))
      | _ \<Rightarrow> Inl (Err (External 3)))"

definition sim_close :: "pubkey \<Rightarrow> pubkey \<Rightarrow> pubkey \<Rightarrow> pubkey \<Rightarrow> world \<Rightarrow> world res" where
  "sim_close sys a dst auth w =
     (case data_of w a of
        TokenData t \<Rightarrow>
          if a \<noteq> dst \<and> t_owner t = auth \<and> (t_is_native t \<noteq> None \<or> t_amount t = 0)
             \<and> unat (lamports_of w dst) + unat (lamports_of w a) < 2 ^ 64
          then Inr (set_owner a sys (set_data a (Raw []) (set_lamports a 0
            (set_lamports dst (lamports_of w dst + lamports_of w a) w))))
          else Inl (Err (External 11))
      | _ \<Rightarrow> Inl (Err (External 3)))"

definition sim_init :: "pubkey \<Rightarrow> pubkey \<Rightarrow> pubkey \<Rightarrow> world \<Rightarrow> world res" where
  "sim_init a mnt own w =
     (case data_of w a of
        Raw bs \<Rightarrow> Inr (set_data a (TokenData
          \<lparr>t_mint = mnt, t_owner = own, t_amount = 0, t_delegate = None, t_is_native = None,
           t_delegated_amount = 0, t_close_authority = None\<rparr>) w)
      | _ \<Rightarrow> Inl (Err (External 6)))"

definition sim_transfer_lamports :: "pubkey \<Rightarrow> pubkey \<Rightarrow> u64 \<Rightarrow> world \<Rightarrow> world res" where
  "sim_transfer_lamports src dst n w =
     (if unat n \<le> unat (lamports_of w src) \<and> (src = dst \<or> unat (lamports_of w dst) + unat n < 2 ^ 64)
      then Inr (if src = dst then w
        else set_lamports dst (lamports_of w dst + n) (set_lamports src (lamports_of w src - n) w))
      else Inl (Err (External 1)))"

definition sim_create :: "pubkey \<Rightarrow> pubkey \<Rightarrow> pubkey \<Rightarrow> u64 \<Rightarrow> nat \<Rightarrow> pubkey \<Rightarrow> world \<Rightarrow> world res" where
  "sim_create sys src a l space own w =
     (if src \<noteq> a \<and> unat l \<le> unat (lamports_of w src) \<and> lamports_of w a = 0
         \<and> data_of w a = Raw [] \<and> owner_of w a = sys
      then Inr (put a \<lparr>lamports = l, acc_owner = own, data = Raw (replicate space 0)\<rparr>
        (set_lamports src (lamports_of w src - l) w))
      else Inl (Err (External 0)))"

fun sim_cpi :: "account_info list \<Rightarrow> cpi \<Rightarrow> seed list list \<Rightarrow> world \<Rightarrow> world res" where
  "sim_cpi infos (TokenTransfer src dst auth n) seeds w = sim_transfer_tokens src dst auth n w"
| "sim_cpi infos (TokenClose a dst auth) seeds w = sim_close 0 a dst auth w"
| "sim_cpi infos (TokenInit a mnt own) seeds w = sim_init a mnt own w"
| "sim_cpi infos (SystemTransfer src dst n) seeds w = sim_transfer_lamports src dst n w"
| "sim_cpi infos (SystemCreate src a l space own) seeds w = sim_create 0 src a l space own w"

definition sim_rent :: "nat \<Rightarrow> u64" where
  "sim_rent n = of_nat (128 + n)"

text \<open>The payer adds what the account lacks for the rent of its size.\<close>

definition sim_init_account ::
  "account_info \<Rightarrow> account_info \<Rightarrow> nat \<Rightarrow> pubkey \<Rightarrow> seed list list \<Rightarrow> world \<Rightarrow> world res" where
  "sim_init_account payer acc space own seeds w =
     (let a = key acc; p = key payer; l = saturating_sub (sim_rent space) (lamports_of w a) in
      if p \<noteq> a \<and> unat l \<le> unat (lamports_of w p) \<and> data_of w a = Raw [] \<and> owner_of w a = 0
      then Inr (put a \<lparr>lamports = lamports_of w a + l, acc_owner = own, data = Raw (replicate space 0)\<rparr>
        (set_lamports p (lamports_of w p - l) w))
      else Inl (Err (External 0)))"

text \<open>The sizes of the typed accounts.\<close>

fun sim_space :: "acct_data \<Rightarrow> nat" where
  "sim_space (RoundData _) = 347"
| "sim_space (VoucherData _) = 208"
| "sim_space _ = 165"

text \<open>
  Addresses of the executable chain: a polynomial in the seeds, a string counting as its
  length and a key as its last three digits.
\<close>

fun seed_code :: "seed \<Rightarrow> pubkey" where
  "seed_code (SeedStr s) = of_nat (length s)"
| "seed_code (SeedKey k) = k mod 1000"

definition sim_pda :: "seed list \<Rightarrow> pubkey \<Rightarrow> pubkey" where
  "sim_pda seeds pid = fold (\<lambda>s acc. acc * 1000 + seed_code s) seeds pid"

definition sim :: "i64 \<Rightarrow> ext" where
  "sim now =
    \<lparr>x_pda = sim_pda, x_ata = (\<lambda>user mnt. user * 1000 + mnt), x_rent = sim_rent,
     x_now = now, x_space = sim_space, x_token_id = 6, x_system_id = 0, x_native_mint = 7,
     x_init = sim_init_account, x_cpi = sim_cpi\<rparr>"

lemma sim_simps [simp]:
  "x_pda (sim now) = sim_pda" "x_ata (sim now) user mnt = user * 1000 + mnt"
  "x_rent (sim now) n = of_nat (128 + n)" "x_now (sim now) = now" "x_space (sim now) = sim_space"
  "x_token_id (sim now) = 6" "x_system_id (sim now) = 0" "x_native_mint (sim now) = 7"
  "x_cpi (sim now) = sim_cpi" "x_init (sim now) = sim_init_account"
  by (simp_all add: sim_def sim_rent_def)

lemma sim_transfer_tokens_ok:
  assumes "sim_transfer_tokens src dst auth n w = Inr w'"
  shows "token_transferred src dst auth n w w'"
proof -
  obtain s d where s: "data_of w src = TokenData s" "data_of w dst = TokenData d"
    and g: "t_owner s = auth \<or> t_delegate s = Some auth" "unat n \<le> unat (t_amount s)"
    "t_is_native s = None" "src = dst \<or> unat (t_amount d) + unat n < 2 ^ 64"
    and w': "w' = (if src = dst then w else set_data dst (TokenData (d\<lparr>t_amount := t_amount d + n\<rparr>))
        (set_data src (TokenData (s\<lparr>t_amount := t_amount s - n\<rparr>)) w))"
    using assms unfolding sim_transfer_tokens_def by (auto split: acct_data.splits if_splits)
  have "unat (t_amount s - n) = unat (t_amount s) - unat n"
    using g(2) by (rule unat_sub_checked)
  moreover have "unat (t_amount d + n) = unat (t_amount d) + unat n" if "src \<noteq> dst"
    using g(4) that by (intro unat_add_checked) simp
  ultimately show ?thesis
    using s g(1-3) unfolding token_transferred_def w'
    by (cases "src = dst") (simp_all add: token_views same_locks_def)
qed

lemma sim_close_ok: "sim_close 0 a dst auth w = Inr w' \<Longrightarrow> token_closed 0 a dst auth w w'"
  unfolding sim_close_def token_closed_def
  by (auto simp: token_views same_locks_def unat_add_checked split: acct_data.splits if_splits)

lemma sim_init_ok: "sim_init a mnt own w = Inr w' \<Longrightarrow> token_initialized a mnt own w w'"
  unfolding sim_init_def token_initialized_def
  by (auto simp: token_views same_locks_def split: acct_data.splits)

lemma sim_transfer_lamports_ok:
  "sim_transfer_lamports src dst n w = Inr w' \<Longrightarrow> lamports_transferred src dst n w w'"
  unfolding sim_transfer_lamports_def lamports_transferred_def
  by (auto simp: same_locks_def unat_add_checked unat_sub_checked split: if_splits)

lemma sim_create_ok:
  "sim_create 0 src a l space own w = Inr w' \<Longrightarrow> account_created 0 src a l space own w w'"
  unfolding sim_create_def account_created_def
  by (auto simp: same_locks_def unat_sub_checked split: if_splits)

lemma sim_init_account_ok:
  assumes "sim_init_account payer acc space own seeds w = Inr w'"
  shows "account_initialized (sim now) (key payer) (key acc) space own w w'"
proof -
  let ?a = "key acc" and ?p = "key payer"
  let ?l = "saturating_sub (sim_rent space) (lamports_of w ?a)"
  have l: "?p \<noteq> ?a" "unat ?l \<le> unat (lamports_of w ?p)" "data_of w ?a = Raw []" "owner_of w ?a = 0"
    and w': "w' = put ?a \<lparr>lamports = lamports_of w ?a + ?l, acc_owner = own, data = Raw (replicate space 0)\<rparr>
        (set_lamports ?p (lamports_of w ?p - ?l) w)"
    using assms by (auto simp: sim_init_account_def Let_def split: if_splits)
  show ?thesis
    using l unfolding w' account_initialized_def rent_exempt_def
    using unat_top_up [of "lamports_of w ?a" "sim_rent space"]
    by (auto simp: same_locks_def sim_rent_def unat_sub_checked unat_saturating_sub)
qed

interpretation sim: token_program "sim now"
  by unfold_locales
    (simp_all add: sim_transfer_tokens_ok sim_close_ok sim_init_ok sim_transfer_lamports_ok sim_create_ok
      sim_init_account_ok [where now = now])

end
