(* ===== verification/Fanout.thy ===== *)
theory Fanout
  imports Programs
begin

text \<open>
  The fanout program (\<open>fanout/src/lib.rs\<close>): \<open>initialize\<close> fixes the members of a fanout,
  \<open>distribute\<close> sends everything above the rent to them. The lemmas show the effect of a
  successful distribution on every account, that the configurations \<open>initialize\<close> accepts and
  that have distinct addresses can be distributed, and that a duplicate address locks the funds.
\<close>

section \<open>The accounts\<close>

text \<open>
  \<open>Account<Fanout>\<close> checks the owner and the type of the account; \<open>#[account(zero)]\<close> wants an
  account of the program whose discriminator is still zero.
\<close>

definition load_fanout :: "pubkey \<Rightarrow> pubkey \<Rightarrow> world \<Rightarrow> fanout res" where
  "load_fanout pid k w =
     (case data_of w k of
        FanoutData fo \<Rightarrow> if owner_of w k = pid then Inr fo else Inl (Err AnchorError)
      | _ \<Rightarrow> Inl (Err AnchorError))"

definition fanout_size :: "member list \<Rightarrow> nat" where
  "fanout_size ms = 8 + 8 + 4 + (32 + 2) * length ms"

definition check_zero :: "ext \<Rightarrow> pubkey \<Rightarrow> pubkey \<Rightarrow> world \<Rightarrow> nat res" where
  "check_zero X pid k w =
     (case data_of w k of
        Raw bs \<Rightarrow> if owner_of w k = pid \<and> 8 \<le> length bs \<and> take 8 bs = replicate 8 0
                  \<and> rent_exempt X (lamports_of w k) (length bs)
               then Inr (length bs) else Inl (Err AnchorError)
      | _ \<Rightarrow> Inl (Err AnchorError))"

section \<open>initialize\<close>

text \<open>The sum of the shares; a share outside \<open>1 .. 10000\<close> is refused on the way.\<close>

fun check_shares :: "nat \<Rightarrow> member list \<Rightarrow> nat res" where
  "check_shares tot [] = Inr tot"
| "check_shares tot (m # ms) =
     (if unat (share m) = 0 \<or> 10000 < unat (share m) then Inl (Err (Fanout_Error InvalidShares))
      else check_shares (tot + unat (share m)) ms)"

definition initialize :: "ext \<Rightarrow> pubkey \<Rightarrow> pubkey \<Rightarrow> member list \<Rightarrow> world \<Rightarrow> world res" where
  "initialize X pid fanout_key ms w =
     and_then (check_zero X pid fanout_key w) (\<lambda>space.
     and_then (ensure (\<not> (ms = [] \<or> 10 < length ms)) (Fanout_Error InvalidMemberCount)) (\<lambda>_.
     and_then (check_shares 0 ms) (\<lambda>total_shares.
     and_then (ensure (total_shares = 10000) (Fanout_Error InvalidShares)) (\<lambda>_.
     and_then (ensure (fanout_size ms \<le> space) AnchorError) (\<lambda>_.
     Inr (set_data fanout_key (FanoutData \<lparr>distributed = 0, members = ms\<rparr>) w))))))"

section \<open>distribute\<close>

text \<open>
  The loop over the remaining accounts. The lamports of the fanout stay borrowed, so the fanout
  itself cannot be paid; \<open>distributed += amount\<close> panics on overflow.
\<close>

fun distribute_loop ::
  "pubkey \<Rightarrow> split_map \<Rightarrow> account_info list \<Rightarrow> pubkey list \<Rightarrow> fanout \<Rightarrow> world
    \<Rightarrow> (pubkey list \<times> fanout \<times> world) res" where
  "distribute_loop fk split [] seen fo w = Inr (seen, fo, w)"
| "distribute_loop fk split (acc # accs) seen fo w =
     and_then (ensure (key acc \<notin> set seen) (Fanout_Error DuplicateMember)) (\<lambda>_.
     and_then (unwrap (map_of split (key acc))) (\<lambda>amount.
     and_then (borrow_lamports (key acc) w) (\<lambda>w.
     and_then (ok_or (Fanout_Error FanoutOverflow) (checked_add (lamports_of w (key acc)) amount)) (\<lambda>l.
     let w = set_lamports (key acc) l w in
     and_then (ok_or (Fanout_Error FanoutOverflow) (checked_sub (lamports_of w fk) amount)) (\<lambda>f.
     let w = release_lamports (key acc) (set_lamports fk f w) in
     and_then (unwrap (checked_add (distributed fo) amount)) (\<lambda>d.
     distribute_loop fk split accs (key acc # seen) (fo\<lparr>distributed := d\<rparr>) w))))))"

definition distribute ::
  "'n precise \<Rightarrow> ext \<Rightarrow> pubkey \<Rightarrow> pubkey \<Rightarrow> account_info list \<Rightarrow> world \<Rightarrow> world res" where
  "distribute P X pid fanout_key remaining w =
     and_then (load_fanout pid fanout_key w) (\<lambda>fo.
     and_then (borrow_lamports fanout_key w) (\<lambda>w.
     let rent_minimum = x_rent X (data_len X (data_of w fanout_key)) in
     and_then (ok_or (Fanout_Error FanoutOverflow)
       (checked_sub (lamports_of w fanout_key) rent_minimum)) (\<lambda>distribution_amount.
     and_then (calculate_split P fo distribution_amount) (\<lambda>maybe_split.
     and_then (ok_or (Fanout_Error FanoutOverflow) maybe_split) (\<lambda>split.
     and_then (distribute_loop fanout_key split remaining [] fo w) (\<lambda>(seen, fo, w).
     and_then (ensure (length seen = length (members fo)) (Fanout_Error MemberNotFound)) (\<lambda>_.
     Inr (set_data fanout_key (FanoutData fo) (release_lamports fanout_key w)))))))))"

section \<open>What initialize accepts\<close>

lemma check_shares_iff:
  "check_shares t ms = Inr t' \<longleftrightarrow>
     (\<forall>m \<in> set ms. 0 < unat (share m) \<and> unat (share m) \<le> 10000)
     \<and> t' = t + sum_list (map (\<lambda>m. unat (share m)) ms)"
  by (induction ms arbitrary: t) auto

lemma initialize_iff:
  "initialize X pid k ms w = Inr w' \<longleftrightarrow>
     (\<exists>space. check_zero X pid k w = Inr space \<and> fanout_size ms \<le> space)
     \<and> valid_members ms
     \<and> w' = set_data k (FanoutData \<lparr>distributed = 0, members = ms\<rparr>) w"
  by (auto simp: initialize_def valid_members_def res_simps check_shares_iff)

section \<open>The effect of the loop\<close>

definition paid :: "split_map \<Rightarrow> pubkey \<Rightarrow> nat" where
  "paid split k = (case map_of split k of None \<Rightarrow> 0 | Some v \<Rightarrow> unat v)"

text \<open>
  The loop, seen from its result: who was paid, what everybody holds afterwards, and what
  is left on the fanout.
\<close>

definition loop_effect ::
  "pubkey \<Rightarrow> split_map \<Rightarrow> pubkey list \<Rightarrow> fanout \<Rightarrow> world \<Rightarrow> fanout \<Rightarrow> world \<Rightarrow> bool" where
  "loop_effect fk split ks fo w fo' w' \<longleftrightarrow>
     (\<forall>k. k \<noteq> fk \<longrightarrow> unat (lamports_of w' k) = unat (lamports_of w k) + (if k \<in> set ks then paid split k else 0))
     \<and> unat (lamports_of w' fk) + sum_list (map (paid split) ks) = unat (lamports_of w fk)
     \<and> unat (distributed fo') = unat (distributed fo) + sum_list (map (paid split) ks)
     \<and> members fo' = members fo
     \<and> (\<forall>k. data_of w' k = data_of w k \<and> owner_of w' k = owner_of w k)
     \<and> same_locks w w'"

lemma distribute_loop_effect:
  assumes "distribute_loop fk split accs seen fo w = Inr (seen', fo', w')" "fk \<in> set (lam_locked w)"
  shows "seen' = rev (map key accs) @ seen
    \<and> distinct (map key accs) \<and> set (map key accs) \<inter> set seen = {} \<and> fk \<notin> set (map key accs)
    \<and> set (map key accs) \<subseteq> dom (map_of split)
    \<and> loop_effect fk split (map key accs) fo w fo' w'"
  using assms
proof (induction accs arbitrary: seen fo w)
  case Nil
  then show ?case by (auto simp: loop_effect_def same_locks_def)
next
  case (Cons acc accs)
  let ?k = "key acc"
  obtain amount where amount: "map_of split ?k = Some amount" and new: "?k \<notin> set seen"
    and free: "?k \<notin> set (lam_locked w)"
    and add: "unat (lamports_of w ?k) + unat amount < 2 ^ 64"
    and sub: "unat amount \<le> unat (lamports_of w fk)"
    and d: "unat (distributed fo) + unat amount < 2 ^ 64"
    and rec: "distribute_loop fk split accs (?k # seen) (fo\<lparr>distributed := distributed fo + amount\<rparr>)
      (release_lamports ?k (set_lamports fk (lamports_of w fk - amount)
        (set_lamports ?k (lamports_of w ?k + amount) (w\<lparr>lam_locked := ?k # lam_locked w\<rparr>))))
      = Inr (seen', fo', w')"
    using Cons.prems by (auto simp: res_simps checked_simps Let_def split: if_splits)
  let ?w = "release_lamports ?k (set_lamports fk (lamports_of w fk - amount)
        (set_lamports ?k (lamports_of w ?k + amount) (w\<lparr>lam_locked := ?k # lam_locked w\<rparr>)))"
  have fk: "?k \<noteq> fk"
    using free Cons.prems(2) by auto
  have locks: "lam_locked ?w = lam_locked w"
    by (simp add: release_lamports_def set_lamports_def put_def)
  note IH = Cons.IH [OF rec, unfolded locks, OF Cons.prems(2)]
  have "loop_effect fk split (map key (acc # accs)) fo w fo' w'"
    using IH fk amount unat_sub_checked [OF sub] unat_add_checked [of "lamports_of w ?k" amount]
      unat_add_checked [of "distributed fo" amount] add d sub
    by (auto simp: loop_effect_def paid_def same_locks_def locks)
  with IH new fk amount show ?case
    by auto
qed

text \<open>The other direction: what the loop needs to go through.\<close>

lemma distribute_loop_succeeds:
  assumes "distinct (map key accs)" "set (map key accs) \<inter> set seen = {}"
    and "set (map key accs) \<inter> set (lam_locked w) = {}" "fk \<in> set (lam_locked w)"
    and "set (map key accs) \<subseteq> dom (map_of split)"
    and "\<forall>k \<in> set (map key accs). unat (lamports_of w k) + paid split k < 2 ^ 64"
    and "sum_list (map (paid split) (map key accs)) \<le> unat (lamports_of w fk)"
    and "unat (distributed fo) + sum_list (map (paid split) (map key accs)) < 2 ^ 64"
  shows "\<exists>r. distribute_loop fk split accs seen fo w = Inr r"
  using assms
proof (induction accs arbitrary: seen fo w)
  case Nil
  then show ?case by simp
next
  case (Cons acc accs)
  let ?k = "key acc"
  obtain amount where amount: "map_of split ?k = Some amount"
    using Cons.prems(5) by auto
  then have paid: "paid split ?k = unat amount"
    by (simp add: paid_def)
  have fk: "?k \<noteq> fk"
    using Cons.prems(3,4) by auto
  let ?w = "release_lamports ?k (set_lamports fk (lamports_of w fk - amount)
        (set_lamports ?k (lamports_of w ?k + amount) (w\<lparr>lam_locked := ?k # lam_locked w\<rparr>)))"
  have locks: "lam_locked ?w = lam_locked w"
    by (simp add: release_lamports_def set_lamports_def put_def)
  have fits: "unat (lamports_of w ?k) + unat amount < 2 ^ 64" "unat amount \<le> unat (lamports_of w fk)"
    "unat (distributed fo) + unat amount < 2 ^ 64"
    using Cons.prems(6-8) by (simp_all add: paid)
  have other: "\<And>a. a \<in> set accs \<Longrightarrow> key a \<noteq> ?k"
    using Cons.prems(1) by (metis distinct.simps(2) image_eqI list.simps(9) set_map)
  have "\<exists>r. distribute_loop fk split accs (?k # seen) (fo\<lparr>distributed := distributed fo + amount\<rparr>) ?w = Inr r"
    using Cons.prems fits paid fk other
    by (intro Cons.IH) (auto simp: locks unat_sub_checked unat_add_checked)
  with Cons.prems(2,3) amount fits fk show ?case
    by (auto simp: Let_def borrow_lamports_def checked_add_def checked_sub_def)
qed

section \<open>Properties\<close>

lemma split_ref_sum: "split_ref ms amount = Some sp \<Longrightarrow> sum_list (map snd sp) = unat amount"
  by (cases ms) (auto simp: Let_def comp_def split: if_splits)

lemma split_ref_keys: "split_ref ms amount = Some sp \<Longrightarrow> map fst sp = map address ms"
  by (cases ms) (auto simp: Let_def comp_def split: if_splits)

lemma split_ref_le:
  fixes n :: nat
  shows "split_ref ms amount = Some sp \<Longrightarrow> (k, n) \<in> set sp \<Longrightarrow> n \<le> unat amount"
proof -
  assume ref: "split_ref ms amount = Some sp" and "(k, n) \<in> set sp"
  then have "n \<in> set (map snd sp)"
    by force
  then have "n \<le> sum_list (map snd sp)"
    by (rule member_le_sum_list) simp
  then show ?thesis
    by (simp only: split_ref_sum [OF ref])
qed

lemma map_of_words_of:
  "distinct (map fst sp) \<Longrightarrow> (k, n) \<in> set sp \<Longrightarrow> map_of (words_of sp) k = Some (of_nat n)"
  by (induction sp) (auto simp: words_of_def rev_image_eqI)

lemma dom_words_of: "dom (map_of (words_of sp)) = fst ` set sp"
  by (simp add: words_of_def dom_map_of_conv_image_fst image_image case_prod_beta)

lemma paid_words_of:
  assumes "split_ref ms amount = Some sp" "distinct_members ms" "(k, n) \<in> set sp"
  shows "paid (words_of sp) k = n"
proof -
  have "map_of (words_of sp) k = Some (of_nat n)"
    using assms by (intro map_of_words_of) (simp_all add: split_ref_keys distinct_members_def)
  moreover have "n < 2 ^ 64"
    using split_ref_le [OF assms(1,3)] unat_u64_less [of amount] by simp
  ultimately show ?thesis
    by (simp add: paid_def unat_of_nat)
qed

lemma paid_sum:
  assumes ref: "split_ref ms amount = Some sp" and dist: "distinct_members ms"
    and ks: "distinct ks" "set ks = set (map address ms)"
  shows "sum_list (map (paid (words_of sp)) ks) = unat amount"
proof -
  have "sum_list (map (paid (words_of sp)) ks) = sum (paid (words_of sp)) (set (map fst sp))"
    using ks by (simp add: sum_list_distinct_conv_sum_set split_ref_keys [OF ref])
  also have "\<dots> = sum_list (map (paid (words_of sp)) (map fst sp))"
    by (rule sum_list_distinct_conv_sum_set [symmetric])
      (use dist in \<open>simp add: split_ref_keys [OF ref] distinct_members_def\<close>)
  also have "map (paid (words_of sp)) (map fst sp) = map snd sp"
    using paid_words_of [OF ref dist] by (auto simp: comp_def)
  finally show ?thesis
    by (simp add: split_ref_sum [OF ref])
qed

lemma distribute_iff:
  "distribute P X pid fk rem w = Inr w' \<longleftrightarrow>
     (\<exists>fo split fo' w'' amount seen. data_of w fk = FanoutData fo \<and> owner_of w fk = pid
       \<and> fk \<notin> set (lam_locked w)
       \<and> checked_sub (lamports_of w fk) (x_rent X (data_len X (data_of w fk))) = Some amount
       \<and> calculate_split P fo amount = Inr (Some split)
       \<and> distribute_loop fk split rem [] fo (w\<lparr>lam_locked := fk # lam_locked w\<rparr>) = Inr (seen, fo', w'')
       \<and> length seen = length (members fo')
       \<and> w' = set_data fk (FanoutData fo') (release_lamports fk w''))"
  by (auto simp: distribute_def load_fanout_def Let_def res_simps split: acct_data.splits if_splits)

text \<open>The keys a split can have, whatever the arithmetic library does.\<close>

lemma split_loop_dom:
  "split_loop P ap bsp ms sp = Some sp' \<Longrightarrow> dom (map_of sp') = dom (map_of sp) \<union> set (map address ms)"
proof (induction ms arbitrary: sp)
  case (Cons m ms)
  then obtain v where "split_loop P ap bsp ms (AList.update (address m) v sp) = Some sp'"
    by (auto simp: res_simps)
  then have "dom (map_of sp') = dom (map_of (AList.update (address m) v sp)) \<union> set (map address ms)"
    by (rule Cons.IH)
  then show ?case
    by (simp only: update_conv' dom_fun_upd) auto
qed simp

lemma fix_first_dom:
  assumes "fix_first ms sp diff = Inr (Some sp')"
  shows "dom (map_of sp') = dom (map_of sp)"
proof -
  obtain m ms' v v' where "ms = m # ms'" "map_of sp (address m) = Some v"
    "sp' = AList.update (address m) v' sp"
    using assms by (cases ms) (auto simp: fix_first_def res_simps)
  then show ?thesis
    by (simp add: update_conv' dom_fun_upd insert_absorb domI)
qed

lemma calculate_split_dom:
  assumes "calculate_split P fo amount = Inr (Some sp)"
  shows "dom (map_of sp) = set (map address (members fo))"
proof -
  obtain ap bsp y diff where loop: "split_loop P ap bsp (members fo) [] = Some y"
    and sp: "sp = y \<or> fix_first (members fo) y diff = Inr (Some sp)"
    using assms by (auto simp: calculate_split_def res_simps split: option.splits if_splits)
  have "dom (map_of y) = set (map address (members fo))"
    using split_loop_dom [OF loop] by simp
  with sp show ?thesis
    using fix_first_dom by metis
qed

lemma valid_members_exist:
  "valid_members [\<lparr>address = 11, share = 5000\<rparr>, \<lparr>address = 11, share = 5000\<rparr>]"
  "\<not> distinct_members [\<lparr>address = 11, share = 5000\<rparr>, \<lparr>address = 11, share = 5000\<rparr>]"
  by (simp_all add: valid_members_def distinct_members_def)

text \<open>
  What a distribution needs: the members passed in any order, none of them the fanout or
  borrowed, the first member's rest not negative, and no counter overflowing.
\<close>

lemma distribute_goes_through:
  fixes amount :: u64
  assumes laws: "precise_number P val" and fo: "data_of w fk = FanoutData fo" "owner_of w fk = pid"
    and valid: "valid_members (members fo)" and dist: "distinct_members (members fo)"
    and small: "unat (lamports_of w fk) < 2 ^ 62"
    and amount: "unat (lamports_of w fk) = unat (x_rent X (data_len X (FanoutData fo))) + unat amount"
    and ref: "split_ref (members fo) amount = Some sp"
    and keys: "distinct (map key remaining)" "set (map key remaining) = set (map address (members fo))"
    and locks: "lam_locked w = []" "fk \<notin> set (map address (members fo))"
    and room: "\<forall>(k, n) \<in> set sp. unat (lamports_of w k) + n < 2 ^ 64"
      "unat (distributed fo) + unat amount < 2 ^ 64"
  shows "\<exists>w'. distribute P X pid fk remaining w = Inr w'"
proof -
  let ?w = "w\<lparr>lam_locked := fk # lam_locked w\<rparr>"
  have sub: "checked_sub (lamports_of w fk) (x_rent X (data_len X (FanoutData fo))) = Some amount"
    using amount by (rule checked_sub_eq)
  have calc: "calculate_split P fo amount = Inr (Some (words_of sp))"
    using precise_number.calculate_split_eq_ref [OF laws valid dist, of amount] ref small amount by simp
  have total: "sum_list (map (paid (words_of sp)) (map key remaining)) = unat amount"
    by (rule paid_sum [OF ref dist keys])
  have "\<forall>k \<in> set (map key remaining). unat (lamports_of w k) + paid (words_of sp) k < 2 ^ 64"
  proof
    fix k assume "k \<in> set (map key remaining)"
    then have "k \<in> set (map fst sp)"
      by (simp only: keys(2) split_ref_keys [OF ref])
    then obtain n where "(k, n) \<in> set sp"
      by auto
    then show "unat (lamports_of w k) + paid (words_of sp) k < 2 ^ 64"
      using room(1) paid_words_of [OF ref dist] by auto
  qed
  moreover have "set (map key remaining) \<subseteq> dom (map_of (words_of sp))"
    unfolding keys(2) dom_words_of split_ref_keys [OF ref, symmetric] by simp
  ultimately have "\<exists>r. distribute_loop fk (words_of sp) remaining [] fo ?w = Inr r"
    using keys locks total room(2) amount
    by (intro distribute_loop_succeeds) (simp_all del: set_map)
  then obtain seen fo' w'' where loop:
    "distribute_loop fk (words_of sp) remaining [] fo ?w = Inr (seen, fo', w'')"
    by (auto simp: split_paired_Ex)
  note effect = distribute_loop_effect [OF loop, simplified]
  have "card (set (map key remaining)) = card (set (map address (members fo)))"
    by (simp only: keys(2))
  then have "length remaining = length (members fo)"
    using keys(1) dist by (simp only: distinct_members_def distinct_card length_map)
  then have "length seen = length (members fo')"
    using effect by (simp add: loop_effect_def)
  with sub calc loop locks(1) fo show ?thesis
    unfolding distribute_iff by auto
qed

text \<open>A fanout of two members on the executable chain.\<close>

definition demo_fanout :: fanout where
  "demo_fanout = \<lparr>distributed = 0,
     members = [\<lparr>address = 11, share = 6000\<rparr>, \<lparr>address = 12, share = 4000\<rparr>]\<rparr>"

definition demo_world :: "fanout \<Rightarrow> world" where
  "demo_world fo =
     \<lparr>accts = (\<lambda>k. if k = 5 then \<lparr>lamports = 1294, acc_owner = 100, data = FanoutData fo\<rparr>
        else \<lparr>lamports = 1000, acc_owner = 0, data = Raw []\<rparr>),
      lam_locked = [], data_locked = []\<rparr>"

definition wr :: "pubkey \<Rightarrow> account_info" where
  "wr k = \<lparr>key = k, is_signer = False, is_writable = True\<rparr>"

lemma demo_world_views [simp]:
  "lamports_of (demo_world fo) k = (if k = 5 then 1294 else 1000)"
  "data_of (demo_world fo) k = (if k = 5 then FanoutData fo else Raw [])"
  "owner_of (demo_world fo) k = (if k = 5 then 100 else 0)"
  "lam_locked (demo_world fo) = []"
  by (simp_all add: demo_world_def lamports_of_def data_of_def owner_of_def)

lemma demo_fanout_ok:
  "valid_members (members demo_fanout)" "distinct_members (members demo_fanout)"
  "split_ref (members demo_fanout) 1001 = Some [(11, 601), (12, 400)]"
  by (simp_all add: demo_fanout_def valid_members_def distinct_members_def share_of_def bps_of_eq)

lemma demo_distribute:
  "\<exists>w'. distribute fixed12 (sim 0) 100 5 [wr 12, wr 11] (demo_world demo_fanout) = Inr w'"
  by (rule distribute_goes_through [OF fixed12.precise_number_axioms, where fo = demo_fanout
        and amount = 1001 and sp = "[(11, 601), (12, 400)]"])
    (use demo_fanout_ok in \<open>auto simp: data_len_def wr_def demo_fanout_def\<close>)

text \<open>
  C3: A successful distribution pays exactly the members, each once: the accounts passed are the
  members in some order, every member but the first receives the rounded basis points of what is
  above the rent, the first the rest, so that the payments add up to that amount; the fanout
  keeps the rent, counts the amount as distributed, and no other balance, owner or data changes.
\<close>

theorem fanout_distribute_effect:
  assumes laws: "precise_number P val" and fo: "data_of w fk = FanoutData fo"
    and valid: "valid_members (members fo)" and dist: "distinct_members (members fo)"
    and small: "unat (lamports_of w fk) < 2 ^ 62"
    and ok: "distribute P X pid fk remaining w = Inr w'"
  shows "\<exists>amount sp.
    unat (lamports_of w fk) = unat (x_rent X (data_len X (FanoutData fo))) + unat amount
    \<and> lamports_of w' fk = x_rent X (data_len X (FanoutData fo))
    \<and> distinct (map key remaining) \<and> set (map key remaining) = set (map address (members fo))
    \<and> split_ref (members fo) amount = Some sp \<and> sum_list (map snd sp) = unat amount
    \<and> (\<forall>(k, n) \<in> set sp. unat (lamports_of w' k) = unat (lamports_of w k) + n)
    \<and> (\<forall>k. k \<noteq> fk \<longrightarrow> k \<notin> set (map address (members fo)) \<longrightarrow> lamports_of w' k = lamports_of w k)
    \<and> (\<exists>d. unat d = unat (distributed fo) + unat amount
         \<and> data_of w' fk = FanoutData (fo\<lparr>distributed := d\<rparr>))
    \<and> (\<forall>k. k \<noteq> fk \<longrightarrow> data_of w' k = data_of w k) \<and> (\<forall>k. owner_of w' k = owner_of w k)"
proof -
  obtain split fo' w'' amount seen where
      sub: "checked_sub (lamports_of w fk) (x_rent X (data_len X (data_of w fk))) = Some amount"
    and calc: "calculate_split P fo amount = Inr (Some split)"
    and loop: "distribute_loop fk split remaining [] fo (w\<lparr>lam_locked := fk # lam_locked w\<rparr>)
        = Inr (seen, fo', w'')"
    and len: "length seen = length (members fo')"
    and w': "w' = set_data fk (FanoutData fo') (release_lamports fk w'')"
    using ok fo unfolding distribute_iff by auto
  have amount: "unat (lamports_of w fk) = unat (x_rent X (data_len X (FanoutData fo))) + unat amount"
    using sub fo by (auto simp: checked_simps unat_sub_checked)
  then have "map_option words_of (split_ref (members fo) amount) = Some split"
    using precise_number.calculate_split_eq_ref [OF laws valid dist, of amount] calc small by simp
  then obtain sp where ref: "split_ref (members fo) amount = Some sp" and sp: "split = words_of sp"
    by blast
  note effect = distribute_loop_effect [OF loop, simplified]
  have "set (map key remaining) \<subseteq> set (map address (members fo))"
    using effect calculate_split_dom [OF calc] by auto
  moreover have "card (set (map key remaining)) = length (members fo)"
    using effect len by (simp add: distinct_card [of "map key remaining", simplified] loop_effect_def)
  moreover have "card (set (map address (members fo))) = length (members fo)"
    using dist by (simp only: distinct_members_def distinct_card length_map)
  ultimately have keys: "set (map key remaining) = set (map address (members fo))"
    by (intro card_subset_eq) simp_all
  have total: "sum_list (map (paid split) (map key remaining)) = unat amount"
    unfolding sp using effect keys by (intro paid_sum [OF ref dist]) simp_all
  have share: "unat (lamports_of w' k) = unat (lamports_of w k) + n" if "(k, n) \<in> set sp" for k n
  proof -
    have "k \<in> set (map key remaining)"
      using that keys split_ref_keys [OF ref] by (metis image_eqI fst_conv set_map)
    then show ?thesis
      using effect paid_words_of [OF ref dist that] by (auto simp: w' sp loop_effect_def)
  qed
  have "unat (lamports_of w' fk) = unat (x_rent X (data_len X (FanoutData fo)))"
    using effect total amount by (simp add: w' loop_effect_def comp_def)
  then have rent: "lamports_of w' fk = x_rent X (data_len X (FanoutData fo))"
    by (rule unat_eqI)
  have others: "lamports_of w' k = lamports_of w k"
    if "k \<noteq> fk" "k \<notin> set (map address (members fo))" for k
    using effect that keys by (intro unat_eqI) (simp add: w' loop_effect_def)
  have "unat (distributed fo') = unat (distributed fo) + unat amount"
    "fo' = fo\<lparr>distributed := distributed fo'\<rparr>"
    using effect total by (simp_all add: loop_effect_def comp_def)
  then have d: "\<exists>d. unat d = unat (distributed fo) + unat amount
      \<and> data_of w' fk = FanoutData (fo\<lparr>distributed := d\<rparr>)"
    by (intro exI [of _ "distributed fo'"]) (simp add: w')
  have frame: "\<forall>k. k \<noteq> fk \<longrightarrow> data_of w' k = data_of w k" "\<forall>k. owner_of w' k = owner_of w k"
    using effect by (simp_all add: w' loop_effect_def)
  have "distinct (map key remaining)"
    using effect by simp
  then show ?thesis
    using amount rent keys ref split_ref_sum [OF ref] share others d frame by blast
qed

theorem fanout_distribute_effect_witness:
  "\<exists>w'. distribute fixed12 (sim 0) 100 5 [wr 12, wr 11] (demo_world demo_fanout) = Inr w'
     \<and> lamports_of w' 5 = 293"
proof -
  obtain w' where ok: "distribute fixed12 (sim 0) 100 5 [wr 12, wr 11] (demo_world demo_fanout) = Inr w'"
    using demo_distribute by blast
  have "lamports_of w' 5 = 293"
    using fanout_distribute_effect [OF fixed12.precise_number_axioms _ demo_fanout_ok(1,2) _ ok]
    by (auto simp: data_len_def)
  with ok show ?thesis by blast
qed



text \<open>
  C23: \<open>initialize\<close> does not compare the addresses of the members: two members with the same
  address are accepted, and then no call of \<open>distribute\<close> ever succeeds, with any accounts, at any
  time: the lamports on the fanout are locked.
\<close>

theorem fanout_duplicate_locks:
  assumes "initialize X pid fk ms w = Inr w'" and "\<not> distinct_members ms"
    and "data_of w1 fk = data_of w' fk"
  shows "\<forall>w2. distribute P Y pid' fk remaining w1 \<noteq> Inr w2"
proof (intro allI notI)
  fix w2
  assume "distribute P Y pid' fk remaining w1 = Inr w2"
  moreover have fo: "data_of w1 fk = FanoutData \<lparr>distributed = 0, members = ms\<rparr>"
    using assms(1,3) by (auto simp: initialize_iff)
  ultimately obtain split fo' w'' amount seen where
      calc: "calculate_split P \<lparr>distributed = 0, members = ms\<rparr> amount = Inr (Some split)"
    and loop: "distribute_loop fk split remaining [] \<lparr>distributed = 0, members = ms\<rparr>
        (w1\<lparr>lam_locked := fk # lam_locked w1\<rparr>) = Inr (seen, fo', w'')"
    and len: "length seen = length (members fo')"
    unfolding distribute_iff by auto
  note effect = distribute_loop_effect [OF loop, simplified]
  have "length ms = card (set (map key remaining))"
    using effect len by (simp add: distinct_card [of "map key remaining", simplified] loop_effect_def)
  also have "\<dots> \<le> card (set (map address ms))"
    using effect calculate_split_dom [OF calc] by (intro card_mono) auto
  finally show False
    using assms(2) card_distinct [of "map address ms"] card_length [of "map address ms"]
    by (simp add: distinct_members_def)
qed

definition zero_world :: world where
  "zero_world =
     \<lparr>accts = (\<lambda>k. \<lparr>lamports = 1000, acc_owner = 100, data = Raw (replicate 100 0)\<rparr>),
      lam_locked = [], data_locked = []\<rparr>"

lemma zero_world_views [simp]:
  "lamports_of zero_world k = 1000" "data_of zero_world k = Raw (replicate 100 0)"
  "owner_of zero_world k = 100"
  by (simp_all add: zero_world_def lamports_of_def data_of_def owner_of_def)

theorem fanout_duplicate_locks_witness:
  "\<exists>w'. initialize (sim 0) 100 5 [\<lparr>address = 11, share = 5000\<rparr>, \<lparr>address = 11, share = 5000\<rparr>] zero_world
       = Inr w'
     \<and> (\<forall>w2. distribute fixed12 (sim 0) 100 5 [wr 11, wr 11] w' \<noteq> Inr w2)"
proof -
  have "check_zero (sim 0) 100 5 zero_world = Inr 100"
    by (simp add: check_zero_def rent_exempt_def)
  then obtain w' where ok: "initialize (sim 0) 100 5
      [\<lparr>address = 11, share = 5000\<rparr>, \<lparr>address = 11, share = 5000\<rparr>] zero_world = Inr w'"
    using valid_members_exist(1) by (auto simp: initialize_iff fanout_size_def)
  then show ?thesis
    using fanout_duplicate_locks [OF ok valid_members_exist(2) refl] by blast
qed

end
