(* ===== verification/Anchor.thy ===== *)
theory Anchor
  imports Programs
begin

text \<open>
  What the account attributes of an Anchor context do, shared by the handlers of the round
  program: loading a typed account checks its owner and its type; a constraint that fails
  is one error, \<open>AnchorError\<close>; \<open>close = k\<close> sends the lamports to \<open>k\<close>, hands the account to
  the system program and empties it; CPI helpers pass the accounts of the call and the seeds of
  the authority that signs. The handlers work on the copies loaded on entry, and the typed
  accounts of the program are written back at the end.
\<close>

section \<open>Constraints\<close>

definition require :: "bool \<Rightarrow> unit res" where
  "require c = ensure c AnchorError"

lemma require_simps [simp]: "require True = Inr ()" "require False = Inl (Err AnchorError)"
  by (simp_all add: require_def)

lemma require_Inr [res_simps]: "require c = Inr x \<longleftrightarrow> c"
  by (simp add: require_def res_simps)

definition load_round :: "pubkey \<Rightarrow> pubkey \<Rightarrow> world \<Rightarrow> round res" where
  "load_round pid k w =
     (case data_of w k of
        RoundData r \<Rightarrow> and_then (require (owner_of w k = pid)) (\<lambda>_. Inr r)
      | _ \<Rightarrow> Inl (Err AnchorError))"

definition load_voucher :: "pubkey \<Rightarrow> pubkey \<Rightarrow> world \<Rightarrow> voucher res" where
  "load_voucher pid k w =
     (case data_of w k of
        VoucherData v \<Rightarrow> and_then (require (owner_of w k = pid)) (\<lambda>_. Inr v)
      | _ \<Rightarrow> Inl (Err AnchorError))"

definition load_token :: "ext \<Rightarrow> pubkey \<Rightarrow> world \<Rightarrow> token_account res" where
  "load_token X k w =
     (case data_of w k of
        TokenData t \<Rightarrow> and_then (require (owner_of w k = x_token_id X)) (\<lambda>_. Inr t)
      | _ \<Rightarrow> Inl (Err AnchorError))"

definition load_mint :: "ext \<Rightarrow> pubkey \<Rightarrow> world \<Rightarrow> mint res" where
  "load_mint X k w =
     (case data_of w k of
        MintData m \<Rightarrow> and_then (require (owner_of w k = x_token_id X)) (\<lambda>_. Inr m)
      | _ \<Rightarrow> Inl (Err AnchorError))"

lemma load_round_Inr [res_simps]:
  "load_round pid k w = Inr r \<longleftrightarrow> data_of w k = RoundData r \<and> owner_of w k = pid"
  by (auto simp: load_round_def res_simps split: acct_data.splits)

lemma load_voucher_Inr [res_simps]:
  "load_voucher pid k w = Inr v \<longleftrightarrow> data_of w k = VoucherData v \<and> owner_of w k = pid"
  by (auto simp: load_voucher_def res_simps split: acct_data.splits)

lemma load_token_Inr [res_simps]:
  "load_token X k w = Inr t \<longleftrightarrow> data_of w k = TokenData t \<and> owner_of w k = x_token_id X"
  by (auto simp: load_token_def res_simps split: acct_data.splits)

lemma load_mint_Inr [res_simps]:
  "load_mint X k w = Inr m \<longleftrightarrow> data_of w k = MintData m \<and> owner_of w k = x_token_id X"
  by (auto simp: load_mint_def res_simps split: acct_data.splits)

text \<open>\<open>close = dest\<close>.\<close>

definition close_to :: "ext \<Rightarrow> pubkey \<Rightarrow> pubkey \<Rightarrow> world \<Rightarrow> world res" where
  "close_to X k dest w =
     and_then (unwrap (checked_add (lamports_of w dest) (lamports_of w k))) (\<lambda>l.
     Inr (set_owner k (x_system_id X) (set_data k (Raw []) (set_lamports k 0 (set_lamports dest l w)))))"

section \<open>Calls of other programs\<close>

definition call_transfer ::
  "ext \<Rightarrow> account_info \<Rightarrow> account_info \<Rightarrow> account_info \<Rightarrow> u64 \<Rightarrow> seed list list \<Rightarrow> world \<Rightarrow> world res" where
  "call_transfer X src dst auth n seeds w =
     x_cpi X [src, dst, auth] (TokenTransfer (key src) (key dst) (key auth) n) seeds w"

definition call_close ::
  "ext \<Rightarrow> account_info \<Rightarrow> account_info \<Rightarrow> account_info \<Rightarrow> seed list list \<Rightarrow> world \<Rightarrow> world res" where
  "call_close X acc dst auth seeds w =
     x_cpi X [acc, dst, auth] (TokenClose (key acc) (key dst) (key auth)) seeds w"

definition call_init_token ::
  "ext \<Rightarrow> account_info \<Rightarrow> account_info \<Rightarrow> pubkey \<Rightarrow> world \<Rightarrow> world res" where
  "call_init_token X acc mnt own w = x_cpi X [acc, mnt] (TokenInit (key acc) (key mnt) own) [] w"

definition call_pay ::
  "ext \<Rightarrow> account_info \<Rightarrow> account_info \<Rightarrow> u64 \<Rightarrow> seed list list \<Rightarrow> world \<Rightarrow> world res" where
  "call_pay X src dst n seeds w = x_cpi X [src, dst] (SystemTransfer (key src) (key dst) n) seeds w"

definition call_create ::
  "ext \<Rightarrow> account_info \<Rightarrow> account_info \<Rightarrow> u64 \<Rightarrow> nat \<Rightarrow> pubkey \<Rightarrow> seed list list \<Rightarrow> world \<Rightarrow> world res" where
  "call_create X src acc l space own seeds w =
     x_cpi X [src, acc] (SystemCreate (key src) (key acc) l space own) seeds w"

lemmas call_defs = call_transfer_def call_close_def call_init_token_def call_pay_def call_create_def

text \<open>An \<open>init\<close>-ialised token account: created for the token program, then initialised.\<close>

definition init_token ::
  "ext \<Rightarrow> account_info \<Rightarrow> account_info \<Rightarrow> account_info \<Rightarrow> pubkey \<Rightarrow> seed list list \<Rightarrow> world \<Rightarrow> world res" where
  "init_token X payer acc mnt own seeds w =
     and_then (x_init X payer acc 165 (x_token_id X) seeds w) (\<lambda>w. call_init_token X acc mnt own w)"

section \<open>What a call leaves alone\<close>

text \<open>
  A call keeps an account when data and owner stay the same. All calls keep what is neither a
  token account nor the account they create.
\<close>

definition keeps :: "pubkey \<Rightarrow> world \<Rightarrow> world \<Rightarrow> bool" where
  "keeps k w w' \<longleftrightarrow> data_of w' k = data_of w k \<and> owner_of w' k = owner_of w k"

lemma keepsI: "accts w' k = accts w k \<Longrightarrow> keeps k w w'"
  by (simp add: keeps_def data_of_def owner_of_def)

lemma keeps_refl [simp]: "keeps k w w"
  by (simp add: keeps_def)

lemma keeps_trans: "keeps k w w' \<Longrightarrow> keeps k w' w'' \<Longrightarrow> keeps k w w''"
  by (simp add: keeps_def)

lemma keeps_token:
  "keeps k w w' \<Longrightarrow> is_token w' k = is_token w k"
  "keeps k w w' \<Longrightarrow> token_balance w' k = token_balance w k"
  "keeps k w w' \<Longrightarrow> token_meta w' k = token_meta w k"
  "keeps k w w' \<Longrightarrow> token_delegate w' k = token_delegate w k"
  by (simp_all add: keeps_def is_token_def token_balance_def token_meta_def token_delegate_def)

context token_program
begin

lemma transfer_keeps:
  assumes "call_transfer X src dst auth n seeds w = Inr w'" "\<not> is_token w k"
  shows "keeps k w w'"
  using transfer_tokens [OF assms(1) [unfolded call_transfer_def]] assms(2)
  by (intro keepsI token_transferred_other)

lemma transfer_meta:
  assumes "call_transfer X src dst auth n seeds w = Inr w'"
  shows "is_token w' k = is_token w k" "token_meta w' k = token_meta w k"
    "token_delegate w' k = token_delegate w k \<or> token_delegate w' k = None"
    "owner_of w' k = owner_of w k" "may_spend w (key src) (key auth)"
    "is_token w (key src)" "is_token w (key dst)"
  using transfer_tokens [OF assms [unfolded call_transfer_def]]
  by (simp_all add: token_transferred_def is_token_meta)

lemma transfer_balance:
  assumes "call_transfer X src dst auth n seeds w = Inr w'"
  shows "unat n \<le> token_balance w (key src)"
    "key src \<noteq> key dst \<Longrightarrow> token_balance w' (key dst) = token_balance w (key dst) + unat n"
    "token_balance w (key src) \<le> token_balance w' (key src) + unat n"
    "k \<noteq> key src \<Longrightarrow> token_balance w k \<le> token_balance w' k"
proof -
  note t = transfer_tokens [OF assms [unfolded call_transfer_def]]
  show "unat n \<le> token_balance w (key src)"
    "key src \<noteq> key dst \<Longrightarrow> token_balance w' (key dst) = token_balance w (key dst) + unat n"
    "token_balance w (key src) \<le> token_balance w' (key src) + unat n"
    using t by (simp_all add: token_transferred_def)
  show "k \<noteq> key src \<Longrightarrow> token_balance w k \<le> token_balance w' k"
    by (rule token_transferred_balance [OF t])
qed

lemma close_keeps:
  assumes "call_close X acc dst auth seeds w = Inr w'" "k \<noteq> key acc"
  shows "keeps k w w'"
proof (cases "k = key dst")
  case True
  then show ?thesis
    using close_account [OF assms(1) [unfolded call_close_def]] by (simp add: keeps_def token_closed_def)
next
  case False
  then have "accts w' k = accts w k"
    using close_account [OF assms(1) [unfolded call_close_def]] assms(2) by (simp add: token_closed_def)
  then show ?thesis by (rule keepsI)
qed

lemma close_closes:
  assumes "call_close X acc dst auth seeds w = Inr w'"
  shows "is_token w (key acc)" "data_of w' (key acc) = Raw []"
    "owner_of w' (key acc) = x_system_id X" "lamports_of w' (key acc) = 0"
  using close_account [OF assms [unfolded call_close_def]] by (simp_all add: token_closed_def)

lemma init_token_keeps:
  assumes "call_init_token X acc mnt own w = Inr w'" "k \<noteq> key acc"
  shows "keeps k w w'"
  using initialize_account [OF assms(1) [unfolded call_init_token_def]] assms(2)
  by (intro keepsI) (simp add: token_initialized_def)

lemma init_token_made:
  assumes "call_init_token X acc mnt own w = Inr w'"
  shows "\<exists>bs. data_of w (key acc) = Raw bs" "\<exists>n. token_meta w' (key acc) = Some (key mnt, own, n)"
    "token_delegate w' (key acc) = None" "owner_of w' (key acc) = owner_of w (key acc)"
  using initialize_account [OF assms [unfolded call_init_token_def]] by (auto simp: token_initialized_def)

end

context system_program
begin

lemma pay_keeps: "call_pay X src dst n seeds w = Inr w' \<Longrightarrow> keeps k w w'"
  using transfer_lamports [of _ "key src" "key dst" n seeds w w']
  by (auto simp: call_pay_def keeps_def lamports_transferred_def)

lemma create_keeps:
  assumes "call_create X src acc l space own seeds w = Inr w'" "k \<noteq> key acc"
  shows "keeps k w w'"
proof (cases "k = key src")
  case True
  then show ?thesis
    using create_account [OF assms(1) [unfolded call_create_def]]
    by (simp add: keeps_def account_created_def)
next
  case False
  then show ?thesis
    using create_account [OF assms(1) [unfolded call_create_def]] assms(2)
    by (intro keepsI) (simp add: account_created_def)
qed

lemma create_fresh:
  assumes "call_create X src acc l space own seeds w = Inr w'"
  shows "data_of w (key acc) = Raw []" "lamports_of w (key acc) = 0"
    "data_of w' (key acc) = Raw (replicate space 0)"
proof -
  have "account_created (x_system_id X) (key src) (key acc) l space own w w'"
    using assms unfolding call_create_def by (rule create_account)
  then show "data_of w (key acc) = Raw []" "lamports_of w (key acc) = 0"
    "data_of w' (key acc) = Raw (replicate space 0)"
    by (simp_all add: account_created_def data_of_def)
qed

lemma init_keeps:
  assumes "x_init X payer acc space own seeds w = Inr w'" "k \<noteq> key acc"
  shows "keeps k w w'"
proof (cases "k = key payer")
  case True
  then show ?thesis
    using init_account [OF assms(1)] by (simp add: keeps_def account_initialized_def)
next
  case False
  then show ?thesis
    using init_account [OF assms(1)] assms(2)
    by (intro keepsI) (simp add: account_initialized_def)
qed

lemma init_fresh:
  assumes "x_init X payer acc space own seeds w = Inr w'"
  shows "data_of w (key acc) = Raw []" "data_of w' (key acc) = Raw (replicate space 0)"
    "owner_of w' (key acc) = own"
  using init_account [OF assms] by (simp_all add: account_initialized_def)

end

lemma close_to_Inr [res_simps]:
  "close_to X k dest w = Inr w' \<longleftrightarrow>
     unat (lamports_of w dest) + unat (lamports_of w k) < 2 ^ 64
     \<and> w' = set_owner k (x_system_id X) (set_data k (Raw []) (set_lamports k 0
         (set_lamports dest (lamports_of w dest + lamports_of w k) w)))"
  by (auto simp: close_to_def res_simps checked_simps)

end
