(* ===== verification/RoundContexts.thy ===== *)
theory RoundContexts
  imports Anchor
begin

text \<open>
  The contexts of the round program (the \<open>#[derive(Accounts)]\<close> structs of
  \<open>round/src/lib.rs\<close>) with the constraints of their attributes, and its events
  (\<open>round/src/event.rs\<close>). A context is a record of the accounts passed; its \<open>load_\<close> function
  checks the constraints and returns the typed copies the handler works on.
\<close>

section \<open>Events\<close>

datatype withdraw_reason = UserInitiated | RoundRejectedReason | HeirTimeout

datatype round_event =
    RoundCreatedEvent pubkey round
  | ContributeEvent pubkey pubkey pubkey pubkey u64 bool
  | WithdrawEvent pubkey pubkey pubkey pubkey u64 withdraw_reason
  | BidRejectedEvent pubkey pubkey pubkey pubkey u64
  | RoundAcceptedEvent pubkey pubkey pubkey pubkey u64 u64
  | RoundRejectedEvent pubkey pubkey pubkey pubkey u64
  | RedeemEvent pubkey pubkey pubkey pubkey u64
  | RoundCancelledEvent pubkey pubkey pubkey pubkey u64 u64
  | RoundClosedEvent pubkey round u64

section \<open>Addresses\<close>

definition authority_pda :: "ext \<Rightarrow> pubkey \<Rightarrow> pubkey \<Rightarrow> pubkey" where
  "authority_pda X pid rk = x_pda X [SeedStr ''AUTH'', SeedKey rk] pid"

definition offer_pda :: "ext \<Rightarrow> pubkey \<Rightarrow> pubkey \<Rightarrow> pubkey" where
  "offer_pda X pid rk = x_pda X [SeedStr ''OFFER'', SeedKey rk] pid"

definition bid_pda :: "ext \<Rightarrow> pubkey \<Rightarrow> pubkey \<Rightarrow> pubkey" where
  "bid_pda X pid rk = x_pda X [SeedStr ''BID'', SeedKey rk] pid"

definition voucher_pda :: "ext \<Rightarrow> pubkey \<Rightarrow> pubkey \<Rightarrow> pubkey \<Rightarrow> pubkey" where
  "voucher_pda X pid rk user = x_pda X [SeedStr ''VOUCHER'', SeedKey rk, SeedKey user] pid"

definition offchain_pda :: "ext \<Rightarrow> pubkey \<Rightarrow> pubkey \<Rightarrow> pubkey \<Rightarrow> pubkey" where
  "offchain_pda X pid rk user = x_pda X [SeedStr ''OFFCHAIN_VOUCHER'', SeedKey rk, SeedKey user] pid"

definition authority_seeds :: "pubkey \<Rightarrow> seed list list" where
  "authority_seeds rk = [[SeedStr ''AUTH'', SeedKey rk]]"

section \<open>Contexts\<close>

record create_round_params =
  p_heir :: pubkey
  p_recipient :: pubkey
  p_target_bid :: u64
  p_bidding_start :: i64
  p_bidding_end :: i64

record create_round_accs =
  cr_round :: account_info
  cr_offer_wallet :: account_info
  cr_offer_mint :: account_info
  cr_offer_source_wallet :: account_info
  cr_offer_source_authority :: account_info
  cr_bid_wallet :: account_info
  cr_bid_mint :: account_info
  cr_authority :: account_info
  cr_payer :: account_info
  cr_token_program :: account_info
  cr_system_program :: account_info

text \<open>
  The accounts that exist are loaded and the constraints checked before the \<open>init\<close> accounts are
  created, in the order of the fields.
\<close>

definition load_create_round ::
  "ext \<Rightarrow> pubkey \<Rightarrow> create_round_accs \<Rightarrow> world \<Rightarrow> (token_account \<times> world) res" where
  "load_create_round X pid A w =
     (let rk = key (cr_round A) in
     and_then (load_mint X (key (cr_offer_mint A)) w) (\<lambda>_.
     and_then (load_token X (key (cr_offer_source_wallet A)) w) (\<lambda>source.
     and_then (load_mint X (key (cr_bid_mint A)) w) (\<lambda>_.
     and_then (require (is_signer (cr_round A) \<and> is_signer (cr_offer_source_authority A)
       \<and> is_signer (cr_payer A) \<and> is_writable (cr_payer A) \<and> is_writable (cr_offer_source_wallet A)
       \<and> is_writable (cr_round A) \<and> is_writable (cr_offer_wallet A) \<and> is_writable (cr_bid_wallet A)
       \<and> offer_pda X pid rk = key (cr_offer_wallet A)
       \<and> bid_pda X pid rk = key (cr_bid_wallet A)
       \<and> authority_pda X pid rk = key (cr_authority A)
       \<and> key (cr_token_program A) = x_token_id X \<and> key (cr_system_program A) = x_system_id X)) (\<lambda>_.
     and_then (x_init X (cr_payer A) (cr_round A) (8 + round_init_space) pid [] w) (\<lambda>w.
     and_then (init_token X (cr_payer A) (cr_offer_wallet A) (cr_offer_mint A) (key (cr_authority A))
       [[SeedStr ''OFFER'', SeedKey rk]] w) (\<lambda>w.
     and_then (init_token X (cr_payer A) (cr_bid_wallet A) (cr_bid_mint A) (key (cr_authority A))
       [[SeedStr ''BID'', SeedKey rk]] w) (\<lambda>w.
     Inr (source, w)))))))))"

record contribute_accs =
  ct_round :: account_info
  ct_voucher :: account_info
  ct_user :: account_info
  ct_user_wallet :: account_info
  ct_user_wallet_authority :: account_info
  ct_bid_wallet :: account_info
  ct_payer :: account_info
  ct_token_program :: account_info
  ct_system_program :: account_info

text \<open>
  \<open>init_if_needed\<close>: an account of the system program is created and read as the zero value; an
  existing one is loaded, and its size and rent are checked.
\<close>

definition init_voucher_if_needed ::
  "ext \<Rightarrow> pubkey \<Rightarrow> account_info \<Rightarrow> account_info \<Rightarrow> seed list \<Rightarrow> world \<Rightarrow> (voucher \<times> world) res" where
  "init_voucher_if_needed X pid payer acc seeds w =
     (if owner_of w (key acc) = x_system_id X
      then and_then (x_init X payer acc voucher_space pid [seeds] w) (\<lambda>w. Inr (voucher_default, w))
      else and_then (load_voucher pid (key acc) w) (\<lambda>v.
        and_then (require (data_len X (data_of w (key acc)) = voucher_space
          \<and> rent_exempt X (lamports_of w (key acc)) voucher_space)) (\<lambda>_.
        Inr (v, w))))"

definition load_contribute ::
  "ext \<Rightarrow> pubkey \<Rightarrow> contribute_accs \<Rightarrow> world
    \<Rightarrow> (round \<times> token_account \<times> token_account \<times> voucher \<times> world) res" where
  "load_contribute X pid A w =
     (let rk = key (ct_round A); uk = key (ct_user A) in
     and_then (load_round pid rk w) (\<lambda>r.
     and_then (load_token X (key (ct_user_wallet A)) w) (\<lambda>user_wallet.
     and_then (load_token X (key (ct_bid_wallet A)) w) (\<lambda>bid_wallet.
     and_then (require (is_writable (ct_round A) \<and> is_writable (ct_voucher A)
       \<and> is_signer (ct_user A) \<and> is_writable (ct_user_wallet A)
       \<and> is_signer (ct_user_wallet_authority A) \<and> is_writable (ct_bid_wallet A)
       \<and> is_signer (ct_payer A) \<and> is_writable (ct_payer A)
       \<and> voucher_pda X pid rk uk = key (ct_voucher A)
       \<and> bid_pda X pid rk = key (ct_bid_wallet A)
       \<and> key (ct_token_program A) = x_token_id X \<and> key (ct_system_program A) = x_system_id X)) (\<lambda>_.
     and_then (init_voucher_if_needed X pid (ct_payer A) (ct_voucher A)
       [SeedStr ''VOUCHER'', SeedKey rk, SeedKey uk] w) (\<lambda>(v, w).
     Inr (r, user_wallet, bid_wallet, v, w)))))))"

record record_offchain_accs =
  oc_round :: account_info
  oc_voucher :: account_info
  oc_user :: account_info
  oc_reconciliation_authority :: account_info
  oc_payer :: account_info
  oc_system_program :: account_info

definition load_record_offchain ::
  "ext \<Rightarrow> pubkey \<Rightarrow> record_offchain_accs \<Rightarrow> world \<Rightarrow> (round \<times> voucher \<times> world) res" where
  "load_record_offchain X pid A w =
     (let rk = key (oc_round A); uk = key (oc_user A) in
     and_then (load_round pid rk w) (\<lambda>r.
     and_then (require (is_writable (oc_round A) \<and> is_writable (oc_voucher A)
       \<and> r_reconciliation_authority r = key (oc_reconciliation_authority A)
       \<and> is_signer (oc_reconciliation_authority A)
       \<and> is_signer (oc_payer A) \<and> is_writable (oc_payer A)
       \<and> offchain_pda X pid rk uk = key (oc_voucher A)
       \<and> key (oc_system_program A) = x_system_id X)) (\<lambda>_.
     and_then (init_voucher_if_needed X pid (oc_payer A) (oc_voucher A)
       [SeedStr ''OFFCHAIN_VOUCHER'', SeedKey rk, SeedKey uk] w) (\<lambda>(v, w).
     Inr (r, v, w)))))"

record withdraw_accs =
  wd_round :: account_info
  wd_voucher :: account_info
  wd_user :: account_info
  wd_user_wallet :: account_info
  wd_bid_wallet :: account_info
  wd_authority :: account_info
  wd_wsol_mint :: account_info
  wd_payer :: account_info
  wd_current_payer :: account_info
  wd_token_program :: account_info
  wd_system_program :: account_info

definition load_withdraw ::
  "ext \<Rightarrow> pubkey \<Rightarrow> withdraw_accs \<Rightarrow> world \<Rightarrow> (round \<times> voucher \<times> token_account) res" where
  "load_withdraw X pid A w =
     (let rk = key (wd_round A); uk = key (wd_user A) in
     and_then (load_round pid rk w) (\<lambda>r.
     and_then (load_voucher pid (key (wd_voucher A)) w) (\<lambda>v.
     and_then (load_token X (key (wd_bid_wallet A)) w) (\<lambda>bid_wallet.
     and_then (load_mint X (key (wd_wsol_mint A)) w) (\<lambda>_.
     and_then (require (is_writable (wd_round A) \<and> is_writable (wd_voucher A)
       \<and> is_writable (wd_user A) \<and> is_writable (wd_user_wallet A) \<and> is_writable (wd_bid_wallet A)
       \<and> is_writable (wd_authority A) \<and> is_writable (wd_payer A)
       \<and> is_signer (wd_current_payer A) \<and> is_writable (wd_current_payer A)
       \<and> voucher_pda X pid rk uk = key (wd_voucher A)
       \<and> v_user v = uk \<and> v_payer v = key (wd_payer A) \<and> key (wd_voucher A) \<noteq> key (wd_payer A)
       \<and> key (wd_user_wallet A) = x_ata X uk (t_mint bid_wallet)
       \<and> bid_pda X pid rk = key (wd_bid_wallet A)
       \<and> authority_pda X pid rk = key (wd_authority A)
       \<and> key (wd_wsol_mint A) = x_native_mint X
       \<and> key (wd_token_program A) = x_token_id X \<and> key (wd_system_program A) = x_system_id X)) (\<lambda>_.
     Inr (r, v, bid_wallet)))))))"

record reject_bid_accs =
  rb_round :: account_info
  rb_voucher :: account_info
  rb_heir :: account_info
  rb_user :: account_info
  rb_user_wallet :: account_info
  rb_bid_wallet :: account_info
  rb_authority :: account_info
  rb_wsol_mint :: account_info
  rb_payer :: account_info
  rb_current_payer :: account_info
  rb_token_program :: account_info
  rb_system_program :: account_info

definition to_withdraw_ctx :: "reject_bid_accs \<Rightarrow> withdraw_accs" where
  "to_withdraw_ctx A =
    \<lparr>wd_round = rb_round A, wd_voucher = rb_voucher A, wd_user = rb_user A,
     wd_user_wallet = rb_user_wallet A, wd_bid_wallet = rb_bid_wallet A,
     wd_authority = rb_authority A, wd_wsol_mint = rb_wsol_mint A, wd_payer = rb_payer A,
     wd_current_payer = rb_current_payer A, wd_token_program = rb_token_program A,
     wd_system_program = rb_system_program A\<rparr>"

definition load_reject_bid ::
  "ext \<Rightarrow> pubkey \<Rightarrow> reject_bid_accs \<Rightarrow> world \<Rightarrow> (round \<times> voucher \<times> token_account) res" where
  "load_reject_bid X pid A w =
     (let rk = key (rb_round A); uk = key (rb_user A) in
     and_then (load_round pid rk w) (\<lambda>r.
     and_then (load_voucher pid (key (rb_voucher A)) w) (\<lambda>v.
     and_then (load_token X (key (rb_bid_wallet A)) w) (\<lambda>bid_wallet.
     and_then (load_mint X (key (rb_wsol_mint A)) w) (\<lambda>_.
     and_then (require (is_writable (rb_round A) \<and> r_heir r = key (rb_heir A) \<and> is_signer (rb_heir A)
       \<and> is_writable (rb_voucher A)
       \<and> is_writable (rb_user A) \<and> is_writable (rb_user_wallet A) \<and> is_writable (rb_bid_wallet A)
       \<and> is_writable (rb_authority A) \<and> is_writable (rb_payer A)
       \<and> is_signer (rb_current_payer A) \<and> is_writable (rb_current_payer A)
       \<and> voucher_pda X pid rk uk = key (rb_voucher A)
       \<and> v_user v = uk \<and> v_payer v = key (rb_payer A) \<and> key (rb_voucher A) \<noteq> key (rb_payer A)
       \<and> key (rb_user_wallet A) = x_ata X uk (t_mint bid_wallet)
       \<and> bid_pda X pid rk = key (rb_bid_wallet A)
       \<and> authority_pda X pid rk = key (rb_authority A)
       \<and> key (rb_wsol_mint A) = x_native_mint X
       \<and> key (rb_token_program A) = x_token_id X \<and> key (rb_system_program A) = x_system_id X)) (\<lambda>_.
     Inr (r, v, bid_wallet)))))))"

record accept_accs =
  ac_round :: account_info
  ac_heir :: account_info
  ac_offer_wallet :: account_info
  ac_bid_wallet :: account_info
  ac_recipient :: account_info
  ac_authority :: account_info
  ac_payer :: account_info
  ac_token_program :: account_info
  ac_system_program :: account_info

definition load_accept ::
  "ext \<Rightarrow> pubkey \<Rightarrow> accept_accs \<Rightarrow> world \<Rightarrow> (round \<times> token_account \<times> token_account) res" where
  "load_accept X pid A w =
     (let rk = key (ac_round A) in
     and_then (load_round pid rk w) (\<lambda>r.
     and_then (load_token X (key (ac_offer_wallet A)) w) (\<lambda>offer_wallet.
     and_then (load_token X (key (ac_bid_wallet A)) w) (\<lambda>bid_wallet.
     and_then (require (is_writable (ac_round A) \<and> r_heir r = key (ac_heir A)
       \<and> r_recipient r = key (ac_recipient A) \<and> is_signer (ac_heir A)
       \<and> is_writable (ac_offer_wallet A) \<and> is_writable (ac_bid_wallet A)
       \<and> is_writable (ac_recipient A) \<and> is_writable (ac_authority A) \<and> is_writable (ac_payer A)
       \<and> offer_pda X pid rk = key (ac_offer_wallet A)
       \<and> bid_pda X pid rk = key (ac_bid_wallet A)
       \<and> authority_pda X pid rk = key (ac_authority A)
       \<and> key (ac_token_program A) = x_token_id X \<and> key (ac_system_program A) = x_system_id X)) (\<lambda>_.
     Inr (r, offer_wallet, bid_wallet))))))"

record reject_accs =
  rj_round :: account_info
  rj_heir :: account_info
  rj_offer_wallet :: account_info
  rj_return_wallet :: account_info
  rj_authority :: account_info
  rj_payer :: account_info
  rj_token_program :: account_info
  rj_system_program :: account_info

definition load_reject ::
  "ext \<Rightarrow> pubkey \<Rightarrow> reject_accs \<Rightarrow> world \<Rightarrow> (round \<times> token_account) res" where
  "load_reject X pid A w =
     (let rk = key (rj_round A) in
     and_then (load_round pid rk w) (\<lambda>r.
     and_then (load_token X (key (rj_offer_wallet A)) w) (\<lambda>offer_wallet.
     and_then (load_token X (key (rj_return_wallet A)) w) (\<lambda>_.
     and_then (require (is_writable (rj_round A) \<and> r_heir r = key (rj_heir A)
       \<and> r_payer r = key (rj_payer A) \<and> r_return_wallet r = key (rj_return_wallet A)
       \<and> is_signer (rj_heir A) \<and> is_writable (rj_offer_wallet A) \<and> is_writable (rj_return_wallet A)
       \<and> is_writable (rj_authority A) \<and> is_writable (rj_payer A)
       \<and> offer_pda X pid rk = key (rj_offer_wallet A)
       \<and> authority_pda X pid rk = key (rj_authority A)
       \<and> key (rj_token_program A) = x_token_id X \<and> key (rj_system_program A) = x_system_id X)) (\<lambda>_.
     Inr (r, offer_wallet))))))"

record redeem_accs =
  re_round :: account_info
  re_voucher :: account_info
  re_user :: account_info
  re_user_wallet :: account_info
  re_offer_wallet :: account_info
  re_authority :: account_info
  re_payer :: account_info
  re_token_program :: account_info
  re_system_program :: account_info

definition load_redeem ::
  "ext \<Rightarrow> pubkey \<Rightarrow> redeem_accs \<Rightarrow> world \<Rightarrow> (round \<times> voucher) res" where
  "load_redeem X pid A w =
     (let rk = key (re_round A) in
     and_then (load_round pid rk w) (\<lambda>r.
     and_then (load_voucher pid (key (re_voucher A)) w) (\<lambda>v.
     and_then (load_token X (key (re_user_wallet A)) w) (\<lambda>_.
     and_then (load_token X (key (re_offer_wallet A)) w) (\<lambda>_.
     and_then (require (is_writable (re_round A) \<and> is_writable (re_voucher A)
       \<and> is_signer (re_user A) \<and> is_writable (re_user_wallet A) \<and> is_writable (re_offer_wallet A)
       \<and> is_writable (re_payer A)
       \<and> voucher_pda X pid rk (key (re_user A)) = key (re_voucher A)
       \<and> v_payer v = key (re_payer A) \<and> key (re_voucher A) \<noteq> key (re_payer A)
       \<and> offer_pda X pid rk = key (re_offer_wallet A)
       \<and> authority_pda X pid rk = key (re_authority A)
       \<and> key (re_token_program A) = x_token_id X \<and> key (re_system_program A) = x_system_id X)) (\<lambda>_.
     Inr (r, v)))))))"

record cancel_accs =
  ca_round :: account_info
  ca_heir :: account_info
  ca_return_wallet :: account_info
  ca_offer_wallet :: account_info
  ca_bid_wallet :: account_info
  ca_authority :: account_info
  ca_payer :: account_info
  ca_token_program :: account_info
  ca_system_program :: account_info

definition load_cancel ::
  "ext \<Rightarrow> pubkey \<Rightarrow> cancel_accs \<Rightarrow> world \<Rightarrow> (round \<times> token_account \<times> token_account) res" where
  "load_cancel X pid A w =
     (let rk = key (ca_round A) in
     and_then (load_round pid rk w) (\<lambda>r.
     and_then (load_token X (key (ca_return_wallet A)) w) (\<lambda>_.
     and_then (load_token X (key (ca_offer_wallet A)) w) (\<lambda>offer_wallet.
     and_then (load_token X (key (ca_bid_wallet A)) w) (\<lambda>bid_wallet.
     and_then (require (is_writable (ca_round A) \<and> r_heir r = key (ca_heir A)
       \<and> r_payer r = key (ca_payer A) \<and> r_return_wallet r = key (ca_return_wallet A)
       \<and> rk \<noteq> key (ca_payer A) \<and> is_signer (ca_heir A)
       \<and> is_writable (ca_return_wallet A) \<and> is_writable (ca_offer_wallet A)
       \<and> is_writable (ca_bid_wallet A) \<and> is_writable (ca_payer A)
       \<and> offer_pda X pid rk = key (ca_offer_wallet A)
       \<and> bid_pda X pid rk = key (ca_bid_wallet A)
       \<and> authority_pda X pid rk = key (ca_authority A)
       \<and> key (ca_token_program A) = x_token_id X \<and> key (ca_system_program A) = x_system_id X)) (\<lambda>_.
     Inr (r, offer_wallet, bid_wallet)))))))"

record close_accs =
  cl_round :: account_info
  cl_return_wallet :: account_info
  cl_offer_wallet :: account_info
  cl_bid_wallet :: account_info
  cl_authority :: account_info
  cl_payer :: account_info
  cl_token_program :: account_info
  cl_system_program :: account_info

definition load_close ::
  "ext \<Rightarrow> pubkey \<Rightarrow> close_accs \<Rightarrow> world \<Rightarrow> (round \<times> token_account) res" where
  "load_close X pid A w =
     (let rk = key (cl_round A) in
     and_then (load_round pid rk w) (\<lambda>r.
     and_then (load_token X (key (cl_return_wallet A)) w) (\<lambda>_.
     and_then (load_token X (key (cl_offer_wallet A)) w) (\<lambda>offer_wallet.
     and_then (require (is_writable (cl_round A)
       \<and> r_payer r = key (cl_payer A) \<and> r_return_wallet r = key (cl_return_wallet A)
       \<and> rk \<noteq> key (cl_payer A)
       \<and> is_writable (cl_return_wallet A) \<and> is_writable (cl_offer_wallet A)
       \<and> is_writable (cl_bid_wallet A) \<and> is_writable (cl_payer A)
       \<and> offer_pda X pid rk = key (cl_offer_wallet A)
       \<and> bid_pda X pid rk = key (cl_bid_wallet A)
       \<and> authority_pda X pid rk = key (cl_authority A)
       \<and> key (cl_token_program A) = x_token_id X \<and> key (cl_system_program A) = x_system_id X)) (\<lambda>_.
     Inr (r, offer_wallet))))))"

record finish_accs =
  fr_round :: account_info
  fr_reconciliation_authority :: account_info

definition load_finish :: "pubkey \<Rightarrow> finish_accs \<Rightarrow> world \<Rightarrow> round res" where
  "load_finish pid A w =
     and_then (load_round pid (key (fr_round A)) w) (\<lambda>r.
     and_then (require (is_writable (fr_round A)
       \<and> r_reconciliation_authority r = key (fr_reconciliation_authority A)
       \<and> is_signer (fr_reconciliation_authority A))) (\<lambda>_. Inr r))"

record migrate_accs =
  mg_round :: account_info

definition load_migrate :: "pubkey \<Rightarrow> migrate_accs \<Rightarrow> world \<Rightarrow> round res" where
  "load_migrate pid A w =
     and_then (load_round pid (key (mg_round A)) w) (\<lambda>r.
     and_then (require (is_writable (mg_round A))) (\<lambda>_. Inr r))"

text \<open>What a context that loads has checked.\<close>

lemmas load_simps =
  load_contribute_def load_record_offchain_def load_withdraw_def load_reject_bid_def
  load_accept_def load_reject_def load_redeem_def load_cancel_def load_close_def
  load_finish_def load_migrate_def Let_def res_simps

lemma init_voucher_if_needed_iff:
  "init_voucher_if_needed X pid payer acc seeds w = Inr (v, w') \<longleftrightarrow>
     (owner_of w (key acc) = x_system_id X \<and> v = voucher_default
        \<and> x_init X payer acc voucher_space pid [seeds] w = Inr w')
     \<or> (owner_of w (key acc) \<noteq> x_system_id X \<and> w' = w \<and> data_of w (key acc) = VoucherData v
        \<and> owner_of w (key acc) = pid \<and> data_len X (VoucherData v) = voucher_space
        \<and> rent_exempt X (lamports_of w (key acc)) voucher_space)"
  by (auto simp: init_voucher_if_needed_def res_simps)

end
