(* ===== verification/Round.thy ===== *)
theory Round
  imports RoundContexts
begin

text \<open>
  The instructions of the round program (\<open>round/src/lib.rs\<close>). Each handler loads its context,
  runs its guard of \<open>RoundState\<close>, moves tokens by calls of the token and system programs, and
  writes the round and the voucher back; it returns the events it emits and the new world.
\<close>

type_synonym outcome = "(round_event list \<times> world) res"

section \<open>Creating a round and bidding\<close>

definition create_round ::
  "ext \<Rightarrow> pubkey \<Rightarrow> create_round_accs \<Rightarrow> create_round_params \<Rightarrow> world \<Rightarrow> outcome" where
  "create_round X pid A params w =
     and_then (load_create_round X pid A w) (\<lambda>(source, w).
     let offer_amount = t_delegated_amount source in
     and_then (ensure (\<not> (t_delegate source = None \<or> unat offer_amount = 0))
       (Round_Error NoDelegatedAmount)) (\<lambda>_.
     and_then (ensure (\<not> sint (p_bidding_end params) \<le> sint (p_bidding_start params))
       (Round_Error SuspiciousOfferInterval)) (\<lambda>_.
     and_then (call_transfer X (cr_offer_source_wallet A) (cr_offer_wallet A)
       (cr_offer_source_authority A) offer_amount [] w) (\<lambda>w.
     let r = round_default\<lparr>r_status := Pending, r_created_at := x_now X,
         r_bid_mint := key (cr_bid_mint A), r_offer_mint := key (cr_offer_mint A),
         r_bidding_start := p_bidding_start params, r_bidding_end := p_bidding_end params,
         r_heir := p_heir params, r_recipient := p_recipient params, r_payer := key (cr_payer A),
         r_vouchers_count := 0, r_total_bid := None, r_total_offer := Some offer_amount,
         r_target_bid := p_target_bid params, r_return_wallet := key (cr_offer_source_wallet A)\<rparr>
     in Inr ([RoundCreatedEvent (key (cr_round A)) r], set_data (key (cr_round A)) (RoundData r) w)))))"

text \<open>
  The amount of the voucher grows with every contribution; only the first one records the payer,
  the round and the user, and counts the voucher.
\<close>

definition first_time_init ::
  "pubkey \<Rightarrow> pubkey \<Rightarrow> pubkey \<Rightarrow> round \<Rightarrow> voucher \<Rightarrow> (round \<times> voucher) res" where
  "first_time_init payer rk user r v =
     (if v_payer v \<noteq> 0 then Inr (r, v)
      else and_then (ok_or (Round_Error RoundOverflow) (checked_add (r_vouchers_count r) 1)) (\<lambda>n.
        Inr (r\<lparr>r_vouchers_count := n\<rparr>, v\<lparr>v_payer := payer, v_round := rk, v_user := user\<rparr>)))"

definition contribute :: "ext \<Rightarrow> pubkey \<Rightarrow> contribute_accs \<Rightarrow> world \<Rightarrow> outcome" where
  "contribute X pid A w =
     and_then (load_contribute X pid A w) (\<lambda>(r, user_wallet, bid_wallet, v, w).
     let rk = key (ct_round A); vk = key (ct_voucher A) in
     and_then (assert_can_contribute r (x_now X)) (\<lambda>_.
     let amount_to_deposit = t_delegated_amount user_wallet in
     and_then (ensure (\<not> (t_delegate user_wallet = None \<or> unat amount_to_deposit = 0))
       (Round_Error NoDelegatedAmount)) (\<lambda>_.
     and_then (call_transfer X (ct_user_wallet A) (ct_bid_wallet A) (ct_user_wallet_authority A)
       amount_to_deposit [] w) (\<lambda>w.
     and_then (ok_or (Round_Error RoundOverflow)
       (checked_add (v_amount_contributed v) amount_to_deposit)) (\<lambda>amount.
     let ev = ContributeEvent rk (key (ct_user A)) (r_bid_mint r) (r_offer_mint r) amount_to_deposit False in
     and_then (first_time_init (key (ct_payer A)) rk (key (ct_user A)) r
       (v\<lparr>v_amount_contributed := amount\<rparr>)) (\<lambda>(r, v).
     Inr ([ev], set_data vk (VoucherData v) (set_data rk (RoundData r) w))))))))"

section \<open>Refunds\<close>

text \<open>
  A wrapped SOL bid goes through a temporary account at the address of the authority: created and
  initialised, filled from the bid wallet, closed to the current payer, who pays the user.
\<close>

definition refund_bid_to_recipient ::
  "ext \<Rightarrow> withdraw_accs \<Rightarrow> voucher \<Rightarrow> token_account \<Rightarrow> world \<Rightarrow> world res" where
  "refund_bid_to_recipient X A v bid_wallet w =
     (let seeds = authority_seeds (key (wd_round A)) in
      if t_is_native bid_wallet = None
      then call_transfer X (wd_bid_wallet A) (wd_user_wallet A) (wd_authority A)
        (v_amount_contributed v) seeds w
      else
        and_then (call_create X (wd_current_payer A) (wd_authority A) (x_rent X 165) 165
          (x_token_id X) seeds w) (\<lambda>w.
        and_then (call_init_token X (wd_authority A) (wd_wsol_mint A) (key (wd_authority A)) w) (\<lambda>w.
        and_then (call_transfer X (wd_bid_wallet A) (wd_authority A) (wd_authority A)
          (v_amount_contributed v) seeds w) (\<lambda>w.
        and_then (call_close X (wd_authority A) (wd_current_payer A) (wd_authority A) seeds w) (\<lambda>w.
        call_pay X (wd_current_payer A) (wd_user A) (v_amount_contributed v) seeds w)))))"

text \<open>The reason is \<open>unreachable!\<close> for the other statuses.\<close>

definition withdraw_reason_of :: "round \<Rightarrow> bool \<Rightarrow> withdraw_reason res" where
  "withdraw_reason_of r user_is_signer =
     (case r_status r of
        Pending \<Rightarrow> Inr (if user_is_signer then UserInitiated else HeirTimeout)
      | Rejected \<Rightarrow> Inr RoundRejectedReason
      | _ \<Rightarrow> Inl Panic)"

definition withdraw :: "ext \<Rightarrow> pubkey \<Rightarrow> withdraw_accs \<Rightarrow> world \<Rightarrow> outcome" where
  "withdraw X pid A w =
     and_then (load_withdraw X pid A w) (\<lambda>(r, v, bid_wallet).
     let rk = key (wd_round A) in
     and_then (assert_can_withdraw r (x_now X) (is_signer (wd_user A))) (\<lambda>_.
     and_then (refund_bid_to_recipient X A v bid_wallet w) (\<lambda>w.
     let contributed = v_amount_contributed v in
     and_then (ok_or (Round_Error RoundOverflow) (checked_sub (r_vouchers_count r) 1)) (\<lambda>n.
     and_then (withdraw_reason_of r (is_signer (wd_user A))) (\<lambda>reason.
     and_then (close_to X (key (wd_voucher A)) (key (wd_payer A))
       (set_data rk (RoundData (r\<lparr>r_vouchers_count := n\<rparr>)) w)) (\<lambda>w.
     Inr ([WithdrawEvent rk (key (wd_user A)) (r_bid_mint r) (r_offer_mint r) contributed reason], w)))))))"

definition reject_bid :: "ext \<Rightarrow> pubkey \<Rightarrow> reject_bid_accs \<Rightarrow> world \<Rightarrow> outcome" where
  "reject_bid X pid A w =
     and_then (load_reject_bid X pid A w) (\<lambda>(r, v, bid_wallet).
     let rk = key (rb_round A) in
     and_then (assert_can_reject_bid r (x_now X)) (\<lambda>_.
     and_then (refund_bid_to_recipient X (to_withdraw_ctx A) v bid_wallet w) (\<lambda>w.
     and_then (ok_or (Round_Error RoundOverflow) (checked_sub (r_vouchers_count r) 1)) (\<lambda>n.
     and_then (close_to X (key (rb_voucher A)) (key (rb_payer A))
       (set_data rk (RoundData (r\<lparr>r_vouchers_count := n\<rparr>)) w)) (\<lambda>w.
     Inr ([BidRejectedEvent rk (key (rb_user A)) (r_bid_mint r) (r_offer_mint r) (t_amount bid_wallet)], w))))))"

section \<open>The decision of the heir\<close>

text \<open>
  A wrapped SOL wallet is closed to the authority, which pays its balance to the recipient and its
  rent to the payer; another token is sent to the recipient and the wallet stays.
\<close>

definition transfer_bid_to_recipient ::
  "ext \<Rightarrow> accept_accs \<Rightarrow> token_account \<Rightarrow> world \<Rightarrow> world res" where
  "transfer_bid_to_recipient X A bid_wallet w =
     (let seeds = authority_seeds (key (ac_round A)) in
      case t_is_native bid_wallet of
        Some rent \<Rightarrow>
          and_then (call_close X (ac_bid_wallet A) (ac_authority A) (ac_authority A) seeds w) (\<lambda>w.
          and_then (call_pay X (ac_authority A) (ac_recipient A) (t_amount bid_wallet) seeds w) (\<lambda>w.
          call_pay X (ac_authority A) (ac_payer A) rent seeds w))
      | None \<Rightarrow> call_transfer X (ac_bid_wallet A) (ac_recipient A) (ac_authority A)
          (t_amount bid_wallet) seeds w)"

definition accept :: "ext \<Rightarrow> pubkey \<Rightarrow> accept_accs \<Rightarrow> pubkey option \<Rightarrow> world \<Rightarrow> outcome" where
  "accept X pid A reconciliation_authority w =
     and_then (load_accept X pid A w) (\<lambda>(r, offer_wallet, bid_wallet).
     let rk = key (ac_round A) in
     and_then (assert_can_accept_or_reject r (x_now X)) (\<lambda>_.
     let r = r\<lparr>r_total_bid := Some (t_amount bid_wallet), r_total_offer := Some (t_amount offer_wallet)\<rparr> in
     and_then (transfer_bid_to_recipient X A bid_wallet w) (\<lambda>w.
     case reconciliation_authority of
       Some auth \<Rightarrow> Inr ([], set_data rk
         (RoundData (r\<lparr>r_status := Reconciliation, r_reconciliation_authority := auth\<rparr>)) w)
     | None \<Rightarrow>
         let r = r\<lparr>r_status := Accepted\<rparr> in
         and_then (unwrap (r_total_bid r)) (\<lambda>tb.
         and_then (unwrap (r_total_offer r)) (\<lambda>to.
         Inr ([RoundAcceptedEvent rk (key (ac_heir A)) (r_bid_mint r) (r_offer_mint r) tb to],
           set_data rk (RoundData r) w))))))"

definition transfer_offer_back_to_heir ::
  "ext \<Rightarrow> reject_accs \<Rightarrow> token_account \<Rightarrow> world \<Rightarrow> world res" where
  "transfer_offer_back_to_heir X A offer_wallet w =
     call_transfer X (rj_offer_wallet A) (rj_return_wallet A) (rj_authority A) (t_amount offer_wallet)
       (authority_seeds (key (rj_round A))) w"

definition reject :: "ext \<Rightarrow> pubkey \<Rightarrow> reject_accs \<Rightarrow> world \<Rightarrow> outcome" where
  "reject X pid A w =
     and_then (load_reject X pid A w) (\<lambda>(r, offer_wallet).
     let rk = key (rj_round A) in
     and_then (assert_can_accept_or_reject r (x_now X)) (\<lambda>_.
     and_then (transfer_offer_back_to_heir X A offer_wallet w) (\<lambda>w.
     Inr ([RoundRejectedEvent rk (key (rj_heir A)) (r_bid_mint r) (r_offer_mint r) (t_amount offer_wallet)],
       set_data rk (RoundData (r\<lparr>r_status := Rejected\<rparr>)) w))))"

section \<open>Reconciliation\<close>

text \<open>A voucher that has a payer is left as it is.\<close>

definition offchain_voucher ::
  "pubkey \<Rightarrow> pubkey \<Rightarrow> pubkey \<Rightarrow> u64 \<Rightarrow> round \<Rightarrow> voucher \<Rightarrow> (round \<times> voucher) res" where
  "offchain_voucher payer rk user amount_lamports r v =
     (if v_payer v \<noteq> 0 then Inr (r, v)
      else and_then (ok_or (Round_Error RoundOverflow) (checked_add (r_vouchers_count r) 1)) (\<lambda>n.
        Inr (r\<lparr>r_vouchers_count := n\<rparr>,
          \<lparr>v_user = user, v_round = rk, v_payer = payer, v_amount_contributed = amount_lamports,
           v_is_fiat = True, v_reserved1 = replicate 31 0, v_reserved2 = 0, v_reserved3 = 0\<rparr>)))"

definition record_offchain_contribution ::
  "ext \<Rightarrow> pubkey \<Rightarrow> record_offchain_accs \<Rightarrow> u64 \<Rightarrow> world \<Rightarrow> outcome" where
  "record_offchain_contribution X pid A amount_lamports w =
     and_then (load_record_offchain X pid A w) (\<lambda>(r, v, w).
     let rk = key (oc_round A) in
     and_then (assert_can_contribute_offchain r) (\<lambda>_.
     let ev = ContributeEvent rk (key (oc_user A)) (r_bid_mint r) (r_offer_mint r) amount_lamports True in
     and_then (offchain_voucher (key (oc_payer A)) rk (key (oc_user A)) amount_lamports r v) (\<lambda>(r, v).
     Inr ([ev], set_data (key (oc_voucher A)) (VoucherData v) (set_data rk (RoundData r) w)))))"

definition finish_reconciliation :: "ext \<Rightarrow> pubkey \<Rightarrow> finish_accs \<Rightarrow> world \<Rightarrow> outcome" where
  "finish_reconciliation X pid A w =
     and_then (load_finish pid A w) (\<lambda>r.
     let rk = key (fr_round A) in
     and_then (assert_can_finish_reconciliation r) (\<lambda>_.
     let r = r\<lparr>r_status := Accepted\<rparr> in
     and_then (unwrap (r_total_bid r)) (\<lambda>tb.
     and_then (unwrap (r_total_offer r)) (\<lambda>to.
     Inr ([RoundAcceptedEvent rk (r_heir r) (r_bid_mint r) (r_offer_mint r) tb to],
       set_data rk (RoundData r) w)))))"

section \<open>Redeeming\<close>

definition transfer_to_user :: "ext \<Rightarrow> redeem_accs \<Rightarrow> u64 \<Rightarrow> world \<Rightarrow> world res" where
  "transfer_to_user X A amount w =
     call_transfer X (re_offer_wallet A) (re_user_wallet A) (re_authority A) amount
       (authority_seeds (key (re_round A))) w"

definition redeem :: "'n precise \<Rightarrow> ext \<Rightarrow> pubkey \<Rightarrow> redeem_accs \<Rightarrow> world \<Rightarrow> outcome" where
  "redeem P X pid A w =
     and_then (load_redeem X pid A w) (\<lambda>(r, v).
     let rk = key (re_round A) in
     and_then (assert_can_redeem r) (\<lambda>_.
     and_then (if r_target_bid r \<noteq> 0 then Inr (r_target_bid r) else unwrap (r_total_bid r)) (\<lambda>target.
     and_then (unwrap (r_total_bid r)) (\<lambda>total_bid.
     and_then (unwrap (r_total_offer r)) (\<lambda>total_offer.
     and_then (ok_or (Round_Error RoundOverflow)
       (calculate_redeem_amount P target total_bid (v_amount_contributed v) total_offer)) (\<lambda>amount.
     and_then (ok_or (Round_Error RoundOverflow) (checked_sub (r_vouchers_count r) 1)) (\<lambda>n.
     and_then (transfer_to_user X A amount w) (\<lambda>w.
     and_then (close_to X (key (re_voucher A)) (key (re_payer A))
       (set_data rk (RoundData (r\<lparr>r_vouchers_count := n\<rparr>)) w)) (\<lambda>w.
     Inr ([RedeemEvent rk (key (re_user A)) (r_bid_mint r) (r_offer_mint r) amount], w))))))))))"

section \<open>The end of a round\<close>

definition cancel :: "ext \<Rightarrow> pubkey \<Rightarrow> cancel_accs \<Rightarrow> world \<Rightarrow> outcome" where
  "cancel X pid A w =
     and_then (load_cancel X pid A w) (\<lambda>(r, offer_wallet, bid_wallet).
     let rk = key (ca_round A); seeds = authority_seeds rk in
     and_then (assert_can_cancel r (x_now X)) (\<lambda>_.
     and_then (assert_that (r_vouchers_count r = 0)) (\<lambda>_.
     and_then (call_transfer X (ca_offer_wallet A) (ca_return_wallet A) (ca_authority A)
       (t_amount offer_wallet) seeds w) (\<lambda>w.
     and_then (call_close X (ca_offer_wallet A) (ca_payer A) (ca_authority A) seeds w) (\<lambda>w.
     and_then (call_close X (ca_bid_wallet A) (ca_payer A) (ca_authority A) seeds w) (\<lambda>w.
     and_then (close_to X rk (key (ca_payer A)) w) (\<lambda>w.
     Inr ([RoundCancelledEvent rk (key (ca_heir A)) (r_bid_mint r) (r_offer_mint r)
       (t_amount bid_wallet) (t_amount offer_wallet)], w))))))))"

text \<open>The bid wallet is closed only while the token program still owns it.\<close>

definition close :: "ext \<Rightarrow> pubkey \<Rightarrow> close_accs \<Rightarrow> world \<Rightarrow> outcome" where
  "close X pid A w =
     and_then (load_close X pid A w) (\<lambda>(r, offer_wallet).
     let rk = key (cl_round A); seeds = authority_seeds rk in
     and_then (assert_can_close r (x_now X)) (\<lambda>_.
     and_then (call_transfer X (cl_offer_wallet A) (cl_return_wallet A) (cl_authority A)
       (t_amount offer_wallet) seeds w) (\<lambda>w.
     and_then (call_close X (cl_offer_wallet A) (cl_payer A) (cl_authority A) seeds w) (\<lambda>w.
     and_then (if owner_of w (key (cl_bid_wallet A)) = x_token_id X
       then call_close X (cl_bid_wallet A) (cl_payer A) (cl_authority A) seeds w else Inr w) (\<lambda>w.
     and_then (close_to X rk (key (cl_payer A)) w) (\<lambda>w.
     Inr ([RoundClosedEvent rk r (t_amount offer_wallet)], w)))))))"

definition migrate :: "ext \<Rightarrow> pubkey \<Rightarrow> migrate_accs \<Rightarrow> world \<Rightarrow> outcome" where
  "migrate X pid A w =
     and_then (load_migrate pid A w) (\<lambda>r.
     let r = (if r_return_wallet r = 0
       then r\<lparr>r_return_wallet := x_ata X (r_heir r) (r_offer_mint r)\<rparr> else r)
     in Inr ([], set_data (key (mg_round A)) (RoundData r) w))"

end
