(* ===== verification/Holdings.thy ===== *)
theory Holdings
  imports Prelude
begin

text \<open>
  Amounts held per address: a partial map from addresses, its domain (finite, since addresses
  are), and the sum of the amounts. The ledgers of the round and of the royalty program use them.
\<close>

definition owed :: "(pubkey \<Rightarrow> nat option) \<Rightarrow> nat" where
  "owed vs = (\<Sum>k \<in> dom vs. the (vs k))"

lemma finite_dom_pubkey [simp]: "finite (dom (m :: pubkey \<Rightarrow> 'a option))"
  by (rule finite_subset [OF subset_UNIV]) simp

lemma owed_update:
  "vs k = None \<Longrightarrow> owed (vs(k \<mapsto> a)) = owed vs + a"
  "vs k = Some old \<Longrightarrow> owed (vs(k \<mapsto> a)) + old = owed vs + a"
  "vs k = Some old \<Longrightarrow> owed (vs(k := None)) + old = owed vs"
proof -
  have rest: "(\<Sum>j \<in> dom vs - {k}. the ((vs(k := x)) j)) = (\<Sum>j \<in> dom vs - {k}. the (vs j))" for x
    by (rule sum.cong) simp_all
  show "owed (vs(k \<mapsto> a)) = owed vs + a" if "vs k = None"
    using rest [of "Some a"] that
    by (simp add: owed_def sum.insert_remove fun_upd_same domIff del: fun_upd_apply)
  show "owed (vs(k \<mapsto> a)) + old = owed vs + a" if "vs k = Some old"
    using rest [of "Some a"] sum.remove [of "dom vs" k "\<lambda>j. the (vs j)"] that
    by (simp add: owed_def sum.insert_remove fun_upd_same domIff del: fun_upd_apply)
  show "owed (vs(k := None)) + old = owed vs" if "vs k = Some old"
    using rest [of None] sum.remove [of "dom vs" k "\<lambda>j. the (vs j)"] that
    by (simp add: owed_def domIff del: fun_upd_apply)
qed

lemma card_update:
  "vs k = None \<Longrightarrow> card (dom (vs(k \<mapsto> a))) = Suc (card (dom vs))"
  "vs k = Some old \<Longrightarrow> card (dom (vs(k \<mapsto> a))) = card (dom vs)"
  "vs k = Some old \<Longrightarrow> Suc (card (dom (vs(k := None)))) = card (dom vs)" for vs :: "pubkey \<Rightarrow> 'a option"
proof -
  show "vs k = None \<Longrightarrow> card (dom (vs(k \<mapsto> a))) = Suc (card (dom vs))"
    by (simp add: domIff card_insert_disjoint)
  assume k: "vs k = Some old"
  then have "k \<in> dom vs"
    by blast
  then show "card (dom (vs(k \<mapsto> a))) = card (dom vs)" "Suc (card (dom (vs(k := None)))) = card (dom vs)"
    using card_Suc_Diff1 [of "dom vs" k] by (simp_all add: insert_absorb del: card_Diff_singleton)
qed

text \<open>Raising the entries of a set of addresses.\<close>

definition bump :: "pubkey set \<Rightarrow> (pubkey \<Rightarrow> nat option) \<Rightarrow> pubkey \<Rightarrow> nat option" where
  "bump A m k = (if k \<in> A then map_option Suc (m k) else m k)"

lemma dom_bump [simp]: "dom (bump A m) = dom m"
  by (auto simp: bump_def dom_def)

end
