(* ===== verification/RoundLedger.thy ===== *)
theory RoundLedger
  imports RoundState Holdings
begin

text \<open>
  The abstract specification of a round: a status, the open vouchers with their amounts, a
  counter, the balance of the bid wallet and the totals recorded when the heir accepts. Its steps
  say what an instruction may do; the invariant \<open>ledger_ok\<close> is what a participant relies on: the
  counter counts the open vouchers, and until the heir accepts, the bid wallet can pay every
  voucher back. \<open>RoundSafety\<close> shows that the handlers of the program implement it.
\<close>

record ledger =
  l_status :: round_status
  l_count :: nat
  l_bid :: nat
  l_totals :: "(u64 \<times> u64) option"
  l_vouchers :: "pubkey \<Rightarrow> nat option"

definition open_status :: "round_status \<Rightarrow> bool" where
  "open_status s \<longleftrightarrow> s = Pending \<or> s = Rejected"

definition ledger_ok :: "ledger \<Rightarrow> bool" where
  "ledger_ok l \<longleftrightarrow>
     l_count l = card (dom (l_vouchers l))
     \<and> (open_status (l_status l) \<longrightarrow> owed (l_vouchers l) \<le> l_bid l)
     \<and> (\<not> open_status (l_status l) \<longrightarrow> l_totals l \<noteq> None)"

text \<open>
  The steps. The bid wallet may always hold more than the step says, since anybody can send tokens
  to it.
\<close>

inductive ledger_step :: "ledger \<Rightarrow> ledger \<Rightarrow> bool" where
  deposit:
    "l_bid l + n \<le> b \<Longrightarrow> l_vouchers l k = (if fresh then None else Some old) \<Longrightarrow>
     a = (if fresh then n else old + n) \<Longrightarrow> c = (if fresh then l_count l + 1 else l_count l) \<Longrightarrow>
     ledger_step l (l\<lparr>l_bid := b, l_count := c, l_vouchers := (l_vouchers l)(k \<mapsto> a)\<rparr>)"
| refund:
    "open_status (l_status l) \<Longrightarrow> l_vouchers l k = Some n \<Longrightarrow> l_bid l \<le> b + n \<Longrightarrow> l_count l = Suc c \<Longrightarrow>
     ledger_step l (l\<lparr>l_bid := b, l_count := c, l_vouchers := (l_vouchers l)(k := None)\<rparr>)"
| accept:
    "l_status l = Pending \<Longrightarrow> s = Accepted \<or> s = Reconciliation \<Longrightarrow>
     ledger_step l (l\<lparr>l_status := s, l_totals := Some t, l_bid := b\<rparr>)"
| reject:
    "l_status l = Pending \<Longrightarrow> l_bid l \<le> b \<Longrightarrow> ledger_step l (l\<lparr>l_status := Rejected, l_bid := b\<rparr>)"
| fiat:
    "l_status l = Reconciliation \<Longrightarrow> l_vouchers l k = None \<Longrightarrow>
     ledger_step l (l\<lparr>l_count := l_count l + 1, l_vouchers := (l_vouchers l)(k \<mapsto> n)\<rparr>)"
| finish:
    "l_status l = Reconciliation \<Longrightarrow> ledger_step l (l\<lparr>l_status := Accepted\<rparr>)"
| redeemed:
    "l_status l = Accepted \<Longrightarrow> l_vouchers l k = Some n \<Longrightarrow> l_count l = Suc c \<Longrightarrow>
     ledger_step l (l\<lparr>l_count := c, l_bid := b, l_vouchers := (l_vouchers l)(k := None)\<rparr>)"
| outside:
    "l_bid l \<le> b \<Longrightarrow> ledger_step l (l\<lparr>l_bid := b\<rparr>)"

inductive_cases ledger_stepE: "ledger_step l l'"

text \<open>Every step keeps the invariant.\<close>

lemma ledger_step_ok: "ledger_step l l' \<Longrightarrow> ledger_ok l \<Longrightarrow> ledger_ok l'"
proof (induction rule: ledger_step.induct)
  case (deposit l n b k fresh old a c)
  then show ?case
    using owed_update(1) [of "l_vouchers l" k n] owed_update(2) [of "l_vouchers l" k old "old + n"]
      card_update(1) [of "l_vouchers l" k n] card_update(2) [of "l_vouchers l" k old "old + n"]
    by (cases fresh) (auto simp: ledger_ok_def simp del: fun_upd_apply dom_fun_upd)
next
  case (refund l k n b c)
  then show ?case
    using owed_update(3) [of "l_vouchers l" k n] card_update(3) [of "l_vouchers l" k n]
    by (auto simp: ledger_ok_def simp del: fun_upd_apply dom_fun_upd)
next
  case (fiat l k n)
  then show ?case
    using card_update(1) [of "l_vouchers l" k n]
    by (auto simp: ledger_ok_def open_status_def simp del: fun_upd_apply dom_fun_upd)
next
  case (redeemed l k n c b)
  then show ?case
    using card_update(3) [of "l_vouchers l" k n]
    by (auto simp: ledger_ok_def open_status_def simp del: fun_upd_apply dom_fun_upd)
qed (auto simp: ledger_ok_def open_status_def)

text \<open>The statuses move forward only.\<close>

fun status_rank :: "round_status \<Rightarrow> nat" where
  "status_rank Pending = 0"
| "status_rank Reconciliation = 1"
| "status_rank Accepted = 2"
| "status_rank Rejected = 2"

lemma ledger_step_status:
  assumes "ledger_step l l'"
  shows "l_status l' = l_status l \<or> status_rank (l_status l) < status_rank (l_status l')"
  using assms by (cases rule: ledger_step.cases) auto

lemma ledger_steps_ok: "ledger_step\<^sup>*\<^sup>* l l' \<Longrightarrow> ledger_ok l \<Longrightarrow> ledger_ok l'"
  by (induction rule: rtranclp_induct) (auto intro: ledger_step_ok)

lemma ledger_steps_status:
  "ledger_step\<^sup>*\<^sup>* l l' \<Longrightarrow> l_status l' = l_status l \<or> status_rank (l_status l) < status_rank (l_status l')"
proof (induction rule: rtranclp_induct)
  case (step y z)
  then show ?case
    using ledger_step_status [OF step(2)] by auto
qed simp

end
