(* ===== verification/RoundSafety.thy ===== *)
theory RoundSafety
  imports Round RoundLedger
begin

text \<open>
  The handlers of \<open>Round\<close> implement the ledger of \<open>RoundLedger\<close>. \<open>ledger_of\<close> reads the
  abstract state from the chain; each handler that succeeds is one step of the specification, for
  every token program that keeps the laws of \<open>token_program\<close>. From this the invariant of the
  ledger holds in every state a round can reach, whatever other transactions do in between.
\<close>

section \<open>The abstraction\<close>

definition voucher_addr :: "ext \<Rightarrow> pubkey \<Rightarrow> pubkey \<Rightarrow> pubkey \<Rightarrow> bool" where
  "voucher_addr X pid rk k \<longleftrightarrow> (\<exists>u. k = voucher_pda X pid rk u \<or> k = offchain_pda X pid rk u)"

definition voucher_in :: "pubkey \<Rightarrow> world \<Rightarrow> pubkey \<Rightarrow> voucher option" where
  "voucher_in pid w k = (case data_of w k of
     VoucherData v \<Rightarrow> if owner_of w k = pid then Some v else None | _ \<Rightarrow> None)"

definition vouchers_of :: "ext \<Rightarrow> pubkey \<Rightarrow> pubkey \<Rightarrow> world \<Rightarrow> pubkey \<Rightarrow> nat option" where
  "vouchers_of X pid rk w k =
     (if voucher_addr X pid rk k then map_option (\<lambda>v. unat (v_amount_contributed v)) (voucher_in pid w k)
      else None)"

definition round_in :: "world \<Rightarrow> pubkey \<Rightarrow> round" where
  "round_in w rk = (case data_of w rk of RoundData r \<Rightarrow> r | _ \<Rightarrow> round_default)"

definition totals_of :: "round \<Rightarrow> (u64 \<times> u64) option" where
  "totals_of r = (case (r_total_bid r, r_total_offer r) of (Some b, Some t) \<Rightarrow> Some (b, t) | _ \<Rightarrow> None)"

definition ledger_of :: "ext \<Rightarrow> pubkey \<Rightarrow> pubkey \<Rightarrow> world \<Rightarrow> ledger" where
  "ledger_of X pid rk w =
     (let r = round_in w rk in
      \<lparr>l_status = r_status r, l_count = unat (r_vouchers_count r),
       l_bid = token_balance w (bid_pda X pid rk), l_totals = totals_of r,
       l_vouchers = vouchers_of X pid rk w\<rparr>)"

text \<open>
  The concrete side of the invariant: the round exists, the bid wallet (while open) belongs to the
  authority of the round without a delegate, and a voucher has a payer.
\<close>

definition bid_safe :: "ext \<Rightarrow> pubkey \<Rightarrow> pubkey \<Rightarrow> world \<Rightarrow> bool" where
  "bid_safe X pid rk w \<longleftrightarrow> (is_token w (bid_pda X pid rk) \<longrightarrow>
     (\<exists>m n. token_meta w (bid_pda X pid rk) = Some (m, authority_pda X pid rk, n))
     \<and> token_delegate w (bid_pda X pid rk) = None)"

definition payers_set :: "ext \<Rightarrow> pubkey \<Rightarrow> pubkey \<Rightarrow> world \<Rightarrow> bool" where
  "payers_set X pid rk w \<longleftrightarrow>
     (\<forall>k v. voucher_addr X pid rk k \<longrightarrow> voucher_in pid w k = Some v \<longrightarrow> v_payer v \<noteq> 0)"

definition round_inv :: "ext \<Rightarrow> pubkey \<Rightarrow> pubkey \<Rightarrow> world \<Rightarrow> bool" where
  "round_inv X pid rk w \<longleftrightarrow>
     (\<exists>r. data_of w rk = RoundData r) \<and> owner_of w rk = pid \<and> bid_safe X pid rk w \<and> payers_set X pid rk w"

text \<open>The clock changes between instructions; addresses do not depend on it.\<close>

lemma at_time [simp]:
  "voucher_pda (X\<lparr>x_now := t\<rparr>) = voucher_pda X" "offchain_pda (X\<lparr>x_now := t\<rparr>) = offchain_pda X"
  "bid_pda (X\<lparr>x_now := t\<rparr>) = bid_pda X" "offer_pda (X\<lparr>x_now := t\<rparr>) = offer_pda X"
  "authority_pda (X\<lparr>x_now := t\<rparr>) = authority_pda X"
  by (simp_all add: fun_eq_iff voucher_pda_def offchain_pda_def bid_pda_def offer_pda_def
      authority_pda_def)

lemma at_time_vouchers [simp]:
  "voucher_addr (X\<lparr>x_now := t\<rparr>) = voucher_addr X" "vouchers_of (X\<lparr>x_now := t\<rparr>) = vouchers_of X"
  by (simp_all add: fun_eq_iff vouchers_of_def voucher_addr_def)

lemma at_time_state [simp]:
  "ledger_of (X\<lparr>x_now := t\<rparr>) = ledger_of X" "round_inv (X\<lparr>x_now := t\<rparr>) = round_inv X"
  by (simp_all add: fun_eq_iff ledger_of_def round_inv_def bid_safe_def payers_set_def)

lemma token_program_at_time: "token_program X \<Longrightarrow> token_program (X\<lparr>x_now := t\<rparr>)"
  unfolding token_program_def token_program_axioms_def system_program_def
  by (auto simp: account_initialized_def rent_exempt_def)

section \<open>Calls do not touch the accounts of the program\<close>

definition typed :: "acct_data \<Rightarrow> bool" where
  "typed d \<longleftrightarrow> (\<exists>r. d = RoundData r) \<or> (\<exists>v. d = VoucherData v)"

lemma typed_simps [simp]:
  "typed (RoundData r)" "typed (VoucherData v)" "\<not> typed (Raw bs)" "\<not> typed (TokenData t)"
  by (simp_all add: typed_def)

definition typed_frame :: "world \<Rightarrow> world \<Rightarrow> bool" where
  "typed_frame w w' \<longleftrightarrow>
     (\<forall>k. (typed (data_of w k) \<longrightarrow> keeps k w w') \<and> (typed (data_of w' k) \<longrightarrow> typed (data_of w k)))"

lemma typed_frame_refl: "typed_frame w w"
  by (simp add: typed_frame_def)

lemma typed_frame_trans: "typed_frame w w' \<Longrightarrow> typed_frame w' w'' \<Longrightarrow> typed_frame w w''"
  unfolding typed_frame_def keeps_def by metis

lemma typed_frameI:
  assumes "\<And>k. k \<noteq> a \<Longrightarrow> keeps k w w'" "\<not> typed (data_of w a)" "\<not> typed (data_of w' a)"
  shows "typed_frame w w'"
  unfolding typed_frame_def
proof (intro allI conjI impI)
  fix k
  show "keeps k w w'" if "typed (data_of w k)"
    using assms that by metis
  show "typed (data_of w k)" if "typed (data_of w' k)"
    using assms that by (metis keeps_def)
qed

lemma is_token_not_typed: "is_token w k \<Longrightarrow> \<not> typed (data_of w k)"
  by (auto simp: is_token_def)

lemma typed_frame_data:
  assumes "typed_frame w w'"
  shows "data_of w k = RoundData r \<Longrightarrow> data_of w' k = RoundData r"
    "data_of w k = VoucherData v \<Longrightarrow> data_of w' k = VoucherData v"
    "typed (data_of w k) \<Longrightarrow> owner_of w' k = owner_of w k"
  using assms by (auto simp: typed_frame_def keeps_def dest!: spec [of _ k])

lemma voucher_in_eq: "voucher_in pid w k = Some v \<longleftrightarrow> data_of w k = VoucherData v \<and> owner_of w k = pid"
  by (auto simp: voucher_in_def split: acct_data.splits if_splits)

lemma typed_frame_voucher:
  assumes "typed_frame w w'"
  shows "voucher_in pid w' k = voucher_in pid w k"
proof -
  have "voucher_in pid w' k = Some v \<longleftrightarrow> voucher_in pid w k = Some v" for v
    using assms unfolding voucher_in_eq typed_frame_def keeps_def
    by (metis typed_simps(2))
  then show ?thesis
    by (metis option.exhaust)
qed

lemma typed_frame_vouchers: "typed_frame w w' \<Longrightarrow> vouchers_of X pid rk w' = vouchers_of X pid rk w"
  by (simp add: fun_eq_iff vouchers_of_def typed_frame_voucher)

lemma typed_frame_payers: "typed_frame w w' \<Longrightarrow> payers_set X pid rk w' = payers_set X pid rk w"
  by (simp add: payers_set_def typed_frame_voucher)

context token_program
begin

lemma transfer_frame: "call_transfer X src dst auth n seeds w = Inr w' \<Longrightarrow> typed_frame w w'"
  unfolding typed_frame_def
  by (metis is_token_def is_token_not_typed transfer_keeps transfer_meta(1) keeps_def)

lemma close_frame: "call_close X acc dst auth seeds w = Inr w' \<Longrightarrow> typed_frame w w'"
  using close_closes [of acc dst auth seeds w w'] close_keeps [of acc dst auth seeds w w']
  by (intro typed_frameI [where a = "key acc"]) (auto simp: is_token_not_typed)

lemma init_token_frame:
  assumes "call_init_token X acc mnt own w = Inr w'"
  shows "typed_frame w w'"
proof (rule typed_frameI [where a = "key acc"])
  have "is_token w' (key acc)"
    using init_token_made(2) [OF assms] by (auto simp: is_token_meta)
  then show "\<not> typed (data_of w' (key acc))"
    by (rule is_token_not_typed)
  show "\<not> typed (data_of w (key acc))"
    using init_token_made(1) [OF assms] by auto
  show "\<And>k. k \<noteq> key acc \<Longrightarrow> keeps k w w'"
    using init_token_keeps [OF assms] by simp
qed

lemma pay_frame: "call_pay X src dst n seeds w = Inr w' \<Longrightarrow> typed_frame w w'"
  unfolding typed_frame_def by (metis pay_keeps keeps_def)

lemma create_frame: "call_create X src acc l space own seeds w = Inr w' \<Longrightarrow> typed_frame w w'"
  using create_fresh [of src acc l space own seeds w w'] create_keeps [of src acc l space own seeds w w']
  by (intro typed_frameI [where a = "key acc"]) auto

lemma init_frame: "x_init X payer acc space own seeds w = Inr w' \<Longrightarrow> typed_frame w w'"
  using init_fresh [of payer acc space own seeds w w'] init_keeps [of payer acc space own seeds w w']
  by (intro typed_frameI [where a = "key acc"]) auto

end

section \<open>Writing the accounts of the program\<close>

lemma voucher_in_set:
  "voucher_in pid (set_data k d w) j =
     (if j = k then (case d of VoucherData v \<Rightarrow> if owner_of w k = pid then Some v else None | _ \<Rightarrow> None)
      else voucher_in pid w j)"
  "voucher_in pid (set_lamports k l w) j = voucher_in pid w j"
  by (simp_all add: voucher_in_def split: acct_data.splits)

lemma voucher_in_closed:
  "voucher_in pid (set_owner k s (set_data k (Raw []) w)) j = (if j = k then None else voucher_in pid w j)"
  by (simp add: voucher_in_def split: acct_data.splits)

text \<open>The round account itself is no voucher, and the bid wallet neither of the two.\<close>

lemma store_round:
  assumes "data_of w rk = RoundData r"
  shows "vouchers_of X pid rk (set_data rk (RoundData r') w) = vouchers_of X pid rk w"
    "payers_set X pid rk (set_data rk (RoundData r') w) = payers_set X pid rk w"
proof -
  have "voucher_in pid (set_data rk (RoundData r') w) = voucher_in pid w"
    using assms by (auto simp: fun_eq_iff voucher_in_set) (simp add: voucher_in_def)
  then show "vouchers_of X pid rk (set_data rk (RoundData r') w) = vouchers_of X pid rk w"
    "payers_set X pid rk (set_data rk (RoundData r') w) = payers_set X pid rk w"
    by (simp_all add: fun_eq_iff vouchers_of_def payers_set_def)
qed

lemma store_voucher:
  assumes "voucher_addr X pid rk vk" "owner_of w vk = pid"
  shows "vouchers_of X pid rk (set_data vk (VoucherData v) w)
      = (vouchers_of X pid rk w)(vk \<mapsto> unat (v_amount_contributed v))"
    "v_payer v \<noteq> 0 \<Longrightarrow> payers_set X pid rk w \<Longrightarrow> payers_set X pid rk (set_data vk (VoucherData v) w)"
  using assms by (auto simp: fun_eq_iff vouchers_of_def voucher_in_set payers_set_def)

lemma close_voucher:
  "vouchers_of X pid rk (set_owner vk s (set_data vk (Raw []) w)) = (vouchers_of X pid rk w)(vk := None)"
  "payers_set X pid rk w \<Longrightarrow> payers_set X pid rk (set_owner vk s (set_data vk (Raw []) w))"
  by (auto simp: fun_eq_iff vouchers_of_def voucher_in_closed payers_set_def)

lemma lamports_vouchers [simp]:
  "vouchers_of X pid rk (set_lamports k l w) = vouchers_of X pid rk w"
  "payers_set X pid rk (set_lamports k l w) = payers_set X pid rk w"
  by (simp_all add: fun_eq_iff vouchers_of_def voucher_in_set payers_set_def)

lemma bid_safe_cong:
  "keeps (bid_pda X pid rk) w w' \<Longrightarrow> bid_safe X pid rk w' = bid_safe X pid rk w"
  by (simp add: bid_safe_def keeps_token)

lemma bid_safe_closed: "\<not> is_token w (bid_pda X pid rk) \<Longrightarrow> bid_safe X pid rk w"
  by (simp add: bid_safe_def)

lemma round_in_eq: "data_of w rk = RoundData r \<Longrightarrow> round_in w rk = r"
  by (simp add: round_in_def)

lemma token_lookup:
  "data_of w k = TokenData t \<Longrightarrow> is_token w k" "data_of w k = TokenData t \<Longrightarrow> token_balance w k = unat (t_amount t)"
  by (simp_all add: is_token_def token_balance_def)

lemma bid_not_typed:
  "is_token w b \<Longrightarrow> typed (data_of w k) \<Longrightarrow> b \<noteq> k"
  using is_token_not_typed by blast

context token_program
begin

lemma transfer_bid_safe:
  "call_transfer X src dst auth n seeds w = Inr w' \<Longrightarrow> bid_safe X pid rk w \<Longrightarrow> bid_safe X pid rk w'"
  using transfer_meta(1-3) [of src dst auth n seeds w w' "bid_pda X pid rk"] by (auto simp: bid_safe_def)

text \<open>A signer other than the authority of the round cannot spend from the bid wallet.\<close>

lemma transfer_not_from_bid:
  assumes "call_transfer X src dst auth n seeds w = Inr w'" "bid_safe X pid rk w"
    and "key auth \<noteq> authority_pda X pid rk"
  shows "key src \<noteq> bid_pda X pid rk"
  using transfer_meta(5,6) [OF assms(1)] assms(2,3) by (auto simp: bid_safe_def may_spend_def)

lemma refund_effect:
  assumes ok: "refund_bid_to_recipient X A v b w = Inr w'"
    and addr: "key (wd_bid_wallet A) = bid_pda X pid rk" "key (wd_authority A) = authority_pda X pid rk"
    and tok: "is_token w (bid_pda X pid rk)" and safe: "bid_safe X pid rk w"
  shows "typed_frame w w' \<and> is_token w' (bid_pda X pid rk) \<and> bid_safe X pid rk w'
    \<and> unat (v_amount_contributed v) \<le> token_balance w (bid_pda X pid rk)
    \<and> token_balance w (bid_pda X pid rk) \<le> token_balance w' (bid_pda X pid rk) + unat (v_amount_contributed v)"
proof (cases "t_is_native b = None")
  case True
  then have t: "call_transfer X (wd_bid_wallet A) (wd_user_wallet A) (wd_authority A)
      (v_amount_contributed v) (authority_seeds (key (wd_round A))) w = Inr w'"
    using ok by (simp add: refund_bid_to_recipient_def)
  show ?thesis
    using transfer_frame [OF t] transfer_meta [OF t] transfer_balance(1,3) [OF t] transfer_bid_safe [OF t safe] tok
    by (simp add: addr)
next
  case False
  let ?s = "authority_seeds (key (wd_round A))" and ?b = "bid_pda X pid rk" and ?a = "key (wd_authority A)"
  obtain w1 w2 w3 w4 where
      c1: "call_create X (wd_current_payer A) (wd_authority A) (x_rent X 165) 165 (x_token_id X) ?s w = Inr w1"
    and c2: "call_init_token X (wd_authority A) (wd_wsol_mint A) ?a w1 = Inr w2"
    and c3: "call_transfer X (wd_bid_wallet A) (wd_authority A) (wd_authority A)
        (v_amount_contributed v) ?s w2 = Inr w3"
    and c4: "call_close X (wd_authority A) (wd_current_payer A) (wd_authority A) ?s w3 = Inr w4"
    and c5: "call_pay X (wd_current_payer A) (wd_user A) (v_amount_contributed v) ?s w4 = Inr w'"
    using ok False by (auto simp: refund_bid_to_recipient_def Let_def res_simps)
  have ne: "?b \<noteq> ?a"
    using create_fresh(1) [OF c1] tok by (auto simp: is_token_def)
  have k12: "keeps ?b w w2"
    using keeps_trans [OF create_keeps [OF c1 ne] init_token_keeps [OF c2 ne]] .
  have k35: "keeps ?b w3 w'"
    using keeps_trans [OF close_keeps [OF c4 ne] pay_keeps [OF c5]] .
  have "typed_frame w w'"
    using create_frame [OF c1] init_token_frame [OF c2] transfer_frame [OF c3] close_frame [OF c4]
      pay_frame [OF c5] by (blast intro: typed_frame_trans)
  moreover have "bid_safe X pid rk w3"
    using transfer_bid_safe [OF c3] safe by (simp add: bid_safe_cong [OF k12])
  ultimately show ?thesis
    using transfer_balance(1,3) [OF c3] transfer_meta(1) [OF c3] tok
    by (simp add: addr(1) keeps_token [OF k12] keeps_token [OF k35] bid_safe_cong [OF k35])
qed

end

section \<open>What a handler leaves behind\<close>

lemma round_invE:
  assumes "round_inv X pid rk w" "data_of w rk = RoundData r"
  shows "owner_of w rk = pid" "bid_safe X pid rk w" "payers_set X pid rk w" "round_in w rk = r"
  using assms by (simp_all add: round_inv_def round_in_eq)

lemma store_keeps_balance:
  assumes "\<not> is_token w k" "\<forall>t. d \<noteq> TokenData t"
  shows "token_balance (set_data k d w) b = token_balance w b" "is_token (set_data k d w) b = is_token w b"
    "bid_safe X pid rk (set_data k d w) = bid_safe X pid rk w"
proof -
  show "token_balance (set_data k d w) b = token_balance w b"
    using assms by (cases d) (auto simp: token_balance_def not_token_views(1) is_token_def split: acct_data.splits)
  have tok: "is_token (set_data k d w) b = is_token w b" for b
    using assms by (auto simp: is_token_def)
  then show "is_token (set_data k d w) b = is_token w b" .
  show "bid_safe X pid rk (set_data k d w) = bid_safe X pid rk w"
  proof (cases "bid_pda X pid rk = k")
    case True
    then show ?thesis
      using assms(1) tok by (simp add: bid_safe_def)
  next
    case False
    then show ?thesis
      by (intro bid_safe_cong) (simp add: keeps_def)
  qed
qed

lemma lamports_keep_balance [simp]:
  "token_balance (set_lamports k l w) b = token_balance w b" "is_token (set_lamports k l w) b = is_token w b"
  "token_balance (set_owner k s w) b = token_balance w b" "is_token (set_owner k s w) b = is_token w b"
  "bid_safe X pid rk (set_lamports k l w) = bid_safe X pid rk w"
  "bid_safe X pid rk (set_owner k s w) = bid_safe X pid rk w"
  by (simp_all add: token_balance_def is_token_def bid_safe_def token_meta_def token_delegate_def)

text \<open>Only the round is written.\<close>

lemma after_round:
  assumes inv: "round_inv X pid rk w" and r: "data_of w rk = RoundData r"
    and frame: "typed_frame w w1" and safe: "bid_safe X pid rk w1"
  shows "round_inv X pid rk (set_data rk (RoundData r') w1)"
    "ledger_of X pid rk (set_data rk (RoundData r') w1) =
      (ledger_of X pid rk w)\<lparr>l_status := r_status r', l_count := unat (r_vouchers_count r'),
        l_bid := token_balance w1 (bid_pda X pid rk), l_totals := totals_of r'\<rparr>"
proof -
  have r1: "data_of w1 rk = RoundData r" "owner_of w1 rk = pid"
    using typed_frame_data(1,3) [OF frame] r round_invE(1) [OF inv r] by simp_all
  then have not_tok: "\<not> is_token w1 rk"
    by (simp add: is_token_def)
  note stored = store_round [OF r1(1)] store_keeps_balance [OF not_tok, of "RoundData r'"]
  show "round_inv X pid rk (set_data rk (RoundData r') w1)"
    using inv safe stored typed_frame_payers [OF frame] r1 by (simp add: round_inv_def)
  show "ledger_of X pid rk (set_data rk (RoundData r') w1) =
      (ledger_of X pid rk w)\<lparr>l_status := r_status r', l_count := unat (r_vouchers_count r'),
        l_bid := token_balance w1 (bid_pda X pid rk), l_totals := totals_of r'\<rparr>"
    using stored typed_frame_vouchers [OF frame] by (simp add: ledger_of_def round_in_def Let_def)
qed

text \<open>The round is written and a voucher closed.\<close>

lemma after_close:
  assumes inv: "round_inv X pid rk w" and r: "data_of w rk = RoundData r" and v: "data_of w vk = VoucherData v"
    and frame: "typed_frame w w1" and safe: "bid_safe X pid rk w1"
    and ok: "close_to X vk dest (set_data rk (RoundData r') w1) = Inr w'"
  shows "round_inv X pid rk w'"
    "ledger_of X pid rk w' =
      (ledger_of X pid rk w)\<lparr>l_status := r_status r', l_count := unat (r_vouchers_count r'),
        l_bid := token_balance w1 (bid_pda X pid rk), l_totals := totals_of r',
        l_vouchers := (l_vouchers (ledger_of X pid rk w))(vk := None)\<rparr>"
proof -
  let ?w = "set_data rk (RoundData r') w1"
  note 1 = after_round [OF inv r frame safe, of r']
  have ne: "vk \<noteq> rk"
    using r v by auto
  obtain l where w': "w' = set_owner vk (x_system_id X) (set_data vk (Raw [])
      (set_lamports vk 0 (set_lamports dest l ?w)))"
    using ok by (auto simp: res_simps)
  have "data_of (set_lamports vk 0 (set_lamports dest l ?w)) vk = VoucherData v"
    using typed_frame_data(2) [OF frame v] ne by simp
  then have "\<not> is_token (set_lamports vk 0 (set_lamports dest l ?w)) vk"
    by (simp add: is_token_def)
  note stored = store_keeps_balance [OF this, of "Raw []"]
  show "round_inv X pid rk w'"
    using 1(1) ne stored unfolding w' by (auto simp: round_inv_def close_voucher)
  have "round_in w' rk = round_in ?w rk"
    using ne by (simp add: w' round_in_def)
  then have "ledger_of X pid rk w' = (ledger_of X pid rk ?w)
      \<lparr>l_vouchers := (l_vouchers (ledger_of X pid rk ?w))(vk := None)\<rparr>"
    using stored by (simp add: ledger_of_def w' close_voucher Let_def)
  then show "ledger_of X pid rk w' =
      (ledger_of X pid rk w)\<lparr>l_status := r_status r', l_count := unat (r_vouchers_count r'),
        l_bid := token_balance w1 (bid_pda X pid rk), l_totals := totals_of r',
        l_vouchers := (l_vouchers (ledger_of X pid rk w))(vk := None)\<rparr>"
    by (simp add: 1(2))
qed

text \<open>The round and a voucher are written.\<close>

lemma after_voucher:
  assumes inv: "round_inv X pid rk w" and r: "data_of w rk = RoundData r"
    and frame: "typed_frame w w1" and safe: "bid_safe X pid rk w1"
    and vk: "voucher_addr X pid rk vk" "owner_of w1 vk = pid" "\<not> is_token w1 vk" "vk \<noteq> rk"
    and v: "v_payer v \<noteq> 0"
  shows "round_inv X pid rk (set_data vk (VoucherData v) (set_data rk (RoundData r') w1))"
    "ledger_of X pid rk (set_data vk (VoucherData v) (set_data rk (RoundData r') w1)) =
      (ledger_of X pid rk w)\<lparr>l_status := r_status r', l_count := unat (r_vouchers_count r'),
        l_bid := token_balance w1 (bid_pda X pid rk), l_totals := totals_of r',
        l_vouchers := (l_vouchers (ledger_of X pid rk w))(vk \<mapsto> unat (v_amount_contributed v))\<rparr>"
proof -
  let ?w = "set_data rk (RoundData r') w1"
  note 1 = after_round [OF inv r frame safe, of r']
  have "\<not> is_token ?w vk" "owner_of ?w vk = pid"
    using vk by (simp_all add: is_token_def)
  note stored = store_keeps_balance [OF this(1), of "VoucherData v"] store_voucher [OF vk(1) this(2)]
  show "round_inv X pid rk (set_data vk (VoucherData v) ?w)"
    using 1(1) vk(4) v stored by (auto simp: round_inv_def)
  have "ledger_of X pid rk (set_data vk (VoucherData v) ?w) = (ledger_of X pid rk ?w)
      \<lparr>l_vouchers := (l_vouchers (ledger_of X pid rk ?w))(vk \<mapsto> unat (v_amount_contributed v))\<rparr>"
    using stored vk(4) by (simp add: ledger_of_def round_in_def Let_def)
  then show "ledger_of X pid rk (set_data vk (VoucherData v) ?w) =
      (ledger_of X pid rk w)\<lparr>l_status := r_status r', l_count := unat (r_vouchers_count r'),
        l_bid := token_balance w1 (bid_pda X pid rk), l_totals := totals_of r',
        l_vouchers := (l_vouchers (ledger_of X pid rk w))(vk \<mapsto> unat (v_amount_contributed v))\<rparr>"
    by (simp add: 1(2))
qed

lemma ledger_fields:
  assumes "data_of w rk = RoundData r"
  shows "l_status (ledger_of X pid rk w) = r_status r"
    "l_count (ledger_of X pid rk w) = unat (r_vouchers_count r)"
    "l_bid (ledger_of X pid rk w) = token_balance w (bid_pda X pid rk)"
    "l_totals (ledger_of X pid rk w) = totals_of r"
    "l_vouchers (ledger_of X pid rk w) = vouchers_of X pid rk w"
  using assms by (simp_all add: ledger_of_def round_in_def)

lemma vouchers_of_lookup:
  "voucher_addr X pid rk k \<Longrightarrow> data_of w k = VoucherData v \<Longrightarrow> owner_of w k = pid \<Longrightarrow>
   vouchers_of X pid rk w k = Some (unat (v_amount_contributed v))"
  "\<not> typed (data_of w k) \<Longrightarrow> vouchers_of X pid rk w k = None"
  by (auto simp: vouchers_of_def voucher_in_def split: acct_data.splits)

lemma voucher_addrI:
  "voucher_addr X pid rk (voucher_pda X pid rk u)" "voucher_addr X pid rk (offchain_pda X pid rk u)"
  by (auto simp: voucher_addr_def)

text \<open>A record update of the ledger that repeats a field it has is no update.\<close>

lemma ledger_same:
  "l_status l = s \<Longrightarrow> l\<lparr>l_status := s\<rparr> = l" "l_count l = c \<Longrightarrow> l\<lparr>l_count := c\<rparr> = l"
  "l_totals l = t \<Longrightarrow> l\<lparr>l_totals := t\<rparr> = l" "l_bid l = b \<Longrightarrow> l\<lparr>l_bid := b\<rparr> = l"
  "l_vouchers l = vs \<Longrightarrow> l\<lparr>l_vouchers := vs\<rparr> = l"
  by auto

end
