(* ===== verification/RoundMachine.thy ===== *)
theory RoundMachine
  imports RoundSafety
begin

text \<open>
  The life of one round: its creation, and then any sequence of its instructions at any times,
  interleaved with transactions of others. Every instruction is a step of the ledger, so the
  invariants of the ledger hold in all reachable states.
\<close>

section \<open>Each instruction is a step of the ledger\<close>

definition keeps_offchain :: "ext \<Rightarrow> pubkey \<Rightarrow> pubkey \<Rightarrow> world \<Rightarrow> world \<Rightarrow> bool" where
  "keeps_offchain X pid rk w w' \<longleftrightarrow>
     dom (l_vouchers (ledger_of X pid rk w)) - range (voucher_pda X pid rk)
       \<subseteq> dom (l_vouchers (ledger_of X pid rk w'))"

definition refines :: "ext \<Rightarrow> pubkey \<Rightarrow> pubkey \<Rightarrow> world \<Rightarrow> world \<Rightarrow> bool" where
  "refines X pid rk w w' \<longleftrightarrow>
     round_inv X pid rk w' \<and> ledger_step (ledger_of X pid rk w) (ledger_of X pid rk w')
     \<and> keeps_offchain X pid rk w w'"

lemma ledger_eqI:
  "l_status l = l_status l' \<Longrightarrow> l_count l = l_count l' \<Longrightarrow> l_bid l = l_bid l' \<Longrightarrow>
   l_totals l = l_totals l' \<Longrightarrow> l_vouchers l = l_vouchers l' \<Longrightarrow> l = (l' :: ledger)"
  by (cases l; cases l') simp

context token_program
begin

lemma voucher_ready:
  assumes ok: "init_voucher_if_needed X pid payer acc seeds w = Inr (v, w1)"
    and inv: "round_inv X pid rk w" and vk: "voucher_addr X pid rk (key acc)"
  shows "typed_frame w w1" "keeps k w w1 \<or> \<not> is_token w k" "\<not> is_token w1 (key acc)" "owner_of w1 (key acc) = pid"
    "data_of w (key acc) \<noteq> RoundData r"
    "v_payer v = 0 \<Longrightarrow> vouchers_of X pid rk w (key acc) = None \<and> v_amount_contributed v = 0"
    "v_payer v \<noteq> 0 \<Longrightarrow> vouchers_of X pid rk w (key acc) = Some (unat (v_amount_contributed v))
       \<and> data_of w (key acc) = VoucherData v \<and> w1 = w"
    "k \<noteq> key acc \<Longrightarrow> keeps k w w1"
proof -
  let ?k = "key acc"
  have new: "data_of w ?k = Raw []" "typed_frame w w1" "owner_of w1 ?k = pid" "\<not> is_token w1 ?k"
      "?k \<noteq> k \<Longrightarrow> keeps k w w1"
    if "x_init X payer acc voucher_space pid [seeds] w = Inr w1"
    using init_fresh [OF that] init_frame [OF that] init_keeps [OF that] by (auto simp: is_token_def)
  have payer: "v_payer v \<noteq> 0" if "data_of w ?k = VoucherData v" "owner_of w ?k = pid"
    using that inv vk by (simp add: round_inv_def payers_set_def voucher_in_eq)
  consider (new) "v = voucher_default" "x_init X payer acc voucher_space pid [seeds] w = Inr w1"
    | (old) "w1 = w" "data_of w ?k = VoucherData v" "owner_of w ?k = pid"
    using ok unfolding init_voucher_if_needed_iff by blast
  note cases = this
  show "typed_frame w w1" "owner_of w1 ?k = pid"
    using cases new(2,3) typed_frame_refl by metis+
  show "\<not> is_token w1 ?k" "data_of w ?k \<noteq> RoundData r"
    using cases new(1,4) by (metis is_token_def acct_data.distinct)+
  show "keeps k w w1 \<or> \<not> is_token w k"
    using cases new(1,5) by (metis is_token_def acct_data.distinct keeps_refl)
  show "vouchers_of X pid rk w ?k = None \<and> v_amount_contributed v = 0" if "v_payer v = 0"
    using that by (cases rule: cases) (simp_all add: new(1) payer vouchers_of_lookup(2) voucher_default_def)
  show "vouchers_of X pid rk w ?k = Some (unat (v_amount_contributed v))
       \<and> data_of w ?k = VoucherData v \<and> w1 = w" if "v_payer v \<noteq> 0"
    using that vk by (cases rule: cases) (simp_all add: vouchers_of_lookup(1) voucher_default_def)
  show "k \<noteq> ?k \<Longrightarrow> keeps k w w1"
    using cases new(5) keeps_refl by metis
qed

lemma contribute_refines:
  assumes ok: "contribute X pid A w = Inr (ev, w')" and rk: "key (ct_round A) = rk"
    and inv: "round_inv X pid rk w"
    and auth: "key (ct_user_wallet_authority A) \<noteq> authority_pda X pid rk" and payer: "key (ct_payer A) \<noteq> 0"
  shows "refines X pid rk w w'"
proof -
  let ?vk = "key (ct_voucher A)" and ?b = "bid_pda X pid rk"
  obtain r uw bw v w1 w2 amount r' v' where
      r: "data_of w rk = RoundData r" and bw: "data_of w (key (ct_bid_wallet A)) = TokenData bw"
    and uw: "data_of w (key (ct_user_wallet A)) = TokenData uw"
    and addr: "voucher_pda X pid rk (key (ct_user A)) = ?vk" "?b = key (ct_bid_wallet A)"
    and init: "init_voucher_if_needed X pid (ct_payer A) (ct_voucher A)
        [SeedStr ''VOUCHER'', SeedKey rk, SeedKey (key (ct_user A))] w = Inr (v, w1)"
    and move: "call_transfer X (ct_user_wallet A) (ct_bid_wallet A) (ct_user_wallet_authority A)
        (t_delegated_amount uw) [] w1 = Inr w2"
    and amount: "checked_add (v_amount_contributed v) (t_delegated_amount uw) = Some amount"
    and first: "first_time_init (key (ct_payer A)) rk (key (ct_user A)) r
        (v\<lparr>v_amount_contributed := amount\<rparr>) = Inr (r', v')"
    and w': "w' = set_data ?vk (VoucherData v') (set_data rk (RoundData r') w2)"
    using ok unfolding rk [symmetric] by (simp add: contribute_def load_simps split_paired_Ex) blast
  have vk: "voucher_addr X pid rk ?vk"
    using voucher_addrI(1) addr(1) by metis
  note ready = voucher_ready [OF init inv vk]
  have tok: "is_token w ?b"
    using bw by (simp add: is_token_def addr(2))
  have keep_b: "keeps ?b w w1"
    using ready(2) [of ?b] tok by blast
  have safe1: "bid_safe X pid rk w1"
    using round_invE(2) [OF inv r] by (simp add: bid_safe_cong [OF keep_b])
  have frame: "typed_frame w w2"
    using ready(1) transfer_frame [OF move] by (rule typed_frame_trans)
  have safe2: "bid_safe X pid rk w2"
    using move safe1 by (rule transfer_bid_safe)
  have vk2: "owner_of w2 ?vk = pid" "\<not> is_token w2 ?vk"
    using transfer_meta(1,4) [OF move] ready(3,4) by simp_all
  have "?vk \<noteq> rk"
    using ready(5) r by metis
  note result = after_voucher [OF inv r frame safe2 vk vk2 this]
  have "key (ct_user_wallet A) \<noteq> ?b"
    using transfer_not_from_bid [OF move safe1 auth] by simp
  then have bid: "token_balance w2 ?b = token_balance w ?b + unat (t_delegated_amount uw)"
    using transfer_balance(2) [OF move] keeps_token(2) [OF keep_b] by (simp add: addr(2))
  have sum: "unat amount = unat (v_amount_contributed v) + unat (t_delegated_amount uw)"
    using amount by (auto simp: checked_simps unat_add_checked)
  show ?thesis
  proof (cases "v_payer v = 0")
    case True
    then obtain n where n: "checked_add (r_vouchers_count r) 1 = Some n"
      and r': "r' = r\<lparr>r_vouchers_count := n\<rparr>"
      and v': "v' = v\<lparr>v_amount_contributed := amount, v_payer := key (ct_payer A),
            v_round := rk, v_user := key (ct_user A)\<rparr>"
      using first by (auto simp: first_time_init_def res_simps)
    have n1: "unat n = unat (r_vouchers_count r) + 1"
      using n by (auto simp: checked_simps unat_add_checked)
    have eq: "ledger_of X pid rk w' = (ledger_of X pid rk w)\<lparr>l_bid := token_balance w2 ?b,
      l_count := unat n, l_vouchers := (l_vouchers (ledger_of X pid rk w))(?vk \<mapsto> unat amount)\<rparr>"
      unfolding w' using payer
      by (subst result(2)) (auto simp: ledger_fields [OF r] totals_of_def r' v' intro!: ledger_eqI)
    have "ledger_step (ledger_of X pid rk w) (ledger_of X pid rk w')"
      unfolding eq
      by (rule ledger_step.deposit [where fresh = True and n = "unat amount"])
        (use True ready(6) sum n1 bid in \<open>simp_all add: ledger_fields [OF r]\<close>)
    moreover have "keeps_offchain X pid rk w w'"
      by (auto simp: keeps_offchain_def eq)
    ultimately show ?thesis
      using result(1) payer by (simp add: refines_def w' v')
  next
    case False
    then have r': "r' = r" and v': "v' = v\<lparr>v_amount_contributed := amount\<rparr>"
      using first by (auto simp: first_time_init_def)
    have eq: "ledger_of X pid rk w' = (ledger_of X pid rk w)\<lparr>l_bid := token_balance w2 ?b,
      l_count := unat (r_vouchers_count r),
      l_vouchers := (l_vouchers (ledger_of X pid rk w))(?vk \<mapsto> unat amount)\<rparr>"
      unfolding w' using False
      by (subst result(2)) (auto simp: ledger_fields [OF r] r' v' intro!: ledger_eqI)
    have "ledger_step (ledger_of X pid rk w) (ledger_of X pid rk w')"
      unfolding eq
      by (rule ledger_step.deposit [where fresh = False and n = "unat (t_delegated_amount uw)"
            and old = "unat (v_amount_contributed v)"])
        (use False ready(7) sum bid in \<open>simp_all add: ledger_fields [OF r]\<close>)
    moreover have "keeps_offchain X pid rk w w'"
      by (auto simp: keeps_offchain_def eq)
    ultimately show ?thesis
      using result(1) False by (simp add: refines_def w' v')
  qed
qed

lemma checked_sub_one: "checked_sub n 1 = Some m \<Longrightarrow> unat n = Suc (unat m)" for n m :: u64
  by (auto simp: checked_simps unat_sub_checked)

lemma withdraw_refines:
  assumes ok: "withdraw X pid A w = Inr (ev, w')" and rk: "key (wd_round A) = rk"
    and inv: "round_inv X pid rk w"
  shows "refines X pid rk w w'"
proof -
  let ?vk = "key (wd_voucher A)" and ?b = "bid_pda X pid rk"
  obtain r v bw w1 n where
      r: "data_of w rk = RoundData r" and v: "data_of w ?vk = VoucherData v" "owner_of w ?vk = pid"
    and bw: "data_of w (key (wd_bid_wallet A)) = TokenData bw"
    and addr: "voucher_pda X pid rk (key (wd_user A)) = ?vk" "?b = key (wd_bid_wallet A)"
      "authority_pda X pid rk = key (wd_authority A)"
    and guard: "assert_can_withdraw r (x_now X) (is_signer (wd_user A)) = Inr ()"
    and refund: "refund_bid_to_recipient X A v bw w = Inr w1"
    and n: "checked_sub (r_vouchers_count r) 1 = Some n"
    and close: "close_to X ?vk (key (wd_payer A)) (set_data rk (RoundData (r\<lparr>r_vouchers_count := n\<rparr>)) w1) = Inr w'"
    using ok unfolding rk [symmetric]
    by (simp add: withdraw_def load_simps split_paired_Ex del: close_to_Inr) blast
  have vk: "voucher_addr X pid rk ?vk"
    using voucher_addrI(1) addr(1) by metis
  have tok: "is_token w ?b"
    using bw by (simp add: is_token_def addr(2))
  note effect = refund_effect [OF refund addr(2,3) [symmetric] tok round_invE(2) [OF inv r]]
  note result = after_close [OF inv r v(1) conjunct1 [OF effect] _ close]
  have eq: "ledger_of X pid rk w' = (ledger_of X pid rk w)\<lparr>l_bid := token_balance w1 ?b,
      l_count := unat n, l_vouchers := (l_vouchers (ledger_of X pid rk w))(?vk := None)\<rparr>"
    using effect by (subst result(2)) (auto simp: ledger_fields [OF r] totals_of_def intro!: ledger_eqI)
  have "ledger_step (ledger_of X pid rk w) (ledger_of X pid rk w')"
    unfolding eq
    by (rule ledger_step.refund [where n = "unat (v_amount_contributed v)"])
      (use guard effect checked_sub_one [OF n] v vk in
        \<open>auto simp: ledger_fields [OF r] can_withdraw_iff open_status_def vouchers_of_lookup(1)\<close>)
  moreover have "keeps_offchain X pid rk w w'"
    using addr(1) [symmetric] by (auto simp: keeps_offchain_def eq)
  ultimately show ?thesis
    using result(1) effect by (simp add: refines_def)
qed

lemma reject_bid_refines:
  assumes ok: "reject_bid X pid A w = Inr (ev, w')" and rk: "key (rb_round A) = rk"
    and inv: "round_inv X pid rk w"
  shows "refines X pid rk w w'"
proof -
  let ?vk = "key (rb_voucher A)" and ?b = "bid_pda X pid rk"
  obtain r v bw w1 n where
      r: "data_of w rk = RoundData r" and v: "data_of w ?vk = VoucherData v" "owner_of w ?vk = pid"
    and bw: "data_of w (key (rb_bid_wallet A)) = TokenData bw"
    and addr: "voucher_pda X pid rk (key (rb_user A)) = ?vk" "?b = key (rb_bid_wallet A)"
      "authority_pda X pid rk = key (rb_authority A)"
    and guard: "assert_can_reject_bid r (x_now X) = Inr ()"
    and refund: "refund_bid_to_recipient X (to_withdraw_ctx A) v bw w = Inr w1"
    and n: "checked_sub (r_vouchers_count r) 1 = Some n"
    and close: "close_to X ?vk (key (rb_payer A)) (set_data rk (RoundData (r\<lparr>r_vouchers_count := n\<rparr>)) w1) = Inr w'"
    using ok unfolding rk [symmetric]
    by (simp add: reject_bid_def load_simps split_paired_Ex del: close_to_Inr) blast
  have vk: "voucher_addr X pid rk ?vk"
    using voucher_addrI(1) addr(1) by metis
  have tok: "is_token w ?b"
    using bw by (simp add: is_token_def addr(2))
  have wd: "key (wd_bid_wallet (to_withdraw_ctx A)) = ?b"
    "key (wd_authority (to_withdraw_ctx A)) = authority_pda X pid rk"
    by (simp_all add: to_withdraw_ctx_def addr)
  note effect = refund_effect [OF refund wd tok round_invE(2) [OF inv r]]
  note result = after_close [OF inv r v(1) conjunct1 [OF effect] _ close]
  have eq: "ledger_of X pid rk w' = (ledger_of X pid rk w)\<lparr>l_bid := token_balance w1 ?b,
      l_count := unat n, l_vouchers := (l_vouchers (ledger_of X pid rk w))(?vk := None)\<rparr>"
    using effect by (subst result(2)) (auto simp: ledger_fields [OF r] totals_of_def intro!: ledger_eqI)
  have "ledger_step (ledger_of X pid rk w) (ledger_of X pid rk w')"
    unfolding eq
    by (rule ledger_step.refund [where n = "unat (v_amount_contributed v)"])
      (use guard effect checked_sub_one [OF n] v vk in
        \<open>auto simp: ledger_fields [OF r] can_reject_bid_iff open_status_def vouchers_of_lookup(1)\<close>)
  moreover have "keeps_offchain X pid rk w w'"
    using addr(1) [symmetric] by (auto simp: keeps_offchain_def eq)
  ultimately show ?thesis
    using result(1) effect by (simp add: refines_def)
qed

lemma redeem_refines:
  assumes ok: "redeem P X pid A w = Inr (ev, w')" and rk: "key (re_round A) = rk"
    and inv: "round_inv X pid rk w"
  shows "refines X pid rk w w'"
proof -
  let ?vk = "key (re_voucher A)" and ?b = "bid_pda X pid rk"
  obtain r v w1 n amount where
      r: "data_of w rk = RoundData r" and v: "data_of w ?vk = VoucherData v" "owner_of w ?vk = pid"
    and addr: "voucher_pda X pid rk (key (re_user A)) = ?vk"
    and guard: "assert_can_redeem r = Inr ()"
    and n: "checked_sub (r_vouchers_count r) 1 = Some n"
    and pay: "transfer_to_user X A amount w = Inr w1"
    and close: "close_to X ?vk (key (re_payer A)) (set_data rk (RoundData (r\<lparr>r_vouchers_count := n\<rparr>)) w1) = Inr w'"
    using ok unfolding rk [symmetric]
    by (simp add: redeem_def load_simps split_paired_Ex del: close_to_Inr) blast
  have vk: "voucher_addr X pid rk ?vk"
    using voucher_addrI(1) addr by metis
  note frame = transfer_frame [OF pay [unfolded transfer_to_user_def]]
  note safe = transfer_bid_safe [OF pay [unfolded transfer_to_user_def] round_invE(2) [OF inv r]]
  note result = after_close [OF inv r v(1) frame safe close]
  have eq: "ledger_of X pid rk w' = (ledger_of X pid rk w)\<lparr>l_count := unat n,
      l_bid := token_balance w1 ?b, l_vouchers := (l_vouchers (ledger_of X pid rk w))(?vk := None)\<rparr>"
    by (subst result(2)) (auto simp: ledger_fields [OF r] totals_of_def intro!: ledger_eqI)
  have "ledger_step (ledger_of X pid rk w) (ledger_of X pid rk w')"
    unfolding eq
    by (rule ledger_step.redeemed [where n = "unat (v_amount_contributed v)"])
      (use guard checked_sub_one [OF n] v vk in
        \<open>auto simp: ledger_fields [OF r] assert_can_redeem_def res_simps vouchers_of_lookup(1)\<close>)
  moreover have "keeps_offchain X pid rk w w'"
    using addr [symmetric] by (auto simp: keeps_offchain_def eq)
  ultimately show ?thesis
    using result(1) by (simp add: refines_def)
qed

lemma transfer_bid_effect:
  assumes ok: "transfer_bid_to_recipient X A b w = Inr w'" and addr: "key (ac_bid_wallet A) = bid_pda X pid rk"
    and safe: "bid_safe X pid rk w"
  shows "typed_frame w w' \<and> bid_safe X pid rk w'"
proof (cases "t_is_native b")
  case None
  then have t: "call_transfer X (ac_bid_wallet A) (ac_recipient A) (ac_authority A) (t_amount b)
      (authority_seeds (key (ac_round A))) w = Inr w'"
    using ok by (simp add: transfer_bid_to_recipient_def)
  show ?thesis
    using transfer_frame [OF t] transfer_bid_safe [OF t safe] by simp
next
  case (Some rent)
  then obtain w1 w2 where
      c1: "call_close X (ac_bid_wallet A) (ac_authority A) (ac_authority A) (authority_seeds (key (ac_round A))) w
        = Inr w1"
    and c2: "call_pay X (ac_authority A) (ac_recipient A) (t_amount b) (authority_seeds (key (ac_round A))) w1
        = Inr w2"
    and c3: "call_pay X (ac_authority A) (ac_payer A) rent (authority_seeds (key (ac_round A))) w2 = Inr w'"
    using ok by (auto simp: transfer_bid_to_recipient_def Let_def res_simps)
  have "keeps (bid_pda X pid rk) w1 w'"
    using keeps_trans [OF pay_keeps [OF c2] pay_keeps [OF c3]] .
  moreover have "\<not> is_token w1 (bid_pda X pid rk)"
    using close_closes(2) [OF c1] by (simp add: addr is_token_def)
  ultimately have "bid_safe X pid rk w'"
    by (intro bid_safe_closed) (simp add: keeps_token)
  then show ?thesis
    using close_frame [OF c1] pay_frame [OF c2] pay_frame [OF c3] by (blast intro: typed_frame_trans)
qed

lemma accept_refines:
  assumes ok: "accept X pid A auth w = Inr (ev, w')" and rk: "key (ac_round A) = rk"
    and inv: "round_inv X pid rk w"
  shows "refines X pid rk w w'"
proof -
  let ?b = "bid_pda X pid rk"
  obtain r ow bw w1 where
      r: "data_of w rk = RoundData r"
    and tokens: "data_of w (key (ac_offer_wallet A)) = TokenData ow" "data_of w (key (ac_bid_wallet A)) = TokenData bw"
    and addr: "?b = key (ac_bid_wallet A)"
    and guard: "assert_can_accept_or_reject r (x_now X) = Inr ()"
    and move: "transfer_bid_to_recipient X A bw w = Inr w1"
    and w': "w' = set_data rk (RoundData (case auth of
          Some a \<Rightarrow> r\<lparr>r_total_bid := Some (t_amount bw), r_total_offer := Some (t_amount ow),
            r_status := Reconciliation, r_reconciliation_authority := a\<rparr>
        | None \<Rightarrow> r\<lparr>r_total_bid := Some (t_amount bw), r_total_offer := Some (t_amount ow),
            r_status := Accepted\<rparr>)) w1"
    using ok unfolding rk [symmetric]
    by (cases auth; simp add: accept_def load_simps split_paired_Ex; blast)
  note effect = transfer_bid_effect [OF move addr [symmetric] round_invE(2) [OF inv r]]
  define s where "s = (if auth = None then Accepted else Reconciliation)"
  have eq: "ledger_of X pid rk w' = (ledger_of X pid rk w)\<lparr>l_status := s,
      l_totals := Some (t_amount bw, t_amount ow), l_bid := token_balance w1 ?b\<rparr>"
    unfolding w' using effect
    by (subst after_round(2) [OF inv r]) (auto simp: ledger_fields [OF r] totals_of_def s_def
        intro!: ledger_eqI split: option.splits)
  have "ledger_step (ledger_of X pid rk w) (ledger_of X pid rk w')"
    unfolding eq
    by (rule ledger_step.accept) (use guard in \<open>auto simp: ledger_fields [OF r] can_accept_iff s_def\<close>)
  moreover have "keeps_offchain X pid rk w w'"
    by (auto simp: keeps_offchain_def eq)
  ultimately show ?thesis
    using after_round(1) [OF inv r] effect by (simp add: refines_def w')
qed

lemma reject_refines:
  assumes ok: "reject X pid A w = Inr (ev, w')" and rk: "key (rj_round A) = rk"
    and inv: "round_inv X pid rk w" and apart: "offer_pda X pid rk \<noteq> bid_pda X pid rk"
  shows "refines X pid rk w w'"
proof -
  let ?b = "bid_pda X pid rk"
  obtain r ow w1 where
      r: "data_of w rk = RoundData r" and ow: "data_of w (key (rj_offer_wallet A)) = TokenData ow"
    and addr: "offer_pda X pid rk = key (rj_offer_wallet A)"
    and guard: "assert_can_accept_or_reject r (x_now X) = Inr ()"
    and move: "transfer_offer_back_to_heir X A ow w = Inr w1"
    and w': "w' = set_data rk (RoundData (r\<lparr>r_status := Rejected\<rparr>)) w1"
    using ok unfolding rk [symmetric] by (simp add: reject_def load_simps split_paired_Ex) blast
  note move' = move [unfolded transfer_offer_back_to_heir_def]
  note frame = transfer_frame [OF move']
  note safe = transfer_bid_safe [OF move' round_invE(2) [OF inv r]]
  have bid: "token_balance w ?b \<le> token_balance w1 ?b"
    using transfer_balance(4) [OF move'] apart addr by metis
  have eq: "ledger_of X pid rk w' = (ledger_of X pid rk w)\<lparr>l_status := Rejected, l_bid := token_balance w1 ?b\<rparr>"
    unfolding w' by (subst after_round(2) [OF inv r frame safe])
      (auto simp: ledger_fields [OF r] totals_of_def intro!: ledger_eqI)
  have "ledger_step (ledger_of X pid rk w) (ledger_of X pid rk w')"
    unfolding eq
    by (rule ledger_step.reject) (use guard bid in \<open>auto simp: ledger_fields [OF r] can_accept_iff\<close>)
  moreover have "keeps_offchain X pid rk w w'"
    by (auto simp: keeps_offchain_def eq)
  ultimately show ?thesis
    using after_round(1) [OF inv r frame safe] by (simp add: refines_def w')
qed

lemma finish_refines:
  assumes ok: "finish_reconciliation X pid A w = Inr (ev, w')" and rk: "key (fr_round A) = rk"
    and inv: "round_inv X pid rk w"
  shows "refines X pid rk w w'"
proof -
  obtain r where r: "data_of w rk = RoundData r" and guard: "assert_can_finish_reconciliation r = Inr ()"
    and w': "w' = set_data rk (RoundData (r\<lparr>r_status := Accepted\<rparr>)) w"
    using ok unfolding rk [symmetric]
    by (simp add: finish_reconciliation_def load_simps split_paired_Ex) blast
  note result = after_round [OF inv r typed_frame_refl round_invE(2) [OF inv r]]
  have eq: "ledger_of X pid rk w' = (ledger_of X pid rk w)\<lparr>l_status := Accepted\<rparr>"
    unfolding w' by (subst result(2)) (auto simp: ledger_fields [OF r] totals_of_def intro!: ledger_eqI)
  have "ledger_step (ledger_of X pid rk w) (ledger_of X pid rk w')"
    unfolding eq
    by (rule ledger_step.finish)
      (use guard in \<open>auto simp: ledger_fields [OF r] assert_can_finish_reconciliation_def res_simps\<close>)
  moreover have "keeps_offchain X pid rk w w'"
    by (auto simp: keeps_offchain_def eq)
  ultimately show ?thesis
    using result(1) by (simp add: refines_def w')
qed

lemma migrate_refines:
  assumes ok: "migrate X pid A w = Inr (ev, w')" and rk: "key (mg_round A) = rk"
    and inv: "round_inv X pid rk w"
  shows "refines X pid rk w w'"
proof -
  obtain r r' where r: "data_of w rk = RoundData r" and w': "w' = set_data rk (RoundData r') w"
    and r': "r' = (if r_return_wallet r = 0
       then r\<lparr>r_return_wallet := x_ata X (r_heir r) (r_offer_mint r)\<rparr> else r)"
    using ok unfolding rk [symmetric] by (simp add: migrate_def load_simps split_paired_Ex) blast
  note result = after_round [OF inv r typed_frame_refl round_invE(2) [OF inv r]]
  have eq: "ledger_of X pid rk w' = (ledger_of X pid rk w)\<lparr>l_bid := l_bid (ledger_of X pid rk w)\<rparr>"
    unfolding w' by (subst result(2)) (auto simp: ledger_fields [OF r] totals_of_def r' intro!: ledger_eqI split: option.splits)
  have "ledger_step (ledger_of X pid rk w) (ledger_of X pid rk w')"
    unfolding eq by (rule ledger_step.outside) simp
  moreover have "keeps_offchain X pid rk w w'"
    by (auto simp: keeps_offchain_def eq)
  ultimately show ?thesis
    using result(1) by (simp add: refines_def w')
qed

lemma record_offchain_refines:
  assumes ok: "record_offchain_contribution X pid A n w = Inr (ev, w')" and rk: "key (oc_round A) = rk"
    and inv: "round_inv X pid rk w" and payer: "key (oc_payer A) \<noteq> 0"
  shows "refines X pid rk w w'"
proof -
  let ?vk = "key (oc_voucher A)" and ?b = "bid_pda X pid rk"
  obtain r v w1 r' v' where
      r: "data_of w rk = RoundData r" and addr: "offchain_pda X pid rk (key (oc_user A)) = ?vk"
    and init: "init_voucher_if_needed X pid (oc_payer A) (oc_voucher A)
        [SeedStr ''OFFCHAIN_VOUCHER'', SeedKey rk, SeedKey (key (oc_user A))] w = Inr (v, w1)"
    and guard: "assert_can_contribute_offchain r = Inr ()"
    and first: "offchain_voucher (key (oc_payer A)) rk (key (oc_user A)) n r v = Inr (r', v')"
    and w': "w' = set_data ?vk (VoucherData v') (set_data rk (RoundData r') w1)"
    using ok unfolding rk [symmetric]
    by (simp add: record_offchain_contribution_def load_simps split_paired_Ex) blast
  have vk: "voucher_addr X pid rk ?vk"
    using voucher_addrI(2) addr by metis
  note ready = voucher_ready [OF init inv vk]
  have bid: "token_balance w1 ?b = token_balance w ?b \<and> bid_safe X pid rk w1"
  proof (cases "keeps ?b w w1")
    case True
    then show ?thesis
      using round_invE(2) [OF inv r] by (simp add: keeps_token(2) [OF True] bid_safe_cong [OF True])
  next
    case False
    then have "\<not> is_token w ?b" "?b = ?vk"
      using ready(2) [of ?b] ready(8) by blast+
    then show ?thesis
      using ready(3) by (simp add: not_token_views(1) bid_safe_closed)
  qed
  have ne: "?vk \<noteq> rk"
    using ready(5) r by metis
  note result = after_voucher [OF inv r ready(1) conjunct2 [OF bid] vk ready(4) ready(3) ne]
  show ?thesis
  proof (cases "v_payer v = 0")
    case True
    then obtain c where c: "checked_add (r_vouchers_count r) 1 = Some c"
      and r': "r' = r\<lparr>r_vouchers_count := c\<rparr>" and v': "v_payer v' \<noteq> 0" "v_amount_contributed v' = n"
      using first payer by (auto simp: offchain_voucher_def res_simps)
    have eq: "ledger_of X pid rk w' = (ledger_of X pid rk w)\<lparr>l_count := l_count (ledger_of X pid rk w) + 1,
        l_vouchers := (l_vouchers (ledger_of X pid rk w))(?vk \<mapsto> unat n)\<rparr>"
      unfolding w' using v' bid c
      by (subst result(2)) (auto simp: ledger_fields [OF r] totals_of_def r' checked_simps unat_add_checked
          intro!: ledger_eqI)
    have "ledger_step (ledger_of X pid rk w) (ledger_of X pid rk w')"
      unfolding eq
      by (rule ledger_step.fiat)
        (use guard True ready(6) in \<open>auto simp: ledger_fields [OF r] assert_can_contribute_offchain_def res_simps\<close>)
    moreover have "keeps_offchain X pid rk w w'"
      by (auto simp: keeps_offchain_def eq)
    ultimately show ?thesis
      using result(1) v' by (simp add: refines_def w')
  next
    case False
    then have same: "r' = r" "v' = v"
      using first by (auto simp: offchain_voucher_def)
    have eq: "ledger_of X pid rk w' = (ledger_of X pid rk w)\<lparr>l_bid := l_bid (ledger_of X pid rk w)\<rparr>"
      unfolding w' using False bid ready(7)
      by (subst result(2)) (auto simp: ledger_fields [OF r] same intro!: ledger_eqI)
    have "ledger_step (ledger_of X pid rk w) (ledger_of X pid rk w')"
      unfolding eq by (rule ledger_step.outside) simp
    moreover have "keeps_offchain X pid rk w w'"
      by (auto simp: keeps_offchain_def eq)
    ultimately show ?thesis
      using result(1) False by (simp add: refines_def w' same)
  qed
qed

text \<open>A new round starts the ledger without vouchers.\<close>

lemma create_starts:
  assumes ok: "create_round X pid A params w = Inr (ev, w')" and rk: "key (cr_round A) = rk"
    and none: "\<forall>k. voucher_addr X pid rk k \<longrightarrow> voucher_in pid w k = None"
  shows "round_inv X pid rk w'" "l_status (ledger_of X pid rk w') = Pending"
    "l_count (ledger_of X pid rk w') = 0" "l_vouchers (ledger_of X pid rk w') = Map.empty"
proof -
  obtain source w1 w2 w3 w4 w5 w6 r where
      i1: "x_init X (cr_payer A) (cr_round A) (8 + round_init_space) pid [] w = Inr w1"
    and i2: "x_init X (cr_payer A) (cr_offer_wallet A) 165 (x_token_id X) [[SeedStr ''OFFER'', SeedKey rk]] w1 = Inr w2"
    and i3: "call_init_token X (cr_offer_wallet A) (cr_offer_mint A) (key (cr_authority A)) w2 = Inr w3"
    and i4: "x_init X (cr_payer A) (cr_bid_wallet A) 165 (x_token_id X) [[SeedStr ''BID'', SeedKey rk]] w3 = Inr w4"
    and i5: "call_init_token X (cr_bid_wallet A) (cr_bid_mint A) (key (cr_authority A)) w4 = Inr w5"
    and addr: "bid_pda X pid rk = key (cr_bid_wallet A)" "authority_pda X pid rk = key (cr_authority A)"
    and move: "call_transfer X (cr_offer_source_wallet A) (cr_offer_wallet A) (cr_offer_source_authority A)
      (t_delegated_amount (source :: token_account)) [] w5 = Inr w6"
    and w': "w' = set_data rk (RoundData r) w6" and r: "r_status r = Pending" "r_vouchers_count r = 0"
    using ok unfolding rk [symmetric]
    by (auto simp: create_round_def load_create_round_def init_token_def Let_def res_simps)
  have d1: "data_of w1 rk = Raw (replicate (8 + round_init_space) 0)" "owner_of w1 rk = pid"
    using init_fresh(2,3) [OF i1] by (simp_all add: rk)
  have keep2: "keeps rk w1 w3"
    using init_keeps [OF i2, of rk] init_token_keeps [OF i3, of rk] init_fresh(1) [OF i2] d1(1)
    by (metis keeps_trans acct_data.inject(1) replicate_empty add_is_0 round_init_space_def zero_neq_numeral)
  then have keep4: "keeps rk w3 w5"
    using init_keeps [OF i4, of rk] init_token_keeps [OF i5, of rk] init_fresh(1) [OF i4] d1(1)
    by (metis keeps_trans keeps_def acct_data.inject(1) replicate_empty add_is_0 round_init_space_def zero_neq_numeral)
  have keep5: "keeps rk w1 w5"
    using keep2 keep4 by (rule keeps_trans)
  then have "\<not> is_token w5 rk"
    using d1(1) by (simp add: keeps_def is_token_def)
  then have keep6: "keeps rk w1 w6"
    using keeps_trans [OF keep5 transfer_keeps [OF move]] by simp
  have frame: "typed_frame w w6"
    using init_frame [OF i1] init_frame [OF i2] init_token_frame [OF i3] init_frame [OF i4]
      init_token_frame [OF i5] transfer_frame [OF move] by (blast intro: typed_frame_trans)
  have "bid_safe X pid rk w5"
    using init_token_made(2,3) [OF i5] by (auto simp: bid_safe_def addr)
  then have safe: "bid_safe X pid rk w6"
    by (rule transfer_bid_safe [OF move])
  have d6: "data_of w6 rk = Raw (replicate (8 + round_init_space) 0)" "owner_of w6 rk = pid"
    using keep6 d1 by (simp_all add: keeps_def)
  then have tok6: "\<not> is_token w6 rk"
    by (simp add: is_token_def)
  have vouchers: "voucher_addr X pid rk k \<Longrightarrow> voucher_in pid w' k = None" for k
    using none typed_frame_voucher [OF frame] by (simp add: w' voucher_in_set)
  then show "l_vouchers (ledger_of X pid rk w') = Map.empty"
    by (simp add: fun_eq_iff ledger_of_def Let_def vouchers_of_def)
  show "round_inv X pid rk w'"
    using vouchers safe d6 store_keeps_balance(3) [OF tok6, of "RoundData r"]
    by (simp add: round_inv_def payers_set_def w')
  show "l_status (ledger_of X pid rk w') = Pending" "l_count (ledger_of X pid rk w') = 0"
    using r by (simp_all add: ledger_of_def Let_def round_in_def w')
qed

end

section \<open>The machine of a round\<close>

text \<open>
  What other transactions can do: only the program writes its accounts, the address of the
  authority signs only for the program, so the bid wallet can only gain.
\<close>

definition others :: "ext \<Rightarrow> pubkey \<Rightarrow> pubkey \<Rightarrow> world \<Rightarrow> world \<Rightarrow> bool" where
  "others X pid rk w w' \<longleftrightarrow> keeps rk w w'
     \<and> (\<forall>k. voucher_addr X pid rk k \<longrightarrow> voucher_in pid w' k = voucher_in pid w k)
     \<and> bid_safe X pid rk w'
     \<and> token_balance w (bid_pda X pid rk) \<le> token_balance w' (bid_pda X pid rk)"

inductive round_step :: "'n precise \<Rightarrow> ext \<Rightarrow> pubkey \<Rightarrow> pubkey \<Rightarrow> world \<Rightarrow> world \<Rightarrow> bool"
  for P X pid rk where
  step_contribute:
    "contribute (X\<lparr>x_now := t\<rparr>) pid Act w = Inr (ev, w') \<Longrightarrow> key (ct_round Act) = rk \<Longrightarrow>
     key (ct_user_wallet_authority Act) \<noteq> authority_pda X pid rk \<Longrightarrow> key (ct_payer Act) \<noteq> 0 \<Longrightarrow>
     round_step P X pid rk w w'"
| step_withdraw:
    "withdraw (X\<lparr>x_now := t\<rparr>) pid Awd w = Inr (ev, w') \<Longrightarrow> key (wd_round Awd) = rk \<Longrightarrow>
     round_step P X pid rk w w'"
| step_reject_bid:
    "reject_bid (X\<lparr>x_now := t\<rparr>) pid Arb w = Inr (ev, w') \<Longrightarrow> key (rb_round Arb) = rk \<Longrightarrow>
     round_step P X pid rk w w'"
| step_accept:
    "accept (X\<lparr>x_now := t\<rparr>) pid Aac auth w = Inr (ev, w') \<Longrightarrow> key (ac_round Aac) = rk \<Longrightarrow>
     round_step P X pid rk w w'"
| step_reject:
    "reject (X\<lparr>x_now := t\<rparr>) pid Arj w = Inr (ev, w') \<Longrightarrow> key (rj_round Arj) = rk \<Longrightarrow>
     round_step P X pid rk w w'"
| step_offchain:
    "record_offchain_contribution (X\<lparr>x_now := t\<rparr>) pid Aoc n w = Inr (ev, w') \<Longrightarrow>
     key (oc_round Aoc) = rk \<Longrightarrow> key (oc_payer Aoc) \<noteq> 0 \<Longrightarrow> round_step P X pid rk w w'"
| step_finish:
    "finish_reconciliation (X\<lparr>x_now := t\<rparr>) pid Afr w = Inr (ev, w') \<Longrightarrow> key (fr_round Afr) = rk \<Longrightarrow>
     round_step P X pid rk w w'"
| step_redeem:
    "redeem P (X\<lparr>x_now := t\<rparr>) pid Are w = Inr (ev, w') \<Longrightarrow> key (re_round Are) = rk \<Longrightarrow>
     round_step P X pid rk w w'"
| step_migrate:
    "migrate (X\<lparr>x_now := t\<rparr>) pid Amg w = Inr (ev, w') \<Longrightarrow> key (mg_round Amg) = rk \<Longrightarrow>
     round_step P X pid rk w w'"
| step_others: "others X pid rk w w' \<Longrightarrow> round_step P X pid rk w w'"

inductive round_run :: "'n precise \<Rightarrow> ext \<Rightarrow> pubkey \<Rightarrow> pubkey \<Rightarrow> world \<Rightarrow> bool"
  for P X pid rk where
  created:
    "create_round (X\<lparr>x_now := t\<rparr>) pid Acr params w = Inr (ev, w') \<Longrightarrow> key (cr_round Acr) = rk \<Longrightarrow>
     \<forall>k. voucher_addr X pid rk k \<longrightarrow> voucher_in pid w k = None \<Longrightarrow> round_run P X pid rk w'"
| stepped: "round_run P X pid rk w \<Longrightarrow> round_step P X pid rk w w' \<Longrightarrow> round_run P X pid rk w'"

lemma refines_at_time [simp]: "refines (X\<lparr>x_now := t\<rparr>) = refines X"
  by (simp add: fun_eq_iff refines_def keeps_offchain_def)

lemma others_refines:
  assumes "others X pid rk w w'" "round_inv X pid rk w"
  shows "refines X pid rk w w'"
proof -
  have "round_inv X pid rk w'"
    using assms by (auto simp: round_inv_def others_def payers_set_def keeps_def)
  moreover have "ledger_of X pid rk w' = (ledger_of X pid rk w)
      \<lparr>l_bid := token_balance w' (bid_pda X pid rk)\<rparr>"
    using assms by (auto simp: ledger_of_def Let_def others_def keeps_def round_in_def vouchers_of_def fun_eq_iff)
  moreover have "l_bid (ledger_of X pid rk w) \<le> token_balance w' (bid_pda X pid rk)"
    using assms(1) by (simp add: others_def ledger_of_def Let_def)
  ultimately show ?thesis
    using ledger_step.outside [of "ledger_of X pid rk w" "token_balance w' (bid_pda X pid rk)"]
    by (auto simp: refines_def keeps_offchain_def)
qed

lemma round_step_refines:
  assumes laws: "token_program X" and apart: "offer_pda X pid rk \<noteq> bid_pda X pid rk"
    and step: "round_step P X pid rk w w'" and inv: "round_inv X pid rk w"
  shows "refines X pid rk w w'"
  using step
proof cases
  case (step_contribute t A ev)
  then show ?thesis
    using token_program.contribute_refines [OF token_program_at_time [OF laws] step_contribute(1,2)] inv by simp
next
  case (step_withdraw t A ev)
  then show ?thesis
    using token_program.withdraw_refines [OF token_program_at_time [OF laws] step_withdraw] inv by simp
next
  case (step_reject_bid t A ev)
  then show ?thesis
    using token_program.reject_bid_refines [OF token_program_at_time [OF laws] step_reject_bid] inv by simp
next
  case (step_accept t A auth ev)
  then show ?thesis
    using token_program.accept_refines [OF token_program_at_time [OF laws] step_accept] inv by simp
next
  case (step_reject t A ev)
  then show ?thesis
    using token_program.reject_refines [OF token_program_at_time [OF laws] step_reject] inv apart by simp
next
  case (step_offchain t A n ev)
  then show ?thesis
    using token_program.record_offchain_refines [OF token_program_at_time [OF laws] step_offchain(1,2)] inv by simp
next
  case (step_finish t A ev)
  then show ?thesis
    using token_program.finish_refines [OF token_program_at_time [OF laws] step_finish] inv by simp
next
  case (step_redeem t A ev)
  then show ?thesis
    using token_program.redeem_refines [OF token_program_at_time [OF laws] step_redeem] inv by simp
next
  case (step_migrate t A ev)
  then show ?thesis
    using token_program.migrate_refines [OF token_program_at_time [OF laws] step_migrate] inv by simp
next
  case step_others
  then show ?thesis
    using inv by (rule others_refines)
qed

lemma round_run_ok:
  assumes laws: "token_program X" and apart: "offer_pda X pid rk \<noteq> bid_pda X pid rk"
    and run: "round_run P X pid rk w"
  shows "round_inv X pid rk w \<and> ledger_ok (ledger_of X pid rk w)"
  using run
proof induction
  case (created t A params w ev w')
  note start = token_program.create_starts [OF token_program_at_time [OF laws] created(1,2)]
  show ?case
    using start created(3) by (simp add: ledger_ok_def owed_def open_status_def)
next
  case (stepped w w')
  then have "refines X pid rk w w'"
    using round_step_refines [OF laws apart] by blast
  then show ?case
    using stepped.IH ledger_step_ok by (auto simp: refines_def)
qed

end
