(* ===== verification/RoundProps.thy ===== *)
theory RoundProps
  imports RoundMachine
begin

text \<open>
  The properties of the round program, with the runs on the executable chain that witness them:
  when each party may act, what a redemption pays, and what holds in every reachable state.
\<close>

section \<open>A round on the executable chain\<close>

definition signer :: "pubkey \<Rightarrow> account_info" where
  "signer k = \<lparr>key = k, is_signer = True, is_writable = True\<rparr>"

definition plain :: "pubkey \<Rightarrow> account_info" where
  "plain k = \<lparr>key = k, is_signer = False, is_writable = True\<rparr>"

lemma infos [simp]:
  "key (signer k) = k" "is_signer (signer k)" "is_writable (signer k)"
  "key (plain k) = k" "\<not> is_signer (plain k)" "is_writable (plain k)"
  by (simp_all add: signer_def plain_def)

definition wallet :: "pubkey \<Rightarrow> pubkey \<Rightarrow> u64 \<Rightarrow> u64 \<Rightarrow> account" where
  "wallet mnt own amount delegated =
     \<lparr>lamports = 1000, acc_owner = 6, data = TokenData \<lparr>t_mint = mnt, t_owner = own, t_amount = amount,
       t_delegate = Some own, t_is_native = None, t_delegated_amount = delegated, t_close_authority = None\<rparr>\<rparr>"

definition mint_account :: account where
  "mint_account = \<lparr>lamports = 1000, acc_owner = 6, data = MintData \<lparr>mt_authority = None, mt_supply = 1000\<rparr>\<rparr>"

definition demo0 :: world where
  "demo0 = \<lparr>accts = (\<lambda>k. \<lparr>lamports = 0, acc_owner = 0, data = Raw []\<rparr>)
     (22 := \<lparr>lamports = 1000000, acc_owner = 0, data = Raw []\<rparr>,
      30 := mint_account, 31 := mint_account, 40 := wallet 31 41 500 50, 42 := wallet 30 11 100 70),
     lam_locked = [], data_locked = []\<rparr>"

definition demo_create :: create_round_accs where
  "demo_create = \<lparr>cr_round = signer 5, cr_offer_wallet = plain 100005005, cr_offer_mint = plain 31,
     cr_offer_source_wallet = plain 40, cr_offer_source_authority = signer 41,
     cr_bid_wallet = plain 100003005, cr_bid_mint = plain 30, cr_authority = plain 100004005,
     cr_payer = signer 22, cr_token_program = plain 6, cr_system_program = plain 0\<rparr>"

definition demo_params :: create_round_params where
  "demo_params = \<lparr>p_heir = 20, p_recipient = 42, p_target_bid = 100, p_bidding_start = 10, p_bidding_end = 20\<rparr>"

definition demo_contribute :: contribute_accs where
  "demo_contribute = \<lparr>ct_round = plain 5, ct_voucher = plain 100007005011, ct_user = signer 11,
     ct_user_wallet = plain 42, ct_user_wallet_authority = signer 11, ct_bid_wallet = plain 100003005,
     ct_payer = signer 22, ct_token_program = plain 6, ct_system_program = plain 0\<rparr>"

definition demo_accept :: accept_accs where
  "demo_accept = \<lparr>ac_round = plain 5, ac_heir = signer 20, ac_offer_wallet = plain 100005005,
     ac_bid_wallet = plain 100003005, ac_recipient = plain 42, ac_authority = plain 100004005,
     ac_payer = plain 22, ac_token_program = plain 6, ac_system_program = plain 0\<rparr>"

definition demo_offchain :: record_offchain_accs where
  "demo_offchain = \<lparr>oc_round = plain 5, oc_voucher = plain 100016005012, oc_user = plain 12,
     oc_reconciliation_authority = signer 23, oc_payer = signer 22, oc_system_program = plain 0\<rparr>"

definition demo_close :: close_accs where
  "demo_close = \<lparr>cl_round = plain 5, cl_return_wallet = plain 40, cl_offer_wallet = plain 100005005,
     cl_bid_wallet = plain 100003005, cl_authority = plain 100004005, cl_payer = signer 22,
     cl_token_program = plain 6, cl_system_program = plain 0\<rparr>"

definition demo_withdraw :: withdraw_accs where
  "demo_withdraw = \<lparr>wd_round = plain 5, wd_voucher = plain 100007005011, wd_user = signer 11,
     wd_user_wallet = plain 42, wd_bid_wallet = plain 100003005, wd_authority = plain 100004005,
     wd_wsol_mint = plain 7, wd_payer = plain 22, wd_current_payer = signer 22,
     wd_token_program = plain 6, wd_system_program = plain 0\<rparr>"

lemma pdas [simp]:
  "bid_pda (sim t) 100 5 = 100003005" "offer_pda (sim t) 100 5 = 100005005"
  "authority_pda (sim t) 100 5 = 100004005" "voucher_pda (sim t) 100 5 11 = 100007005011"
  "offchain_pda (sim t) 100 5 12 = 100016005012"
  by (simp_all add: bid_pda_def offer_pda_def authority_pda_def voucher_pda_def offchain_pda_def sim_pda_def)

definition end_of :: "outcome \<Rightarrow> world" where
  "end_of r = (case r of Inr (ev, w) \<Rightarrow> w | Inl _ \<Rightarrow> demo0)"

definition demo1 :: world where
  "demo1 = end_of (create_round (sim 5) 100 demo_create demo_params demo0)"

definition demo2 :: world where
  "demo2 = end_of (contribute (sim 15) 100 demo_contribute demo1)"

definition demo3 :: world where
  "demo3 = end_of (accept (sim 21) 100 demo_accept (Some 23) demo2)"

definition demo4 :: world where
  "demo4 = end_of (record_offchain_contribution (sim 22) 100 demo_offchain 9 demo3)"

lemmas demo_simps = demo4_def demo3_def demo2_def demo1_def end_of_def demo0_def wallet_def mint_account_def
  create_round_def load_create_round_def load_mint_def load_token_def Let_def
  demo_create_def demo_params_def demo_contribute_def demo_accept_def demo_offchain_def
  sim_init_account_def init_token_def call_init_token_def sim_init_def sim_transfer_tokens_def call_transfer_def
  data_of_def owner_of_def lamports_of_def set_data_def set_lamports_def put_def saturating_sub_def sim_rent_def
  round_init_space_def load_round_def load_voucher_def contribute_def load_contribute_def
  init_voucher_if_needed_def voucher_space_def voucher_default_def first_time_init_def
  assert_can_contribute_def round_default_def checked_add_def
  accept_def load_accept_def assert_can_accept_or_reject_def can_withdraw_due_heir_inactivity_def
  heir_timeout_date_def inactivity_timeout_def checked_add_i64_def fits_i64_def
  transfer_bid_to_recipient_def
  record_offchain_contribution_def load_record_offchain_def assert_can_contribute_offchain_def offchain_voucher_def

lemma demo1_ok: "\<exists>ev. create_round (sim 5) 100 demo_create demo_params demo0 = Inr (ev, demo1)"
  by (simp add: demo_simps)

lemma demo2_ok: "\<exists>ev. contribute (sim 15) 100 demo_contribute demo1 = Inr (ev, demo2)"
  by (simp add: demo_simps)

lemma demo3_ok: "\<exists>ev. accept (sim 21) 100 demo_accept (Some 23) demo2 = Inr (ev, demo3)"
  by (simp add: demo_simps)

lemma demo4_ok: "\<exists>ev. record_offchain_contribution (sim 22) 100 demo_offchain 9 demo3 = Inr (ev, demo4)"
  by (simp add: demo_simps)

text \<open>The same runs, with the clock set by the steps.\<close>

lemma sim_at_time [simp]: "(sim t)\<lparr>x_now := t'\<rparr> = sim t'"
  by (simp add: sim_def)

lemma demo0_fresh: "voucher_in 100 demo0 k = None"
  by (simp add: voucher_in_def demo0_def data_of_def wallet_def mint_account_def split: acct_data.splits)

lemma demo1_run: "round_run fixed12 (sim 0) 100 5 demo1"
proof -
  obtain ev where "create_round ((sim 0)\<lparr>x_now := 5\<rparr>) 100 demo_create demo_params demo0 = Inr (ev, demo1)"
    using demo1_ok by auto
  then show ?thesis
    by (rule round_run.created) (simp_all add: demo_create_def demo0_fresh)
qed

lemma demo2_step: "round_step fixed12 (sim 0) 100 5 demo1 demo2"
proof -
  obtain ev where "contribute ((sim 0)\<lparr>x_now := 15\<rparr>) 100 demo_contribute demo1 = Inr (ev, demo2)"
    using demo2_ok by auto
  then show ?thesis
    by (rule round_step.step_contribute) (simp_all add: demo_contribute_def)
qed

lemma demo3_step: "round_step fixed12 (sim 0) 100 5 demo2 demo3"
proof -
  obtain ev where "accept ((sim 0)\<lparr>x_now := 21\<rparr>) 100 demo_accept (Some 23) demo2 = Inr (ev, demo3)"
    using demo3_ok by auto
  then show ?thesis
    by (rule round_step.step_accept) (simp add: demo_accept_def)
qed

lemma demo4_step: "round_step fixed12 (sim 0) 100 5 demo3 demo4"
proof -
  obtain ev where "record_offchain_contribution ((sim 0)\<lparr>x_now := 22\<rparr>) 100 demo_offchain 9 demo3 = Inr (ev, demo4)"
    using demo4_ok by auto
  then show ?thesis
    by (rule round_step.step_offchain) (simp_all add: demo_offchain_def)
qed

lemmas demo2_run = round_run.stepped [OF demo1_run demo2_step]
lemmas demo3_run = round_run.stepped [OF demo2_run demo3_step]
lemmas demo4_run = round_run.stepped [OF demo3_run demo4_step]

lemma demo_apart: "offer_pda (sim 0) 100 5 \<noteq> bid_pda (sim 0) 100 5"
  by simp

lemma demo2_state:
  "r_status (round_in demo2 5) = Pending" "token_balance demo2 (bid_pda (sim 0) 100 5) = 70"
  by (simp_all add: round_in_def token_balance_def demo_simps)

lemma demo4_state: "voucher_in 100 demo4 (offchain_pda (sim 0) 100 5 12) \<noteq> None"
  by (simp add: voucher_in_def demo_simps)

section \<open>When each party may act\<close>

text \<open>
  C18: The windows of a pending round. The heir may decide from the end of the bidding until the
  deadline seven days later; a bidder may withdraw from the start of the bidding to its end and
  again after the deadline. Together the two windows cover every second from the start, and they
  overlap in exactly one, the end of the bidding. Contributions are accepted by the clock alone,
  in every status.
\<close>

theorem round_windows:
  assumes "r_status r = Pending" "timeout_fits r" "sint (r_bidding_start r) \<le> sint now"
    "sint (r_bidding_start r) \<le> sint (r_bidding_end r)"
  shows "(assert_can_accept_or_reject r now = Inr () \<or> assert_can_withdraw r now True = Inr ())
    \<and> (assert_can_accept_or_reject r now = Inr () \<and> assert_can_withdraw r now True = Inr ()
      \<longleftrightarrow> now = r_bidding_end r)
    \<and> (assert_can_reject_bid r now = Inr () \<longleftrightarrow> assert_can_accept_or_reject r now = Inr ())
    \<and> (assert_can_withdraw r now False = Inr () \<longleftrightarrow> now = r_bidding_end r \<or> deadline r < sint now)
    \<and> (\<forall>s. assert_can_contribute (r\<lparr>r_status := s\<rparr>) now = Inr () \<longleftrightarrow> sint now \<le> sint (r_bidding_end r))"
proof -
  have eq: "now = r_bidding_end r \<longleftrightarrow> sint now = sint (r_bidding_end r)"
    by (metis signed_word_eqI)
  have "\<forall>s. assert_can_contribute (r\<lparr>r_status := s\<rparr>) now = Inr () \<longleftrightarrow> sint now \<le> sint (r_bidding_end r)"
    using assms by (auto simp: assert_can_contribute_def res_simps)
  then show ?thesis
    using assms end_le_deadline [of r] unfolding eq guard_iffs by auto
qed

definition demo_round :: round where
  "demo_round = round_default\<lparr>r_bidding_start := 10, r_bidding_end := 20\<rparr>"

theorem round_windows_witness:
  "assert_can_accept_or_reject demo_round 20 = Inr () \<and> assert_can_withdraw demo_round 20 True = Inr ()"
proof -
  have r: "r_status demo_round = Pending" "timeout_fits demo_round"
    "sint (r_bidding_start demo_round) \<le> sint (20 :: i64)"
    "sint (r_bidding_start demo_round) \<le> sint (r_bidding_end demo_round)"
    by (simp_all add: demo_round_def round_default_def timeout_fits_def deadline_def)
  show ?thesis
    using round_windows [OF r] by (simp add: demo_round_def)
qed

section \<open>What a redemption pays\<close>

context precise_number
begin

lemma redeem_steps:
  fixes target balance u T :: u64
  defines "B \<equiv> max target balance"
  assumes "0 < unat B" "unat u \<le> unat B"
  shows "\<exists>z. calculate_redeem_amount P target balance u T = Some (of_nat (div_round (z * unat T) pn_one))
    \<and> (unat u * pn_one) div unat B \<le> z \<and> z \<le> div_round (unat u * pn_one) (unat B)
    \<and> div_round (z * unat T) pn_one \<le> unat T"
proof -
  obtain b where b: "pn_new P (ucast B) = Some b" "val b = unat B * pn_one"
    by (rule new_obtain [of "ucast B"]) (simp add: unat_ucast_up)
  obtain x where x: "pn_new P (ucast u) = Some x" "val x = unat u * pn_one"
    by (rule new_obtain [of "ucast u"]) (simp add: unat_ucast_up)
  obtain t where t: "pn_new P (ucast T) = Some t" "val t = unat T * pn_one"
    by (rule new_obtain [of "ucast T"]) (simp add: unat_ucast_up)
  obtain q p where q: "pn_div P x b = Some q" "(unat u * pn_one) div unat B \<le> val q"
      "val q \<le> div_round (unat u * pn_one) (unat B)" "div_round (val q * unat T) pn_one \<le> unat T"
    and p: "pn_mul P q t = Some p"
      "Option.bind (pn_imprecise P p) u64_of_u128 = Some (of_nat (div_round (val q * unat T) pn_one))"
    using ratio_chain [OF x(2) b(2) t(2) assms(2,3) unat_u64_less unat_u64_less] by metis
  then show ?thesis
    by (intro exI [of _ "val q"]) (simp add: calculate_redeem_amount_def Let_def b(1) x(1) t(1) flip: B_def)
qed

end

text \<open>
  C17: With a positive target or total bid \<open>B\<close> (the larger of both) and a voucher of at most
  \<open>B\<close>, the redeem amount is always computed and never more than the whole offer \<open>T\<close>.
  It is the exact share \<open>u T / B\<close> up to half a unit and an error that the twelve decimals of the
  quotient contribute in proportion to \<open>T\<close>.
\<close>

theorem redeem_amount_bounds:
  fixes target balance u T :: u64
  assumes laws: "precise_number P val" and B: "B = unat (max target balance)"
    and pos: "0 < B" and u: "unat u \<le> B"
  shows "\<exists>r. calculate_redeem_amount P target balance u T = Some r \<and> unat r \<le> unat T
    \<and> 2 * pn_one * (unat r * B) \<le> 2 * pn_one * (unat u * unat T) + B * (unat T + pn_one)
    \<and> 2 * pn_one * (unat u * unat T) \<le> 2 * pn_one * (unat r * B) + B * (2 * unat T + pn_one)"
proof -
  obtain z where r: "calculate_redeem_amount P target balance u T = Some (of_nat (div_round (z * unat T) pn_one))"
    and z: "(unat u * pn_one) div B \<le> z" "z \<le> div_round (unat u * pn_one) B"
    and le: "div_round (z * unat T) pn_one \<le> unat T"
    using precise_number.redeem_steps [OF laws, of target balance u T] pos u unfolding B by auto
  let ?r = "div_round (z * unat T) pn_one"
  have val: "unat (of_nat ?r :: u64) = ?r"
    using le unat_u64_less [of T] by (simp add: unat_of_nat)
  have "share_close (unat u) B (unat T) ?r"
    using pos z by (rule share_close_chain)
  then show ?thesis
    using r val le by (intro exI [of _ "of_nat ?r"]) (simp add: share_close_def)
qed

theorem redeem_amount_bounds_witness:
  "calculate_redeem_amount fixed12 26250 10000 9000 2500 = Some 857
   \<and> (\<exists>r. calculate_redeem_amount fixed12 26250 10000 9000 2500 = Some r \<and> unat r \<le> 2500)"
proof -
  have "\<exists>r. calculate_redeem_amount fixed12 26250 10000 9000 2500 = Some r \<and> unat r \<le> unat (2500 :: u64)"
    using redeem_amount_bounds [OF fixed12.precise_number_axioms refl, of 26250 10000 9000 2500]
    by (auto simp: max_def)
  then show ?thesis
    by (simp add: calculate_redeem_amount_def fixed12_def u256_fits_def u64_of_u128_def max_def)
qed

text \<open>
  C22: The amounts are rounded to the nearest unit, not down: two vouchers of half the bids each
  redeem more than an odd offer together, so the offer wallet cannot pay the second one.
\<close>

theorem redeem_halves_exceed_offer:
  fixes half target T :: u64
  assumes laws: "precise_number P val" and half: "0 < unat half" "2 * unat half < 2 ^ 64"
    and target: "target \<le> 2 * half" and odd: "unat T = 2 * j + 1"
  shows "\<exists>r. calculate_redeem_amount P target (2 * half) half T = Some r \<and> unat T < 2 * unat r"
proof -
  have double: "unat (2 * half) = 2 * unat half"
    using half(2) unat_mult_lem [of 2 half] by simp
  have B: "unat (max target (2 * half)) = 2 * unat half"
    using target double by (simp add: max_def)
  obtain z where r: "calculate_redeem_amount P target (2 * half) half T
      = Some (of_nat (div_round (z * unat T) pn_one))"
    and z: "(unat half * pn_one) div (2 * unat half) \<le> z" "z \<le> div_round (unat half * pn_one) (2 * unat half)"
    and le: "div_round (z * unat T) pn_one \<le> unat T"
    using precise_number.redeem_steps [OF laws, of target "2 * half" half T] half(1) unfolding B by auto
  have exact: "unat half * pn_one = (2 * unat half) * pn_half"
    by simp
  have "z = pn_half"
    using div_round_sandwich [OF _ exact z] half(1) by simp
  then have "div_round (z * unat T) pn_one = j + 1"
    unfolding odd by (intro div_round_unique) simp_all
  then have "unat (of_nat (div_round (z * unat T) pn_one) :: u64) = j + 1"
    using le unat_u64_less [of T] by (simp only: unat_of_nat) simp
  then show ?thesis
    using r odd by auto
qed

theorem redeem_halves_exceed_offer_witness:
  "\<exists>r. calculate_redeem_amount fixed12 0 2 1 1 = Some r \<and> 1 < 2 * unat r"
  using redeem_halves_exceed_offer [OF fixed12.precise_number_axioms, of 1 0 1 0] by simp

section \<open>Reachable states\<close>

text \<open>
  C5: Refinement: in every state a round reaches, each of its instructions that succeeds, at any
  time and with any accounts, is a step of the ledger, and so is whatever others do in between.
\<close>

theorem round_refines_ledger:
  assumes "token_program X" "offer_pda X pid rk \<noteq> bid_pda X pid rk"
    and "round_run P X pid rk w" "round_step P X pid rk w w'"
  shows "ledger_step (ledger_of X pid rk w) (ledger_of X pid rk w') \<and> ledger_ok (ledger_of X pid rk w')"
  using round_step_refines [OF assms(1,2,4)] round_run_ok [OF assms(1,2,3)] ledger_step_ok
  by (auto simp: refines_def)

theorem round_refines_ledger_witness:
  "ledger_step (ledger_of (sim 0) 100 5 demo1) (ledger_of (sim 0) 100 5 demo2)
   \<and> ledger_ok (ledger_of (sim 0) 100 5 demo2)"
  by (rule round_refines_ledger [OF sim.token_program_axioms demo_apart demo1_run demo2_step])

text \<open>
  C1: Solvency: as long as the heir has not accepted, the bid wallet of a round holds at least the
  sum of all open vouchers, in every reachable state: every bidder can be paid back in full.
\<close>

theorem round_always_solvent:
  assumes "token_program X" "offer_pda X pid rk \<noteq> bid_pda X pid rk"
    and "round_run P X pid rk w" "r_status (round_in w rk) \<in> {Pending, Rejected}"
  shows "(\<Sum>k \<in> dom (vouchers_of X pid rk w). the (vouchers_of X pid rk w k))
    \<le> token_balance w (bid_pda X pid rk)"
  using round_run_ok [OF assms(1-3)] assms(4)
  by (auto simp: ledger_ok_def ledger_of_def Let_def owed_def open_status_def)

theorem round_always_solvent_witness:
  "(\<Sum>k \<in> dom (vouchers_of (sim 0) 100 5 demo2). the (vouchers_of (sim 0) 100 5 demo2 k)) \<le> 70"
  using round_always_solvent [OF sim.token_program_axioms demo_apart demo2_run]
  unfolding demo2_state by simp

lemma close_needs_zero:
  assumes ok: "close (X\<lparr>x_now := t\<rparr>) pid A w = Inr out" and rk: "key (cl_round A) = rk"
  shows "r_vouchers_count (round_in w rk) = 0"
proof -
  obtain r where "data_of w rk = RoundData r" "assert_can_close r t = Inr ()"
    using ok unfolding rk [symmetric] by (cases out) (simp add: close_def load_simps split_paired_Ex; blast)
  then show ?thesis
    by (simp add: round_in_eq can_close_iff)
qed

lemma count_open:
  assumes "token_program X" "offer_pda X pid rk \<noteq> bid_pda X pid rk" "round_run P X pid rk w"
  shows "unat (r_vouchers_count (round_in w rk)) = card {k. voucher_addr X pid rk k \<and> voucher_in pid w k \<noteq> None}"
proof -
  have "dom (vouchers_of X pid rk w) = {k. voucher_addr X pid rk k \<and> voucher_in pid w k \<noteq> None}"
    by (auto simp: vouchers_of_def split: if_splits)
  then show ?thesis
    using round_run_ok [OF assms] by (simp add: ledger_ok_def ledger_of_def Let_def)
qed

lemma close_leaves_none:
  assumes "token_program X" "offer_pda X pid rk \<noteq> bid_pda X pid rk" "round_run P X pid rk w"
    and "close (X\<lparr>x_now := t\<rparr>) pid A w = Inr out" "key (cl_round A) = rk" "voucher_addr X pid rk k"
  shows "voucher_in pid w k = None"
proof -
  have "card {k. voucher_addr X pid rk k \<and> voucher_in pid w k \<noteq> None} = 0"
    using count_open [OF assms(1-3)] close_needs_zero [OF assms(4,5)] by simp
  then have "{k. voucher_addr X pid rk k \<and> voucher_in pid w k \<noteq> None} = {}"
    using finite_subset [OF subset_UNIV] by simp
  with assms(6) show ?thesis by blast
qed

text \<open>
  C15: \<open>vouchers_count\<close> is the number of open vouchers of the round in every reachable state, and
  \<open>close\<close> can only succeed when none is left.
\<close>

theorem round_vouchers_counted:
  assumes "token_program X" "offer_pda X pid rk \<noteq> bid_pda X pid rk" "round_run P X pid rk w"
  shows "unat (r_vouchers_count (round_in w rk)) = card {k. voucher_addr X pid rk k \<and> voucher_in pid w k \<noteq> None}
    \<and> (\<forall>t A out. key (cl_round A) = rk \<longrightarrow> close (X\<lparr>x_now := t\<rparr>) pid A w = Inr out \<longrightarrow>
      (\<forall>k. voucher_addr X pid rk k \<longrightarrow> voucher_in pid w k = None))"
  using count_open [OF assms] close_leaves_none [OF assms] by blast

theorem round_vouchers_counted_witness:
  "unat (r_vouchers_count (round_in demo2 5))
    = card {k. voucher_addr (sim 0) 100 5 k \<and> voucher_in 100 demo2 k \<noteq> None}"
  using round_vouchers_counted [OF sim.token_program_axioms demo_apart demo2_run] by blast

lemma steps_run: "(round_step P X pid rk)\<^sup>*\<^sup>* w w' \<Longrightarrow> round_run P X pid rk w \<Longrightarrow> round_run P X pid rk w'"
  by (induction rule: rtranclp_induct) (auto intro: round_run.stepped)

lemma steps_ledger:
  assumes "token_program X" "offer_pda X pid rk \<noteq> bid_pda X pid rk" "round_run P X pid rk w"
    and "(round_step P X pid rk)\<^sup>*\<^sup>* w w'"
  shows "ledger_step\<^sup>*\<^sup>* (ledger_of X pid rk w) (ledger_of X pid rk w')
    \<and> dom (l_vouchers (ledger_of X pid rk w)) - range (voucher_pda X pid rk)
      \<subseteq> dom (l_vouchers (ledger_of X pid rk w'))"
  using assms(4)
proof (induction rule: rtranclp_induct)
  case (step w1 w2)
  have "refines X pid rk w1 w2"
    using round_step_refines [OF assms(1,2) step(2)] round_run_ok [OF assms(1,2) steps_run [OF step(1) assms(3)]]
    by blast
  with step.IH show ?case
    by (auto simp: refines_def keeps_offchain_def)
qed auto

text \<open>
  C16: The status of a round only moves forward: an accepted or rejected round keeps its status
  for ever, no round becomes pending again, and a round that was accepted (or is in
  reconciliation) has both totals recorded, so \<open>redeem\<close> and \<open>finish_reconciliation\<close> can rely on them.
\<close>

theorem round_status_forward:
  assumes "token_program X" "offer_pda X pid rk \<noteq> bid_pda X pid rk"
    and "round_run P X pid rk w" "(round_step P X pid rk)\<^sup>*\<^sup>* w w'"
  shows "(r_status (round_in w rk) \<in> {Accepted, Rejected} \<longrightarrow> r_status (round_in w' rk) = r_status (round_in w rk))
    \<and> (r_status (round_in w' rk) = Pending \<longrightarrow> r_status (round_in w rk) = Pending)
    \<and> (r_status (round_in w' rk) \<in> {Accepted, Reconciliation} \<longrightarrow>
      (\<exists>tb to. r_total_bid (round_in w' rk) = Some tb \<and> r_total_offer (round_in w' rk) = Some to))"
proof -
  have st: "l_status (ledger_of X pid rk v) = r_status (round_in v rk)" for v
    by (simp add: ledger_of_def Let_def)
  have rank: "status_rank s \<le> 2" "status_rank s = 0 \<longleftrightarrow> s = Pending" for s
    by (cases s; simp)+
  have "r_status (round_in w' rk) = r_status (round_in w rk)
      \<or> status_rank (r_status (round_in w rk)) < status_rank (r_status (round_in w' rk))"
    using ledger_steps_status steps_ledger [OF assms] st by metis
  then have "r_status (round_in w rk) \<in> {Accepted, Rejected} \<longrightarrow> r_status (round_in w' rk) = r_status (round_in w rk)"
    "r_status (round_in w' rk) = Pending \<longrightarrow> r_status (round_in w rk) = Pending"
    using rank(1) [of "r_status (round_in w' rk)"] by auto
  moreover have "r_status (round_in w' rk) \<in> {Accepted, Reconciliation} \<longrightarrow>
      (\<exists>tb to. r_total_bid (round_in w' rk) = Some tb \<and> r_total_offer (round_in w' rk) = Some to)"
    using round_run_ok [OF assms(1,2) steps_run [OF assms(4,3)]]
    by (auto simp: ledger_ok_def ledger_of_def Let_def open_status_def totals_of_def split: option.splits)
  ultimately show ?thesis by blast
qed

theorem round_status_forward_witness:
  "r_status (round_in demo4 5) = Reconciliation
   \<and> (\<exists>tb to. r_total_bid (round_in demo4 5) = Some tb \<and> r_total_offer (round_in demo4 5) = Some to)"
proof -
  have "(round_step fixed12 (sim 0) 100 5)\<^sup>*\<^sup>* demo2 demo4"
    using demo3_step demo4_step by (meson converse_rtranclp_into_rtranclp rtranclp.rtrancl_refl)
  note forward = round_status_forward [OF sim.token_program_axioms demo_apart demo2_run this]
  have "r_status (round_in demo4 5) = Reconciliation"
    by (simp add: round_in_def demo_simps)
  with forward show ?thesis
    by simp
qed

text \<open>
  C20: A voucher recorded for an off-chain contribution can never be closed: no instruction accepts
  its address. From then on the round always has an open voucher, and \<open>close\<close> never succeeds.
\<close>

theorem round_offchain_never_closes:
  assumes "token_program X" "offer_pda X pid rk \<noteq> bid_pda X pid rk" "round_run P X pid rk w"
    and "voucher_in pid w (offchain_pda X pid rk u) \<noteq> None"
    and "\<forall>u'. voucher_pda X pid rk u' \<noteq> offchain_pda X pid rk u"
    and "(round_step P X pid rk)\<^sup>*\<^sup>* w w'"
  shows "voucher_in pid w' (offchain_pda X pid rk u) \<noteq> None
    \<and> (\<forall>t A out. key (cl_round A) = rk \<longrightarrow> close (X\<lparr>x_now := t\<rparr>) pid A w' \<noteq> Inr out)"
proof -
  let ?k = "offchain_pda X pid rk u"
  have "?k \<in> dom (l_vouchers (ledger_of X pid rk w)) - range (voucher_pda X pid rk)"
    using assms(4,5) voucher_addrI(2) by (auto simp: ledger_of_def Let_def vouchers_of_def)
  then have "?k \<in> dom (l_vouchers (ledger_of X pid rk w'))"
    using steps_ledger [OF assms(1-3,6)] by blast
  then have live: "voucher_in pid w' ?k \<noteq> None"
    by (auto simp: ledger_of_def Let_def vouchers_of_def split: if_splits)
  have run: "round_run P X pid rk w'"
    using assms(6,3) by (rule steps_run)
  have addr: "voucher_addr X pid rk ?k"
    by (rule voucher_addrI)
  show ?thesis
    using live addr close_leaves_none [OF assms(1,2) run] by metis
qed

lemma sim_offchain_apart: "voucher_pda (sim 0) 100 5 u \<noteq> 100016005012"
proof
  assume eq: "voucher_pda (sim 0) 100 5 u = 100016005012"
  have "voucher_pda (sim 0) 100 5 u = 100007005000 + u mod 1000"
    by (simp add: voucher_pda_def sim_pda_def)
  moreover have m: "unat (u mod 1000) < 1000"
    by (simp add: unat_mod)
  moreover have "unat (100007005000 + u mod 1000) = 100007005000 + unat (u mod 1000)"
    using m by (subst unat_add_checked) simp_all
  ultimately have "unat (100016005012 :: pubkey) = 100007005000 + unat (u mod 1000)"
    using eq by simp
  with m show False
    by simp
qed

theorem round_offchain_never_closes_witness:
  "voucher_in 100 demo4 100016005012 \<noteq> None \<and> (\<forall>t out. close (sim t) 100 demo_close demo4 \<noteq> Inr out)"
proof -
  have apart: "\<forall>u'. voucher_pda (sim 0) 100 5 u' \<noteq> offchain_pda (sim 0) 100 5 12"
    using sim_offchain_apart by simp
  show ?thesis
    using round_offchain_never_closes [OF sim.token_program_axioms demo_apart demo4_run demo4_state apart
        rtranclp.rtrancl_refl] by (simp add: demo_close_def)
qed

text \<open>
  C21: A refund of wrapped SOL creates a temporary account at the address of the authority, which
  the system program refuses when the address holds lamports. So one lamport sent to that
  address by anybody blocks \<open>withdraw\<close> and \<open>reject_bid\<close> for every bidder of the round, at all
  times and with any accounts.
\<close>

theorem round_dust_blocks_refunds:
  assumes laws: "token_program X" and bid: "data_of w (bid_pda X pid rk) = TokenData b" "t_is_native b \<noteq> None"
    and dust: "lamports_of w (authority_pda X pid rk) \<noteq> 0"
  shows "(\<forall>t A out. key (wd_round A) = rk \<longrightarrow> withdraw (X\<lparr>x_now := t\<rparr>) pid A w \<noteq> Inr out)
    \<and> (\<forall>t A out. key (rb_round A) = rk \<longrightarrow> reject_bid (X\<lparr>x_now := t\<rparr>) pid A w \<noteq> Inr out)"
proof -
  have blocked: "refund_bid_to_recipient (X\<lparr>x_now := t\<rparr>) A v b w \<noteq> Inr w'"
    if addr: "authority_pda X pid rk = key (wd_authority A)" for t A v w'
  proof
    assume "refund_bid_to_recipient (X\<lparr>x_now := t\<rparr>) A v b w = Inr w'"
    then obtain w1 where "call_create (X\<lparr>x_now := t\<rparr>) (wd_current_payer A) (wd_authority A) (x_rent X 165) 165
        (x_token_id X) (authority_seeds (key (wd_round A))) w = Inr w1"
      using bid(2) by (auto simp: refund_bid_to_recipient_def Let_def res_simps)
    then have "lamports_of w (key (wd_authority A)) = 0"
      using system_program.create_fresh(2) token_program_at_time [OF laws]
      unfolding token_program_def by blast
    then show False
      using dust addr by simp
  qed
  have "\<forall>t A out. key (wd_round A) = rk \<longrightarrow> withdraw (X\<lparr>x_now := t\<rparr>) pid A w \<noteq> Inr out"
  proof (intro allI impI notI)
    fix t A out assume rk: "key (wd_round A) = rk" and ok: "withdraw (X\<lparr>x_now := t\<rparr>) pid A w = Inr out"
    obtain v bw w1 where "data_of w (key (wd_bid_wallet A)) = TokenData bw" "bid_pda X pid rk = key (wd_bid_wallet A)"
      "authority_pda X pid rk = key (wd_authority A)"
      "refund_bid_to_recipient (X\<lparr>x_now := t\<rparr>) A v bw w = Inr w1"
      using ok unfolding rk [symmetric]
      by (cases out) (simp add: withdraw_def load_simps split_paired_Ex del: close_to_Inr; blast)
    then show False
      using bid(1) blocked by (metis acct_data.inject(2))
  qed
  moreover have "\<forall>t A out. key (rb_round A) = rk \<longrightarrow> reject_bid (X\<lparr>x_now := t\<rparr>) pid A w \<noteq> Inr out"
  proof (intro allI impI notI)
    fix t A out assume rk: "key (rb_round A) = rk" and ok: "reject_bid (X\<lparr>x_now := t\<rparr>) pid A w = Inr out"
    obtain v bw w1 where "data_of w (key (rb_bid_wallet A)) = TokenData bw" "bid_pda X pid rk = key (rb_bid_wallet A)"
      "authority_pda X pid rk = key (wd_authority (to_withdraw_ctx A))"
      "refund_bid_to_recipient (X\<lparr>x_now := t\<rparr>) (to_withdraw_ctx A) v bw w = Inr w1"
      using ok unfolding rk [symmetric] to_withdraw_ctx_def withdraw_accs.simps
      by (cases out) (simp add: reject_bid_def load_simps split_paired_Ex to_withdraw_ctx_def del: close_to_Inr; blast)
    then show False
      using bid(1) blocked by (metis acct_data.inject(2))
  qed
  ultimately show ?thesis by blast
qed

definition dusty :: world where
  "dusty = \<lparr>accts = (\<lambda>k. \<lparr>lamports = 1, acc_owner = 6, data = TokenData \<lparr>t_mint = 7, t_owner = 100004005,
     t_amount = 70, t_delegate = None, t_is_native = Some 293, t_delegated_amount = 0,
     t_close_authority = None\<rparr>\<rparr>), lam_locked = [], data_locked = []\<rparr>"

theorem round_dust_blocks_refunds_witness:
  "\<forall>t out. withdraw (sim t) 100 demo_withdraw dusty \<noteq> Inr out"
  using round_dust_blocks_refunds [OF sim.token_program_axioms, where w = dusty and pid = 100 and rk = 5]
  by (simp add: dusty_def data_of_def lamports_of_def demo_withdraw_def)

end
