(* ===== verification/Borsh.thy ===== *)
theory Borsh
  imports Prelude
begin

text \<open>
  Codecs for Borsh, the serialisation the native programs use. The derive macros are not part
  of the repository: the programs' definitions take a codec for each of their types, and rely on
  its law \<open>lawful\<close>: decoding what was encoded returns the value and the rest of the input. The
  codecs here are an executable instance that follows the published format (little-endian
  integers, fields in order, a tag byte for an option); the witnesses run on them.
\<close>

record 'a codec =
  enc :: "'a \<Rightarrow> u8 list"
  dec :: "u8 list \<Rightarrow> ('a \<times> u8 list) option"

definition lawful :: "'a codec \<Rightarrow> bool" where
  "lawful c \<longleftrightarrow> (\<forall>x rest. dec c (enc c x @ rest) = Some (x, rest))"

lemma lawfulD: "lawful c \<Longrightarrow> dec c (enc c x @ rest) = Some (x, rest)"
  by (simp add: lawful_def)

section \<open>Integers\<close>

fun le_enc :: "nat \<Rightarrow> nat \<Rightarrow> u8 list" where
  "le_enc 0 n = []"
| "le_enc (Suc k) n = of_nat (n mod 256) # le_enc k (n div 256)"

fun le_dec :: "nat \<Rightarrow> u8 list \<Rightarrow> (nat \<times> u8 list) option" where
  "le_dec 0 bs = Some (0, bs)"
| "le_dec (Suc k) [] = None"
| "le_dec (Suc k) (b # bs) = (case le_dec k bs of None \<Rightarrow> None
     | Some (n, rest) \<Rightarrow> Some (unat b + 256 * n, rest))"

lemma le_enc_length [simp]: "length (le_enc k n) = k"
  by (induction k n rule: le_enc.induct) auto

lemma le_dec_enc: "n < 256 ^ k \<Longrightarrow> le_dec k (le_enc k n @ rest) = Some (n, rest)"
proof (induction k n rule: le_enc.induct)
  case (2 k n)
  have "unat (of_nat (n mod 256) :: u8) = n mod 256"
    by (simp add: unat_of_nat)
  moreover have "n div 256 < 256 ^ k"
    using 2(2) by (simp add: less_mult_imp_div_less mult.commute)
  ultimately show ?case
    using 2(1) by simp
qed simp

definition word_codec :: "nat \<Rightarrow> ('a::len word) codec" where
  "word_codec k = \<lparr>enc = (\<lambda>w. le_enc k (unat w)),
     dec = (\<lambda>bs. map_option (\<lambda>(n, rest). (of_nat n, rest)) (le_dec k bs))\<rparr>"

lemma word_codec_lawful:
  assumes "LENGTH('a) = 8 * k"
  shows "lawful (word_codec k :: ('a::len word) codec)"
proof -
  have "unat w < 256 ^ k" for w :: "'a word"
    using unsigned_less [where 'a = nat, of w] assms by (simp add: power_mult)
  then show ?thesis
    by (simp add: lawful_def word_codec_def le_dec_enc)
qed

lemma word_codec_length: "length (enc (word_codec k) w) = k"
  by (simp add: word_codec_def)

definition bool_codec :: "bool codec" where
  "bool_codec = \<lparr>enc = (\<lambda>b. [if b then 1 else 0]),
     dec = (\<lambda>bs. case bs of [] \<Rightarrow> None | b # rest \<Rightarrow>
       if b = 0 then Some (False, rest) else if b = 1 then Some (True, rest) else None)\<rparr>"

lemma bool_codec_lawful: "lawful bool_codec"
  by (simp add: lawful_def bool_codec_def)

section \<open>Structures\<close>

definition pair_codec :: "'a codec \<Rightarrow> 'b codec \<Rightarrow> ('a \<times> 'b) codec" where
  "pair_codec c d = \<lparr>enc = (\<lambda>(x, y). enc c x @ enc d y),
     dec = (\<lambda>bs. Option.bind (dec c bs) (\<lambda>(x, bs). Option.bind (dec d bs)
       (\<lambda>(y, bs). Some ((x, y), bs))))\<rparr>"

lemma pair_codec_lawful: "lawful c \<Longrightarrow> lawful d \<Longrightarrow> lawful (pair_codec c d)"
  by (auto simp: lawful_def pair_codec_def)

definition iso_codec :: "('b \<Rightarrow> 'a) \<Rightarrow> ('a \<Rightarrow> 'b) \<Rightarrow> 'a codec \<Rightarrow> 'b codec" where
  "iso_codec f g c = \<lparr>enc = (\<lambda>x. enc c (f x)),
     dec = (\<lambda>bs. map_option (\<lambda>(x, rest). (g x, rest)) (dec c bs))\<rparr>"

lemma iso_codec_lawful: "lawful c \<Longrightarrow> (\<And>x. g (f x) = x) \<Longrightarrow> lawful (iso_codec f g c)"
  by (simp add: lawful_def iso_codec_def)

definition option_codec :: "'a codec \<Rightarrow> 'a option codec" where
  "option_codec c = \<lparr>enc = (\<lambda>x. case x of None \<Rightarrow> [0] | Some y \<Rightarrow> 1 # enc c y),
     dec = (\<lambda>bs. case bs of [] \<Rightarrow> None | b # rest \<Rightarrow>
       if b = 0 then Some (None, rest)
       else if b = 1 then map_option (\<lambda>(y, rest). (Some y, rest)) (dec c rest) else None)\<rparr>"

lemma option_codec_lawful: "lawful c \<Longrightarrow> lawful (option_codec c)"
  by (auto simp: lawful_def option_codec_def split: option.splits)

lemma option_codec_length:
  "(\<And>y. length (enc c y) \<le> n) \<Longrightarrow> length (enc (option_codec c) x) \<le> Suc n"
  by (cases x) (auto simp: option_codec_def)

text \<open>A string is its length in four bytes and its bytes; \<open>string\<close> holds the bytes of its UTF-8.\<close>

definition string_codec :: "string codec" where
  "string_codec = \<lparr>enc = (\<lambda>s. le_enc 4 (length s) @ map (\<lambda>c. of_nat (of_char c)) s),
     dec = (\<lambda>bs. Option.bind (le_dec 4 bs) (\<lambda>(n, rest).
       if n \<le> length rest then Some (map (\<lambda>b. char_of (unat b)) (take n rest), drop n rest) else None))\<rparr>"

lemma string_codec_reads:
  assumes "length s < 2 ^ 32"
  shows "dec string_codec (enc string_codec s @ rest) = Some (s, rest)"
proof -
  have "char_of (unat (of_nat (of_char c) :: u8)) = c" for c
    by (simp add: unat_of_nat)
  then have "map ((\<lambda>b. char_of (unat b)) \<circ> (\<lambda>c. of_nat (of_char c) :: u8)) s = s"
    by (intro map_idI) simp
  with assms show ?thesis
    by (simp add: string_codec_def le_dec_enc)
qed

text \<open>\<open>try_from_slice\<close>: the whole input is read.\<close>

definition parse_all :: "'a codec \<Rightarrow> u8 list \<Rightarrow> 'a option" where
  "parse_all c bs = (case dec c bs of Some (x, []) \<Rightarrow> Some x | _ \<Rightarrow> None)"

lemma parse_all_enc: "lawful c \<Longrightarrow> parse_all c (enc c x) = Some x"
  using lawfulD [of c x "[]"] by (simp add: parse_all_def)

lemma parse_all_longer: "lawful c \<Longrightarrow> rest \<noteq> [] \<Longrightarrow> parse_all c (enc c x @ rest) = None"
  using lawfulD [of c x rest] by (cases rest) (simp_all add: parse_all_def)

lemma enc_simps:
  "enc (word_codec k) w = le_enc k (unat w)" "enc (pair_codec c d) (x, y) = enc c x @ enc d y"
  "enc (iso_codec f g c) z = enc c (f z)" "enc (option_codec c) None = [0]"
  "enc (option_codec c) (Some v) = 1 # enc c v" "enc bool_codec b = [if b then 1 else 0]"
  by (simp_all add: word_codec_def pair_codec_def iso_codec_def option_codec_def bool_codec_def)

abbreviation "key_codec \<equiv> (word_codec 32 :: pubkey codec)"
abbreviation "u64_codec \<equiv> (word_codec 8 :: u64 codec)"
abbreviation "u32_codec \<equiv> (word_codec 4 :: u32 codec)"
abbreviation "u16_codec \<equiv> (word_codec 2 :: u16 codec)"
abbreviation "u8_codec \<equiv> (word_codec 1 :: u8 codec)"

lemmas codec_lawful = pair_codec_lawful option_codec_lawful bool_codec_lawful
  word_codec_lawful [where 'a = 256 and k = 32, simplified]
  word_codec_lawful [where 'a = 64 and k = 8, simplified]
  word_codec_lawful [where 'a = 32 and k = 4, simplified]
  word_codec_lawful [where 'a = 16 and k = 2, simplified]
  word_codec_lawful [where 'a = 8 and k = 1, simplified]

end
