(* ===== verification/Entity.thy ===== *)
theory Entity
  imports Programs Borsh
begin

text \<open>
  The crate shared by the native programs: the \<open>Entity\<close> trait that stores a typed value in an
  account (\<open>common/src/entity.rs\<close>), and the readers of the account iterator
  (\<open>common/src/utils.rs\<close>). An entity is its size, its magic byte and its Borsh codec. A guard
  writes the entity back when it is dropped: the handlers of the model call \<open>drop_guard\<close> where
  the guard of the code goes out of scope.

  The account of an entity holds bytes; data that another program types is refused as invalid.
\<close>

section \<open>The trait\<close>

record 'a entity =
  e_size :: nat
  e_magic :: u8
  e_ser :: "'a \<Rightarrow> u8 list option"
  e_de :: "u8 list \<Rightarrow> ('a \<times> u8 list) option"

definition serialize_to :: "'a entity \<Rightarrow> 'a \<Rightarrow> u8 list \<Rightarrow> u8 list res" where
  "serialize_to E x bytes =
     and_then (ensure (\<not> length bytes < e_size E) AccountDataTooSmall) (\<lambda>_.
     and_then (ok_or BorshIoError (e_ser E x)) (\<lambda>serialized.
     and_then (assert_that (length serialized < e_size E)) (\<lambda>_.
     Inr (e_magic E # serialized @ drop (1 + length serialized) bytes))))"

definition deserialize_from :: "'a entity \<Rightarrow> u8 list \<Rightarrow> 'a res" where
  "deserialize_from E bytes =
     and_then (ensure (\<not> length bytes < e_size E) AccountDataTooSmall) (\<lambda>_.
     and_then (ensure (hd bytes \<noteq> 0) UninitializedAccount) (\<lambda>_.
     and_then (ensure (hd bytes = e_magic E) InvalidAccountData) (\<lambda>_.
     and_then (ok_or BorshIoError (e_de E (tl bytes))) (\<lambda>(x, rest). Inr x))))"

definition is_initialized :: "'a entity \<Rightarrow> u8 list \<Rightarrow> bool" where
  "is_initialized E bytes \<longleftrightarrow> e_size E \<le> length bytes \<and> hd bytes \<noteq> 0"

section \<open>Entities in accounts\<close>

definition raw_bytes :: "acct_data \<Rightarrow> u8 list res" where
  "raw_bytes d = (case d of Raw bs \<Rightarrow> Inr bs | _ \<Rightarrow> Inl (Err InvalidAccountData))"

lemma raw_bytes_Inr [res_simps]: "raw_bytes d = Inr bs \<longleftrightarrow> d = Raw bs"
  by (cases d) (auto simp: raw_bytes_def)

lemma read_data_Inr [res_simps]: "read_data k w = Inr d \<longleftrightarrow> k \<notin> set (data_locked w) \<and> d = data_of w k"
  by (auto simp: read_data_def)

definition entity_from_acc :: "'a entity \<Rightarrow> account_info \<Rightarrow> pubkey \<Rightarrow> world \<Rightarrow> 'a res" where
  "entity_from_acc E acc pid w =
     and_then (ensure (owner_of w (key acc) = pid) IllegalOwner) (\<lambda>_.
     and_then (read_data (key acc) w) (\<lambda>d.
     and_then (raw_bytes d) (\<lambda>bs. deserialize_from E bs)))"

definition next_entity ::
  "'a entity \<Rightarrow> account_info list \<Rightarrow> pubkey \<Rightarrow> world \<Rightarrow> ('a \<times> account_info \<times> account_info list) res" where
  "next_entity E it pid w =
     and_then (next_account_info it) (\<lambda>(acc, it).
     and_then (ensure (owner_of w (key acc) = pid) IllegalOwner) (\<lambda>_.
     and_then (read_data (key acc) w) (\<lambda>d.
     and_then (raw_bytes d) (\<lambda>bs.
     and_then (deserialize_from E bs) (\<lambda>x. Inr (x, acc, it))))))"

definition initialize_entity :: "'a entity \<Rightarrow> 'a \<Rightarrow> account_info \<Rightarrow> world \<Rightarrow> world res" where
  "initialize_entity E x acc w =
     and_then (read_data (key acc) w) (\<lambda>d.
     and_then (raw_bytes d) (\<lambda>bs.
     and_then (ensure (\<not> is_initialized E bs) AccountAlreadyInitialized) (\<lambda>_.
     and_then (serialize_to E x bs) (\<lambda>bs'. Inr (set_data (key acc) (Raw bs') w)))))"

text \<open>\<open>Drop for EntityGuard\<close>: both failures are an \<open>expect\<close>.\<close>

definition or_panic :: "'a res \<Rightarrow> 'a res" where
  "or_panic m = (case m of Inl _ \<Rightarrow> Inl Panic | Inr x \<Rightarrow> Inr x)"

lemma or_panic_Inr [res_simps]: "or_panic m = Inr x \<longleftrightarrow> m = Inr x"
  by (cases m) (auto simp: or_panic_def)

definition drop_guard :: "'a entity \<Rightarrow> 'a \<Rightarrow> account_info \<Rightarrow> world \<Rightarrow> world res" where
  "drop_guard E x acc w =
     and_then (or_panic (and_then (read_data (key acc) w) raw_bytes)) (\<lambda>bs.
     and_then (or_panic (serialize_to E x bs)) (\<lambda>bs'. Inr (set_data (key acc) (Raw bs') w)))"

section \<open>Readers of the account iterator\<close>

definition next_expected_account ::
  "account_info list \<Rightarrow> pubkey \<Rightarrow> (account_info \<times> account_info list) res" where
  "next_expected_account it expected =
     and_then (next_account_info it) (\<lambda>(acc, it).
     and_then (ensure (key acc = expected) InvalidArgument) (\<lambda>_. Inr (acc, it)))"

definition next_signer_account ::
  "account_info list \<Rightarrow> pubkey \<Rightarrow> (account_info \<times> account_info list) res" where
  "next_signer_account it expected =
     and_then (next_account_info it) (\<lambda>(acc, it).
     and_then (ensure (key acc = expected) InvalidArgument) (\<lambda>_.
     and_then (ensure (is_signer acc) MissingRequiredSignature) (\<lambda>_. Inr (acc, it))))"

text \<open>\<open>wallet.bytes.borrow()\<close> panics on a mutably borrowed cell; \<open>try_borrow_data\<close> fails.\<close>

definition next_expected_token_wallet ::
  "ext \<Rightarrow> account_info list \<Rightarrow> pubkey \<Rightarrow> world \<Rightarrow> (token_account \<times> account_info list) res" where
  "next_expected_token_wallet X it addr w =
     and_then (next_account_info it) (\<lambda>(acc, it).
     and_then (ensure (key acc = addr) InvalidArgument) (\<lambda>_.
     and_then (ensure (owner_of w (key acc) = x_token_id X) IllegalOwner) (\<lambda>_.
     and_then (or_panic (read_data (key acc) w)) (\<lambda>d.
     and_then (unpack_token d) (\<lambda>t. Inr (t, it))))))"

definition next_atoken_wallet ::
  "ext \<Rightarrow> account_info list \<Rightarrow> pubkey \<Rightarrow> pubkey \<Rightarrow> world
    \<Rightarrow> (pubkey \<times> token_account \<times> account_info list) res" where
  "next_atoken_wallet X it user mnt w =
     and_then (next_account_info it) (\<lambda>(acc, it).
     and_then (ensure (x_ata X user mnt = key acc) InvalidArgument) (\<lambda>_.
     and_then (ensure (owner_of w (key acc) = x_token_id X) IllegalOwner) (\<lambda>_.
     and_then (read_data (key acc) w) (\<lambda>d.
     and_then (unpack_token d) (\<lambda>t. Inr (key acc, t, it))))))"

lemma next_expected_account_Inr [res_simps]:
  "next_expected_account it k = Inr (acc, rest) \<longleftrightarrow> it = acc # rest \<and> key acc = k"
  by (auto simp: next_expected_account_def res_simps)

lemma next_signer_account_Inr [res_simps]:
  "next_signer_account it k = Inr (acc, rest) \<longleftrightarrow> it = acc # rest \<and> key acc = k \<and> is_signer acc"
  by (auto simp: next_signer_account_def res_simps)

lemma next_expected_token_wallet_Inr [res_simps]:
  "next_expected_token_wallet X it k w = Inr (t, rest) \<longleftrightarrow>
     (\<exists>acc. it = acc # rest \<and> key acc = k \<and> owner_of w k = x_token_id X
        \<and> k \<notin> set (data_locked w) \<and> data_of w k = TokenData t)"
  by (auto simp: next_expected_token_wallet_def res_simps)

lemma next_atoken_wallet_Inr [res_simps]:
  "next_atoken_wallet X it user mnt w = Inr (k, t, rest) \<longleftrightarrow>
     (\<exists>acc. it = acc # rest \<and> key acc = k \<and> k = x_ata X user mnt \<and> owner_of w k = x_token_id X
        \<and> k \<notin> set (data_locked w) \<and> data_of w k = TokenData t)"
  by (auto simp: next_atoken_wallet_def res_simps)

section \<open>What an account holds\<close>

definition entity_at :: "'a entity \<Rightarrow> world \<Rightarrow> pubkey \<Rightarrow> 'a option" where
  "entity_at E w k = (case data_of w k of
     Raw bs \<Rightarrow> (case deserialize_from E bs of Inl _ \<Rightarrow> None | Inr x \<Rightarrow> Some x) | _ \<Rightarrow> None)"

lemma entity_at_eq: "entity_at E w k = Some x \<longleftrightarrow> (\<exists>bs. data_of w k = Raw bs \<and> deserialize_from E bs = Inr x)"
  by (auto simp: entity_at_def split: acct_data.splits sum.splits)

lemma next_entity_Inr [res_simps]:
  "next_entity E it pid w = Inr (x, acc, rest) \<longleftrightarrow>
     it = acc # rest \<and> owner_of w (key acc) = pid \<and> key acc \<notin> set (data_locked w)
     \<and> entity_at E w (key acc) = Some x"
  by (auto simp: next_entity_def res_simps entity_at_eq)

lemma entity_from_acc_Inr [res_simps]:
  "entity_from_acc E acc pid w = Inr x \<longleftrightarrow>
     owner_of w (key acc) = pid \<and> key acc \<notin> set (data_locked w) \<and> entity_at E w (key acc) = Some x"
  by (auto simp: entity_from_acc_def res_simps entity_at_eq)

text \<open>An entity lives in its account: what was stored is what is read, until it is overwritten.\<close>

locale entity_codec =
  fixes E :: "'a entity"
  assumes magic_nonzero: "e_magic E \<noteq> 0"
    and size_positive: "0 < e_size E"
    and decode_encode: "e_ser E x = Some s \<Longrightarrow> e_de E (s @ rest) = Some (x, rest)"
begin

lemma serialize_to_Inr:
  assumes "serialize_to E x bytes = Inr bytes'"
  shows "deserialize_from E bytes' = Inr x" "length bytes' = length bytes" "is_initialized E bytes'"
    "hd bytes' = e_magic E"
  using assms magic_nonzero decode_encode
  by (auto simp: serialize_to_def deserialize_from_def is_initialized_def res_simps)

lemma drop_guard_stored:
  assumes "drop_guard E x acc w = Inr w'"
  shows "entity_at E w' (key acc) = Some x"
    "\<exists>bs bs'. data_of w (key acc) = Raw bs \<and> w' = set_data (key acc) (Raw bs') w
       \<and> length bs' = length bs \<and> hd bs' = e_magic E"
proof -
  obtain bs bs' where bs: "data_of w (key acc) = Raw bs" "serialize_to E x bs = Inr bs'"
    and w': "w' = set_data (key acc) (Raw bs') w"
    using assms by (auto simp: drop_guard_def res_simps)
  note stored = serialize_to_Inr [OF bs(2)]
  show "entity_at E w' (key acc) = Some x"
    by (simp add: w' entity_at_eq stored)
  show "\<exists>bs bs'. data_of w (key acc) = Raw bs \<and> w' = set_data (key acc) (Raw bs') w
       \<and> length bs' = length bs \<and> hd bs' = e_magic E"
    using bs w' stored by blast
qed

lemma initialize_stored:
  assumes "initialize_entity E x acc w = Inr w'"
  shows "entity_at E w' (key acc) = Some x"
    "\<exists>bs bs'. data_of w (key acc) = Raw bs \<and> \<not> is_initialized E bs \<and> w' = set_data (key acc) (Raw bs') w
       \<and> length bs' = length bs \<and> hd bs' = e_magic E"
proof -
  obtain bs bs' where bs: "data_of w (key acc) = Raw bs" "\<not> is_initialized E bs" "serialize_to E x bs = Inr bs'"
    and w': "w' = set_data (key acc) (Raw bs') w"
    using assms by (auto simp: initialize_entity_def res_simps)
  note stored = serialize_to_Inr [OF bs(3)]
  show "entity_at E w' (key acc) = Some x"
    by (simp add: w' entity_at_eq stored)
  show "\<exists>bs bs'. data_of w (key acc) = Raw bs \<and> \<not> is_initialized E bs \<and> w' = set_data (key acc) (Raw bs') w
       \<and> length bs' = length bs \<and> hd bs' = e_magic E"
    using bs w' stored by blast
qed

lemma wrong_magic: "hd bs \<noteq> e_magic E \<Longrightarrow> deserialize_from E bs \<noteq> Inr x"
  by (auto simp: deserialize_from_def res_simps)

lemma reinitialize_refused:
  assumes "serialize_to E x bytes = Inr bytes'"
  shows "data_of w (key acc) = Raw bytes' \<Longrightarrow> key acc \<notin> set (data_locked w) \<Longrightarrow>
    initialize_entity E y acc w = Inl (Err AccountAlreadyInitialized)"
  using serialize_to_Inr(3) [OF assms] by (simp add: initialize_entity_def read_data_def raw_bytes_def)

end

text \<open>
  Where the encoding always fits, storing never fails on an account of the right size. \<open>saved\<close>
  is what the account holds afterwards: magic, encoding, and the rest of what was there.
\<close>

definition saved :: "'a entity \<Rightarrow> 'a \<Rightarrow> u8 list \<Rightarrow> u8 list" where
  "saved E x bytes = (case e_ser E x of None \<Rightarrow> bytes
     | Some s \<Rightarrow> e_magic E # s @ drop (1 + length s) bytes)"

locale fitting_entity = entity_codec +
  assumes fits: "\<exists>s. e_ser E x = Some s \<and> length s < e_size E"
begin

lemma serialize_saved: "e_size E \<le> length bytes \<Longrightarrow> serialize_to E x bytes = Inr (saved E x bytes)"
  using fits [of x] by (auto simp: serialize_to_def saved_def)

lemma read_saved: "e_size E \<le> length bytes \<Longrightarrow> deserialize_from E (saved E x bytes) = Inr x"
  by (rule serialize_to_Inr(1) [OF serialize_saved])

lemma length_saved: "e_size E \<le> length bytes \<Longrightarrow> length (saved E x bytes) = length bytes"
  by (rule serialize_to_Inr(2) [OF serialize_saved])

lemma saved_initialized: "e_size E \<le> length bytes \<Longrightarrow> is_initialized E (saved E x bytes)"
  by (rule serialize_to_Inr(3) [OF serialize_saved])

lemma drop_guard_saves:
  assumes "entity_at E w (key acc) = Some y" "key acc \<notin> set (data_locked w)"
  shows "\<exists>bs. data_of w (key acc) = Raw bs \<and> drop_guard E x acc w = Inr (set_data (key acc) (Raw (saved E x bs)) w)"
proof -
  obtain bs where bs: "data_of w (key acc) = Raw bs" "deserialize_from E bs = Inr y"
    using assms(1) by (auto simp: entity_at_eq)
  then have "e_size E \<le> length bs"
    by (auto simp: deserialize_from_def res_simps)
  then show ?thesis
    using bs assms(2) by (simp add: drop_guard_def read_data_def raw_bytes_def or_panic_def serialize_saved)
qed

end

lemma entity_at_frame: "data_of w' k = data_of w k \<Longrightarrow> entity_at E w' k = entity_at E w k"
  by (simp add: entity_at_def)

text \<open>An entity made from a lawful codec.\<close>

definition codec_entity :: "nat \<Rightarrow> u8 \<Rightarrow> 'a codec \<Rightarrow> 'a entity" where
  "codec_entity sz magic c = \<lparr>e_size = sz, e_magic = magic, e_ser = (\<lambda>x. Some (enc c x)), e_de = dec c\<rparr>"

lemma codec_entity_laws: "magic \<noteq> 0 \<Longrightarrow> 0 < sz \<Longrightarrow> lawful c \<Longrightarrow> entity_codec (codec_entity sz magic c)"
  by unfold_locales (auto simp: codec_entity_def lawfulD)

lemma codec_entity_fits:
  "magic \<noteq> 0 \<Longrightarrow> lawful c \<Longrightarrow> (\<And>x. length (enc c x) < sz) \<Longrightarrow> fitting_entity (codec_entity sz magic c)"
proof -
  assume a: "magic \<noteq> 0" "lawful c" "\<And>x. length (enc c x) < sz"
  then have "0 < sz"
    using le_less_trans by blast
  then have "entity_codec (codec_entity sz magic c)"
    using a by (intro codec_entity_laws)
  then show ?thesis
    using a(3) by (intro fitting_entity.intro fitting_entity_axioms.intro) (simp_all add: codec_entity_def)
qed

section \<open>Guards\<close>

lemma drop_guard_effect:
  "drop_guard E x acc w = Inr w' \<Longrightarrow>
     \<exists>bs bs'. data_of w (key acc) = Raw bs \<and> serialize_to E x bs = Inr bs' \<and> w' = set_data (key acc) (Raw bs') w
       \<and> key acc \<notin> set (data_locked w)"
  by (auto simp: drop_guard_def res_simps)

lemma drop_guard_frame:
  assumes "drop_guard E x acc w = Inr w'"
  shows "lamports_of w' k = lamports_of w k" "owner_of w' k = owner_of w k" "same_locks w w'"
    "k \<noteq> key acc \<Longrightarrow> accts w' k = accts w k" "k \<noteq> key acc \<Longrightarrow> data_of w' k = data_of w k"
    "\<exists>bs. data_of w' (key acc) = Raw bs" "\<exists>bs. data_of w (key acc) = Raw bs"
  using drop_guard_effect [OF assms] by (auto simp: same_locks_def)

lemma entity_magic:
  assumes "entity_at E w k = Some x" "entity_at E' w k = Some y"
  shows "e_magic E = e_magic E'"
  using assms by (auto simp: entity_at_eq deserialize_from_def res_simps)

section \<open>Instructions that clients build\<close>

record instruction =
  in_program_id :: pubkey
  in_accounts :: "account_info list"
  in_data :: "u8 list"

text \<open>\<open>AccountMeta::new\<close> and \<open>AccountMeta::new_readonly\<close>.\<close>

definition writable :: "pubkey \<Rightarrow> bool \<Rightarrow> account_info" where
  "writable k s = \<lparr>key = k, is_signer = s, is_writable = True\<rparr>"

definition readonly :: "pubkey \<Rightarrow> bool \<Rightarrow> account_info" where
  "readonly k s = \<lparr>key = k, is_signer = s, is_writable = False\<rparr>"

end
