(* ===== verification/RoyaltyState.thy ===== *)
theory RoyaltyState
  imports Precise Entity
begin

text \<open>
  The accounts of the royalty program (\<open>royalty/src/state.rs\<close>): a \<open>State\<close> that stakes tokens and
  distributes lamports in drops, and a \<open>Voucher\<close> per staker. \<open>Settings\<close> splits what came in
  between owner, host and stakers; \<open>Distribution\<close> gives a voucher its share once per drop.
\<close>

record settings =
  se_min_token_to_enroll :: u64
  se_owner_fee :: u16
  se_host_fee :: u16
  se_host_flat_fee :: u32

record distribution =
  di_distribute_amount :: u64
  di_seen_vouchers :: u32

record royalty_state =
  ry_wallet :: pubkey
  ry_owner :: pubkey
  ry_host :: pubkey
  ry_total_distributed :: u64
  ry_total_user_distributed :: u64
  ry_settings :: settings
  ry_drop_idx :: u32
  ry_vouchers_count :: u32
  ry_tokens_held :: u64
  ry_distribution :: "distribution option"
  ry_token_mint :: pubkey
  ry_realm_addr :: pubkey
  ry_vault_addr :: pubkey

record royalty_voucher =
  rv_user :: pubkey
  rv_state :: pubkey
  rv_drop_idx :: u32
  rv_balance :: u64
  rv_last_distribution :: i64

record fee_split =
  sp_distribute_amount :: u64
  sp_owner_comission :: u64
  sp_host_comission :: u64

section \<open>Settings\<close>

definition settings_valid :: "settings \<Rightarrow> bool" where
  "settings_valid s \<longleftrightarrow> \<not> 10000 \<le> unat (saturating_add (se_owner_fee s) (se_host_fee s))"

text \<open>One commission in basis points of the balance.\<close>

definition comission :: "'n precise \<Rightarrow> 'n \<Rightarrow> 'n \<Rightarrow> 'n \<Rightarrow> u64 option" where
  "comission P bsp balance_precise fee = do {
     p \<leftarrow> pn_mul P balance_precise fee;
     q \<leftarrow> pn_div P p bsp;
     r \<leftarrow> pn_imprecise P q;
     u64_of_u128 r
   }"

definition settings_calculate_split ::
  "'n precise \<Rightarrow> settings \<Rightarrow> u64 \<Rightarrow> u32 \<Rightarrow> fee_split option res" where
  "settings_calculate_split P s balance num_vouchers =
     and_then (unwrap (pn_new P 10000)) (\<lambda>bsp. Inr (do {
       balance_precise \<leftarrow> pn_new P (ucast balance);
       owner_fee \<leftarrow> pn_new P (ucast (se_owner_fee s));
       host_fee \<leftarrow> pn_new P (ucast (se_host_fee s));
       owner_split \<leftarrow> comission P bsp balance_precise owner_fee;
       host_split \<leftarrow> comission P bsp balance_precise host_fee;
       host_flat_fee \<leftarrow> checked_mul (se_host_flat_fee s) num_vouchers;
       host_total_comission \<leftarrow> checked_add host_split (ucast host_flat_fee);
       rest \<leftarrow> checked_sub balance owner_split;
       remaining_balance \<leftarrow> checked_sub rest host_total_comission;
       Some \<lparr>sp_distribute_amount = remaining_balance, sp_owner_comission = owner_split,
             sp_host_comission = host_total_comission\<rparr>
     }))"

section \<open>Distribution\<close>

definition royalty_overflow :: program_error where
  "royalty_overflow = from_royalty_error RoyaltyOverflow"

definition distribute_to ::
  "'n precise \<Rightarrow> i64 \<Rightarrow> distribution \<Rightarrow> royalty_voucher \<Rightarrow> u32 \<Rightarrow> u64
    \<Rightarrow> (u64 \<times> distribution \<times> royalty_voucher) res" where
  "distribute_to P now d v drop_idx total_tokens =
     and_then (ensure (rv_drop_idx v = drop_idx) (from_royalty_error VoucherNotEligible)) (\<lambda>_.
     and_then (unwrap (pn_new P (ucast (rv_balance v)))) (\<lambda>balance.
     and_then (unwrap (pn_new P (ucast total_tokens))) (\<lambda>total_tokens.
     and_then (unwrap (pn_new P (ucast (di_distribute_amount d)))) (\<lambda>distribute_amount.
     and_then (ok_or royalty_overflow (pn_div P balance total_tokens)) (\<lambda>owned_percentage.
     and_then (unwrap (pn_new P 1)) (\<lambda>one.
     and_then (assert_that (pn_le P owned_percentage one)) (\<lambda>_.
     and_then (ok_or royalty_overflow (pn_mul P distribute_amount owned_percentage)) (\<lambda>part.
     and_then (ok_or royalty_overflow (checked_add (di_seen_vouchers d) 1)) (\<lambda>seen.
     and_then (ok_or royalty_overflow (pn_imprecise P part)) (\<lambda>r.
     and_then (ok_or royalty_overflow (u64_of_u128 r)) (\<lambda>lamports.
     and_then (ok_or royalty_overflow (checked_add (rv_drop_idx v) 1)) (\<lambda>idx.
     Inr (lamports, d\<lparr>di_seen_vouchers := seen\<rparr>,
       v\<lparr>rv_drop_idx := idx, rv_last_distribution := now\<rparr>)))))))))))))"

section \<open>The split\<close>

text \<open>What the settings leave, over the natural numbers.\<close>

definition fees_of :: "settings \<Rightarrow> u64 \<Rightarrow> u32 \<Rightarrow> nat \<times> nat" where
  "fees_of s balance n =
     (bps_of (unat balance) (unat (se_owner_fee s)),
      bps_of (unat balance) (unat (se_host_fee s)) + unat (se_host_flat_fee s) * unat n)"

lemma bps_of_small: "b < 65536 \<Longrightarrow> 10000 * bps_of a b \<le> a * b + 5000"
  using bps_of_bounds(1) [of a b] by linarith

context precise_number
begin

lemma comission_eq:
  fixes f :: u16 and balance :: u64
  assumes "val bsp = 10000 * pn_one" "val bp = unat balance * pn_one" "val fee = unat f * pn_one"
    and "bps_of (unat balance) (unat f) < 2 ^ 64"
  shows "comission P bsp bp fee = Some (of_nat (bps_of (unat balance) (unat f)))"
proof -
  have "unat f < 2 ^ 16"
    using unsigned_less [where 'a = nat, of f] by simp
  then show ?thesis
    unfolding comission_def
    by (intro bps_chain [OF assms(2,3,1) refl unat_u64_less _ assms(4)])
qed

text \<open>With fees of at most a hundred percent and a flat fee that fits, the split is computed.\<close>

lemma settings_split_eq:
  assumes fees: "unat (se_owner_fee s) \<le> 10000" "unat (se_host_fee s) \<le> 10000"
    and flat: "unat (se_host_flat_fee s) * unat n < 2 ^ 32"
  shows "settings_calculate_split P s balance n = Inr
    (case fees_of s balance n of (owner, host) \<Rightarrow>
       if owner + host \<le> unat balance
       then Some \<lparr>sp_distribute_amount = of_nat (unat balance - owner - host),
         sp_owner_comission = of_nat owner, sp_host_comission = of_nat host\<rparr>
       else None)"
proof -
  let ?o = "bps_of (unat balance) (unat (se_owner_fee s))" and ?h = "bps_of (unat balance) (unat (se_host_fee s))"
  let ?f = "unat (se_host_flat_fee s) * unat n"
  have le: "?o \<le> unat balance" "?h \<le> unat balance"
    using fees by (simp_all add: bps_of_le)
  then have fits: "?o < 2 ^ 64" "?h < 2 ^ 64"
    using unat_u64_less [of balance] by simp_all
  have words: "unat (of_nat ?o :: u64) = ?o" "unat (of_nat ?h :: u64) = ?h"
    using fits by (simp_all add: unat_of_nat)
  obtain bsp where bsp: "pn_new P 10000 = Some bsp" "val bsp = 10000 * pn_one"
    by (rule new_obtain [of 10000]) simp
  obtain bp where bp: "pn_new P (ucast balance) = Some bp" "val bp = unat balance * pn_one"
    by (rule new_obtain [of "ucast balance"]) (simp add: unat_ucast_up)
  obtain ofee where ofee: "pn_new P (ucast (se_owner_fee s)) = Some ofee" "val ofee = unat (se_owner_fee s) * pn_one"
    by (rule new_obtain [of "ucast (se_owner_fee s)"]) (simp add: unat_ucast_up)
  obtain hfee where hfee: "pn_new P (ucast (se_host_fee s)) = Some hfee" "val hfee = unat (se_host_fee s) * pn_one"
    by (rule new_obtain [of "ucast (se_host_fee s)"]) (simp add: unat_ucast_up)
  have flat_word: "checked_mul (se_host_flat_fee s) n = Some (se_host_flat_fee s * n)"
    "unat (ucast (se_host_flat_fee s * n) :: u64) = ?f"
    using flat by (simp_all add: checked_mul_def unat_ucast_up unat_mul_checked)
  let ?h64 = "of_nat ?h + ucast (se_host_flat_fee s * n) :: u64"
  show ?thesis
  proof (cases "?o + (?h + ?f) \<le> unat balance")
    case True
    then have sum: "unat ?h64 = ?h + ?f"
      using unat_u64_less [of balance] by (subst unat_add_checked) (simp_all add: words flat_word)
    then have h64: "?h64 = of_nat (?h + ?f)"
      by (metis word_of_unat)
    have "unat (balance - of_nat ?o - ?h64) = unat balance - ?o - (?h + ?f)"
      using True by (simp add: unat_sub_checked words sum)
    then have rest: "balance - of_nat ?o - ?h64 = of_nat (unat balance - ?o - (?h + ?f))"
      by (metis word_of_unat)
    have "checked_add (of_nat ?h) (ucast (se_host_flat_fee s * n)) = Some ?h64"
      "checked_sub balance (of_nat ?o) = Some (balance - of_nat ?o)"
      "checked_sub (balance - of_nat ?o) ?h64 = Some (balance - of_nat ?o - ?h64)"
      using True unat_u64_less [of balance]
      by (simp_all add: checked_add_def checked_sub_def words flat_word(2) sum unat_sub_checked)
    then show ?thesis
      using True
      by (simp add: settings_calculate_split_def bsp(1) bp(1) ofee(1) hfee(1) flat_word(1) fees_of_def rest h64
          comission_eq [OF bsp(2) bp(2) ofee(2) fits(1)] comission_eq [OF bsp(2) bp(2) hfee(2) fits(2)])
  next
    case False
    have "Option.bind (checked_add (of_nat ?h) (ucast (se_host_flat_fee s * n) :: u64))
      (\<lambda>c. Option.bind (checked_sub balance (of_nat ?o)) (\<lambda>rest. Option.bind (checked_sub rest c) (g c))) = None" for g :: "u64 \<Rightarrow> u64 \<Rightarrow> fee_split option"
      using False le(1)
      by (auto simp: checked_add_def checked_sub_def words flat_word(2) unat_sub_checked unat_add_checked)
    then show ?thesis
      using False
      by (simp add: settings_calculate_split_def bsp(1) bp(1) ofee(1) hfee(1) flat_word(1) fees_of_def
          comission_eq [OF bsp(2) bp(2) ofee(2) fits(1)] comission_eq [OF bsp(2) bp(2) hfee(2) fits(2)])
  qed
qed

lemma distribute_to_eq:
  assumes "rv_drop_idx v = idx" "0 < unat tokens" "unat (rv_balance v) \<le> unat tokens"
    and "unat (di_seen_vouchers d) + 1 < 2 ^ 32" "unat idx + 1 < 2 ^ 32"
  shows "\<exists>z. distribute_to P now d v idx tokens = Inr
      (of_nat (div_round (z * unat (di_distribute_amount d)) pn_one),
       d\<lparr>di_seen_vouchers := di_seen_vouchers d + 1\<rparr>, v\<lparr>rv_drop_idx := idx + 1, rv_last_distribution := now\<rparr>)
    \<and> (unat (rv_balance v) * pn_one) div unat tokens \<le> z
    \<and> z \<le> div_round (unat (rv_balance v) * pn_one) (unat tokens)
    \<and> div_round (z * unat (di_distribute_amount d)) pn_one \<le> unat (di_distribute_amount d)"
proof -
  let ?T = "di_distribute_amount d"
  obtain b where b: "pn_new P (ucast (rv_balance v)) = Some b" "val b = unat (rv_balance v) * pn_one"
    by (rule new_obtain [of "ucast (rv_balance v)"]) (simp add: unat_ucast_up)
  obtain x where x: "pn_new P (ucast tokens) = Some x" "val x = unat tokens * pn_one"
    by (rule new_obtain [of "ucast tokens"]) (simp add: unat_ucast_up)
  obtain t where t: "pn_new P (ucast ?T) = Some t" "val t = unat ?T * pn_one"
    by (rule new_obtain [of "ucast ?T"]) (simp add: unat_ucast_up)
  obtain one where one: "pn_new P 1 = Some one" "val one = pn_one"
    by (rule new_obtain [of 1]) simp
  obtain q p where q: "pn_div P b x = Some q" "(unat (rv_balance v) * pn_one) div unat tokens \<le> val q"
      "val q \<le> div_round (unat (rv_balance v) * pn_one) (unat tokens)" "val q \<le> pn_one"
      "div_round (val q * unat ?T) pn_one \<le> unat ?T"
    and p: "pn_mul P t q = Some p"
      "Option.bind (pn_imprecise P p) u64_of_u128 = Some (of_nat (div_round (val q * unat ?T) pn_one))"
    using ratio_chain [OF b(2) x(2) t(2) assms(2,3) unat_u64_less unat_u64_less] by metis
  from p(2) obtain r where "pn_imprecise P p = Some r"
    "u64_of_u128 r = Some (of_nat (div_round (val q * unat ?T) pn_one))"
    by (auto simp: bind_option_Some)
  then have "distribute_to P now d v idx tokens = Inr
      (of_nat (div_round (val q * unat ?T) pn_one),
       d\<lparr>di_seen_vouchers := di_seen_vouchers d + 1\<rparr>, v\<lparr>rv_drop_idx := idx + 1, rv_last_distribution := now\<rparr>)"
    using assms q p(1) by (simp add: distribute_to_def b(1) x(1) t(1) one le_val checked_add_def)
  then show ?thesis
    using q by blast
qed

end

section \<open>The accounts as entities\<close>

definition state_entity :: "royalty_state codec \<Rightarrow> royalty_state entity" where
  "state_entity c = codec_entity 512 0x77 c"

definition voucher_entity :: "royalty_voucher codec \<Rightarrow> royalty_voucher entity" where
  "voucher_entity c = codec_entity 128 0x55 c"

text \<open>The Borsh encoding of the two types, field by field.\<close>

definition settings_codec :: "settings codec" where
  "settings_codec = iso_codec
     (\<lambda>s. (se_min_token_to_enroll s, se_owner_fee s, se_host_fee s, se_host_flat_fee s))
     (\<lambda>(a, b, c, d). \<lparr>se_min_token_to_enroll = a, se_owner_fee = b, se_host_fee = c, se_host_flat_fee = d\<rparr>)
     (pair_codec u64_codec (pair_codec u16_codec (pair_codec u16_codec u32_codec)))"

definition distribution_codec :: "distribution codec" where
  "distribution_codec = iso_codec (\<lambda>d. (di_distribute_amount d, di_seen_vouchers d))
     (\<lambda>(a, b). \<lparr>di_distribute_amount = a, di_seen_vouchers = b\<rparr>) (pair_codec u64_codec u32_codec)"

definition royalty_state_codec :: "royalty_state codec" where
  "royalty_state_codec = iso_codec
     (\<lambda>s. (ry_wallet s, ry_owner s, ry_host s, ry_total_distributed s, ry_total_user_distributed s,
        ry_settings s, ry_drop_idx s, ry_vouchers_count s, ry_tokens_held s, ry_distribution s,
        ry_token_mint s, ry_realm_addr s, ry_vault_addr s))
     (\<lambda>(wal, own, hst, td, tud, se, di, vc, th, dist, mnt, realm, vault).
        \<lparr>ry_wallet = wal, ry_owner = own, ry_host = hst, ry_total_distributed = td,
         ry_total_user_distributed = tud, ry_settings = se, ry_drop_idx = di, ry_vouchers_count = vc,
         ry_tokens_held = th, ry_distribution = dist, ry_token_mint = mnt, ry_realm_addr = realm,
         ry_vault_addr = vault\<rparr>)
     (pair_codec key_codec (pair_codec key_codec (pair_codec key_codec (pair_codec u64_codec
       (pair_codec u64_codec (pair_codec settings_codec (pair_codec u32_codec (pair_codec u32_codec
       (pair_codec u64_codec (pair_codec (option_codec distribution_codec) (pair_codec key_codec
       (pair_codec key_codec key_codec))))))))))))"

definition royalty_voucher_codec :: "royalty_voucher codec" where
  "royalty_voucher_codec = iso_codec
     (\<lambda>v. (rv_user v, rv_state v, rv_drop_idx v, rv_balance v, rv_last_distribution v))
     (\<lambda>(u, s, d, b, l). \<lparr>rv_user = u, rv_state = s, rv_drop_idx = d, rv_balance = b, rv_last_distribution = l\<rparr>)
     (pair_codec key_codec (pair_codec key_codec (pair_codec u32_codec (pair_codec u64_codec u64_codec))))"

lemma royalty_codecs_lawful:
  "lawful settings_codec" "lawful distribution_codec" "lawful royalty_state_codec" "lawful royalty_voucher_codec"
proof -
  show "lawful settings_codec"
    unfolding settings_codec_def by (intro iso_codec_lawful codec_lawful) simp
  moreover show "lawful distribution_codec"
    unfolding distribution_codec_def by (intro iso_codec_lawful codec_lawful) simp
  ultimately show "lawful royalty_state_codec"
    unfolding royalty_state_codec_def by (intro iso_codec_lawful codec_lawful) simp_all
  show "lawful royalty_voucher_codec"
    unfolding royalty_voucher_codec_def by (intro iso_codec_lawful codec_lawful) simp
qed

lemma royalty_codecs_fit:
  "length (enc royalty_state_codec s) < 512" "length (enc royalty_voucher_codec v) < 128"
  by (cases "ry_distribution s") (simp_all add: royalty_state_codec_def royalty_voucher_codec_def settings_codec_def
      distribution_codec_def enc_simps)

interpretation royalty_state: fitting_entity "state_entity royalty_state_codec"
  unfolding state_entity_def by (rule codec_entity_fits) (simp_all add: royalty_codecs_lawful royalty_codecs_fit)

interpretation royalty_voucher: fitting_entity "voucher_entity royalty_voucher_codec"
  unfolding voucher_entity_def by (rule codec_entity_fits) (simp_all add: royalty_codecs_lawful royalty_codecs_fit)

end
