(* ===== verification/Royalty.thy ===== *)
theory Royalty
  imports RoyaltyState
begin

text \<open>
  The processor of the royalty program (\<open>royalty/src/lib.rs\<close>) and its instruction builders
  (\<open>royalty/src/instruction.rs\<close>). Holders deposit tokens into the wallet of a state and get a
  voucher; \<open>distribute\<close> divides the lamports the state received among the vouchers, one drop at a
  time; \<open>claim\<close> takes the lamports of a voucher out. The weights that governance reads are
  recorded in accounts of the program.

  The record \<open>royalty_ext\<close> holds what the repository does not define: the codecs that Borsh
  derives, the discriminators, encodings and addresses of the governance crates, the reader of a
  token owner record, the loader of the instructions sysvar, and two program ids.
\<close>

section \<open>What comes from other crates\<close>

record voter_weight_record =
  vw_account_discriminator :: "u8 list"
  vw_realm :: pubkey
  vw_governing_token_mint :: pubkey
  vw_governing_token_owner :: pubkey
  vw_voter_weight :: u64
  vw_voter_weight_expiry :: "u64 option"
  vw_weight_action :: "u8 option"
  vw_weight_action_target :: "pubkey option"
  vw_reserved :: "u8 list"

record max_voter_weight_record =
  mw_account_discriminator :: "u8 list"
  mw_realm :: pubkey
  mw_governing_token_mint :: pubkey
  mw_max_voter_weight :: u64
  mw_max_voter_weight_expiry :: "u64 option"
  mw_reserved :: "u8 list"

text \<open>The fields of \<open>TokenOwnerRecordV2\<close> the code reads.\<close>

record token_owner_record =
  to_realm :: pubkey
  to_governing_token_mint :: pubkey
  to_governing_token_owner :: pubkey
  to_unrelinquished_votes_count :: u64

record initialize_args =
  ia_owner :: pubkey
  ia_host :: pubkey
  ia_settings :: settings
  ia_realm_addr :: pubkey
  ia_vault_addr :: pubkey

record migrate_args =
  ma_realm_addr :: pubkey
  ma_vault_addr :: pubkey

datatype royalty_instruction =
    Initialize initialize_args
  | Distribute
  | Claim
  | DepositTokens u64
  | WithdrawTokens u64
  | SyncWeightRecord
  | Migrate migrate_args

record royalty_ext =
  rx_state :: "royalty_state codec"
  rx_voucher :: "royalty_voucher codec"
  rx_parse :: "u8 list \<Rightarrow> royalty_instruction option"
  rx_encode :: "royalty_instruction \<Rightarrow> u8 list"
  rx_weight_discriminator :: "u8 list"
  rx_max_weight_discriminator :: "u8 list"
  rx_weight_bytes :: "voter_weight_record \<Rightarrow> u8 list"
  rx_max_weight_bytes :: "max_voter_weight_record \<Rightarrow> u8 list"
  rx_owner_record_address :: "pubkey \<Rightarrow> pubkey \<Rightarrow> pubkey \<Rightarrow> pubkey \<Rightarrow> pubkey"
  rx_owner_record_data :: "pubkey \<Rightarrow> account \<Rightarrow> token_owner_record res"
  rx_load_instruction :: "nat \<Rightarrow> acct_data \<Rightarrow> pubkey res"
  rx_instructions_id :: pubkey
  rx_ata_program :: pubkey
  rx_rent_id :: pubkey

definition SE :: "royalty_ext \<Rightarrow> royalty_state entity" where
  "SE R = state_entity (rx_state R)"

definition VE :: "royalty_ext \<Rightarrow> royalty_voucher entity" where
  "VE R = voucher_entity (rx_voucher R)"

section \<open>Constants and derived addresses\<close>

text \<open>The addresses the code declares with \<open>declare_id!\<close>, read as numbers in base 58.\<close>

definition round_program_id :: pubkey where
  "round_program_id = 2874626343915605449062284268721086243809062946979176479894608501305463869252"

definition compute_budget_id :: pubkey where
  "compute_budget_id = 1368025767066952348686461451745039706232400520618738968488030211887297724416"

definition governance_program_id :: pubkey where
  "governance_program_id = 4724324463399615349283102585987211551219842133574863956458273053326295837746"

definition wallet_seeds :: "pubkey \<Rightarrow> seed list" where
  "wallet_seeds st = [SeedStr ''WALLET'', SeedKey st]"

definition voucher_seeds :: "pubkey \<Rightarrow> pubkey \<Rightarrow> seed list" where
  "voucher_seeds st user = [SeedStr ''VOUCHER'', SeedKey st, SeedKey user]"

definition weight_seeds :: "pubkey \<Rightarrow> pubkey \<Rightarrow> seed list" where
  "weight_seeds st user = [SeedStr ''VOTE_WEIGHT'', SeedKey st, SeedKey user]"

definition max_weight_seeds :: "pubkey \<Rightarrow> seed list" where
  "max_weight_seeds st = [SeedStr ''MAX_VOTE_WEIGHT'', SeedKey st]"

text \<open>\<open>LAMPORTS_PER_SOL / 2\<close>.\<close>

definition distribution_minimum_lamports :: u64 where
  "distribution_minimum_lamports = 500000000"

text \<open>The settings that deposit and distribute write over whatever the state holds.\<close>

definition quick_settings :: settings where
  "quick_settings = \<lparr>se_min_token_to_enroll = 0, se_owner_fee = 0, se_host_fee = 250, se_host_flat_fee = 0\<rparr>"

section \<open>Checks\<close>

definition overflow :: "'a option \<Rightarrow> 'a res" where
  "overflow m = ok_or royalty_overflow m"

text \<open>The loop over the instructions of the transaction.\<close>

fun check_programs ::
  "royalty_ext \<Rightarrow> acct_data \<Rightarrow> pubkey list \<Rightarrow> nat list \<Rightarrow> unit res" where
  "check_programs R d allowed [] = Inr ()"
| "check_programs R d allowed (i # is) =
     and_then (rx_load_instruction R i d) (\<lambda>pid.
     and_then (ensure (pid \<in> set allowed) (from_royalty_error NoOtherProgramsAllowed)) (\<lambda>_.
     check_programs R d allowed is))"

text \<open>The first two bytes of the account are the little-endian count; a shorter slice panics.\<close>

definition check_no_other_programs ::
  "royalty_ext \<Rightarrow> account_info \<Rightarrow> pubkey list \<Rightarrow> world \<Rightarrow> unit res" where
  "check_no_other_programs R acc allowed w =
     and_then (ensure (key acc = rx_instructions_id R) UnsupportedSysvar) (\<lambda>_.
     and_then (read_data (key acc) w) (\<lambda>d.
     and_then (raw_bytes d) (\<lambda>bs.
     and_then (assert_that (2 \<le> length bs)) (\<lambda>_.
     let count = unat (bs ! 0) + 256 * unat (bs ! 1) in
     check_programs R d allowed [0..<count]))))"

definition assert_no_unrequilished_votes ::
  "royalty_ext \<Rightarrow> ext \<Rightarrow> account_info \<Rightarrow> pubkey \<Rightarrow> pubkey \<Rightarrow> pubkey \<Rightarrow> world \<Rightarrow> unit res" where
  "assert_no_unrequilished_votes R X acc realm_addr token_mint user w =
     and_then (ensure (rx_owner_record_address R governance_program_id realm_addr token_mint user = key acc)
       InvalidArgument) (\<lambda>_.
     if data_len X (data_of w (key acc)) = 0 then Inr () else
     and_then (rx_owner_record_data R governance_program_id (accts w (key acc))) (\<lambda>r.
     and_then (ensure (to_realm r = realm_addr) InvalidArgument) (\<lambda>_.
     and_then (ensure (to_governing_token_mint r = token_mint) InvalidArgument) (\<lambda>_.
     and_then (ensure (to_governing_token_owner r = user) InvalidArgument) (\<lambda>_.
     ensure (\<not> 0 < unat (to_unrelinquished_votes_count r)) (from_royalty_error UnrelinquishedVotes))))))"

section \<open>Voting weights\<close>

definition write_record :: "u8 list \<Rightarrow> account_info \<Rightarrow> world \<Rightarrow> world res" where
  "write_record serialized acc w =
     and_then (read_data (key acc) w) (\<lambda>d.
     and_then (raw_bytes d) (\<lambda>bs.
     and_then (assert_that (length serialized \<le> length bs)) (\<lambda>_.
     Inr (set_data (key acc) (Raw (serialized @ drop (length serialized) bs)) w))))"

definition create_or_save_account ::
  "ext \<Rightarrow> pubkey \<Rightarrow> u8 list \<Rightarrow> nat \<Rightarrow> account_info \<Rightarrow> account_info \<Rightarrow> seed list \<Rightarrow> world \<Rightarrow> world res" where
  "create_or_save_account X pid serialized data_size record_acc funder seeds w =
     and_then (if owner_of w (key record_acc) \<noteq> pid
       then x_cpi X [funder, record_acc]
         (SystemCreate (key funder) (key record_acc) (x_rent X data_size) data_size pid) [seeds] w
       else Inr w) (\<lambda>w.
     write_record serialized record_acc w)"

definition update_voter_weight ::
  "royalty_ext \<Rightarrow> ext \<Rightarrow> pubkey \<Rightarrow> pubkey \<Rightarrow> pubkey \<Rightarrow> pubkey \<Rightarrow> pubkey \<Rightarrow> u64
    \<Rightarrow> account_info \<Rightarrow> account_info \<Rightarrow> world \<Rightarrow> world res" where
  "update_voter_weight R X pid state_addr realm_addr realm_token user balance record_acc funder w =
     (let record = \<lparr>vw_account_discriminator = rx_weight_discriminator R, vw_realm = realm_addr,
        vw_governing_token_mint = realm_token, vw_governing_token_owner = user, vw_voter_weight = balance,
        vw_voter_weight_expiry = None, vw_weight_action = None, vw_weight_action_target = None,
        vw_reserved = replicate 8 0\<rparr> in
     and_then (ensure (key record_acc = x_pda X (weight_seeds state_addr user) pid) InvalidSeeds) (\<lambda>_.
     create_or_save_account X pid (rx_weight_bytes R record) 164 record_acc funder
       (weight_seeds state_addr user) w))"

definition update_max_voter_weight ::
  "royalty_ext \<Rightarrow> ext \<Rightarrow> pubkey \<Rightarrow> pubkey \<Rightarrow> pubkey \<Rightarrow> pubkey \<Rightarrow> u64
    \<Rightarrow> account_info \<Rightarrow> account_info \<Rightarrow> world \<Rightarrow> world res" where
  "update_max_voter_weight R X pid state_addr realm_addr realm_token max_weight record_acc funder w =
     (let record = \<lparr>mw_account_discriminator = rx_max_weight_discriminator R, mw_realm = realm_addr,
        mw_governing_token_mint = realm_token, mw_max_voter_weight = max_weight,
        mw_max_voter_weight_expiry = None, mw_reserved = replicate 8 0\<rparr> in
     and_then (ensure (key record_acc = x_pda X (max_weight_seeds state_addr) pid) InvalidSeeds) (\<lambda>_.
     create_or_save_account X pid (rx_max_weight_bytes R record) 97 record_acc funder
       (max_weight_seeds state_addr) w))"

text \<open>The weight all voters can have: the stake, the vault and what the owner holds.\<close>

definition max_vote_weight :: "royalty_state \<Rightarrow> token_account \<Rightarrow> token_account \<Rightarrow> u64 res" where
  "max_vote_weight st vault owner_atoken =
     and_then (overflow (checked_add (ry_tokens_held st) (t_amount vault))) (\<lambda>s.
     overflow (checked_add s (t_amount owner_atoken)))"

section \<open>Initialize and migrate\<close>

definition process_initialize ::
  "royalty_ext \<Rightarrow> ext \<Rightarrow> pubkey \<Rightarrow> account_info list \<Rightarrow> initialize_args \<Rightarrow> world \<Rightarrow> world res" where
  "process_initialize R X pid accounts args w =
     and_then (next_account_info accounts) (\<lambda>(state_acc, it).
     and_then (next_account_info it) (\<lambda>(mnt, it).
     and_then (next_account_info it) (\<lambda>(wallet, it).
     and_then (next_account_info it) (\<lambda>(fee_payer, it).
     and_then (next_account_info it) (\<lambda>(_, it).
     and_then (next_account_info it) (\<lambda>(_, it).
     and_then (ensure (owner_of w (key state_acc) = pid) IllegalOwner) (\<lambda>_.
     and_then (ensure (rent_exempt X (lamports_of w (key state_acc)) (data_len X (data_of w (key state_acc))))
       AccountNotRentExempt) (\<lambda>_.
     let seeds = wallet_seeds (key state_acc); derived_wallet = x_pda X seeds pid in
     and_then (ensure (key wallet = derived_wallet) InvalidArgument) (\<lambda>_.
     and_then (read_data (key wallet) w) (\<lambda>d.
     and_then (ensure (isl (unpack_token d)) AccountAlreadyInitialized) (\<lambda>_.
     and_then (x_cpi X accounts
       (SystemCreate (key fee_payer) derived_wallet (x_rent X 165) 165 (x_token_id X)) [seeds] w) (\<lambda>w.
     and_then (x_cpi X accounts (TokenInit derived_wallet (key mnt) (key wallet)) [seeds] w) (\<lambda>w.
     and_then (ensure (settings_valid (ia_settings args)) InvalidArgument) (\<lambda>_.
     initialize_entity (SE R)
       \<lparr>ry_wallet = derived_wallet, ry_owner = ia_owner args, ry_host = ia_host args,
        ry_total_distributed = 0, ry_total_user_distributed = 0, ry_settings = ia_settings args,
        ry_drop_idx = 0, ry_vouchers_count = 0, ry_tokens_held = 0, ry_distribution = None,
        ry_token_mint = key mnt, ry_realm_addr = ia_realm_addr args, ry_vault_addr = ia_vault_addr args\<rparr>
       state_acc w))))))))))))))"

definition process_migrate ::
  "royalty_ext \<Rightarrow> ext \<Rightarrow> pubkey \<Rightarrow> account_info list \<Rightarrow> pubkey \<Rightarrow> pubkey \<Rightarrow> world \<Rightarrow> world res" where
  "process_migrate R X pid accounts realm_addr vault_addr w =
     and_then (next_entity (SE R) accounts pid w) (\<lambda>(st, state_acc, it).
     and_then (next_expected_token_wallet X it (ry_wallet st) w) (\<lambda>(wallet, it).
     if ry_token_mint st \<noteq> 0 then drop_guard (SE R) st state_acc w
     else drop_guard (SE R) (st\<lparr>ry_realm_addr := realm_addr, ry_vault_addr := vault_addr,
       ry_token_mint := t_mint wallet\<rparr>) state_acc w))"

section \<open>Deposit and withdraw\<close>

text \<open>The first deposit of a user creates the voucher.\<close>

definition enroll ::
  "royalty_ext \<Rightarrow> ext \<Rightarrow> pubkey \<Rightarrow> account_info list \<Rightarrow> pubkey \<Rightarrow> account_info \<Rightarrow> account_info
    \<Rightarrow> account_info \<Rightarrow> u64 \<Rightarrow> royalty_state \<Rightarrow> world \<Rightarrow> (royalty_state \<times> world) res" where
  "enroll R X pid accounts state_addr voucher_acc user funder amount st w =
     and_then (ensure (\<not> unat amount < unat (se_min_token_to_enroll (ry_settings st)))
       (from_royalty_error LessThanDepositMinimum)) (\<lambda>_.
     let seeds = voucher_seeds state_addr (key user); voucher_addr = x_pda X seeds pid in
     and_then (x_cpi X accounts
       (SystemCreate (key funder) voucher_addr (x_rent X 128) 128 pid) [seeds] w) (\<lambda>w.
     and_then (overflow (checked_add (ry_vouchers_count st) 1)) (\<lambda>n.
     and_then (initialize_entity (VE R)
       \<lparr>rv_user = key user, rv_state = state_addr, rv_drop_idx = ry_drop_idx st, rv_balance = 0,
        rv_last_distribution = 0\<rparr> voucher_acc w) (\<lambda>w.
     Inr (st\<lparr>ry_vouchers_count := n\<rparr>, w)))))"

definition process_deposit ::
  "royalty_ext \<Rightarrow> ext \<Rightarrow> pubkey \<Rightarrow> account_info list \<Rightarrow> u64 \<Rightarrow> world \<Rightarrow> world res" where
  "process_deposit R X pid accounts amount w =
     and_then (next_entity (SE R) accounts pid w) (\<lambda>(st, state_acc, it).
     and_then (next_expected_token_wallet X it (ry_wallet st) w) (\<lambda>(wallet, it).
     and_then (next_account_info it) (\<lambda>(voucher_acc, it).
     and_then (next_account_info it) (\<lambda>(user, it).
     and_then (next_atoken_wallet X it (key user) (t_mint wallet) w) (\<lambda>(user_wallet_addr, _, it).
     and_then (next_expected_token_wallet X it (ry_vault_addr st) w) (\<lambda>(vault, it).
     and_then (next_expected_token_wallet X it (x_ata X (ry_owner st) (ry_token_mint st)) w) (\<lambda>(owner_atoken, it).
     and_then (next_account_info it) (\<lambda>(max_weight_record, it).
     and_then (next_account_info it) (\<lambda>(funder, it).
     and_then (next_expected_account it (x_system_id X)) (\<lambda>(_, it).
     and_then (next_expected_account it (x_token_id X)) (\<lambda>(_, it).
     and_then (next_expected_account it (rx_instructions_id R)) (\<lambda>(instructions, it).
     and_then (check_no_other_programs R instructions
       [pid, x_system_id X, rx_ata_program R, round_program_id, compute_budget_id] w) (\<lambda>_.
     let st = st\<lparr>ry_settings := quick_settings\<rparr> in
     and_then (ensure (is_signer user) MissingRequiredSignature) (\<lambda>_.
     and_then (ensure (\<not> (key user = ry_owner st \<or> key user = ry_host st))
       (from_royalty_error BlackistedForEnroll)) (\<lambda>_.
     and_then (ensure (key voucher_acc = x_pda X (voucher_seeds (key state_acc) (key user)) pid)
       InvalidArgument) (\<lambda>_.
     and_then (ensure (ry_distribution st = None) (from_royalty_error TemporaryUnavailable)) (\<lambda>_.
     and_then (read_data (key voucher_acc) w) (\<lambda>d.
     and_then (raw_bytes d) (\<lambda>bs.
     and_then (if is_initialized (VE R) bs then Inr (st, w)
       else enroll R X pid accounts (key state_acc) voucher_acc user funder amount st w) (\<lambda>(st, w).
     and_then (entity_from_acc (VE R) voucher_acc pid w) (\<lambda>voucher.
     let seeds = wallet_seeds (key state_acc) in
     and_then (x_cpi X accounts
       (TokenTransfer user_wallet_addr (x_pda X seeds pid) (key user) amount) [seeds] w) (\<lambda>w.
     and_then (overflow (checked_add (rv_balance voucher) amount)) (\<lambda>balance.
     and_then (overflow (checked_add (ry_tokens_held st) amount)) (\<lambda>held.
     let voucher = voucher\<lparr>rv_balance := balance\<rparr>; st = st\<lparr>ry_tokens_held := held\<rparr> in
     and_then (max_vote_weight st vault owner_atoken) (\<lambda>weight.
     and_then (update_max_voter_weight R X pid (key state_acc) (ry_realm_addr st) (t_mint wallet) weight
       max_weight_record funder w) (\<lambda>w.
     and_then (drop_guard (VE R) voucher voucher_acc w) (\<lambda>w.
     drop_guard (SE R) st state_acc w)))))))))))))))))))))))))))"

definition process_withdraw ::
  "royalty_ext \<Rightarrow> ext \<Rightarrow> pubkey \<Rightarrow> account_info list \<Rightarrow> u64 \<Rightarrow> world \<Rightarrow> world res" where
  "process_withdraw R X pid accounts amount w =
     and_then (next_entity (SE R) accounts pid w) (\<lambda>(st, state_acc, it).
     and_then (next_expected_token_wallet X it (ry_wallet st) w) (\<lambda>(wallet, it).
     and_then (next_entity (VE R) it pid w) (\<lambda>(voucher, voucher_acc, it).
     and_then (next_signer_account it (rv_user voucher)) (\<lambda>(_, it).
     and_then (next_atoken_wallet X it (rv_user voucher) (t_mint wallet) w) (\<lambda>(user_wallet_addr, _, it).
     and_then (next_account_info it) (\<lambda>(voter_record, it).
     and_then (next_account_info it) (\<lambda>(vote_weight_record, it).
     and_then (next_expected_token_wallet X it (ry_vault_addr st) w) (\<lambda>(vault, it).
     and_then (next_expected_token_wallet X it (x_ata X (ry_owner st) (ry_token_mint st)) w) (\<lambda>(owner_atoken, it).
     and_then (next_account_info it) (\<lambda>(max_weight_record, it).
     and_then (next_account_info it) (\<lambda>(funder, it).
     and_then (next_expected_account it (x_token_id X)) (\<lambda>(_, it).
     and_then (next_expected_account it (x_system_id X)) (\<lambda>(_, it).
     and_then (assert_no_unrequilished_votes R X voter_record (ry_realm_addr st) (ry_token_mint st)
       (rv_user voucher) w) (\<lambda>_.
     and_then (ensure (ry_distribution st = None) (from_royalty_error TemporaryUnavailable)) (\<lambda>_.
     and_then (ensure (\<not> unat (rv_balance voucher) < unat amount) (from_royalty_error InsufficientBalance)) (\<lambda>_.
     and_then (unwrap (checked_sub (rv_balance voucher) amount)) (\<lambda>after_balance.
     and_then (ensure (\<not> (after_balance \<noteq> 0
         \<and> unat after_balance < unat (se_min_token_to_enroll (ry_settings st))))
       (from_royalty_error LessThanDepositMinimum)) (\<lambda>_.
     and_then (x_cpi X accounts (TokenTransfer (ry_wallet st) user_wallet_addr (ry_wallet st) amount)
       [wallet_seeds (key state_acc)] w) (\<lambda>w.
     and_then (overflow (checked_sub (rv_balance voucher) amount)) (\<lambda>balance.
     and_then (overflow (checked_sub (ry_tokens_held st) amount)) (\<lambda>held.
     let voucher = voucher\<lparr>rv_balance := balance\<rparr>; st = st\<lparr>ry_tokens_held := held\<rparr> in
     and_then (max_vote_weight st vault owner_atoken) (\<lambda>weight.
     and_then (update_voter_weight R X pid (key state_acc) (ry_realm_addr st) (t_mint wallet)
       (rv_user voucher) (rv_balance voucher) vote_weight_record funder w) (\<lambda>w.
     and_then (update_max_voter_weight R X pid (key state_acc) (ry_realm_addr st) (t_mint wallet) weight
       max_weight_record funder w) (\<lambda>w.
     and_then (drop_guard (VE R) voucher voucher_acc w) (\<lambda>w.
     drop_guard (SE R) st state_acc w)))))))))))))))))))))))))"

section \<open>Distribute\<close>

text \<open>
  Lamports go from the state, whose cell the caller holds, to another account, which must not be
  the state.
\<close>

definition pay_from :: "pubkey \<Rightarrow> pubkey \<Rightarrow> u64 \<Rightarrow> world \<Rightarrow> world res" where
  "pay_from sk k n w =
     and_then (borrow_lamports k w) (\<lambda>w.
     and_then (overflow (checked_sub (lamports_of w sk) n)) (\<lambda>s.
     let w = set_lamports sk s w in
     and_then (overflow (checked_add (lamports_of w k) n)) (\<lambda>l.
     Inr (release_lamports k (set_lamports k l w)))))"

definition start_distribution ::
  "'n precise \<Rightarrow> ext \<Rightarrow> pubkey \<Rightarrow> account_info \<Rightarrow> account_info \<Rightarrow> royalty_state \<Rightarrow> world
    \<Rightarrow> (royalty_state \<times> world) res" where
  "start_distribution P X sk owner host st w =
     and_then (unwrap (checked_add (x_rent X 512) 1)) (\<lambda>minimum_balance.
     and_then (ok_or AccountNotRentExempt (checked_sub (lamports_of w sk) minimum_balance)) (\<lambda>excess_balance.
     and_then (ensure (\<not> unat excess_balance < unat distribution_minimum_lamports)
       (from_royalty_error NotEnoughToStartDistribution)) (\<lambda>_.
     and_then (unwrap (checked_sub excess_balance 1)) (\<lambda>amount_to_distribute.
     and_then (settings_calculate_split P (ry_settings st) amount_to_distribute (ry_vouchers_count st)) (\<lambda>s.
     and_then (overflow s) (\<lambda>split.
     and_then (pay_from sk (key owner) (sp_owner_comission split) w) (\<lambda>w.
     and_then (pay_from sk (key host) (sp_host_comission split) w) (\<lambda>w.
     and_then (overflow (checked_add (ry_total_distributed st) excess_balance)) (\<lambda>total.
     and_then (overflow (checked_add (ry_total_user_distributed st) (sp_distribute_amount split))) (\<lambda>user_total.
     Inr (st\<lparr>ry_total_distributed := total, ry_total_user_distributed := user_total,
       ry_distribution := Some \<lparr>di_distribute_amount = sp_distribute_amount split, di_seen_vouchers = 0\<rparr>\<rparr>,
       w)))))))))))"

text \<open>The loop over the remaining accounts, each a voucher of this state.\<close>

fun distribute_vouchers ::
  "royalty_ext \<Rightarrow> 'n precise \<Rightarrow> ext \<Rightarrow> pubkey \<Rightarrow> pubkey \<Rightarrow> u32 \<Rightarrow> u64 \<Rightarrow> account_info list
    \<Rightarrow> distribution \<Rightarrow> world \<Rightarrow> (distribution \<times> world) res" where
  "distribute_vouchers R P X pid sk idx tokens [] d w = Inr (d, w)"
| "distribute_vouchers R P X pid sk idx tokens (acc # it) d w =
     and_then (next_entity (VE R) (acc # it) pid w) (\<lambda>(voucher, voucher_acc, it').
     and_then (ensure (rv_state voucher = sk) (from_royalty_error InvalidVoucher)) (\<lambda>_.
     and_then (distribute_to P (x_now X) d voucher idx tokens) (\<lambda>(to_send, d, voucher).
     and_then (pay_from sk (key voucher_acc) to_send w) (\<lambda>w.
     and_then (drop_guard (VE R) voucher voucher_acc w) (\<lambda>w.
     distribute_vouchers R P X pid sk idx tokens it d w)))))"

definition process_distribute ::
  "royalty_ext \<Rightarrow> 'n precise \<Rightarrow> ext \<Rightarrow> pubkey \<Rightarrow> account_info list \<Rightarrow> world \<Rightarrow> world res" where
  "process_distribute R P X pid accounts w =
     and_then (next_entity (SE R) accounts pid w) (\<lambda>(st, state_acc, it).
     and_then (next_expected_account it (ry_owner st)) (\<lambda>(owner, it).
     and_then (next_expected_account it (ry_host st)) (\<lambda>(host, it).
     and_then (next_expected_account it (rx_instructions_id R)) (\<lambda>(instructions, it).
     and_then (check_no_other_programs R instructions [pid] w) (\<lambda>_.
     let st = st\<lparr>ry_settings := quick_settings\<rparr>; sk = key state_acc in
     and_then (borrow_lamports sk w) (\<lambda>w.
     and_then (if ry_distribution st = None then start_distribution P X sk owner host st w
       else Inr (st, w)) (\<lambda>(st, w).
     and_then (unwrap (ry_distribution st)) (\<lambda>d.
     and_then (distribute_vouchers R P X pid sk (ry_drop_idx st) (ry_tokens_held st) it d w) (\<lambda>(d, w).
     and_then (assert_that (rent_exempt X (lamports_of w sk) 512)) (\<lambda>_.
     and_then (if di_seen_vouchers d = ry_vouchers_count st
       then and_then (overflow (checked_add (ry_drop_idx st) 1)) (\<lambda>idx.
         Inr (st\<lparr>ry_drop_idx := idx, ry_distribution := None\<rparr>))
       else Inr (st\<lparr>ry_distribution := Some d\<rparr>)) (\<lambda>st.
     drop_guard (SE R) st state_acc (release_lamports sk w))))))))))))"

section \<open>Claim and the weight records\<close>

definition process_claim ::
  "royalty_ext \<Rightarrow> ext \<Rightarrow> pubkey \<Rightarrow> account_info list \<Rightarrow> world \<Rightarrow> world res" where
  "process_claim R X pid accounts w =
     and_then (next_entity (SE R) accounts pid w) (\<lambda>(st, state_acc, it).
     and_then (next_entity (VE R) it pid w) (\<lambda>(voucher, voucher_acc, it).
     and_then (next_signer_account it (rv_user voucher)) (\<lambda>(user, it).
     and_then (ensure (rv_state voucher = key state_acc) (from_royalty_error InvalidVoucher)) (\<lambda>_.
     let vk = key voucher_acc; uk = key user in
     and_then (borrow_lamports vk w) (\<lambda>w.
     and_then (borrow_lamports uk w) (\<lambda>w.
     and_then (ok_or AccountNotRentExempt (checked_sub (lamports_of w vk) (x_rent X 128))) (\<lambda>withdraw_amount.
     and_then (overflow (checked_sub (lamports_of w vk) withdraw_amount)) (\<lambda>l.
     let w = set_lamports vk l w in
     and_then (overflow (checked_add (lamports_of w uk) withdraw_amount)) (\<lambda>l.
     let w = release_lamports vk (release_lamports uk (set_lamports uk l w)) in
     and_then (drop_guard (VE R) voucher voucher_acc w) (\<lambda>w.
     drop_guard (SE R) st state_acc w))))))))))"

text \<open>The weight of a user: for the owner what he and the vault hold, for others their voucher.\<close>

definition sync_balance ::
  "royalty_ext \<Rightarrow> pubkey \<Rightarrow> royalty_state \<Rightarrow> account_info \<Rightarrow> account_info \<Rightarrow> token_account \<Rightarrow> token_account
    \<Rightarrow> world \<Rightarrow> (u64 \<times> world) res" where
  "sync_balance R pid st user voucher_acc vault owner_atoken w =
     (if key user = ry_owner st
      then and_then (overflow (checked_add (t_amount owner_atoken) (t_amount vault))) (\<lambda>b. Inr (b, w))
      else and_then (entity_from_acc (VE R) voucher_acc pid w) (\<lambda>voucher.
        and_then (ensure (rv_user voucher = key user) InvalidArgument) (\<lambda>_.
        and_then (drop_guard (VE R) voucher voucher_acc w) (\<lambda>w. Inr (rv_balance voucher, w)))))"

definition process_sync_weight_record ::
  "royalty_ext \<Rightarrow> ext \<Rightarrow> pubkey \<Rightarrow> account_info list \<Rightarrow> world \<Rightarrow> world res" where
  "process_sync_weight_record R X pid accounts w =
     and_then (next_entity (SE R) accounts pid w) (\<lambda>(st, state_acc, it).
     and_then (next_account_info it) (\<lambda>(user, it).
     and_then (next_account_info it) (\<lambda>(voucher_acc, it).
     and_then (next_account_info it) (\<lambda>(record_acc, it).
     and_then (next_expected_token_wallet X it (ry_vault_addr st) w) (\<lambda>(vault, it).
     and_then (next_expected_token_wallet X it (x_ata X (ry_owner st) (ry_token_mint st)) w) (\<lambda>(owner_atoken, it).
     and_then (next_account_info it) (\<lambda>(max_record_acc, it).
     and_then (next_account_info it) (\<lambda>(funder, it).
     and_then (next_account_info it) (\<lambda>(_, it).
     and_then (sync_balance R pid st user voucher_acc vault owner_atoken w) (\<lambda>(balance, w).
     and_then (update_voter_weight R X pid (key state_acc) (ry_realm_addr st) (ry_token_mint st)
       (key user) balance record_acc funder w) (\<lambda>w.
     and_then (max_vote_weight st vault owner_atoken) (\<lambda>weight.
     and_then (update_max_voter_weight R X pid (key state_acc) (ry_realm_addr st) (ry_token_mint st) weight
       max_record_acc funder w) (\<lambda>w.
     drop_guard (SE R) st state_acc w)))))))))))))"

section \<open>The entry point\<close>

definition process_instruction ::
  "royalty_ext \<Rightarrow> 'n precise \<Rightarrow> ext \<Rightarrow> pubkey \<Rightarrow> account_info list \<Rightarrow> u8 list \<Rightarrow> world \<Rightarrow> world res" where
  "process_instruction R P X pid accounts instruction_data w =
     and_then (ok_or InvalidInstructionData (rx_parse R instruction_data)) (\<lambda>instruction.
     case instruction of
       Initialize args \<Rightarrow> process_initialize R X pid accounts args w
     | Distribute \<Rightarrow> process_distribute R P X pid accounts w
     | Claim \<Rightarrow> process_claim R X pid accounts w
     | DepositTokens amount \<Rightarrow> process_deposit R X pid accounts amount w
     | WithdrawTokens amount \<Rightarrow> process_withdraw R X pid accounts amount w
     | SyncWeightRecord \<Rightarrow> process_sync_weight_record R X pid accounts w
     | Migrate args \<Rightarrow> process_migrate R X pid accounts (ma_realm_addr args) (ma_vault_addr args) w)"

section \<open>The instruction builders\<close>

definition initialize_ix ::
  "royalty_ext \<Rightarrow> ext \<Rightarrow> pubkey \<Rightarrow> pubkey \<Rightarrow> pubkey \<Rightarrow> pubkey \<Rightarrow> initialize_args \<Rightarrow> instruction" where
  "initialize_ix R X pid st mnt fee_payer args =
     \<lparr>in_program_id = pid,
      in_accounts = [writable st False, readonly mnt False, writable (x_pda X (wallet_seeds st) pid) False,
        writable fee_payer True, readonly (x_system_id X) False, readonly (x_token_id X) False,
        readonly (rx_rent_id R) False],
      in_data = rx_encode R (Initialize args)\<rparr>"

definition deposit_ix ::
  "royalty_ext \<Rightarrow> ext \<Rightarrow> pubkey \<Rightarrow> pubkey \<Rightarrow> pubkey \<Rightarrow> pubkey \<Rightarrow> pubkey \<Rightarrow> pubkey \<Rightarrow> pubkey \<Rightarrow> u64
    \<Rightarrow> instruction" where
  "deposit_ix R X pid st vault mnt user owner fee_payer amount =
     \<lparr>in_program_id = pid,
      in_accounts = [writable st False, writable (x_pda X (wallet_seeds st) pid) False,
        writable (x_pda X (voucher_seeds st user) pid) False, readonly user True,
        writable (x_ata X user mnt) False, readonly vault False, readonly (x_ata X owner mnt) False,
        writable (x_pda X (max_weight_seeds st) pid) False, writable fee_payer True,
        readonly (x_system_id X) False, readonly (x_token_id X) False,
        readonly (rx_instructions_id R) False],
      in_data = rx_encode R (DepositTokens amount)\<rparr>"

definition withdraw_ix ::
  "royalty_ext \<Rightarrow> ext \<Rightarrow> pubkey \<Rightarrow> pubkey \<Rightarrow> pubkey \<Rightarrow> pubkey \<Rightarrow> pubkey \<Rightarrow> pubkey \<Rightarrow> pubkey \<Rightarrow> pubkey \<Rightarrow> u64
    \<Rightarrow> instruction" where
  "withdraw_ix R X pid st vault mnt user owner token_owner_record fee_payer amount =
     \<lparr>in_program_id = pid,
      in_accounts = [writable st False, writable (x_pda X (wallet_seeds st) pid) False,
        writable (x_pda X (voucher_seeds st user) pid) False, readonly user True,
        writable (x_ata X user mnt) False, readonly token_owner_record False,
        writable (x_pda X (weight_seeds st user) pid) False, readonly vault False,
        readonly (x_ata X owner mnt) False, writable (x_pda X (max_weight_seeds st) pid) False,
        writable fee_payer True, readonly (x_token_id X) False, readonly (x_system_id X) False],
      in_data = rx_encode R (WithdrawTokens amount)\<rparr>"

definition sync_weight_record_ix ::
  "royalty_ext \<Rightarrow> ext \<Rightarrow> pubkey \<Rightarrow> pubkey \<Rightarrow> pubkey \<Rightarrow> pubkey \<Rightarrow> pubkey \<Rightarrow> pubkey \<Rightarrow> pubkey
    \<Rightarrow> instruction" where
  "sync_weight_record_ix R X pid st vault owner token user funder =
     \<lparr>in_program_id = pid,
      in_accounts = [writable st False, readonly user False, writable (x_pda X (voucher_seeds st user) pid) False,
        writable (x_pda X (weight_seeds st user) pid) False, readonly vault False,
        readonly (x_ata X owner token) False, writable (x_pda X (max_weight_seeds st) pid) False,
        writable funder True, readonly (x_system_id X) False],
      in_data = rx_encode R SyncWeightRecord\<rparr>"

end
