(* ===== verification/RoyaltySafety.thy ===== *)
theory RoyaltySafety
  imports Royalty
begin

text \<open>
  What the handlers of \<open>Royalty\<close> do to the chain. The locale \<open>royalty_world\<close> collects what they
  rely on: the programs they invoke (\<open>token_program\<close>) and the codecs of the two accounts. Its
  lemmas describe the helpers (\<open>pay_from\<close>, the weight records) and the loop of a distribution. Of
  the governance crates they use that a weight record starts with its discriminator, and that this
  does not start with the magic byte of a voucher.
\<close>

locale royalty_world = token_program +
  fixes R :: royalty_ext
  assumes state_codec: "fitting_entity (SE R)"
    and voucher_codec: "fitting_entity (VE R)"
    and weight_bytes: "\<exists>rest. rx_weight_bytes R rec = vw_account_discriminator rec @ rest"
    and weight_discriminator: "\<exists>b bs. rx_weight_discriminator R = b # bs \<and> b \<noteq> 0x55"
    and max_weight_bytes: "\<exists>rest. rx_max_weight_bytes R mrec = mw_account_discriminator mrec @ rest"
    and max_weight_discriminator: "\<exists>b bs. rx_max_weight_discriminator R = b # bs \<and> b \<noteq> 0x55"

section \<open>The magic bytes\<close>

lemma royalty_magic [simp]: "e_magic (SE R) = 0x77" "e_magic (VE R) = 0x55" "e_size (SE R) = 512" "e_size (VE R) = 128"
  by (simp_all add: SE_def VE_def state_entity_def voucher_entity_def codec_entity_def)

lemma not_both: "entity_at (SE R) w k = Some x \<Longrightarrow> entity_at (VE R) w k = None"
  using entity_magic [of "SE R" w k x "VE R"] by (cases "entity_at (VE R) w k") auto

section \<open>Moving lamports\<close>

text \<open>The lamports of a set of accounts together.\<close>

definition total_lamports :: "world \<Rightarrow> pubkey set \<Rightarrow> nat" where
  "total_lamports w S = (\<Sum>k\<in>S. unat (lamports_of w k))"

definition lamports_moved :: "pubkey \<Rightarrow> pubkey \<Rightarrow> nat \<Rightarrow> world \<Rightarrow> world \<Rightarrow> bool" where
  "lamports_moved sk k n w w' \<longleftrightarrow>
     k \<noteq> sk \<and> unat (lamports_of w' sk) + n = unat (lamports_of w sk)
     \<and> unat (lamports_of w' k) = unat (lamports_of w k) + n
     \<and> (\<forall>j. j \<noteq> sk \<longrightarrow> j \<noteq> k \<longrightarrow> accts w' j = accts w j)
     \<and> (\<forall>j. data_of w' j = data_of w j \<and> owner_of w' j = owner_of w j)
     \<and> same_locks w w'"

lemma pay_from_effect:
  assumes "pay_from sk k n w = Inr w'" "sk \<in> set (lam_locked w)"
  shows "lamports_moved sk k (unat n) w w'"
proof -
  have "k \<notin> set (lam_locked w)"
    using assms(1) by (auto simp: pay_from_def res_simps)
  then have ne: "k \<noteq> sk"
    using assms(2) by metis
  have k: "unat n \<le> unat (lamports_of w sk)" "unat (lamports_of w k) + unat n < 2 ^ 64"
    and w': "w' = release_lamports k (set_lamports k (lamports_of w k + n)
      (set_lamports sk (lamports_of w sk - n) (w\<lparr>lam_locked := k # lam_locked w\<rparr>)))"
    using assms ne by (auto simp: pay_from_def overflow_def Let_def res_simps checked_simps)
  have "accts w' j = accts w j" if "j \<noteq> sk" "j \<noteq> k" for j
    using that by (simp add: w' release_lamports_def set_lamports_def)
  then show ?thesis
    using ne k unfolding lamports_moved_def
    by (simp add: w' same_locks_def unat_sub_checked unat_add_checked release_lamports_def)
qed

lemma lamports_moved_total:
  assumes "lamports_moved sk k n w w'" "finite S" "sk \<in> S" "k \<in> S"
  shows "total_lamports w' S = total_lamports w S"
proof -
  have rest: "(\<Sum>j\<in>S - {sk} - {k}. unat (lamports_of w' j)) = (\<Sum>j\<in>S - {sk} - {k}. unat (lamports_of w j))"
  proof (rule sum.cong [OF refl])
    fix j assume "j \<in> S - {sk} - {k}"
    then have "accts w' j = accts w j"
      using assms(1) by (simp add: lamports_moved_def)
    then show "unat (lamports_of w' j) = unat (lamports_of w j)"
      by (rule arg_cong [OF views_of_accts(2)])
  qed
  have split: "total_lamports v S = unat (lamports_of v sk) + (unat (lamports_of v k)
      + (\<Sum>j\<in>S - {sk} - {k}. unat (lamports_of v j)))" for v
    unfolding total_lamports_def using assms
    by (subst sum.remove [of S sk], simp_all, subst sum.remove [of "S - {sk}" k], simp_all add: lamports_moved_def)
  show ?thesis
    unfolding split rest using assms(1) by (simp add: lamports_moved_def)
qed

section \<open>The share of a voucher\<close>

definition share_of :: "'n precise \<Rightarrow> u64 \<Rightarrow> u64 \<Rightarrow> u64 \<Rightarrow> u64 option" where
  "share_of P amount tokens balance = do {
     b \<leftarrow> pn_new P (ucast balance);
     t \<leftarrow> pn_new P (ucast tokens);
     a \<leftarrow> pn_new P (ucast amount);
     q \<leftarrow> pn_div P b t;
     p \<leftarrow> pn_mul P a q;
     r \<leftarrow> pn_imprecise P p;
     u64_of_u128 r
   }"

lemma distribute_to_Inr:
  "distribute_to P now d v idx tokens = Inr (n, d', v') \<Longrightarrow>
     rv_drop_idx v = idx \<and> share_of P (di_distribute_amount d) tokens (rv_balance v) = Some n
     \<and> unat (di_seen_vouchers d) + 1 < 2 ^ 32 \<and> d' = d\<lparr>di_seen_vouchers := di_seen_vouchers d + 1\<rparr>
     \<and> unat idx + 1 < 2 ^ 32 \<and> v' = v\<lparr>rv_drop_idx := idx + 1, rv_last_distribution := now\<rparr>"
  by (auto simp: distribute_to_def share_of_def res_simps checked_simps)

text \<open>What a voucher account gets from a drop.\<close>

definition payout :: "royalty_ext \<Rightarrow> 'n precise \<Rightarrow> u64 \<Rightarrow> u64 \<Rightarrow> world \<Rightarrow> pubkey \<Rightarrow> nat" where
  "payout R P amount tokens w k =
     (case entity_at (VE R) w k of None \<Rightarrow> 0
      | Some v \<Rightarrow> (case share_of P amount tokens (rv_balance v) of None \<Rightarrow> 0 | Some n \<Rightarrow> unat n))"

text \<open>The state of a voucher account before and after it was paid.\<close>

definition voucher_paid ::
  "royalty_ext \<Rightarrow> ext \<Rightarrow> pubkey \<Rightarrow> pubkey \<Rightarrow> u32 \<Rightarrow> nat \<Rightarrow> world \<Rightarrow> world \<Rightarrow> pubkey \<Rightarrow> bool" where
  "voucher_paid R X pid sk idx n w w' k \<longleftrightarrow>
     (\<exists>v. entity_at (VE R) w k = Some v \<and> owner_of w k = pid \<and> rv_state v = sk \<and> rv_drop_idx v = idx
        \<and> entity_at (VE R) w' k = Some (v\<lparr>rv_drop_idx := idx + 1, rv_last_distribution := x_now X\<rparr>))
     \<and> unat (lamports_of w' k) = unat (lamports_of w k) + n"

definition loop_paid ::
  "royalty_ext \<Rightarrow> 'n precise \<Rightarrow> ext \<Rightarrow> pubkey \<Rightarrow> pubkey \<Rightarrow> u32 \<Rightarrow> u64 \<Rightarrow> u64 \<Rightarrow> pubkey list
    \<Rightarrow> world \<Rightarrow> world \<Rightarrow> bool" where
  "loop_paid R P X pid sk idx tokens amount ks w w' \<longleftrightarrow>
     distinct ks \<and> sk \<notin> set ks \<and> (ks \<noteq> [] \<longrightarrow> unat idx + 1 < 2 ^ 32)
     \<and> (\<forall>k\<in>set ks. voucher_paid R X pid sk idx (payout R P amount tokens w k) w w' k)
     \<and> (\<forall>k. k \<notin> set ks \<longrightarrow> k \<noteq> sk \<longrightarrow> accts w' k = accts w k)
     \<and> data_of w' sk = data_of w sk \<and> (\<forall>k. owner_of w' k = owner_of w k)
     \<and> unat (lamports_of w' sk) + sum_list (map (payout R P amount tokens w) ks) = unat (lamports_of w sk)
     \<and> same_locks w w'"

context royalty_world
begin

lemma distribute_vouchers_effect:
  assumes "distribute_vouchers R P X pid sk idx tokens it d w = Inr (d', w')" "sk \<in> set (lam_locked w)"
  shows "loop_paid R P X pid sk idx tokens (di_distribute_amount d) (map key it) w w'
    \<and> d' = d\<lparr>di_seen_vouchers := di_seen_vouchers d + of_nat (length it)\<rparr>
    \<and> unat (di_seen_vouchers d) + length it < 2 ^ 32"
  using assms
proof (induction it arbitrary: d w)
  case Nil
  have "unat (di_seen_vouchers d) < 2 ^ 32"
    using unsigned_less [where 'a = nat, of "di_seen_vouchers d"] by simp
  with Nil show ?case
    by (auto simp: loop_paid_def same_locks_def)
next
  case (Cons acc it)
  let ?k = "key acc" and ?A = "di_distribute_amount d"
  obtain v n d1 v1 w1 w2 where v: "entity_at (VE R) w ?k = Some v" "owner_of w ?k = pid" "rv_state v = sk"
    and to: "distribute_to P (x_now X) d v idx tokens = Inr (n, d1, v1)"
    and pay: "pay_from sk ?k n w = Inr w1" and guard: "drop_guard (VE R) v1 acc w1 = Inr w2"
    and rest: "distribute_vouchers R P X pid sk idx tokens it d1 w2 = Inr (d', w')"
    using Cons.prems(1) by (auto simp: res_simps)
  note moved = pay_from_effect [OF pay Cons.prems(2), unfolded lamports_moved_def]
  note guarded = drop_guard_frame [OF guard]
  note to' = distribute_to_Inr [OF to]
  have v2: "entity_at (VE R) w2 ?k = Some v1"
    using fitting_entity.axioms(1) [OF voucher_codec] guard by (rule entity_codec.drop_guard_stored(1))
  have n: "unat n = payout R P ?A tokens w ?k"
    using v(1) to' by (simp add: payout_def)
  have other: "accts w2 k = accts w k" if "k \<noteq> ?k" "k \<noteq> sk" for k
    using that moved guarded(4) [of k] by simp
  have same: "entity_at (VE R) w2 k = entity_at (VE R) w k" if "k \<noteq> ?k" for k
    using that moved guarded(5) [of k] by (intro entity_at_frame) simp
  have locks: "same_locks w w2"
    using moved guarded(3) by (simp add: same_locks_def)
  have "sk \<in> set (lam_locked w2)"
    using Cons.prems(2) locks by (simp add: same_locks_def)
  from Cons.IH [OF rest this]
  have IH: "loop_paid R P X pid sk idx tokens (di_distribute_amount d1) (map key it) w2 w'"
    and d': "d' = d1\<lparr>di_seen_vouchers := di_seen_vouchers d1 + of_nat (length it)\<rparr>"
    and seen: "unat (di_seen_vouchers d1) + length it < 2 ^ 32"
    by blast+
  note IH = IH [unfolded loop_paid_def]
  have amount: "di_distribute_amount d1 = ?A"
    using to' by simp
  have next_idx: "idx + 1 \<noteq> idx"
    by simp
  have not_sym: "sk \<noteq> ?k"
    using moved by blast
  have new: "?k \<notin> set (map key it)"
  proof
    assume "?k \<in> set (map key it)"
    then have "voucher_paid R X pid sk idx (payout R P ?A tokens w2 ?k) w2 w' ?k"
      using IH unfolding amount by blast
    then show False
      using v2 to' by (auto simp: voucher_paid_def)
  qed
  have pays: "payout R P ?A tokens w2 k = payout R P ?A tokens w k" if "k \<in> set (map key it)" for k
  proof -
    have "k \<noteq> ?k"
      using that new by metis
    then show ?thesis
      by (simp add: payout_def same)
  qed
  then have pays_list: "map (payout R P ?A tokens w2) (map key it) = map (payout R P ?A tokens w) (map key it)"
    by simp
  have head: "voucher_paid R X pid sk idx (payout R P ?A tokens w ?k) w w' ?k"
  proof -
    have "accts w' ?k = accts w2 ?k"
      using IH new moved by blast
    note kept = views_of_accts(1,2) [OF this]
    have "entity_at (VE R) w' ?k = Some v1"
      using v2 entity_at_frame [OF kept(1), of "VE R"] by simp
    with kept(2) show ?thesis
      using v to' moved guarded(1) [of ?k] n by (auto simp: voucher_paid_def)
  qed
  have tail: "voucher_paid R X pid sk idx (payout R P ?A tokens w k) w w' k" if k: "k \<in> set (map key it)" for k
  proof -
    have "voucher_paid R X pid sk idx (payout R P ?A tokens w2 k) w2 w' k"
      using IH k unfolding amount by blast
    moreover have "k \<noteq> ?k" "k \<noteq> sk"
      using k new IH by blast+
    ultimately show ?thesis
      using same [of k] views_of_accts(2,3) [OF other [of k]] pays [OF k] by (simp add: voucher_paid_def)
  qed
  have "loop_paid R P X pid sk idx tokens ?A (map key (acc # it)) w w'"
    unfolding loop_paid_def
  proof (intro conjI ballI allI impI)
    show "voucher_paid R X pid sk idx (payout R P ?A tokens w k) w w' k" if "k \<in> set (map key (acc # it))" for k
      using that head tail by auto
    show "accts w' k = accts w k" if "k \<notin> set (map key (acc # it))" "k \<noteq> sk" for k
      using that IH other [of k] by simp
    show "data_of w' sk = data_of w sk"
      using IH moved guarded(5) [OF not_sym] by simp
    show "owner_of w' k = owner_of w k" for k
      using IH moved guarded(2) [of k] by simp
    show "unat (lamports_of w' sk) + sum_list (map (payout R P ?A tokens w) (map key (acc # it))) = unat (lamports_of w sk)"
    proof -
      have "unat (lamports_of w' sk) + sum_list (map (payout R P ?A tokens w2) (map key it)) = unat (lamports_of w2 sk)"
        using IH unfolding amount by blast
      then show ?thesis
        unfolding pays_list using moved guarded(1) [of sk] n by simp
    qed
    show "same_locks w w'"
      using IH locks by (simp add: same_locks_def)
  qed (use IH new moved to' in auto)
  moreover have "unat (di_seen_vouchers d1) = unat (di_seen_vouchers d) + 1"
    using to' by (simp add: unat_add_checked)
  ultimately show ?case
    using d' seen to' by (simp add: add.assoc)
qed

end

section \<open>A distribution\<close>

text \<open>
  The state before the vouchers are paid, and the commission of the host. A new drop starts with
  \<open>l\<close> lamports on the state: one lamport above the rent stays, and one more before the split.
\<close>

definition drop_begun :: "ext \<Rightarrow> nat \<Rightarrow> royalty_state \<Rightarrow> royalty_state \<Rightarrow> nat \<Rightarrow> bool" where
  "drop_begun X l st st1 fee \<longleftrightarrow> (case ry_distribution st of
     Some d \<Rightarrow> fee = 0 \<and> st1 = st\<lparr>ry_settings := quick_settings\<rparr>
   | None \<Rightarrow> \<exists>excess amount total users.
       l = unat (x_rent X 512) + 1 + excess \<and> 500000000 \<le> excess
       \<and> fee = bps_of (excess - 1) 250 \<and> unat amount + fee + 1 = excess
       \<and> unat total = unat (ry_total_distributed st) + excess
       \<and> unat users = unat (ry_total_user_distributed st) + unat amount
       \<and> st1 = st\<lparr>ry_settings := quick_settings, ry_total_distributed := total,
           ry_total_user_distributed := users,
           ry_distribution := Some \<lparr>di_distribute_amount = amount, di_seen_vouchers = 0\<rparr>\<rparr>)"

text \<open>The state after \<open>n\<close> vouchers: the drop is over when all vouchers have been seen.\<close>

definition drop_advanced :: "nat \<Rightarrow> distribution \<Rightarrow> royalty_state \<Rightarrow> royalty_state \<Rightarrow> bool" where
  "drop_advanced n d st st' \<longleftrightarrow>
     unat (di_seen_vouchers d) + n < 2 ^ 32 \<and>
     (if unat (di_seen_vouchers d) + n = unat (ry_vouchers_count st)
      then unat (ry_drop_idx st) + 1 < 2 ^ 32
        \<and> st' = st\<lparr>ry_drop_idx := ry_drop_idx st + 1, ry_distribution := None\<rparr>
      else st' = st\<lparr>ry_distribution := Some (d\<lparr>di_seen_vouchers := di_seen_vouchers d + of_nat n\<rparr>)\<rparr>)"

lemma quick_split:
  assumes "precise_number P val"
  shows "settings_calculate_split P quick_settings balance n = Inr (Some
    \<lparr>sp_distribute_amount = of_nat (unat balance - bps_of (unat balance) 250), sp_owner_comission = 0,
     sp_host_comission = of_nat (bps_of (unat balance) 250)\<rparr>)"
  using precise_number.settings_split_eq [OF assms, of quick_settings n balance]
  by (simp add: quick_settings_def fees_of_def bps_of_le)

lemma pay_nothing:
  assumes "pay_from sk k 0 w = Inr w'" "sk \<in> set (lam_locked w)"
  shows "lamports_of w' j = lamports_of w j" "data_of w' j = data_of w j" "owner_of w' j = owner_of w j"
    "accts w' j = accts w j" "same_locks w w'"
proof -
  note moved = pay_from_effect [OF assms, unfolded lamports_moved_def]
  then show 1: "lamports_of w' j = lamports_of w j" "data_of w' j = data_of w j" "owner_of w' j = owner_of w j"
    by (cases "j = sk"; cases "j = k"; auto simp: lamports_of_def intro: unat_eqI)+
  then show "accts w' j = accts w j"
    by (simp add: lamports_of_def data_of_def owner_of_def)
  show "same_locks w w'"
    using moved by blast
qed

lemma start_distribution_effect:
  assumes laws: "precise_number P val" and none: "ry_distribution st0 = None"
    and st: "st = st0\<lparr>ry_settings := quick_settings\<rparr>"
    and ok: "start_distribution P X sk owner host st w = Inr (st1, w')" and locked: "sk \<in> set (lam_locked w)"
  shows "\<exists>fee. drop_begun X (unat (lamports_of w sk)) st0 st1 fee \<and> lamports_moved sk (key host) fee w w'"
proof -
  obtain minimum excess amount split w1 total users where
      sub: "checked_add (x_rent X 512) 1 = Some minimum" "checked_sub (lamports_of w sk) minimum = Some excess"
      "checked_sub excess 1 = Some amount"
    and enough: "\<not> unat excess < unat distribution_minimum_lamports"
    and split: "settings_calculate_split P quick_settings amount (ry_vouchers_count st) = Inr (Some split)"
    and pay: "pay_from sk (key owner) (sp_owner_comission split) w = Inr w1"
      "pay_from sk (key host) (sp_host_comission split) w1 = Inr w'"
    and tot: "checked_add (ry_total_distributed st) excess = Some total"
      "checked_add (ry_total_user_distributed st) (sp_distribute_amount split) = Some users"
    and st1: "st1 = st\<lparr>ry_total_distributed := total, ry_total_user_distributed := users,
      ry_distribution := Some \<lparr>di_distribute_amount = sp_distribute_amount split, di_seen_vouchers = 0\<rparr>\<rparr>"
    using ok unfolding start_distribution_def by (auto simp: res_simps overflow_def st)
  have l: "unat (lamports_of w sk) = unat (x_rent X 512) + 1 + unat excess"
    using sub(1,2) by (auto simp: checked_simps unat_add_checked unat_sub_checked)
  have min: "500000000 \<le> unat excess"
    using enough by (simp add: distribution_minimum_lamports_def)
  have one: "unat amount = unat excess - 1"
    using sub(3) by (auto simp: checked_simps unat_sub_checked)
  let ?fee = "bps_of (unat excess - 1) 250"
  have split': "split = \<lparr>sp_distribute_amount = of_nat (unat excess - 1 - ?fee), sp_owner_comission = 0,
      sp_host_comission = of_nat ?fee\<rparr>"
    using split quick_split [OF laws, of amount "ry_vouchers_count st"] one by simp
  have le: "?fee \<le> unat excess - 1"
    by (rule bps_of_le) simp
  then have words: "unat (of_nat ?fee :: u64) = ?fee"
    "unat (of_nat (unat excess - 1 - ?fee) :: u64) = unat excess - 1 - ?fee"
    using unat_u64_less [of excess] by (simp_all add: unat_of_nat)
  have shares: "unat (sp_distribute_amount split) = unat excess - 1 - ?fee"
    by (simp only: split' fee_split.simps words(2))
  have zero: "pay_from sk (key owner) 0 w = Inr w1"
    using pay(1) by (simp add: split')
  note unpaid = pay_nothing [OF zero locked]
  have "sk \<in> set (lam_locked w1)"
    using locked unpaid(5) by (simp add: same_locks_def)
  moreover have "unat (sp_host_comission split) = ?fee"
    by (simp only: split' fee_split.simps words(1))
  ultimately have "lamports_moved sk (key host) ?fee w1 w'"
    using pay_from_effect [OF pay(2)] by simp
  then have "lamports_moved sk (key host) ?fee w w'"
    using unpaid by (simp add: lamports_moved_def same_locks_def)
  moreover have "drop_begun X (unat (lamports_of w sk)) st0 st1 ?fee"
    unfolding drop_begun_def none option.case
  proof (intro exI conjI)
    show "unat (sp_distribute_amount split) + ?fee + 1 = unat excess"
      using le min shares by linarith
  qed (use l min tot st1 st in \<open>auto simp: checked_simps unat_add_checked\<close>)
  ultimately show ?thesis
    by blast
qed

text \<open>Everything a distribution changes.\<close>

definition distributed_by ::
  "royalty_ext \<Rightarrow> 'n precise \<Rightarrow> ext \<Rightarrow> pubkey \<Rightarrow> pubkey \<Rightarrow> royalty_state \<Rightarrow> royalty_state \<Rightarrow> pubkey list
    \<Rightarrow> world \<Rightarrow> world \<Rightarrow> bool" where
  "distributed_by R P X pid sk st st' ks w w' \<longleftrightarrow>
     (\<exists>st1 d fee. drop_begun X (unat (lamports_of w sk)) st st1 fee \<and> ry_distribution st1 = Some d
       \<and> drop_advanced (length ks) d st1 st'
       \<and> (let pay = payout R P (di_distribute_amount d) (ry_tokens_held st) w in
            (\<forall>k. k \<noteq> sk \<longrightarrow> unat (lamports_of w' k) = unat (lamports_of w k)
               + (if k = ry_host st then fee else 0) + (if k \<in> set ks then pay k else 0))
            \<and> unat (lamports_of w' sk) + fee + sum_list (map pay ks) = unat (lamports_of w sk)))
     \<and> distinct ks \<and> sk \<notin> set ks \<and> (ks \<noteq> [] \<longrightarrow> unat (ry_drop_idx st) + 1 < 2 ^ 32)
     \<and> (\<forall>k\<in>set ks. \<exists>v. entity_at (VE R) w k = Some v \<and> owner_of w k = pid \<and> rv_state v = sk
          \<and> rv_drop_idx v = ry_drop_idx st
          \<and> entity_at (VE R) w' k = Some (v\<lparr>rv_drop_idx := ry_drop_idx st + 1, rv_last_distribution := x_now X\<rparr>))
     \<and> (\<forall>k. k \<notin> set ks \<longrightarrow> k \<noteq> sk \<longrightarrow> data_of w' k = data_of w k)
     \<and> (\<forall>k. owner_of w' k = owner_of w k)
     \<and> entity_at (SE R) w' sk = Some st' \<and> unat (x_rent X 512) \<le> unat (lamports_of w' sk)"

lemma begin_effect:
  assumes laws: "precise_number P val" and locked: "sk \<in> set (lam_locked w)"
    and ok: "(if ry_distribution st = None
       then start_distribution P X sk owner host (st\<lparr>ry_settings := quick_settings\<rparr>) w
       else Inr (st\<lparr>ry_settings := quick_settings\<rparr>, w)) = Inr (st1, w1)"
  shows "\<exists>fee. drop_begun X (unat (lamports_of w sk)) st st1 fee
    \<and> unat (lamports_of w1 sk) + fee = unat (lamports_of w sk)
    \<and> (\<forall>k. k \<noteq> sk \<longrightarrow> unat (lamports_of w1 k) = unat (lamports_of w k) + (if k = key host then fee else 0))
    \<and> (\<forall>k. data_of w1 k = data_of w k \<and> owner_of w1 k = owner_of w k) \<and> same_locks w w1"
proof (cases "ry_distribution st")
  case None
  then have "start_distribution P X sk owner host (st\<lparr>ry_settings := quick_settings\<rparr>) w = Inr (st1, w1)"
    using ok by simp
  from start_distribution_effect [OF laws None refl this locked]
  obtain fee where "drop_begun X (unat (lamports_of w sk)) st st1 fee" "lamports_moved sk (key host) fee w w1"
    by blast
  then show ?thesis
    by (intro exI [of _ fee]) (auto simp: lamports_moved_def lamports_of_def)
next
  case (Some d)
  then show ?thesis
    using ok by (auto simp: drop_begun_def same_locks_def)
qed

lemma drop_begun_keeps:
  assumes "drop_begun X l st st1 fee"
  shows "ry_drop_idx st1 = ry_drop_idx st" "ry_tokens_held st1 = ry_tokens_held st"
    "ry_vouchers_count st1 = ry_vouchers_count st" "ry_host st1 = ry_host st" "ry_settings st1 = quick_settings"
  using assms by (auto simp: drop_begun_def split: option.splits)

context royalty_world
begin

lemma process_distribute_effect:
  assumes laws: "precise_number P val" and ok: "process_distribute R P X pid accounts w = Inr w'"
  shows "\<exists>state_acc owner host ins it st st'. accounts = state_acc # owner # host # ins # it
    \<and> entity_at (SE R) w (key state_acc) = Some st \<and> owner_of w (key state_acc) = pid
    \<and> key owner = ry_owner st \<and> key host = ry_host st
    \<and> distributed_by R P X pid (key state_acc) st st' (map key it) w w'"
proof -
  obtain state_acc owner host ins it st st1 w1 d d2 w2 st' where accounts: "accounts = state_acc # owner # host # ins # it"
    and st: "entity_at (SE R) w (key state_acc) = Some st" "owner_of w (key state_acc) = pid"
    and parties: "key owner = ry_owner st" "key host = ry_host st"
    and free: "key state_acc \<notin> set (lam_locked w)"
    and start: "(if ry_distribution st = None
       then start_distribution P X (key state_acc) owner host (st\<lparr>ry_settings := quick_settings\<rparr>)
         (w\<lparr>lam_locked := key state_acc # lam_locked w\<rparr>)
       else Inr (st\<lparr>ry_settings := quick_settings\<rparr>, w\<lparr>lam_locked := key state_acc # lam_locked w\<rparr>)) = Inr (st1, w1)"
    and d: "ry_distribution st1 = Some d"
    and loop: "distribute_vouchers R P X pid (key state_acc) (ry_drop_idx st1) (ry_tokens_held st1) it d w1 = Inr (d2, w2)"
    and rent: "rent_exempt X (lamports_of w2 (key state_acc)) 512"
    and fin: "(if di_seen_vouchers d2 = ry_vouchers_count st1
       then and_then (overflow (checked_add (ry_drop_idx st1) 1)) (\<lambda>idx.
         Inr (st1\<lparr>ry_drop_idx := idx, ry_distribution := None\<rparr>))
       else Inr (st1\<lparr>ry_distribution := Some d2\<rparr>)) = Inr st'"
    and guard: "drop_guard (SE R) st' state_acc (release_lamports (key state_acc) w2) = Inr w'"
    using ok unfolding process_distribute_def Let_def by (simp add: res_simps split_paired_Ex) blast
  let ?sk = "key state_acc" and ?v = "w\<lparr>lam_locked := key state_acc # lam_locked w\<rparr>"
  have locked: "?sk \<in> set (lam_locked ?v)"
    by simp
  obtain fee where begun: "drop_begun X (unat (lamports_of w ?sk)) st st1 fee"
    and left: "unat (lamports_of w1 ?sk) + fee = unat (lamports_of w ?sk)"
    and lam: "\<And>k. k \<noteq> ?sk \<Longrightarrow> unat (lamports_of w1 k) = unat (lamports_of w k) + (if k = ry_host st then fee else 0)"
    and views: "\<And>k. data_of w1 k = data_of w k" "\<And>k. owner_of w1 k = owner_of w k" and locks: "same_locks ?v w1"
    using begin_effect [OF laws locked start] unfolding parties by auto
  note kept = drop_begun_keeps [OF begun]
  have "?sk \<in> set (lam_locked w1)"
    using locks by (simp add: same_locks_def)
  from distribute_vouchers_effect [OF loop this]
  have paid: "loop_paid R P X pid ?sk (ry_drop_idx st) (ry_tokens_held st) (di_distribute_amount d) (map key it) w1 w2"
    and d2: "d2 = d\<lparr>di_seen_vouchers := di_seen_vouchers d + of_nat (length it)\<rparr>"
    and seen: "unat (di_seen_vouchers d) + length it < 2 ^ 32"
    unfolding kept by blast+
  note paid = paid [unfolded loop_paid_def]
  have ent: "entity_at (VE R) w1 k = entity_at (VE R) w k" for k
    by (rule entity_at_frame) (rule views(1))
  then have pays: "payout R P a t w1 = payout R P a t w" for a t
    by (simp add: fun_eq_iff payout_def)
  note guarded = drop_guard_frame [OF guard, simplified]
  have stored: "entity_at (SE R) w' ?sk = Some st'"
    using fitting_entity.axioms(1) [OF state_codec] guard by (rule entity_codec.drop_guard_stored(1))
  have "unat (of_nat (length it) :: u32) = length it"
    using seen by (simp add: unat_of_nat)
  then have count: "unat (di_seen_vouchers d2) = unat (di_seen_vouchers d) + length it"
    using seen by (simp add: d2 unat_add_checked)
  then have "di_seen_vouchers d2 = ry_vouchers_count st1
      \<longleftrightarrow> unat (di_seen_vouchers d) + length it = unat (ry_vouchers_count st1)"
    using unat_eqI [of "di_seen_vouchers d2" "ry_vouchers_count st1"] by auto
  then have advanced: "drop_advanced (length it) d st1 st'"
    using fin seen unfolding drop_advanced_def
    by (auto simp: overflow_def res_simps checked_simps d2 split: if_splits)
  have lam_end: "unat (lamports_of w' k) = unat (lamports_of w k) + (if k = ry_host st then fee else 0)
      + (if k \<in> set (map key it) then payout R P (di_distribute_amount d) (ry_tokens_held st) w k else 0)"
    if k: "k \<noteq> ?sk" for k
  proof (cases "k \<in> set (map key it)")
    case True
    then have "voucher_paid R X pid ?sk (ry_drop_idx st)
        (payout R P (di_distribute_amount d) (ry_tokens_held st) w1 k) w1 w2 k"
      using paid by blast
    then show ?thesis
      using True guarded(1) [of k] lam [OF k] pays by (simp add: voucher_paid_def)
  next
    case False
    then have "accts w2 k = accts w1 k"
      using paid k by blast
    from views_of_accts(2) [OF this] show ?thesis
      using False guarded(1) [of k] lam [OF k] by simp
  qed
  have voucher_end: "\<exists>v. entity_at (VE R) w k = Some v \<and> owner_of w k = pid \<and> rv_state v = ?sk
      \<and> rv_drop_idx v = ry_drop_idx st
      \<and> entity_at (VE R) w' k = Some (v\<lparr>rv_drop_idx := ry_drop_idx st + 1, rv_last_distribution := x_now X\<rparr>)"
    if k: "k \<in> set (map key it)" for k
  proof -
    have "voucher_paid R X pid ?sk (ry_drop_idx st)
        (payout R P (di_distribute_amount d) (ry_tokens_held st) w1 k) w1 w2 k"
      using paid k by blast
    moreover have "k \<noteq> ?sk"
      using paid k by blast
    then have "entity_at (VE R) w' k = entity_at (VE R) w2 k"
      by (intro entity_at_frame guarded(5))
    ultimately show ?thesis
      using ent [of k] views(2) [of k] by (simp add: voucher_paid_def)
  qed
  have data_end: "data_of w' k = data_of w k" if k: "k \<notin> set (map key it)" "k \<noteq> ?sk" for k
  proof -
    have "accts w2 k = accts w1 k"
      using paid k by blast
    from views_of_accts(1) [OF this] show ?thesis
      using guarded(5) [OF k(2)] views(1) [of k] by simp
  qed
  have owner_end: "owner_of w' k = owner_of w k" for k
    using paid guarded(2) [of k] views(2) [of k] by simp
  have left_end: "unat (lamports_of w' ?sk) + fee
      + sum_list (map (payout R P (di_distribute_amount d) (ry_tokens_held st) w) (map key it)) = unat (lamports_of w ?sk)"
  proof -
    have "unat (lamports_of w2 ?sk) + sum_list (map (payout R P (di_distribute_amount d) (ry_tokens_held st) w)
        (map key it)) = unat (lamports_of w1 ?sk)"
      using paid unfolding pays by blast
    then show ?thesis
      using left guarded(1) [of ?sk] by simp
  qed
  have "distributed_by R P X pid ?sk st st' (map key it) w w'"
    unfolding distributed_by_def Let_def length_map
  proof (intro conjI)
    show "\<exists>st1 d fee. drop_begun X (unat (lamports_of w ?sk)) st st1 fee \<and> ry_distribution st1 = Some d
       \<and> drop_advanced (length it) d st1 st'
       \<and> (\<forall>k. k \<noteq> ?sk \<longrightarrow> unat (lamports_of w' k) = unat (lamports_of w k)
               + (if k = ry_host st then fee else 0)
               + (if k \<in> set (map key it) then payout R P (di_distribute_amount d) (ry_tokens_held st) w k else 0))
       \<and> unat (lamports_of w' ?sk) + fee
         + sum_list (map (payout R P (di_distribute_amount d) (ry_tokens_held st) w) (map key it))
         = unat (lamports_of w ?sk)"
      using begun d advanced lam_end left_end by blast
    show "unat (x_rent X 512) \<le> unat (lamports_of w' ?sk)"
      using rent guarded(1) [of ?sk] by (simp add: rent_exempt_def)
  qed (use paid voucher_end data_end owner_end stored in blast)+
  then show ?thesis
    using accounts st parties by blast
qed

end

section \<open>Claims\<close>

text \<open>A claim empties the voucher down to its rent and changes nothing else.\<close>

definition claimed_by :: "royalty_ext \<Rightarrow> ext \<Rightarrow> pubkey \<Rightarrow> pubkey \<Rightarrow> pubkey \<Rightarrow> royalty_state \<Rightarrow> royalty_voucher
    \<Rightarrow> world \<Rightarrow> world \<Rightarrow> bool" where
  "claimed_by R X sk vk uk st v w w' \<longleftrightarrow>
     (\<exists>n. unat (lamports_of w vk) = unat (x_rent X 128) + n \<and> lamports_of w' vk = x_rent X 128
        \<and> unat (lamports_of w' uk) = unat (lamports_of w uk) + n)
     \<and> vk \<noteq> uk
     \<and> (\<forall>k. k \<noteq> vk \<longrightarrow> k \<noteq> uk \<longrightarrow> lamports_of w' k = lamports_of w k)
     \<and> (\<forall>k. k \<noteq> vk \<longrightarrow> k \<noteq> sk \<longrightarrow> data_of w' k = data_of w k) \<and> (\<forall>k. owner_of w' k = owner_of w k)
     \<and> entity_at (SE R) w' sk = Some st \<and> entity_at (VE R) w' vk = Some v"

context royalty_world
begin

lemma process_claim_effect:
  assumes ok: "process_claim R X pid accounts w = Inr w'"
  shows "\<exists>state_acc voucher_acc user it st v. accounts = state_acc # voucher_acc # user # it
    \<and> entity_at (SE R) w (key state_acc) = Some st \<and> owner_of w (key state_acc) = pid
    \<and> entity_at (VE R) w (key voucher_acc) = Some v \<and> owner_of w (key voucher_acc) = pid
    \<and> rv_state v = key state_acc \<and> is_signer user \<and> key user = rv_user v
    \<and> claimed_by R X (key state_acc) (key voucher_acc) (key user) st v w w'"
proof -
  obtain state_acc voucher_acc user b1 b2 it st v n l1 l2 w2
    where accounts: "accounts = state_acc # b1" "b1 = voucher_acc # b2" "b2 = user # it"
    and st: "entity_at (SE R) w (key state_acc) = Some st" "owner_of w (key state_acc) = pid"
    and v: "entity_at (VE R) w (key voucher_acc) = Some v" "owner_of w (key voucher_acc) = pid"
      "rv_state v = key state_acc" and user: "is_signer user" "key user = rv_user v"
    and ne: "key user \<noteq> key voucher_acc"
    and n: "checked_sub (lamports_of w (key voucher_acc)) (x_rent X 128) = Some n"
    and l1: "checked_sub (lamports_of w (key voucher_acc)) n = Some l1"
    and l2: "checked_add (lamports_of (set_lamports (key voucher_acc) l1
        (w\<lparr>lam_locked := key user # key voucher_acc # lam_locked w\<rparr>)) (key user)) n = Some l2"
    and g1: "drop_guard (VE R) v voucher_acc (release_lamports (key voucher_acc) (release_lamports (key user)
      (set_lamports (key user) l2 (set_lamports (key voucher_acc) l1
        (w\<lparr>lam_locked := key user # key voucher_acc # lam_locked w\<rparr>))))) = Inr w2"
    and g2: "drop_guard (SE R) st state_acc w2 = Inr w'"
    using ok unfolding process_claim_def Let_def overflow_def
    by (simp add: res_simps split_paired_Ex del: view_set_lamports) (elim exE conjE, rule that, assumption+)
  show ?thesis
  proof -
    let ?vk = "key voucher_acc" and ?uk = "key user" and ?sk = "key state_acc"
    have l1': "l1 = x_rent X 128" "unat (lamports_of w ?vk) = unat (x_rent X 128) + unat n"
      using n l1 by (auto simp: checked_simps unat_sub_checked)
    have l2': "unat l2 = unat (lamports_of w ?uk) + unat n"
      using l2 ne by (auto simp: checked_simps unat_add_checked)
    note f1 = drop_guard_frame [OF g1] and f2 = drop_guard_frame [OF g2]
    have lam: "lamports_of w' k = (if k = ?uk then l2 else if k = ?vk then l1 else lamports_of w k)" for k
      using f1(1) [of k] f2(1) [of k] by simp
    have apart: "?vk \<noteq> ?sk"
      using not_both [OF st(1)] v(1) by auto
    have "entity_at (VE R) w2 ?vk = Some v"
      using fitting_entity.axioms(1) [OF voucher_codec] g1 by (rule entity_codec.drop_guard_stored(1))
    moreover have "entity_at (VE R) w' ?vk = entity_at (VE R) w2 ?vk"
      by (intro entity_at_frame f2(5) apart)
    ultimately have v': "entity_at (VE R) w' ?vk = Some v"
      by simp
    have st': "entity_at (SE R) w' ?sk = Some st"
      using fitting_entity.axioms(1) [OF state_codec] g2 by (rule entity_codec.drop_guard_stored(1))
    have "claimed_by R X ?sk ?vk ?uk st v w w'"
      unfolding claimed_by_def using lam l1' l2' ne f1(2,5) f2(2,5) v' st'
      by (intro conjI exI [of _ "unat n"]) auto
    then show ?thesis
      using accounts st v user by metis
  qed
qed

end

end
