(* ===== verification/RoyaltyEffects.thy ===== *)
theory RoyaltyEffects
  imports RoyaltySafety
begin

text \<open>
  What each instruction of the royalty program changes, as one relation between the worlds before
  and after it: deposits, withdrawals, the weight records, initialisation and migration. A handler
  moves tokens once and rewrites accounts that hold bytes before and after (\<open>raw_step\<close>); tokens
  and typed accounts outside its own are not touched (\<open>tokens_moved\<close>).
\<close>

section \<open>Weight records\<close>

text \<open>The record account holds the bytes; other data and owners stay, and so do all tokens.\<close>

definition recorded :: "pubkey \<Rightarrow> pubkey \<Rightarrow> u8 list \<Rightarrow> world \<Rightarrow> world \<Rightarrow> bool" where
  "recorded pid k bytes w w' \<longleftrightarrow>
     (\<forall>j. j \<noteq> k \<longrightarrow> data_of w' j = data_of w j \<and> owner_of w' j = owner_of w j)
     \<and> (\<exists>bs. data_of w k = Raw bs) \<and> (\<exists>rest. data_of w' k = Raw (bytes @ rest))
     \<and> owner_of w' k = pid \<and> same_locks w w'"

lemma token_views_of_data:
  assumes "data_of w' k = data_of w k"
  shows "token_balance w' k = token_balance w k" "token_meta w' k = token_meta w k"
    "token_delegate w' k = token_delegate w k" "is_token w' k = is_token w k"
  using assms by (simp_all add: token_views)

lemma token_views_of_raw:
  assumes "data_of w k = Raw bs"
  shows "token_balance w k = 0" "token_meta w k = None" "token_delegate w k = None" "\<not> is_token w k"
  using assms by (simp_all add: token_views)

lemma recorded_entity:
  "recorded pid k bytes w w' \<Longrightarrow> j \<noteq> k \<Longrightarrow> entity_at E w' j = entity_at E w j"
  by (rule entity_at_frame) (simp add: recorded_def)

context royalty_world
begin

lemma create_or_save_recorded:
  assumes "create_or_save_account X pid bytes n acc funder seeds w = Inr w'"
  shows "recorded pid (key acc) bytes w w'"
proof -
  obtain w1 bs where w1: "(if owner_of w (key acc) \<noteq> pid
       then x_cpi X [funder, acc] (SystemCreate (key funder) (key acc) (x_rent X n) n pid) [seeds] w
       else Inr w) = Inr w1"
    and bs: "data_of w1 (key acc) = Raw bs"
    and w': "w' = set_data (key acc) (Raw (bytes @ drop (length bytes) bs)) w1"
    using assms unfolding create_or_save_account_def write_record_def by (auto simp: res_simps)
  show ?thesis
  proof (cases "owner_of w (key acc) = pid")
    case True
    then show ?thesis
      using w1 bs by (auto simp: recorded_def w' same_locks_def)
  next
    case False
    then have made: "account_created (x_system_id X) (key funder) (key acc) (x_rent X n) n pid w w1"
      using w1 create_account by simp
    then have other: "data_of w1 j = data_of w j \<and> owner_of w1 j = owner_of w j" if "j \<noteq> key acc" for j
      using that unfolding account_created_def by (cases "j = key funder") (auto simp: data_of_def owner_of_def)
    moreover have "owner_of w1 (key acc) = pid" "data_of w (key acc) = Raw []" "same_locks w w1"
      using made by (simp_all add: account_created_def owner_of_def)
    ultimately show ?thesis
      unfolding recorded_def w' by (auto simp: same_locks_def)
  qed
qed

lemma recorded_no_voucher:
  assumes "recorded pid k (b # bs) w w'" "b \<noteq> 0x55"
  shows "entity_at (VE R) w' k = None"
  using assms by (auto simp: recorded_def entity_at_def deserialize_from_def ensure_def)

lemma update_max_recorded:
  assumes "update_max_voter_weight R X pid sk realm token n acc funder w = Inr w'"
  shows "key acc = x_pda X (max_weight_seeds sk) pid
    \<and> recorded pid (key acc) (rx_max_weight_bytes R
        \<lparr>mw_account_discriminator = rx_max_weight_discriminator R, mw_realm = realm,
         mw_governing_token_mint = token, mw_max_voter_weight = n, mw_max_voter_weight_expiry = None,
         mw_reserved = replicate 8 0\<rparr>) w w'
    \<and> entity_at (VE R) w' (key acc) = None"
proof -
  let ?bytes = "rx_max_weight_bytes R
        \<lparr>mw_account_discriminator = rx_max_weight_discriminator R, mw_realm = realm,
         mw_governing_token_mint = token, mw_max_voter_weight = n, mw_max_voter_weight_expiry = None,
         mw_reserved = replicate 8 0\<rparr>"
  have rec: "key acc = x_pda X (max_weight_seeds sk) pid" "recorded pid (key acc) ?bytes w w'"
    using assms unfolding update_max_voter_weight_def Let_def
    by (auto simp: res_simps dest: create_or_save_recorded)
  obtain b bs rest where "?bytes = b # bs @ rest" "b \<noteq> 0x55"
    using max_weight_bytes max_weight_discriminator
    by (metis append_Cons max_voter_weight_record.select_convs(1))
  then show ?thesis
    using rec recorded_no_voucher [of pid "key acc" b "bs @ rest" w w'] by simp
qed

lemma update_weight_recorded:
  assumes "update_voter_weight R X pid sk realm token user n acc funder w = Inr w'"
  shows "key acc = x_pda X (weight_seeds sk user) pid
    \<and> recorded pid (key acc) (rx_weight_bytes R
        \<lparr>vw_account_discriminator = rx_weight_discriminator R, vw_realm = realm,
         vw_governing_token_mint = token, vw_governing_token_owner = user, vw_voter_weight = n,
         vw_voter_weight_expiry = None, vw_weight_action = None, vw_weight_action_target = None,
         vw_reserved = replicate 8 0\<rparr>) w w'
    \<and> entity_at (VE R) w' (key acc) = None"
proof -
  let ?bytes = "rx_weight_bytes R
        \<lparr>vw_account_discriminator = rx_weight_discriminator R, vw_realm = realm,
         vw_governing_token_mint = token, vw_governing_token_owner = user, vw_voter_weight = n,
         vw_voter_weight_expiry = None, vw_weight_action = None, vw_weight_action_target = None,
         vw_reserved = replicate 8 0\<rparr>"
  have rec: "key acc = x_pda X (weight_seeds sk user) pid" "recorded pid (key acc) ?bytes w w'"
    using assms unfolding update_voter_weight_def Let_def
    by (auto simp: res_simps dest: create_or_save_recorded)
  obtain b bs rest where "?bytes = b # bs @ rest" "b \<noteq> 0x55"
    using weight_bytes weight_discriminator
    by (metis append_Cons voter_weight_record.select_convs(1))
  then show ?thesis
    using rec recorded_no_voucher [of pid "key acc" b "bs @ rest" w w'] by simp
qed

end

section \<open>Raw steps and token movements\<close>

text \<open>Between two token calls, a handler rewrites accounts that hold bytes.\<close>

definition raw_step :: "pubkey set \<Rightarrow> world \<Rightarrow> world \<Rightarrow> bool" where
  "raw_step A w w' \<longleftrightarrow>
     (\<forall>k. k \<notin> A \<longrightarrow> data_of w' k = data_of w k \<and> owner_of w' k = owner_of w k)
     \<and> (\<forall>k \<in> A. (\<exists>bs. data_of w k = Raw bs) \<and> (\<exists>bs. data_of w' k = Raw bs))
     \<and> same_locks w w'"

lemma raw_step_refl: "raw_step {} w w"
  by (simp add: raw_step_def same_locks_def)

lemma raw_step_trans:
  assumes "raw_step A w w1" "raw_step B w1 w2"
  shows "raw_step (A \<union> B) w w2"
  unfolding raw_step_def
proof (intro conjI allI ballI impI)
  fix k assume k: "k \<in> A \<union> B"
  show "\<exists>bs. data_of w k = Raw bs"
    using assms k by (cases "k \<in> A") (auto simp: raw_step_def)
  show "\<exists>bs. data_of w2 k = Raw bs"
    using assms k by (cases "k \<in> B") (auto simp: raw_step_def)
qed (use assms in \<open>auto simp: raw_step_def same_locks_def\<close>)

lemma raw_step_recorded: "recorded pid k bytes w w' \<Longrightarrow> raw_step {k} w w'"
  by (auto simp: recorded_def raw_step_def)

lemma raw_step_guard: "drop_guard E x acc w = Inr w' \<Longrightarrow> raw_step {key acc} w w'"
  using drop_guard_frame [of E x acc w w'] by (auto simp: raw_step_def)

lemma raw_step_tokens:
  assumes "raw_step A w w'"
  shows "token_balance w' k = token_balance w k" "token_meta w' k = token_meta w k"
    "token_delegate w' k = token_delegate w k" "is_token w' k = is_token w k"
proof -
  consider (same) "data_of w' k = data_of w k" | (raw) bs bs' where "data_of w k = Raw bs" "data_of w' k = Raw bs'"
    using assms by (cases "k \<in> A") (auto simp: raw_step_def)
  then have "token_balance w' k = token_balance w k \<and> token_meta w' k = token_meta w k
    \<and> token_delegate w' k = token_delegate w k \<and> is_token w' k = is_token w k"
  proof cases
    case same
    then show ?thesis
      using token_views_of_data [OF same] by simp
  next
    case raw
    then show ?thesis
      using token_views_of_raw by metis
  qed
  then show "token_balance w' k = token_balance w k" "token_meta w' k = token_meta w k"
    "token_delegate w' k = token_delegate w k" "is_token w' k = is_token w k"
    by blast+
qed

definition tokens_moved ::
  "pubkey set \<Rightarrow> pubkey \<Rightarrow> pubkey \<Rightarrow> pubkey \<Rightarrow> u64 \<Rightarrow> world \<Rightarrow> world \<Rightarrow> bool" where
  "tokens_moved A src dst auth n w w' \<longleftrightarrow>
     is_token w src \<and> is_token w dst \<and> may_spend w src auth \<and> unat n \<le> token_balance w src
     \<and> (src \<noteq> dst \<longrightarrow> token_balance w' src = token_balance w src - unat n
          \<and> token_balance w' dst = token_balance w dst + unat n)
     \<and> (src = dst \<longrightarrow> token_balance w' src = token_balance w src)
     \<and> (\<forall>k. k \<noteq> src \<longrightarrow> k \<noteq> dst \<longrightarrow> token_balance w' k = token_balance w k)
     \<and> (\<forall>k. token_meta w' k = token_meta w k)
     \<and> (\<forall>k. token_delegate w' k = token_delegate w k \<or> token_delegate w' k = None)
     \<and> (\<forall>k. k \<notin> A \<longrightarrow> \<not> is_token w k \<longrightarrow> data_of w' k = data_of w k)
     \<and> (\<forall>k. k \<notin> A \<longrightarrow> owner_of w' k = owner_of w k)
     \<and> same_locks w w'"

lemma tokens_movedI:
  assumes before: "raw_step A w w1" and transfer: "token_transferred src dst auth n w1 w2"
    and after: "raw_step B w2 w'" and sub: "A \<union> B \<subseteq> C"
  shows "tokens_moved C src dst auth n w w'"
proof -
  note t = transfer [unfolded token_transferred_def]
  note b = raw_step_tokens [OF before] and a = raw_step_tokens [OF after]
  have spend: "may_spend w src auth"
    using t by (simp add: may_spend_def b)
  have bal: "token_balance w' k = token_balance w k" if "k \<noteq> src" "k \<noteq> dst" for k
  proof -
    have "accts w2 k = accts w1 k"
      using t that by blast
    from views_of_accts(4) [OF this] show ?thesis
      by (simp add: a b)
  qed
  have dat: "data_of w' k = data_of w k" if k: "k \<notin> C" "\<not> is_token w k" for k
  proof -
    have "data_of w2 k = data_of w1 k"
      using transfer k(2) unfolding b(4) [symmetric] by (rule token_transferred_not_token)
    moreover have "k \<notin> A" "k \<notin> B"
      using k(1) sub by blast+
    ultimately show ?thesis
      using before after by (simp add: raw_step_def)
  qed
  show ?thesis
    unfolding tokens_moved_def
  proof (intro conjI allI impI)
    show "token_balance w' k = token_balance w k" if "k \<noteq> src" "k \<noteq> dst" for k
      using that by (rule bal)
    show "data_of w' k = data_of w k" if "k \<notin> C" "\<not> is_token w k" for k
      using that by (rule dat)
    show "owner_of w' k = owner_of w k" if "k \<notin> C" for k
    proof -
      have "k \<notin> A" "k \<notin> B"
        using that sub by blast+
      then show ?thesis
        using before after t by (simp add: raw_step_def)
    qed
    show "same_locks w w'"
      using before after t by (auto simp: raw_step_def same_locks_def)
  qed (use t spend in \<open>auto simp: a b\<close>)
qed

lemma entity_not_token: "entity_at E w k = Some x \<Longrightarrow> \<not> is_token w k"
  by (auto simp: entity_at_eq is_token_def)

lemma tokens_moved_entity:
  assumes "tokens_moved A src dst auth n w w'" "k \<notin> A"
  shows "entity_at E w' k = entity_at E w k"
proof (cases "is_token w k")
  case True
  then have "is_token w' k"
    using assms by (simp add: tokens_moved_def is_token_meta)
  with True show ?thesis
    using entity_not_token [of E w k] entity_not_token [of E w' k]
    by (cases "entity_at E w k"; cases "entity_at E w' k") auto
next
  case False
  then have "data_of w' k = data_of w k"
    using assms by (auto simp: tokens_moved_def)
  then show ?thesis
    by (rule entity_at_frame)
qed

section \<open>Deposits\<close>

definition fresh_voucher :: "pubkey \<Rightarrow> pubkey \<Rightarrow> u32 \<Rightarrow> royalty_voucher" where
  "fresh_voucher user sk idx =
     \<lparr>rv_user = user, rv_state = sk, rv_drop_idx = idx, rv_balance = 0, rv_last_distribution = 0\<rparr>"

context royalty_world
begin

lemma enroll_effect:
  assumes ok: "enroll R X pid accounts sk voucher_acc user funder amount st w = Inr (st', w')"
    and vk: "key voucher_acc = x_pda X (voucher_seeds sk (key user)) pid"
  shows "entity_at (VE R) w' (key voucher_acc) = Some (fresh_voucher (key user) sk (ry_drop_idx st))
    \<and> data_of w (key voucher_acc) = Raw [] \<and> owner_of w' (key voucher_acc) = pid
    \<and> raw_step {key voucher_acc} w w' \<and> unat (ry_vouchers_count st) + 1 < 2 ^ 32
    \<and> st' = st\<lparr>ry_vouchers_count := ry_vouchers_count st + 1\<rparr>"
proof -
  obtain w1 where create: "x_cpi X accounts (SystemCreate (key funder) (key voucher_acc) (x_rent X 128) 128 pid)
      [voucher_seeds sk (key user)] w = Inr w1"
    and init: "initialize_entity (VE R) (fresh_voucher (key user) sk (ry_drop_idx st)) voucher_acc w1 = Inr w'"
    and st': "unat (ry_vouchers_count st) + 1 < 2 ^ 32" "st' = st\<lparr>ry_vouchers_count := ry_vouchers_count st + 1\<rparr>"
    using ok unfolding enroll_def Let_def vk [symmetric] fresh_voucher_def
    by (auto simp: res_simps overflow_def checked_simps)
  note made = create_account [OF create, unfolded account_created_def]
  have other: "data_of w1 k = data_of w k \<and> owner_of w1 k = owner_of w k" if "k \<noteq> key voucher_acc" for k
    using that made by (cases "k = key funder") (auto simp: data_of_def owner_of_def)
  note stored = entity_codec.initialize_stored [OF fitting_entity.axioms(1) [OF voucher_codec] init]
  obtain bs bs' where bs: "w' = set_data (key voucher_acc) (Raw bs') w1"
    using stored(2) by blast
  have "owner_of w1 (key voucher_acc) = pid"
    using made by (simp add: owner_of_def)
  moreover have "raw_step {key voucher_acc} w w'"
    using made other unfolding raw_step_def bs by (auto simp: same_locks_def)
  ultimately show ?thesis
    using stored(1) made st' by (simp add: bs)
qed

end

text \<open>The guard of the state leaves no voucher at the address of the state.\<close>

lemma guarded_no_voucher:
  assumes "entity_at (VE R) w k = None" "drop_guard (SE R) st acc w = Inr w'"
    and "entity_at (SE R) w' (key acc) = Some st"
  shows "entity_at (VE R) w' k = None"
proof (cases "k = key acc")
  case True
  then show ?thesis
    using not_both [OF assms(3)] by simp
next
  case False
  then show ?thesis
    using assms(1) entity_at_frame [OF drop_guard_frame(5) [OF assms(2) False], of "VE R"] by simp
qed

definition voucher_before :: "royalty_ext \<Rightarrow> world \<Rightarrow> pubkey \<Rightarrow> pubkey \<Rightarrow> pubkey \<Rightarrow> u32 \<Rightarrow> royalty_voucher" where
  "voucher_before R w vk user sk idx =
     (case entity_at (VE R) w vk of Some v \<Rightarrow> v | None \<Rightarrow> fresh_voucher user sk idx)"

text \<open>What a deposit of a user changes.\<close>

definition deposited_by ::
  "royalty_ext \<Rightarrow> ext \<Rightarrow> pubkey \<Rightarrow> pubkey \<Rightarrow> pubkey \<Rightarrow> u64 \<Rightarrow> royalty_state \<Rightarrow> world \<Rightarrow> world \<Rightarrow> bool" where
  "deposited_by R X pid sk user amount st w w' \<longleftrightarrow>
     (let vk = x_pda X (voucher_seeds sk user) pid; wk = x_pda X (wallet_seeds sk) pid;
          mk = x_pda X (max_weight_seeds sk) pid; new = (entity_at (VE R) w vk = None);
          v = voucher_before R w vk user sk (ry_drop_idx st) in
      ry_distribution st = None \<and> user \<noteq> ry_owner st \<and> user \<noteq> ry_host st
      \<and> (if new then data_of w vk = Raw [] \<and> unat (ry_vouchers_count st) + 1 < 2 ^ 32 else owner_of w vk = pid)
      \<and> unat (ry_tokens_held st) + unat amount < 2 ^ 64 \<and> unat (rv_balance v) + unat amount < 2 ^ 64
      \<and> entity_at (SE R) w' sk = Some (st\<lparr>ry_settings := quick_settings,
          ry_vouchers_count := ry_vouchers_count st + (if new then 1 else 0),
          ry_tokens_held := ry_tokens_held st + amount\<rparr>)
      \<and> entity_at (VE R) w' vk = Some (v\<lparr>rv_balance := rv_balance v + amount\<rparr>)
      \<and> owner_of w' vk = pid \<and> owner_of w' sk = pid \<and> (mk \<noteq> vk \<longrightarrow> entity_at (VE R) w' mk = None)
      \<and> (\<exists>mnt own nat. token_meta w (ry_wallet st) = Some (mnt, own, nat)
           \<and> tokens_moved {sk, vk, mk} (x_ata X user mnt) wk user amount w w'))"

lemma recorded_owner: "recorded pid k bytes w w' \<Longrightarrow> owner_of w j = pid \<Longrightarrow> owner_of w' j = pid"
  by (cases "j = k") (auto simp: recorded_def)

context royalty_world
begin

lemma process_deposit_effect:
  assumes ok: "process_deposit R X pid accounts amount w = Inr w'"
  shows "\<exists>state_acc wallet voucher_acc user it st. accounts = state_acc # wallet # voucher_acc # user # it
    \<and> entity_at (SE R) w (key state_acc) = Some st \<and> owner_of w (key state_acc) = pid
    \<and> is_signer user \<and> key wallet = ry_wallet st
    \<and> key voucher_acc = x_pda X (voucher_seeds (key state_acc) (key user)) pid
    \<and> deposited_by R X pid (key state_acc) (key user) amount st w w'"
proof -
  obtain state_acc b1 st wallet_acc b2 wallet voucher_acc b3 user b4 ata b5 vault_acc b6 vault owner_acc b7 owner_atoken
      max_acc b8 funder b9 uw bs st1 w1 v w2 balance held weight w3 w4
    where accounts: "accounts = state_acc # b1" "b1 = wallet_acc # b2" "b2 = voucher_acc # b3" "b3 = user # b4"
      "b4 = ata # b5" "b5 = vault_acc # b6" "b6 = owner_acc # b7" "b7 = max_acc # b8" "b8 = funder # b9"
    and st: "entity_at (SE R) w (key state_acc) = Some st" "owner_of w (key state_acc) = pid"
    and wallet: "key wallet_acc = ry_wallet st" "data_of w (ry_wallet st) = TokenData wallet"
    and uw: "uw = x_ata X (key user) (t_mint wallet)"
    and user: "is_signer user" "key user \<noteq> ry_owner st" "key user \<noteq> ry_host st"
    and vk: "key voucher_acc = x_pda X (voucher_seeds (key state_acc) (key user)) pid"
    and none: "ry_distribution st = None"
    and bs: "data_of w (key voucher_acc) = Raw bs"
    and enrolled: "(if is_initialized (VE R) bs then Inr (st\<lparr>ry_settings := quick_settings\<rparr>, w)
       else enroll R X pid accounts (key state_acc) voucher_acc user funder amount (st\<lparr>ry_settings := quick_settings\<rparr>) w)
       = Inr (st1, w1)"
    and v: "owner_of w1 (key voucher_acc) = pid" "entity_at (VE R) w1 (key voucher_acc) = Some v"
    and transfer: "x_cpi X accounts (TokenTransfer uw
        (x_pda X (wallet_seeds (key state_acc)) pid) (key user) amount) [wallet_seeds (key state_acc)] w1 = Inr w2"
    and balance: "checked_add (rv_balance v) amount = Some balance"
    and held: "checked_add (ry_tokens_held st1) amount = Some held"
    and recd: "update_max_voter_weight R X pid (key state_acc) (ry_realm_addr st1) (t_mint wallet) weight
       max_acc funder w2 = Inr w3"
    and g1: "drop_guard (VE R) (v\<lparr>rv_balance := balance\<rparr>) voucher_acc w3 = Inr w4"
    and g2: "drop_guard (SE R) (st1\<lparr>ry_tokens_held := held\<rparr>) state_acc w4 = Inr w'"
    using ok unfolding process_deposit_def Let_def overflow_def
    by (simp add: res_simps split_paired_Ex) (elim exE conjE, rule that, assumption+)
  let ?sk = "key state_acc" and ?vk = "key voucher_acc" and ?new = "entity_at (VE R) w (key voucher_acc) = None"
  let ?v = "voucher_before R w ?vk (key user) ?sk (ry_drop_idx st)"
  have before: "raw_step {?vk} w w1 \<and> v = ?v
    \<and> st1 = st\<lparr>ry_settings := quick_settings, ry_vouchers_count := ry_vouchers_count st + (if ?new then 1 else 0)\<rparr>
    \<and> (if ?new then data_of w ?vk = Raw [] \<and> unat (ry_vouchers_count st) + 1 < 2 ^ 32 else owner_of w ?vk = pid)"
  proof (cases "is_initialized (VE R) bs")
    case True
    then have "w1 = w" "st1 = st\<lparr>ry_settings := quick_settings\<rparr>"
      using enrolled by simp_all
    then show ?thesis
      using v bs by (simp add: voucher_before_def raw_step_def same_locks_def)
  next
    case False
    then have "enroll R X pid accounts ?sk voucher_acc user funder amount (st\<lparr>ry_settings := quick_settings\<rparr>) w = Inr (st1, w1)"
      using enrolled by simp
    note made = enroll_effect [OF this vk]
    then have "?new"
      by (auto simp: entity_at_def deserialize_from_def ensure_def)
    then show ?thesis
      using v made by (simp add: voucher_before_def)
  qed
  note recd = update_max_recorded [OF recd]
  have after: "raw_step ({x_pda X (max_weight_seeds ?sk) pid} \<union> ({?vk} \<union> {?sk})) w2 w'"
    using recd raw_step_recorded raw_step_guard [OF g1] raw_step_guard [OF g2] raw_step_trans by metis
  have moved: "tokens_moved {?sk, ?vk, x_pda X (max_weight_seeds ?sk) pid} uw (x_pda X (wallet_seeds ?sk) pid)
      (key user) amount w w'"
    using conjunct1 [OF before] transfer_tokens [OF transfer] after by (rule tokens_movedI) auto
  have apart: "?vk \<noteq> ?sk"
  proof
    assume eq: "?vk = ?sk"
    then have "data_of w ?vk \<noteq> Raw []"
      using st(1) by (auto simp: entity_at_eq deserialize_from_def ensure_def)
    moreover have ?new
      using not_both [OF st(1)] eq by simp
    ultimately show False
      using before by simp
  qed
  have own: "owner_of w' k = pid" if "owner_of w1 k = pid" for k
    using that transfer_tokens [OF transfer] recorded_owner [OF conjunct1 [OF conjunct2 [OF recd]]]
      drop_guard_frame(2) [OF g1] drop_guard_frame(2) [OF g2] by (simp add: token_transferred_def)
  have "owner_of w1 ?sk = pid"
    using before apart st(2) by (simp add: raw_step_def)
  then have owners: "owner_of w' ?vk = pid" "owner_of w' ?sk = pid"
    using own v(1) by blast+
  have stored: "entity_at (SE R) w' ?sk = Some (st1\<lparr>ry_tokens_held := held\<rparr>)"
    using fitting_entity.axioms(1) [OF state_codec] g2 by (rule entity_codec.drop_guard_stored(1))
  have "entity_at (VE R) w4 ?vk = Some (v\<lparr>rv_balance := balance\<rparr>)"
    using fitting_entity.axioms(1) [OF voucher_codec] g1 by (rule entity_codec.drop_guard_stored(1))
  moreover have "entity_at (VE R) w' ?vk = entity_at (VE R) w4 ?vk"
    by (intro entity_at_frame drop_guard_frame(5) [OF g2] apart)
  ultimately have stored_v: "entity_at (VE R) w' ?vk = Some (v\<lparr>rv_balance := balance\<rparr>)"
    by simp
  have no_voucher: "entity_at (VE R) w' (key max_acc) = None" if "key max_acc \<noteq> ?vk"
  proof -
    have "entity_at (VE R) w4 (key max_acc) = entity_at (VE R) w3 (key max_acc)"
      by (intro entity_at_frame drop_guard_frame(5) [OF g1] that)
    also have "\<dots> = None"
      using recd by blast
    finally show ?thesis
      by (rule guarded_no_voucher [OF _ g2 stored])
  qed
  have "deposited_by R X pid ?sk (key user) amount st w w'"
    unfolding deposited_by_def Let_def vk [symmetric]
  proof (intro conjI)
    show "\<exists>mnt own nat. token_meta w (ry_wallet st) = Some (mnt, own, nat)
           \<and> tokens_moved {?sk, ?vk, x_pda X (max_weight_seeds ?sk) pid} (x_ata X (key user) mnt)
             (x_pda X (wallet_seeds ?sk) pid) (key user) amount w w'"
      using wallet(2) moved uw by (auto simp: token_meta_def)
    show "entity_at (SE R) w' ?sk = Some (st\<lparr>ry_settings := quick_settings,
        ry_vouchers_count := ry_vouchers_count st + (if ?new then 1 else 0),
        ry_tokens_held := ry_tokens_held st + amount\<rparr>)"
      using stored before held by (simp add: checked_simps)
    show "entity_at (VE R) w' ?vk = Some (?v\<lparr>rv_balance := rv_balance ?v + amount\<rparr>)"
      using stored_v before balance by (simp add: checked_simps)
    show "unat (ry_tokens_held st) + unat amount < 2 ^ 64" "unat (rv_balance ?v) + unat amount < 2 ^ 64"
      using before held balance by (simp_all add: checked_simps)
  qed (use none user owners before no_voucher recd in auto)
  then show ?thesis
    using accounts st user wallet(1) vk by blast
qed

end

section \<open>Withdrawals\<close>

text \<open>What a withdrawal changes; nothing relates the voucher to the state.\<close>

definition withdrawn_by ::
  "royalty_ext \<Rightarrow> ext \<Rightarrow> pubkey \<Rightarrow> pubkey \<Rightarrow> pubkey \<Rightarrow> u64 \<Rightarrow> royalty_state \<Rightarrow> royalty_voucher
    \<Rightarrow> world \<Rightarrow> world \<Rightarrow> bool" where
  "withdrawn_by R X pid sk vk amount st v w w' \<longleftrightarrow>
     ry_distribution st = None \<and> unat amount \<le> unat (rv_balance v) \<and> unat amount \<le> unat (ry_tokens_held st)
     \<and> entity_at (SE R) w' sk = Some (st\<lparr>ry_tokens_held := ry_tokens_held st - amount\<rparr>)
     \<and> entity_at (VE R) w' vk = Some (v\<lparr>rv_balance := rv_balance v - amount\<rparr>)
     \<and> (\<forall>k. owner_of w k = pid \<longrightarrow> owner_of w' k = pid)
     \<and> (\<forall>k \<in> {x_pda X (weight_seeds sk (rv_user v)) pid, x_pda X (max_weight_seeds sk) pid}.
          k \<noteq> vk \<longrightarrow> entity_at (VE R) w' k = None)
     \<and> (\<exists>mnt own nat. token_meta w (ry_wallet st) = Some (mnt, own, nat)
          \<and> tokens_moved {sk, vk, x_pda X (weight_seeds sk (rv_user v)) pid, x_pda X (max_weight_seeds sk) pid}
              (ry_wallet st) (x_ata X (rv_user v) mnt) (ry_wallet st) amount w w')"

context royalty_world
begin

lemma process_withdraw_effect:
  assumes ok: "process_withdraw R X pid accounts amount w = Inr w'"
  shows "\<exists>state_acc wallet voucher_acc user it st v. accounts = state_acc # wallet # voucher_acc # user # it
    \<and> entity_at (SE R) w (key state_acc) = Some st \<and> owner_of w (key state_acc) = pid
    \<and> entity_at (VE R) w (key voucher_acc) = Some v \<and> owner_of w (key voucher_acc) = pid
    \<and> is_signer user \<and> key user = rv_user v
    \<and> withdrawn_by R X pid (key state_acc) (key voucher_acc) amount st v w w'"
proof -
  obtain state_acc b1 st wallet_acc b2 wallet voucher_acc b3 v user b4 ata b5 uw voter_record b6 weight_acc b7 vault_acc b8
      vault owner_acc b9 owner_atoken max_acc b10 funder b11 after w1 balance held weight w2 w3 w4
    where accounts: "accounts = state_acc # b1" "b1 = wallet_acc # b2" "b2 = voucher_acc # b3" "b3 = user # b4"
      "b4 = ata # b5" "b5 = voter_record # b6" "b6 = weight_acc # b7" "b7 = vault_acc # b8" "b8 = owner_acc # b9"
      "b9 = max_acc # b10" "b10 = funder # b11"
    and st: "entity_at (SE R) w (key state_acc) = Some st" "owner_of w (key state_acc) = pid"
    and wallet: "data_of w (ry_wallet st) = TokenData wallet"
    and v: "entity_at (VE R) w (key voucher_acc) = Some v" "owner_of w (key voucher_acc) = pid"
    and user: "is_signer user" "key user = rv_user v"
    and uw: "uw = x_ata X (rv_user v) (t_mint wallet)"
    and none: "ry_distribution st = None"
    and transfer: "x_cpi X accounts (TokenTransfer (ry_wallet st) uw (ry_wallet st) amount)
      [wallet_seeds (key state_acc)] w = Inr w1"
    and balance: "checked_sub (rv_balance v) amount = Some balance"
    and held: "checked_sub (ry_tokens_held st) amount = Some held"
    and rec1: "update_voter_weight R X pid (key state_acc) (ry_realm_addr st) (t_mint wallet)
       (rv_user v) balance weight_acc funder w1 = Inr w2"
    and rec2: "update_max_voter_weight R X pid (key state_acc) (ry_realm_addr st) (t_mint wallet) weight
       max_acc funder w2 = Inr w3"
    and g1: "drop_guard (VE R) (v\<lparr>rv_balance := balance\<rparr>) voucher_acc w3 = Inr w4"
    and g2: "drop_guard (SE R) (st\<lparr>ry_tokens_held := held\<rparr>) state_acc w4 = Inr w'"
    using ok unfolding process_withdraw_def Let_def overflow_def
    by (simp add: res_simps split_paired_Ex) (elim exE conjE, rule that, assumption+)
  let ?sk = "key state_acc" and ?vk = "key voucher_acc"
  note rec1 = update_weight_recorded [OF rec1] and rec2 = update_max_recorded [OF rec2]
  have after: "raw_step ({key weight_acc} \<union> ({key max_acc} \<union> ({?vk} \<union> {?sk}))) w1 w'"
    using rec1 rec2 raw_step_recorded raw_step_guard [OF g1] raw_step_guard [OF g2] raw_step_trans by metis
  have moved: "tokens_moved {?sk, ?vk, key weight_acc, key max_acc} (ry_wallet st) uw (ry_wallet st) amount w w'"
    using raw_step_refl transfer_tokens [OF transfer] after by (rule tokens_movedI) auto
  have apart: "?vk \<noteq> ?sk"
    using not_both [OF st(1)] v(1) by auto
  have owners: "owner_of w' k = pid" if "owner_of w k = pid" for k
    using that transfer_tokens [OF transfer] recorded_owner [OF conjunct1 [OF conjunct2 [OF rec1]]] recorded_owner [OF conjunct1 [OF conjunct2 [OF rec2]]]
      drop_guard_frame(2) [OF g1] drop_guard_frame(2) [OF g2] by (simp add: token_transferred_def)
  have stored: "entity_at (SE R) w' ?sk = Some (st\<lparr>ry_tokens_held := held\<rparr>)"
    using fitting_entity.axioms(1) [OF state_codec] g2 by (rule entity_codec.drop_guard_stored(1))
  have "entity_at (VE R) w4 ?vk = Some (v\<lparr>rv_balance := balance\<rparr>)"
    using fitting_entity.axioms(1) [OF voucher_codec] g1 by (rule entity_codec.drop_guard_stored(1))
  moreover have "entity_at (VE R) w' ?vk = entity_at (VE R) w4 ?vk"
    by (intro entity_at_frame drop_guard_frame(5) [OF g2] apart)
  ultimately have stored_v: "entity_at (VE R) w' ?vk = Some (v\<lparr>rv_balance := balance\<rparr>)"
    by simp
  have keys: "key weight_acc = x_pda X (weight_seeds ?sk (rv_user v)) pid" "key max_acc = x_pda X (max_weight_seeds ?sk) pid"
    using rec1 rec2 by blast+
  have no_voucher: "entity_at (VE R) w' k = None" if k: "k \<in> {key weight_acc, key max_acc}" "k \<noteq> ?vk" for k
  proof -
    have "entity_at (VE R) w3 k = None"
    proof (cases "k = key max_acc")
      case True
      then show ?thesis
        using conjunct2 [OF conjunct2 [OF rec2]] by (simp only:)
    next
      case False
      then have "entity_at (VE R) w3 k = entity_at (VE R) w2 k"
        by (rule recorded_entity [OF conjunct1 [OF conjunct2 [OF rec2]]])
      then show ?thesis
        using False k(1) rec1 by auto
    qed
    moreover have "entity_at (VE R) w4 k = entity_at (VE R) w3 k"
      by (intro entity_at_frame drop_guard_frame(5) [OF g1] k(2))
    ultimately show ?thesis
      using guarded_no_voucher [OF _ g2 stored] by simp
  qed
  have "withdrawn_by R X pid ?sk ?vk amount st v w w'"
    unfolding withdrawn_by_def keys [symmetric]
  proof (intro conjI)
    show "\<exists>mnt own nat. token_meta w (ry_wallet st) = Some (mnt, own, nat)
        \<and> tokens_moved {?sk, ?vk, key weight_acc, key max_acc} (ry_wallet st) (x_ata X (rv_user v) mnt) (ry_wallet st) amount w w'"
      using wallet moved uw by (auto simp: token_meta_def)
  qed (use none balance held stored stored_v owners no_voucher in \<open>auto simp: checked_simps\<close>)
  then show ?thesis
    using accounts st v user by blast
qed

end

section \<open>The other instructions\<close>

text \<open>The weight record of a user, as \<open>update_voter_weight\<close> writes it.\<close>

definition weight_record :: "royalty_ext \<Rightarrow> pubkey \<Rightarrow> pubkey \<Rightarrow> pubkey \<Rightarrow> u64 \<Rightarrow> voter_weight_record" where
  "weight_record R realm token user n =
     \<lparr>vw_account_discriminator = rx_weight_discriminator R, vw_realm = realm,
      vw_governing_token_mint = token, vw_governing_token_owner = user, vw_voter_weight = n,
      vw_voter_weight_expiry = None, vw_weight_action = None, vw_weight_action_target = None,
      vw_reserved = replicate 8 0\<rparr>"

text \<open>What synchronising the weights changes: the two records, and no token, state or voucher.\<close>

definition synced_by ::
  "royalty_ext \<Rightarrow> ext \<Rightarrow> pubkey \<Rightarrow> pubkey \<Rightarrow> pubkey \<Rightarrow> pubkey \<Rightarrow> royalty_state \<Rightarrow> world \<Rightarrow> world \<Rightarrow> bool" where
  "synced_by R X pid sk vk user st w w' \<longleftrightarrow>
     (let wk = x_pda X (weight_seeds sk user) pid; mk = x_pda X (max_weight_seeds sk) pid in
      raw_step ({sk, wk, mk} \<union> (if user = ry_owner st then {} else {vk})) w w'
      \<and> entity_at (SE R) w' sk = Some st
      \<and> (\<forall>k v. entity_at (VE R) w k = Some v \<longrightarrow> k \<noteq> wk \<longrightarrow> k \<noteq> mk \<longrightarrow> entity_at (VE R) w' k = Some v)
      \<and> (\<forall>k. owner_of w k = pid \<longrightarrow> owner_of w' k = pid)
      \<and> entity_at (VE R) w' wk = None \<and> entity_at (VE R) w' mk = None
      \<and> (user \<noteq> ry_owner st \<longrightarrow> wk \<noteq> mk \<longrightarrow> wk \<noteq> sk \<longrightarrow>
          (\<exists>v rest. entity_at (VE R) w vk = Some v \<and> owner_of w vk = pid \<and> rv_user v = user
             \<and> data_of w' wk = Raw (rx_weight_bytes R
                 (weight_record R (ry_realm_addr st) (ry_token_mint st) user (rv_balance v)) @ rest))))"

context royalty_world
begin

lemma sync_balance_effect:
  assumes ok: "sync_balance R pid st user voucher_acc vault owner_atoken w = Inr (balance, w1)"
  shows "raw_step (if key user = ry_owner st then {} else {key voucher_acc}) w w1
    \<and> (\<forall>k v. entity_at (VE R) w k = Some v \<longrightarrow> entity_at (VE R) w1 k = Some v)
    \<and> (\<forall>k. owner_of w1 k = owner_of w k)
    \<and> (key user \<noteq> ry_owner st \<longrightarrow> (\<exists>v. entity_at (VE R) w (key voucher_acc) = Some v
         \<and> owner_of w (key voucher_acc) = pid \<and> rv_user v = key user \<and> balance = rv_balance v))"
proof (cases "key user = ry_owner st")
  case True
  then show ?thesis
    using ok by (auto simp: sync_balance_def overflow_def res_simps raw_step_refl)
next
  case False
  then obtain v where v: "entity_at (VE R) w (key voucher_acc) = Some v" "owner_of w (key voucher_acc) = pid"
      "rv_user v = key user" "balance = rv_balance v"
    and g: "drop_guard (VE R) v voucher_acc w = Inr w1"
    using ok by (auto simp: sync_balance_def res_simps)
  have "entity_at (VE R) w1 (key voucher_acc) = Some v"
    using fitting_entity.axioms(1) [OF voucher_codec] g by (rule entity_codec.drop_guard_stored(1))
  moreover have "entity_at (VE R) w1 k = entity_at (VE R) w k" if "k \<noteq> key voucher_acc" for k
    by (intro entity_at_frame drop_guard_frame(5) [OF g] that)
  ultimately have "\<forall>k v. entity_at (VE R) w k = Some v \<longrightarrow> entity_at (VE R) w1 k = Some v"
    using v(1) by (metis option.inject)
  then show ?thesis
    using False v raw_step_guard [OF g] drop_guard_frame(2) [OF g] by auto
qed

lemma process_sync_effect:
  assumes ok: "process_sync_weight_record R X pid accounts w = Inr w'"
  shows "\<exists>state_acc user voucher_acc it st. accounts = state_acc # user # voucher_acc # it
    \<and> entity_at (SE R) w (key state_acc) = Some st \<and> owner_of w (key state_acc) = pid
    \<and> synced_by R X pid (key state_acc) (key voucher_acc) (key user) st w w'"
proof -
  obtain state_acc b1 st user b2 voucher_acc b3 record_acc b4 vault_acc b5 vault owner_acc b6 owner_atoken max_acc b7
      funder b8 sys b9 balance w1 w2 weight w3
    where accounts: "accounts = state_acc # b1" "b1 = user # b2" "b2 = voucher_acc # b3" "b3 = record_acc # b4"
      "b4 = vault_acc # b5" "b5 = owner_acc # b6" "b6 = max_acc # b7" "b7 = funder # b8" "b8 = sys # b9"
    and st: "entity_at (SE R) w (key state_acc) = Some st" "owner_of w (key state_acc) = pid"
    and source: "sync_balance R pid st user voucher_acc vault owner_atoken w = Inr (balance, w1)"
    and rec1: "update_voter_weight R X pid (key state_acc) (ry_realm_addr st) (ry_token_mint st)
       (key user) balance record_acc funder w1 = Inr w2"
    and rec2: "update_max_voter_weight R X pid (key state_acc) (ry_realm_addr st) (ry_token_mint st) weight
       max_acc funder w2 = Inr w3"
    and g: "drop_guard (SE R) st state_acc w3 = Inr w'"
    using ok unfolding process_sync_weight_record_def Let_def overflow_def
    by (simp add: res_simps split_paired_Ex) (elim exE conjE, rule that, assumption+)
  let ?sk = "key state_acc" and ?vs = "if key user = ry_owner st then {} else {key voucher_acc}"
  let ?wk = "x_pda X (weight_seeds ?sk (key user)) pid" and ?mk = "x_pda X (max_weight_seeds ?sk) pid"
  note src = sync_balance_effect [OF source]
  note rec1 = update_weight_recorded [OF rec1, folded weight_record_def]
    and rec2 = update_max_recorded [OF rec2]
  have keys: "key record_acc = ?wk" "key max_acc = ?mk"
    using rec1 rec2 by blast+
  have "raw_step (?vs \<union> ({key record_acc} \<union> ({key max_acc} \<union> {?sk}))) w w'"
    by (rule raw_step_trans [OF conjunct1 [OF src] raw_step_trans [OF raw_step_recorded [OF conjunct1 [OF conjunct2 [OF rec1]]]
        raw_step_trans [OF raw_step_recorded [OF conjunct1 [OF conjunct2 [OF rec2]]] raw_step_guard [OF g]]]])
  moreover have "?vs \<union> ({key record_acc} \<union> ({key max_acc} \<union> {?sk})) = {?sk, ?wk, ?mk} \<union> ?vs"
    unfolding keys by auto
  ultimately have raw: "raw_step ({?sk, ?wk, ?mk} \<union> ?vs) w w'"
    by simp
  have stored: "entity_at (SE R) w' ?sk = Some st"
    using fitting_entity.axioms(1) [OF state_codec] g by (rule entity_codec.drop_guard_stored(1))
  have kept: "entity_at (VE R) w' k = Some v" if k: "entity_at (VE R) w k = Some v" "k \<noteq> ?wk" "k \<noteq> ?mk" for k v
  proof -
    have "k \<noteq> ?sk"
      using not_both [OF st(1)] k(1) by auto
    then have "entity_at (VE R) w' k = entity_at (VE R) w3 k"
      by (intro entity_at_frame drop_guard_frame(5) [OF g])
    also have "\<dots> = entity_at (VE R) w2 k"
      by (rule recorded_entity [OF conjunct1 [OF conjunct2 [OF rec2]]]) (simp add: keys k(3))
    also have "\<dots> = entity_at (VE R) w1 k"
      by (rule recorded_entity [OF conjunct1 [OF conjunct2 [OF rec1]]]) (simp add: keys k(2))
    finally show ?thesis
      using src k(1) by simp
  qed
  have owners: "owner_of w' k = pid" if "owner_of w k = pid" for k
    using that src recorded_owner [OF conjunct1 [OF conjunct2 [OF rec1]]] recorded_owner [OF conjunct1 [OF conjunct2 [OF rec2]]]
      drop_guard_frame(2) [OF g] by simp
  have written: "\<exists>rest. data_of w' ?wk = Raw (rx_weight_bytes R
      (weight_record R (ry_realm_addr st) (ry_token_mint st) (key user) balance) @ rest)"
    if "?wk \<noteq> ?mk" "?wk \<noteq> ?sk"
  proof -
    have "data_of w' ?wk = data_of w3 ?wk"
      using drop_guard_frame(5) [OF g that(2)] .
    moreover have "data_of w3 ?wk = data_of w2 ?wk"
      using rec2 that(1) keys by (auto simp: recorded_def)
    ultimately show ?thesis
      using rec1 keys by (auto simp: recorded_def)
  qed
  have "entity_at (VE R) w3 ?mk = None"
    using rec2 keys by simp
  moreover have "entity_at (VE R) w3 ?wk = None"
  proof (cases "?wk = ?mk")
    case False
    then have "entity_at (VE R) w3 ?wk = entity_at (VE R) w2 ?wk"
      by (intro recorded_entity [OF conjunct1 [OF conjunct2 [OF rec2]]]) (simp add: keys)
    then show ?thesis
      using rec1 keys by simp
  qed (use rec2 keys in simp)
  ultimately have no_voucher: "entity_at (VE R) w' ?wk = None" "entity_at (VE R) w' ?mk = None"
    using guarded_no_voucher [OF _ g stored] by blast+
  have "synced_by R X pid ?sk (key voucher_acc) (key user) st w w'"
    unfolding synced_by_def Let_def
  proof (intro conjI impI allI)
    assume "key user \<noteq> ry_owner st" and apart: "?wk \<noteq> ?mk" "?wk \<noteq> ?sk"
    then obtain v where v: "entity_at (VE R) w (key voucher_acc) = Some v" "owner_of w (key voucher_acc) = pid"
        "rv_user v = key user" "balance = rv_balance v"
      using src by blast
    with written [OF apart] show "\<exists>v rest. entity_at (VE R) w (key voucher_acc) = Some v
        \<and> owner_of w (key voucher_acc) = pid \<and> rv_user v = key user
        \<and> data_of w' ?wk = Raw (rx_weight_bytes R
            (weight_record R (ry_realm_addr st) (ry_token_mint st) (key user) (rv_balance v)) @ rest)"
      by blast
  qed (use raw stored kept owners no_voucher in auto)
  then show ?thesis
    using accounts st by blast
qed

lemma process_migrate_effect:
  assumes ok: "process_migrate R X pid accounts realm vault w = Inr w'"
  shows "\<exists>state_acc wallet it st st'. accounts = state_acc # wallet # it
    \<and> entity_at (SE R) w (key state_acc) = Some st \<and> owner_of w (key state_acc) = pid
    \<and> entity_at (SE R) w' (key state_acc) = Some st'
    \<and> (if ry_token_mint st = 0
       then \<exists>mnt own nat. token_meta w (ry_wallet st) = Some (mnt, own, nat)
         \<and> st' = st\<lparr>ry_realm_addr := realm, ry_vault_addr := vault, ry_token_mint := mnt\<rparr>
       else st' = st)
    \<and> raw_step {key state_acc} w w' \<and> (\<forall>k. owner_of w' k = owner_of w k)
    \<and> (\<forall>k. lamports_of w' k = lamports_of w k)"
proof -
  obtain state_acc wallet_acc it st wallet where accounts: "accounts = state_acc # wallet_acc # it"
    and st: "entity_at (SE R) w (key state_acc) = Some st" "owner_of w (key state_acc) = pid"
    and wallet: "data_of w (ry_wallet st) = TokenData wallet"
    and g: "drop_guard (SE R) (if ry_token_mint st \<noteq> 0 then st
      else st\<lparr>ry_realm_addr := realm, ry_vault_addr := vault, ry_token_mint := t_mint wallet\<rparr>) state_acc w = Inr w'"
    using ok unfolding process_migrate_def by (auto simp: res_simps split: if_splits)
  have stored: "entity_at (SE R) w' (key state_acc) = Some (if ry_token_mint st \<noteq> 0 then st
      else st\<lparr>ry_realm_addr := realm, ry_vault_addr := vault, ry_token_mint := t_mint wallet\<rparr>)"
    using fitting_entity.axioms(1) [OF state_codec] g by (rule entity_codec.drop_guard_stored(1))
  have "token_meta w (ry_wallet st) = Some (t_mint wallet, t_owner wallet, t_is_native wallet)"
    using wallet by (simp add: token_meta_def)
  then show ?thesis
    using accounts st stored raw_step_guard [OF g] drop_guard_frame(1,2) [OF g] by auto
qed

lemma process_initialize_effect:
  assumes ok: "process_initialize R X pid accounts args w = Inr w'"
  shows "\<exists>state_acc mnt wallet fee_payer it st. accounts = state_acc # mnt # wallet # fee_payer # it
    \<and> owner_of w (key state_acc) = pid \<and> entity_at (SE R) w (key state_acc) = None
    \<and> key wallet = x_pda X (wallet_seeds (key state_acc)) pid \<and> data_of w (key wallet) = Raw []
    \<and> settings_valid (ia_settings args)
    \<and> entity_at (SE R) w' (key state_acc) = Some st \<and> owner_of w' (key state_acc) = pid
    \<and> st = \<lparr>ry_wallet = key wallet, ry_owner = ia_owner args, ry_host = ia_host args,
        ry_total_distributed = 0, ry_total_user_distributed = 0, ry_settings = ia_settings args,
        ry_drop_idx = 0, ry_vouchers_count = 0, ry_tokens_held = 0, ry_distribution = None,
        ry_token_mint = key mnt, ry_realm_addr = ia_realm_addr args, ry_vault_addr = ia_vault_addr args\<rparr>
    \<and> (\<exists>nat. token_meta w' (key wallet) = Some (key mnt, key wallet, nat)) \<and> token_delegate w' (key wallet) = None
    \<and> (\<forall>k. k \<noteq> key wallet \<longrightarrow> k \<noteq> key state_acc \<longrightarrow> data_of w' k = data_of w k \<and> owner_of w' k = owner_of w k)"
proof -
  obtain state_acc b1 mnt b2 wallet b3 fee_payer b4 w1 w2
    where accounts: "accounts = state_acc # b1" "b1 = mnt # b2" "b2 = wallet # b3" "b3 = fee_payer # b4"
    and owner: "owner_of w (key state_acc) = pid"
    and wallet: "key wallet = x_pda X (wallet_seeds (key state_acc)) pid"
    and create: "x_cpi X accounts (SystemCreate (key fee_payer) (x_pda X (wallet_seeds (key state_acc)) pid) (x_rent X 165) 165
      (x_token_id X)) [wallet_seeds (key state_acc)] w = Inr w1"
    and init: "x_cpi X accounts (TokenInit (x_pda X (wallet_seeds (key state_acc)) pid) (key mnt)
      (x_pda X (wallet_seeds (key state_acc)) pid)) [wallet_seeds (key state_acc)] w1 = Inr w2"
    and valid: "settings_valid (ia_settings args)"
    and store: "initialize_entity (SE R) \<lparr>ry_wallet = x_pda X (wallet_seeds (key state_acc)) pid, ry_owner = ia_owner args, ry_host = ia_host args,
        ry_total_distributed = 0, ry_total_user_distributed = 0, ry_settings = ia_settings args,
        ry_drop_idx = 0, ry_vouchers_count = 0, ry_tokens_held = 0, ry_distribution = None,
        ry_token_mint = key mnt, ry_realm_addr = ia_realm_addr args, ry_vault_addr = ia_vault_addr args\<rparr>
       state_acc w2 = Inr w'"
    using ok unfolding process_initialize_def Let_def
    by (auto simp: res_simps)
  let ?sk = "key state_acc" and ?wk = "x_pda X (wallet_seeds (key state_acc)) pid"
  note made = create_account [OF create, unfolded account_created_def]
    and inited = initialize_account [OF init, unfolded token_initialized_def]
    and stored = entity_codec.initialize_stored [OF fitting_entity.axioms(1) [OF state_codec] store]
  obtain bs bs' where bs: "data_of w2 ?sk = Raw bs" "\<not> is_initialized (SE R) bs"
    and w': "w' = set_data ?sk (Raw bs') w2"
    using stored(2) by blast
  have "is_token w2 ?wk"
    using inited by (auto simp: is_token_meta)
  then have apart: "?sk \<noteq> ?wk"
    using bs(1) by (auto simp: is_token_def)
  have other: "data_of w2 k = data_of w k \<and> owner_of w2 k = owner_of w k" if "k \<noteq> ?wk" for k
  proof -
    have "accts w2 k = accts w1 k"
      using inited that by blast
    moreover have "data_of w1 k = data_of w k \<and> owner_of w1 k = owner_of w k"
      using that made by (cases "k = key fee_payer") (auto simp: data_of_def owner_of_def)
    ultimately show ?thesis
      by (simp add: data_of_def owner_of_def)
  qed
  have fresh: "entity_at (SE R) w ?sk = None"
    using bs other [OF apart] by (auto simp: entity_at_def deserialize_from_def is_initialized_def ensure_def)
  have token: "token_meta w' ?wk = token_meta w2 ?wk" "token_delegate w' ?wk = token_delegate w2 ?wk"
    using apart by (simp_all add: w' token_meta_def token_delegate_def)
  show ?thesis
    using accounts owner wallet fresh made valid stored(1) inited other apart token
    by (simp add: w')
qed

end

end
