(* ===== verification/RoyaltyLedger.thy ===== *)
theory RoyaltyLedger
  imports Holdings
begin

text \<open>
  The abstract specification of a royalty state: the number of the next drop, how many vouchers
  the running drop has seen, the counter of the vouchers, the stake the state believes to hold,
  the tokens in its wallet, and for each voucher the next drop it takes part in and its stake.

  \<open>stake_step own\<close> says what an instruction may do; \<open>own\<close> is the assumption that a withdrawal
  presents a voucher of the state it withdraws from, which the program does not check.
  \<open>drops_ok\<close> makes a drop fair: all vouchers are in the same drop, or the running drop has seen
  exactly those that are ahead. \<open>stakes_covered\<close> makes the stakes safe: the wallet can pay them
  all. The first holds in any case, the second only under \<open>own\<close>.
\<close>

record stake_ledger =
  k_idx :: nat
  k_seen :: "nat option"
  k_count :: nat
  k_held :: nat
  k_wallet :: nat
  k_drops :: "pubkey \<Rightarrow> nat option"
  k_stakes :: "pubkey \<Rightarrow> nat option"

definition drops_ok :: "stake_ledger \<Rightarrow> bool" where
  "drops_ok l \<longleftrightarrow> dom (k_drops l) = dom (k_stakes l) \<and> k_count l = card (dom (k_drops l))
     \<and> (case k_seen l of
          None \<Rightarrow> \<forall>k i. k_drops l k = Some i \<longrightarrow> i = k_idx l
        | Some s \<Rightarrow> s = card {k. k_drops l k = Some (Suc (k_idx l))}
            \<and> (\<forall>k i. k_drops l k = Some i \<longrightarrow> i = k_idx l \<or> i = Suc (k_idx l)))"

definition stakes_covered :: "stake_ledger \<Rightarrow> bool" where
  "stakes_covered l \<longleftrightarrow> owed (k_stakes l) = k_held l \<and> k_held l \<le> k_wallet l"

definition seen_of :: "stake_ledger \<Rightarrow> nat" where
  "seen_of l = (case k_seen l of None \<Rightarrow> 0 | Some s \<Rightarrow> s)"

text \<open>A call of distribute with the vouchers \<open>A\<close>.\<close>

definition after_drop :: "pubkey set \<Rightarrow> stake_ledger \<Rightarrow> stake_ledger" where
  "after_drop A l =
     (let n = seen_of l + card A; l' = l\<lparr>k_drops := bump A (k_drops l)\<rparr> in
      if n = k_count l then l'\<lparr>k_idx := Suc (k_idx l), k_seen := None\<rparr> else l'\<lparr>k_seen := Some n\<rparr>)"

inductive stake_step :: "bool \<Rightarrow> stake_ledger \<Rightarrow> stake_ledger \<Rightarrow> bool" for own where
  enrolled:
    "k_seen l = None \<Longrightarrow> k_drops l k = None \<Longrightarrow> k_stakes l k = None \<Longrightarrow> k_wallet l + n \<le> b \<Longrightarrow>
     stake_step own l (l\<lparr>k_count := k_count l + 1, k_held := k_held l + n, k_wallet := b,
       k_drops := (k_drops l)(k \<mapsto> k_idx l), k_stakes := (k_stakes l)(k \<mapsto> n)\<rparr>)"
| deposited:
    "k_seen l = None \<Longrightarrow> k_stakes l k = Some old \<Longrightarrow> k_wallet l + n \<le> b \<Longrightarrow>
     stake_step own l (l\<lparr>k_held := k_held l + n, k_wallet := b, k_stakes := (k_stakes l)(k \<mapsto> old + n)\<rparr>)"
| withdrawn:
    "k_seen l = None \<Longrightarrow> k_stakes l k = Some old \<Longrightarrow> n \<le> old \<Longrightarrow> n \<le> k_held l \<Longrightarrow> k_wallet l \<le> b + n \<Longrightarrow>
     stake_step own l (l\<lparr>k_held := k_held l - n, k_wallet := b, k_stakes := (k_stakes l)(k \<mapsto> old - n)\<rparr>)"
| drained:
    "\<not> own \<Longrightarrow> dom m = dom (k_stakes l) \<Longrightarrow>
     stake_step own l (l\<lparr>k_held := h, k_wallet := b, k_stakes := m\<rparr>)"
| dropped:
    "\<forall>k \<in> A. k_drops l k = Some (k_idx l) \<Longrightarrow> stake_step own l (after_drop A l)"
| outside:
    "k_wallet l \<le> b \<Longrightarrow> stake_step own l (l\<lparr>k_wallet := b\<rparr>)"

inductive_cases stake_stepE: "stake_step own l l'"

section \<open>Drops are fair\<close>

lemma after_drop_ok:
  assumes ok: "drops_ok l" and A: "\<forall>k \<in> A. k_drops l k = Some (k_idx l)"
  shows "drops_ok (after_drop A l)"
proof -
  let ?m = "k_drops l" and ?m' = "bump A (k_drops l)" and ?i = "k_idx l"
  let ?ahead = "{k. ?m k = Some (Suc ?i)}"
  have range: "j = ?i \<or> j = Suc ?i" if "?m k = Some j" for k j
    using ok that by (auto simp: drops_ok_def split: option.splits)
  have seen: "seen_of l = card ?ahead"
  proof (cases "k_seen l")
    case None
    then have "?m x \<noteq> Some (Suc ?i)" for x
      using ok n_not_Suc_n [of ?i] unfolding drops_ok_def by fastforce
    then have "?ahead = {}"
      by simp
    then show ?thesis
      by (simp add: seen_of_def None)
  next
    case (Some s)
    then show ?thesis
      using ok by (simp add: seen_of_def drops_ok_def)
  qed
  have ahead': "{k. ?m' k = Some (Suc ?i)} = ?ahead \<union> A" and disjoint: "?ahead \<inter> A = {}"
    using A by (auto simp: bump_def)
  then have count: "card {k. ?m' k = Some (Suc ?i)} = seen_of l + card A"
    using seen by (simp add: card_Un_disjoint)
  have range': "j = ?i \<or> j = Suc ?i" if "?m' k = Some j" for k j
    using that A range [of k] by (auto simp: bump_def split: if_splits)
  have all: "j = Suc ?i" if "seen_of l + card A = k_count l" "?m' k = Some j" for k j
  proof -
    have "{k. ?m' k = Some (Suc ?i)} \<subseteq> dom ?m'"
      by (rule subsetI) (simp del: dom_bump add: domIff)
    moreover have "card {k. ?m' k = Some (Suc ?i)} = card (dom ?m')"
      using count that(1) ok by (simp add: drops_ok_def)
    ultimately have "{k. ?m' k = Some (Suc ?i)} = dom ?m'"
      by (intro card_subset_eq) simp_all
    moreover have "k \<in> dom ?m'"
      using that(2) by (rule domI)
    ultimately have "?m' k = Some (Suc ?i)"
      by blast
    then show ?thesis
      using that(2) by simp
  qed
  show ?thesis
    using ok count range' all unfolding drops_ok_def after_drop_def Let_def by auto
qed

lemma stake_step_drops: "stake_step own l l' \<Longrightarrow> drops_ok l \<Longrightarrow> drops_ok l'"
proof (induction rule: stake_step.induct)
  case (enrolled l k n b)
  then show ?case
    using card_update(1) [of "k_drops l" k "k_idx l"]
    by (auto simp: drops_ok_def)
next
  case (deposited l k old n b)
  then have "dom ((k_stakes l)(k \<mapsto> old + n)) = dom (k_stakes l)"
    by auto
  with deposited show ?case
    by (auto simp: drops_ok_def)
next
  case (withdrawn l k old n b)
  then have "dom ((k_stakes l)(k \<mapsto> old - n)) = dom (k_stakes l)"
    by auto
  with withdrawn show ?case
    by (auto simp: drops_ok_def)
next
  case (dropped A l)
  then show ?case
    by (intro after_drop_ok)
qed (auto simp: drops_ok_def split: option.splits)

section \<open>Stakes are safe\<close>

lemma after_drop_stakes [simp]:
  "k_stakes (after_drop A l) = k_stakes l" "k_held (after_drop A l) = k_held l"
  "k_wallet (after_drop A l) = k_wallet l" "k_count (after_drop A l) = k_count l"
  by (simp_all add: after_drop_def Let_def)

lemma stake_step_covered: "stake_step True l l' \<Longrightarrow> stakes_covered l \<Longrightarrow> stakes_covered l'"
proof (induction rule: stake_step.induct)
  case (enrolled l k n b)
  then show ?case
    using owed_update(1) [of "k_stakes l" k n] by (simp add: stakes_covered_def del: fun_upd_apply)
next
  case (deposited l k old n b)
  then show ?case
    using owed_update(2) [of "k_stakes l" k old "old + n"] by (simp add: stakes_covered_def del: fun_upd_apply)
next
  case (withdrawn l k old n b)
  then show ?case
    using owed_update(2) [of "k_stakes l" k old "old - n"]
    by (auto simp: stakes_covered_def simp del: fun_upd_apply)
qed (simp_all add: stakes_covered_def)

text \<open>The counter of drops never goes back, and a voucher is never ahead by more than one.\<close>

lemma stake_step_idx: "stake_step own l l' \<Longrightarrow> k_idx l \<le> k_idx l' \<and> k_idx l' \<le> Suc (k_idx l)"
  by (induction rule: stake_step.induct) (auto simp: after_drop_def Let_def)

end
