(* ===== verification/RoyaltyMachine.thy ===== *)
theory RoyaltyMachine
  imports RoyaltyEffects RoyaltyLedger
begin

text \<open>
  The royalty program as a machine over a state account: it is initialised, then any instruction of
  the program may be processed for it, at any time and with any accounts, interleaved with other
  transactions. \<open>stake_of\<close> reads the ledger of \<open>RoyaltyLedger\<close> from the chain; every instruction
  that succeeds is a step of the ledger.
\<close>

section \<open>The abstraction\<close>

definition voucher_at :: "royalty_ext \<Rightarrow> pubkey \<Rightarrow> pubkey \<Rightarrow> world \<Rightarrow> pubkey \<Rightarrow> royalty_voucher option" where
  "voucher_at R pid sk w k =
     (case entity_at (VE R) w k of
        Some v \<Rightarrow> if owner_of w k = pid \<and> rv_state v = sk then Some v else None
      | None \<Rightarrow> None)"

definition stake_of :: "royalty_ext \<Rightarrow> ext \<Rightarrow> pubkey \<Rightarrow> pubkey \<Rightarrow> world \<Rightarrow> stake_ledger" where
  "stake_of R X pid sk w =
     (let st = the (entity_at (SE R) w sk) in
      \<lparr>k_idx = unat (ry_drop_idx st),
       k_seen = map_option (\<lambda>d. unat (di_seen_vouchers d)) (ry_distribution st),
       k_count = unat (ry_vouchers_count st), k_held = unat (ry_tokens_held st),
       k_wallet = token_balance w (x_pda X (wallet_seeds sk) pid),
       k_drops = (\<lambda>k. map_option (\<lambda>v. unat (rv_drop_idx v)) (voucher_at R pid sk w k)),
       k_stakes = (\<lambda>k. map_option (\<lambda>v. unat (rv_balance v)) (voucher_at R pid sk w k))\<rparr>)"

text \<open>
  The concrete side of the invariant: the state names its wallet, the wallet is its own authority
  and has no delegate, and the vouchers are at their derived addresses.
\<close>

definition wallet_safe :: "ext \<Rightarrow> pubkey \<Rightarrow> pubkey \<Rightarrow> world \<Rightarrow> bool" where
  "wallet_safe X pid sk w \<longleftrightarrow>
     (let wk = x_pda X (wallet_seeds sk) pid in
      (\<exists>m n. token_meta w wk = Some (m, wk, n)) \<and> token_delegate w wk = None)"

text \<open>The state and the user a voucher names are those its address is derived from.\<close>

definition holder_at :: "royalty_ext \<Rightarrow> pubkey \<Rightarrow> world \<Rightarrow> pubkey \<Rightarrow> (pubkey \<times> pubkey) option" where
  "holder_at R pid w k =
     (if owner_of w k = pid then map_option (\<lambda>v. (rv_state v, rv_user v)) (entity_at (VE R) w k) else None)"

definition placed :: "royalty_ext \<Rightarrow> ext \<Rightarrow> pubkey \<Rightarrow> pubkey \<Rightarrow> world \<Rightarrow> bool" where
  "placed R X pid sk w \<longleftrightarrow>
     (\<forall>k s u. holder_at R pid w k = Some (s, u) \<longrightarrow>
        (\<forall>u'. k = x_pda X (voucher_seeds sk u') pid \<longrightarrow> s = sk)
        \<and> (s = sk \<longrightarrow> k = x_pda X (voucher_seeds sk u) pid))"

definition royalty_inv :: "royalty_ext \<Rightarrow> ext \<Rightarrow> pubkey \<Rightarrow> pubkey \<Rightarrow> world \<Rightarrow> bool" where
  "royalty_inv R X pid sk w \<longleftrightarrow>
     (\<exists>st. entity_at (SE R) w sk = Some st \<and> ry_wallet st = x_pda X (wallet_seeds sk) pid)
     \<and> owner_of w sk = pid \<and> wallet_safe X pid sk w \<and> placed R X pid sk w"

lemma royalty_invI:
  assumes inv: "royalty_inv R X pid sk w \<and> entity_at (SE R) w sk = Some st"
    and st': "entity_at (SE R) w' sk = Some st'" "ry_wallet st' = ry_wallet st"
    and "owner_of w' sk = pid" "wallet_safe X pid sk w'" "placed R X pid sk w'"
  shows "royalty_inv R X pid sk w'"
proof -
  have "ry_wallet st' = x_pda X (wallet_seeds sk) pid"
    using inv st'(2) unfolding royalty_inv_def by auto
  then show ?thesis
    using assms unfolding royalty_inv_def by blast
qed

text \<open>The derived addresses the instructions write to are different accounts.\<close>

definition royalty_apart :: "ext \<Rightarrow> pubkey \<Rightarrow> pubkey \<Rightarrow> bool" where
  "royalty_apart X pid sk \<longleftrightarrow>
     (\<forall>u. x_pda X (weight_seeds sk u) pid \<noteq> sk
        \<and> x_pda X (weight_seeds sk u) pid \<noteq> x_pda X (max_weight_seeds sk) pid
        \<and> x_pda X (max_weight_seeds sk) pid \<noteq> x_pda X (voucher_seeds sk u) pid
        \<and> (\<forall>u'. x_pda X (weight_seeds sk u) pid \<noteq> x_pda X (voucher_seeds sk u') pid))
     \<and> x_pda X (max_weight_seeds sk) pid \<noteq> sk"

definition royalty_refines ::
  "bool \<Rightarrow> royalty_ext \<Rightarrow> ext \<Rightarrow> pubkey \<Rightarrow> pubkey \<Rightarrow> world \<Rightarrow> world \<Rightarrow> bool" where
  "royalty_refines own R X pid sk w w' \<longleftrightarrow>
     royalty_inv R X pid sk w' \<and> stake_step own (stake_of R X pid sk w) (stake_of R X pid sk w')"

lemma at_time_royalty [simp]:
  "stake_of R (X\<lparr>x_now := t\<rparr>) = stake_of R X" "royalty_inv R (X\<lparr>x_now := t\<rparr>) = royalty_inv R X"
  "royalty_apart (X\<lparr>x_now := t\<rparr>) = royalty_apart X"
  "royalty_refines own R (X\<lparr>x_now := t\<rparr>) = royalty_refines own R X"
  by (simp_all add: fun_eq_iff stake_of_def royalty_inv_def wallet_safe_def placed_def royalty_apart_def royalty_refines_def)

lemma royalty_world_at_time: "royalty_world X R \<Longrightarrow> royalty_world (X\<lparr>x_now := t\<rparr>) R"
  unfolding royalty_world_def token_program_def token_program_axioms_def system_program_def
  by (auto simp: account_initialized_def rent_exempt_def)

lemma voucher_at_Some:
  "voucher_at R pid sk w k = Some v \<longleftrightarrow> entity_at (VE R) w k = Some v \<and> owner_of w k = pid \<and> rv_state v = sk"
  by (auto simp: voucher_at_def split: option.splits if_splits)

lemma voucher_at_None: "entity_at (VE R) w k = None \<Longrightarrow> voucher_at R pid sk w k = None"
  by (simp add: voucher_at_def)

lemma voucher_at_frame:
  "entity_at (VE R) w' k = entity_at (VE R) w k \<Longrightarrow> owner_of w' k = owner_of w k \<Longrightarrow>
   voucher_at R pid sk w' k = voucher_at R pid sk w k"
  by (simp add: voucher_at_def split: option.splits)

lemma holder_at_frame:
  "entity_at (VE R) w' k = entity_at (VE R) w k \<Longrightarrow> owner_of w' k = owner_of w k \<Longrightarrow>
   holder_at R pid w' k = holder_at R pid w k"
  by (simp add: holder_at_def)

lemma holder_at_None: "entity_at (VE R) w k = None \<Longrightarrow> holder_at R pid w k = None"
  by (simp add: holder_at_def)

lemma voucher_holder: "voucher_at R pid sk w k = Some v \<Longrightarrow> holder_at R pid w k = Some (sk, rv_user v)"
  by (auto simp: voucher_at_Some holder_at_def)

lemma placed_frame:
  assumes "placed R X pid sk w"
    and "\<And>k. holder_at R pid w' k = None \<or> holder_at R pid w' k = holder_at R pid w k
      \<or> (\<exists>u. k = x_pda X (voucher_seeds sk u) pid \<and> holder_at R pid w' k = Some (sk, u))"
  shows "placed R X pid sk w'"
  unfolding placed_def
proof (intro allI impI)
  fix k s u assume h: "holder_at R pid w' k = Some (s, u)"
  then consider "holder_at R pid w k = Some (s, u)" | "k = x_pda X (voucher_seeds sk u) pid" "s = sk"
    using assms(2) [of k] by auto
  then show "(\<forall>u'. k = x_pda X (voucher_seeds sk u') pid \<longrightarrow> s = sk) \<and> (s = sk \<longrightarrow> k = x_pda X (voucher_seeds sk u) pid)"
    using assms(1) unfolding placed_def by cases blast+
qed

lemma state_no_voucher: "entity_at (SE R) w k = Some st \<Longrightarrow> voucher_at R pid sk w k = None"
  by (intro voucher_at_None not_both)

lemma stake_of_eq:
  "entity_at (SE R) w sk = Some st \<Longrightarrow> stake_of R X pid sk w =
     \<lparr>k_idx = unat (ry_drop_idx st),
      k_seen = map_option (\<lambda>d. unat (di_seen_vouchers d)) (ry_distribution st),
      k_count = unat (ry_vouchers_count st), k_held = unat (ry_tokens_held st),
      k_wallet = token_balance w (x_pda X (wallet_seeds sk) pid),
      k_drops = (\<lambda>k. map_option (\<lambda>v. unat (rv_drop_idx v)) (voucher_at R pid sk w k)),
      k_stakes = (\<lambda>k. map_option (\<lambda>v. unat (rv_balance v)) (voucher_at R pid sk w k))\<rparr>"
  by (simp add: stake_of_def)

text \<open>The fields of the state the ledger reads.\<close>

definition same_books :: "royalty_state \<Rightarrow> royalty_state \<Rightarrow> bool" where
  "same_books st st' \<longleftrightarrow> ry_drop_idx st' = ry_drop_idx st \<and> ry_distribution st' = ry_distribution st
     \<and> ry_vouchers_count st' = ry_vouchers_count st \<and> ry_tokens_held st' = ry_tokens_held st
     \<and> ry_wallet st' = ry_wallet st"

text \<open>No voucher of the state is where the state or its records are.\<close>

lemma records_no_voucher:
  assumes inv: "royalty_inv R X pid sk w" and apart: "royalty_apart X pid sk"
    and k: "k = sk \<or> k = x_pda X (max_weight_seeds sk) pid \<or> k = x_pda X (weight_seeds sk u) pid"
  shows "voucher_at R pid sk w k = None"
proof (rule ccontr)
  assume "voucher_at R pid sk w k \<noteq> None"
  then obtain v where v: "voucher_at R pid sk w k = Some v"
    by blast
  then have "k = x_pda X (voucher_seeds sk (rv_user v)) pid"
    using inv voucher_holder [OF v] by (auto simp: royalty_inv_def placed_def)
  moreover have "k \<noteq> sk"
    using inv v not_both [of R w sk] by (auto simp: royalty_inv_def voucher_at_Some)
  ultimately show False
    using k apart unfolding royalty_apart_def by metis
qed

lemma refines_outside:
  assumes inv: "royalty_inv R X pid sk w"
    and st: "entity_at (SE R) w sk = Some st" "entity_at (SE R) w' sk = Some st'" "same_books st st'"
    and owner: "owner_of w' sk = pid" and wallet: "wallet_safe X pid sk w'"
    and vouchers: "\<And>k. voucher_at R pid sk w' k = voucher_at R pid sk w k"
    and placed: "placed R X pid sk w'"
    and grows: "token_balance w (x_pda X (wallet_seeds sk) pid) \<le> token_balance w' (x_pda X (wallet_seeds sk) pid)"
  shows "royalty_refines own R X pid sk w w'"
proof -
  have "stake_of R X pid sk w' = (stake_of R X pid sk w)
      \<lparr>k_wallet := token_balance w' (x_pda X (wallet_seeds sk) pid)\<rparr>"
    using st(3) by (simp add: stake_of_eq [OF st(1)] stake_of_eq [OF st(2)] vouchers same_books_def)
  moreover have "k_wallet (stake_of R X pid sk w) \<le> token_balance w' (x_pda X (wallet_seeds sk) pid)"
    using grows by (simp add: stake_of_eq [OF st(1)])
  moreover have "royalty_inv R X pid sk w'"
    using inv st owner wallet placed unfolding royalty_inv_def same_books_def by auto
  ultimately show ?thesis
    unfolding royalty_refines_def using stake_step.outside by metis
qed

lemma refines_untouched:
  assumes inv: "royalty_inv R X pid sk w"
    and st: "entity_at (SE R) w sk = Some st" "entity_at (SE R) w' sk = Some st'" "same_books st st'"
    and owners: "\<And>k. owner_of w' k = owner_of w k"
    and vouchers: "\<And>k. entity_at (VE R) w' k = entity_at (VE R) w k"
    and wallet: "wallet_safe X pid sk w'"
    and grows: "token_balance w (x_pda X (wallet_seeds sk) pid) \<le> token_balance w' (x_pda X (wallet_seeds sk) pid)"
  shows "royalty_refines own R X pid sk w w'"
proof (rule refines_outside [OF inv st _ wallet _ _ grows])
  show "owner_of w' sk = pid"
    using inv owners by (simp add: royalty_inv_def)
  show "voucher_at R pid sk w' k = voucher_at R pid sk w k" for k
    by (rule voucher_at_frame [OF vouchers owners])
  show "placed R X pid sk w'"
    using inv holder_at_frame [OF vouchers owners] by (simp add: royalty_inv_def placed_def)
qed

lemma raw_step_wallet:
  assumes "raw_step A w w'"
  shows "wallet_safe X pid sk w' = wallet_safe X pid sk w"
  using raw_step_tokens [OF assms] by (simp add: wallet_safe_def)

lemma tokens_moved_wallet:
  assumes "tokens_moved A src dst auth n w w'" "wallet_safe X pid sk w"
  shows "wallet_safe X pid sk w'"
proof -
  have "token_meta w' k = token_meta w k" "token_delegate w' k = token_delegate w k \<or> token_delegate w' k = None" for k
    using assms(1) by (simp_all add: tokens_moved_def)
  then show ?thesis
    using assms(2) unfolding wallet_safe_def Let_def by metis
qed

text \<open>
  The accounts an instruction rewrites are the state, one voucher and the records. All other
  vouchers stay what they are.
\<close>

definition record_keys :: "ext \<Rightarrow> pubkey \<Rightarrow> pubkey \<Rightarrow> pubkey \<Rightarrow> pubkey set" where
  "record_keys X pid sk u = {x_pda X (weight_seeds sk u) pid, x_pda X (max_weight_seeds sk) pid}"

lemma other_vouchers:
  assumes inv: "royalty_inv R X pid sk w" and apart: "royalty_apart X pid sk"
    and frame: "k \<notin> A \<Longrightarrow> entity_at (VE R) w' k = entity_at (VE R) w k \<and> owner_of w' k = owner_of w k"
    and A: "A \<subseteq> insert sk (insert vk K)" and K: "K \<subseteq> record_keys X pid sk u"
    and st': "entity_at (SE R) w' sk = Some st'"
    and records: "k \<in> K \<Longrightarrow> k \<noteq> vk \<Longrightarrow> entity_at (VE R) w' k = None"
    and k: "k \<noteq> vk"
  shows "voucher_at R pid sk w' k = voucher_at R pid sk w k
    \<and> (holder_at R pid w' k = None \<or> holder_at R pid w' k = holder_at R pid w k)"
proof (cases "k \<in> A")
  case True
  then have "entity_at (VE R) w' k = None"
    using A k records not_both [OF st'] by auto
  moreover have "voucher_at R pid sk w k = None"
    using True A K k by (intro records_no_voucher [OF inv apart]) (auto simp: record_keys_def)
  ultimately show ?thesis
    by (simp add: voucher_at_None holder_at_None)
next
  case False
  note frame = frame [OF False]
  have "voucher_at R pid sk w' k = voucher_at R pid sk w k"
    by (rule voucher_at_frame [OF conjunct1 [OF frame] conjunct2 [OF frame]])
  moreover have "holder_at R pid w' k = holder_at R pid w k"
    by (rule holder_at_frame [OF conjunct1 [OF frame] conjunct2 [OF frame]])
  ultimately show ?thesis
    by blast
qed

lemma tokens_moved_frame:
  assumes "tokens_moved A src dst auth n w w'" "k \<notin> A"
  shows "entity_at (VE R) w' k = entity_at (VE R) w k \<and> owner_of w' k = owner_of w k"
proof
  show "entity_at (VE R) w' k = entity_at (VE R) w k"
    using assms by (rule tokens_moved_entity)
  show "owner_of w' k = owner_of w k"
    using assms by (simp add: tokens_moved_def)
qed

context royalty_world
begin

lemma deposit_refines:
  assumes ok: "process_deposit R X pid accounts amount w = Inr w'" and sk: "key (hd accounts) = sk"
    and inv: "royalty_inv R X pid sk w" and apart: "royalty_apart X pid sk"
    and signers: "\<forall>a \<in> set accounts. is_signer a \<longrightarrow> key a \<noteq> x_pda X (wallet_seeds sk) pid"
  shows "royalty_refines own R X pid sk w w'"
proof -
  obtain user st where st: "entity_at (SE R) w sk = Some st" and user: "user \<noteq> x_pda X (wallet_seeds sk) pid"
    and done': "deposited_by R X pid sk user amount st w w'"
    using process_deposit_effect [OF ok] sk signers by auto
  let ?vk = "x_pda X (voucher_seeds sk user) pid" and ?wk = "x_pda X (wallet_seeds sk) pid"
    and ?mk = "x_pda X (max_weight_seeds sk) pid"
  let ?v = "voucher_before R w ?vk user sk (ry_drop_idx st)" and ?new = "entity_at (VE R) w ?vk = None"
  let ?st' = "st\<lparr>ry_settings := quick_settings, ry_vouchers_count := ry_vouchers_count st + (if ?new then 1 else 0),
      ry_tokens_held := ry_tokens_held st + amount\<rparr>"
  note effect = done' [unfolded deposited_by_def Let_def]
  obtain mnt where moved: "tokens_moved {sk, ?vk, ?mk} (x_ata X user mnt) ?wk user amount w w'"
    using effect by blast
  have st': "entity_at (SE R) w' sk = Some ?st'"
    using effect by blast
  have mk: "?mk \<noteq> ?vk" "?mk \<noteq> sk" and vk_sk: "?vk \<noteq> sk"
    using apart st effect not_both [of R w' sk] by (auto simp: royalty_apart_def)
  have state: "rv_state ?v = sk" "?new \<Longrightarrow> rv_user ?v = user"
  proof -
    show "?new \<Longrightarrow> rv_user ?v = user"
      by (simp add: voucher_before_def fresh_voucher_def)
    show "rv_state ?v = sk"
    proof (cases "entity_at (VE R) w ?vk")
      case (Some v)
      then have "holder_at R pid w ?vk = Some (rv_state v, rv_user v)"
        using effect by (simp add: holder_at_def)
      then show ?thesis
        using inv Some by (auto simp: royalty_inv_def placed_def voucher_before_def)
    qed (simp add: voucher_before_def fresh_voucher_def)
  qed
  have at_vk: "voucher_at R pid sk w' ?vk = Some (?v\<lparr>rv_balance := rv_balance ?v + amount\<rparr>)"
    using effect state(1) by (simp add: voucher_at_Some)
  have others: "voucher_at R pid sk w' k = voucher_at R pid sk w k
    \<and> (holder_at R pid w' k = None \<or> holder_at R pid w' k = holder_at R pid w k)" if "k \<noteq> ?vk" for k
  proof (rule other_vouchers [OF inv apart _ _ _ st' _ that])
    show "k \<notin> {sk, ?vk, ?mk} \<Longrightarrow> entity_at (VE R) w' k = entity_at (VE R) w k \<and> owner_of w' k = owner_of w k"
      using moved by (rule tokens_moved_frame)
    show "{?mk} \<subseteq> record_keys X pid sk user"
      by (auto simp: record_keys_def)
  qed (use effect in auto)
  have holder: "\<exists>u. ?vk = x_pda X (voucher_seeds sk u) pid \<and> holder_at R pid w' ?vk = Some (sk, u)"
  proof (intro exI conjI)
    show "holder_at R pid w' ?vk = Some (sk, rv_user ?v)"
      using voucher_holder [OF at_vk] by simp
    show "?vk = x_pda X (voucher_seeds sk (rv_user ?v)) pid"
    proof (cases "entity_at (VE R) w ?vk")
      case (Some v)
      then have "holder_at R pid w ?vk = Some (sk, rv_user v)"
        using effect state(1) by (simp add: holder_at_def voucher_before_def)
      then show ?thesis
        using inv Some by (auto simp: royalty_inv_def placed_def voucher_before_def)
    qed (simp add: state(2))
  qed
  have placed: "placed R X pid sk w'"
  proof (rule placed_frame)
    show "placed R X pid sk w"
      using inv by (simp add: royalty_inv_def)
    show "holder_at R pid w' k = None \<or> holder_at R pid w' k = holder_at R pid w k
      \<or> (\<exists>u. k = x_pda X (voucher_seeds sk u) pid \<and> holder_at R pid w' k = Some (sk, u))" for k
    proof (cases "k = ?vk")
      case True
      then show ?thesis
        using holder by metis
    next
      case False
      then show ?thesis
        using others by metis
    qed
  qed
  have wallet: "wallet_safe X pid sk w'"
    using inv unfolding royalty_inv_def by (intro tokens_moved_wallet [OF moved]) (elim conjE)
  have owner: "owner_of w' sk = pid"
    using effect by blast
  have inv': "royalty_inv R X pid sk w'"
    by (rule royalty_invI [OF conjI [OF inv st] st' _ owner wallet placed]) simp
  have "x_ata X user mnt \<noteq> ?wk"
  proof
    assume eq: "x_ata X user mnt = ?wk"
    have "may_spend w (x_ata X user mnt) user"
      using moved by (simp add: tokens_moved_def)
    then show False
      using inv user by (auto simp: eq may_spend_def royalty_inv_def wallet_safe_def Let_def)
  qed
  then have grows: "token_balance w' ?wk = token_balance w ?wk + unat amount"
    using moved by (simp add: tokens_moved_def)
  have held: "unat (ry_tokens_held st + amount) = unat (ry_tokens_held st) + unat amount"
    using effect by (intro unat_add_checked) simp
  have bal: "unat (rv_balance ?v + amount) = unat (rv_balance ?v) + unat amount"
    using effect by (intro unat_add_checked) simp
  have map: "voucher_at R pid sk w' = (voucher_at R pid sk w)(?vk := Some (?v\<lparr>rv_balance := rv_balance ?v + amount\<rparr>))"
    using others at_vk by (intro ext) simp
  let ?l = "stake_of R X pid sk w" and ?b = "token_balance w' ?wk"
  have none: "k_seen ?l = None"
    using effect by (simp add: stake_of_eq [OF st])
  have "stake_step own ?l (stake_of R X pid sk w')"
  proof (cases "?new")
    case True
    then have v: "?v = fresh_voucher user sk (ry_drop_idx st)" and no: "voucher_at R pid sk w ?vk = None"
      by (simp_all add: voucher_before_def voucher_at_None)
    have count: "unat (ry_vouchers_count st + 1) = unat (ry_vouchers_count st) + 1"
      using effect True by (subst unat_add_checked) simp_all
    have "stake_of R X pid sk w' = ?l\<lparr>k_count := k_count ?l + 1, k_held := k_held ?l + unat amount, k_wallet := ?b,
        k_drops := (k_drops ?l)(?vk \<mapsto> k_idx ?l), k_stakes := (k_stakes ?l)(?vk \<mapsto> unat amount)\<rparr>"
      using True count held bal effect v
      by (simp add: stake_of_eq [OF st] stake_of_eq [OF st'] map fun_eq_iff fresh_voucher_def)
    moreover have "k_drops ?l ?vk = None" "k_stakes ?l ?vk = None" "k_wallet ?l + unat amount \<le> ?b"
      using no grows by (simp_all add: stake_of_eq [OF st])
    ultimately show ?thesis
      using stake_step.enrolled [OF none] by metis
  next
    case False
    then have old: "voucher_at R pid sk w ?vk = Some ?v"
      using effect state(1) by (auto simp: voucher_at_Some voucher_before_def)
    have "stake_of R X pid sk w' = ?l\<lparr>k_held := k_held ?l + unat amount, k_wallet := ?b,
        k_stakes := (k_stakes ?l)(?vk \<mapsto> unat (rv_balance ?v) + unat amount)\<rparr>"
      using False held bal old
      by (auto simp: stake_of_eq [OF st] stake_of_eq [OF st'] map fun_eq_iff)
    moreover have "k_stakes ?l ?vk = Some (unat (rv_balance ?v))" "k_wallet ?l + unat amount \<le> ?b"
      using old grows by (simp_all add: stake_of_eq [OF st])
    ultimately show ?thesis
      using stake_step.deposited [OF none] by metis
  qed
  with inv' show ?thesis
    by (simp add: royalty_refines_def)
qed

lemma withdraw_refines:
  assumes ok: "process_withdraw R X pid accounts amount w = Inr w'" and sk: "key (hd accounts) = sk"
    and inv: "royalty_inv R X pid sk w" and apart: "royalty_apart X pid sk"
    and presented: "own \<longrightarrow> voucher_at R pid sk w (key (accounts ! 2)) \<noteq> None"
  shows "royalty_refines own R X pid sk w w'"
proof -
  obtain state_acc wallet voucher_acc user it st v where accounts: "accounts = state_acc # wallet # voucher_acc # user # it"
    and st: "entity_at (SE R) w (key state_acc) = Some st"
    and v: "entity_at (VE R) w (key voucher_acc) = Some v" "owner_of w (key voucher_acc) = pid"
    and done': "withdrawn_by R X pid (key state_acc) (key voucher_acc) amount st v w w'"
    using process_withdraw_effect [OF ok] by blast
  define vk where "vk = key voucher_acc"
  have vk: "vk = key (accounts ! 2)" and sk: "key state_acc = sk"
    using sk by (simp_all add: vk_def accounts)
  note st = st [unfolded sk] and v = v [folded vk_def] and done' = done' [unfolded sk, folded vk_def]
  let ?wk = "x_pda X (wallet_seeds sk) pid" and ?K = "record_keys X pid sk (rv_user v)"
  let ?st' = "st\<lparr>ry_tokens_held := ry_tokens_held st - amount\<rparr>"
    and ?v' = "v\<lparr>rv_balance := rv_balance v - amount\<rparr>"
  note effect = done' [unfolded withdrawn_by_def, folded record_keys_def]
  have wk: "ry_wallet st = ?wk" and owner: "owner_of w sk = pid"
    using inv st unfolding royalty_inv_def by auto
  obtain mnt where moved: "tokens_moved (insert sk (insert vk ?K)) ?wk (x_ata X (rv_user v) mnt) ?wk amount w w'"
    using effect unfolding wk by blast
  have st': "entity_at (SE R) w' sk = Some ?st'" and v': "entity_at (VE R) w' vk = Some ?v'"
    and owners: "owner_of w' vk = pid" "owner_of w' sk = pid" and none: "ry_distribution st = None"
    and le: "unat amount \<le> unat (rv_balance v)" "unat amount \<le> unat (ry_tokens_held st)"
    and records: "\<And>k. k \<in> ?K \<Longrightarrow> k \<noteq> vk \<Longrightarrow> entity_at (VE R) w' k = None"
    using effect v(2) owner by blast+
  have others: "voucher_at R pid sk w' k = voucher_at R pid sk w k
    \<and> (holder_at R pid w' k = None \<or> holder_at R pid w' k = holder_at R pid w k)" if "k \<noteq> vk" for k
  proof (rule other_vouchers [OF inv apart _ _ subset_refl st' records that])
    show "k \<notin> insert sk (insert vk ?K) \<Longrightarrow> entity_at (VE R) w' k = entity_at (VE R) w k \<and> owner_of w' k = owner_of w k"
      using moved by (rule tokens_moved_frame)
  qed simp_all
  have same: "holder_at R pid w' vk = holder_at R pid w vk"
    using v v' owners by (simp add: holder_at_def)
  have placed: "placed R X pid sk w'"
  proof (rule placed_frame)
    show "placed R X pid sk w"
      using inv by (simp add: royalty_inv_def)
    show "holder_at R pid w' k = None \<or> holder_at R pid w' k = holder_at R pid w k
      \<or> (\<exists>u. k = x_pda X (voucher_seeds sk u) pid \<and> holder_at R pid w' k = Some (sk, u))" for k
      using same others [of k] by metis
  qed
  have wallet: "wallet_safe X pid sk w'"
    using inv unfolding royalty_inv_def by (intro tokens_moved_wallet [OF moved]) (elim conjE)
  have inv': "royalty_inv R X pid sk w'"
    by (rule royalty_invI [OF conjI [OF inv st] st' _ owners(2) wallet placed]) simp
  have paid: "token_balance w ?wk \<le> token_balance w' ?wk + unat amount"
    using moved by (cases "?wk = x_ata X (rv_user v) mnt") (auto simp: tokens_moved_def)
  have held: "unat (ry_tokens_held st - amount) = unat (ry_tokens_held st) - unat amount"
    "unat (rv_balance v - amount) = unat (rv_balance v) - unat amount"
    using le by (simp_all add: unat_sub_checked)
  let ?l = "stake_of R X pid sk w" and ?b = "token_balance w' ?wk"
  have "stake_step own ?l (stake_of R X pid sk w')"
  proof (cases "rv_state v = sk")
    case True
    then have own: "voucher_at R pid sk w vk = Some v"
      using v by (simp add: voucher_at_Some)
    have "voucher_at R pid sk w' vk = Some ?v'"
      using True v' owners by (simp add: voucher_at_Some)
    then have map: "voucher_at R pid sk w' = (voucher_at R pid sk w)(vk := Some ?v')"
      using others by (intro ext) simp
    have "stake_of R X pid sk w' = ?l\<lparr>k_held := k_held ?l - unat amount, k_wallet := ?b,
        k_stakes := (k_stakes ?l)(vk \<mapsto> unat (rv_balance v) - unat amount)\<rparr>"
      using held own by (auto simp: stake_of_eq [OF st] stake_of_eq [OF st'] map fun_eq_iff)
    moreover have "k_seen ?l = None" "k_stakes ?l vk = Some (unat (rv_balance v))"
        "unat amount \<le> k_held ?l" "k_wallet ?l \<le> ?b + unat amount"
      using none own le paid by (simp_all add: stake_of_eq [OF st])
    ultimately show ?thesis
      using stake_step.withdrawn [of ?l vk "unat (rv_balance v)" "unat amount" ?b own] le by metis
  next
    case False
    then have "voucher_at R pid sk w vk = None" "voucher_at R pid sk w' vk = None"
      using v v' by (simp_all add: voucher_at_def)
    then have map: "voucher_at R pid sk w' = voucher_at R pid sk w"
      using others by (intro ext) metis
    have "\<not> own"
      using presented \<open>voucher_at R pid sk w vk = None\<close> unfolding vk by blast
    have "stake_of R X pid sk w' = ?l\<lparr>k_held := k_held ?l - unat amount, k_wallet := ?b, k_stakes := k_stakes ?l\<rparr>"
      using held by (simp add: stake_of_eq [OF st] stake_of_eq [OF st'] map)
    then show ?thesis
      using stake_step.drained [OF \<open>\<not> own\<close>, of "k_stakes ?l" ?l] by metis
  qed
  with inv' show ?thesis
    by (simp add: royalty_refines_def)
qed

text \<open>A distribution is a drop over the vouchers presented.\<close>

lemma distribute_refines:
  assumes laws: "precise_number P val" and ok: "process_distribute R P X pid accounts w = Inr w'"
    and sk: "key (hd accounts) = sk" and inv: "royalty_inv R X pid sk w"
  shows "royalty_refines own R X pid sk w w'"
proof -
  obtain state_acc own' host ins it st st' where accounts: "accounts = state_acc # own' # host # ins # it"
    and st: "entity_at (SE R) w (key state_acc) = Some st"
    and done': "distributed_by R P X pid (key state_acc) st st' (map key it) w w'"
    using process_distribute_effect [OF laws ok] by blast
  define ks where "ks = map key it"
  have "key state_acc = sk"
    using sk by (simp add: accounts)
  note st = st [unfolded this] and effect = done' [unfolded this, folded ks_def, unfolded distributed_by_def]
  let ?wk = "x_pda X (wallet_seeds sk) pid"
  obtain st1 d fee where begun: "drop_begun X (unat (lamports_of w sk)) st st1 fee" and d: "ry_distribution st1 = Some d"
    and advanced: "drop_advanced (length ks) d st1 st'"
    using effect unfolding Let_def by blast
  have ks: "distinct ks" "sk \<notin> set ks" "ks \<noteq> [] \<longrightarrow> unat (ry_drop_idx st) + 1 < 2 ^ 32"
    and paid: "\<And>k. k \<in> set ks \<Longrightarrow> \<exists>v. entity_at (VE R) w k = Some v \<and> owner_of w k = pid \<and> rv_state v = sk
          \<and> rv_drop_idx v = ry_drop_idx st
          \<and> entity_at (VE R) w' k = Some (v\<lparr>rv_drop_idx := ry_drop_idx st + 1, rv_last_distribution := x_now X\<rparr>)"
    and data: "\<And>k. k \<notin> set ks \<Longrightarrow> k \<noteq> sk \<Longrightarrow> data_of w' k = data_of w k"
    and owners: "\<And>k. owner_of w' k = owner_of w k" and st': "entity_at (SE R) w' sk = Some st'"
    using effect by blast+
  note kept = drop_begun_keeps [OF begun]
  have wal: "ry_wallet st' = ry_wallet st" "ry_vouchers_count st' = ry_vouchers_count st" "ry_tokens_held st' = ry_tokens_held st"
    using begun advanced by (auto simp: drop_begun_def drop_advanced_def split: option.splits if_splits)
  have holder: "holder_at R pid w' k = holder_at R pid w k" for k
  proof (cases "k \<in> set ks")
    case True
    then show ?thesis
      using paid [OF True] owners [of k] by (auto simp: holder_at_def)
  next
    case False
    show ?thesis
    proof (cases "k = sk")
      case True
      then show ?thesis
        using holder_at_None [OF not_both [OF st], of pid] holder_at_None [OF not_both [OF st'], of pid] by simp
    qed (intro holder_at_frame entity_at_frame data owners False)
  qed
  have vouchers: "voucher_at R pid sk w' k = (if k \<in> set ks then map_option (\<lambda>v. v\<lparr>rv_drop_idx := ry_drop_idx st + 1,
      rv_last_distribution := x_now X\<rparr>) (voucher_at R pid sk w k) else voucher_at R pid sk w k)" for k
  proof (cases "k \<in> set ks")
    case True
    then show ?thesis
      using paid [OF True] owners [of k] by (auto simp: voucher_at_def)
  next
    case False
    have "voucher_at R pid sk w' k = voucher_at R pid sk w k"
    proof (cases "k = sk")
      case True
      then show ?thesis
        using state_no_voucher [OF st, of pid sk] state_no_voucher [OF st', of pid sk] by simp
    qed (intro voucher_at_frame entity_at_frame data owners False)
    then show ?thesis
      using False by simp
  qed
  have not_token: "\<not> is_token w k" if "k \<in> insert sk (set ks)" for k
    using that paid [of k] entity_not_token [of "SE R" w k] entity_not_token [of "VE R" w k] st by auto
  have "?wk \<notin> insert sk (set ks)"
    using inv not_token by (auto simp: royalty_inv_def wallet_safe_def is_token_meta Let_def)
  then have wallet_data: "data_of w' ?wk = data_of w ?wk"
    using data by blast
  note views = token_views_of_data [OF wallet_data]
  have wallet: "wallet_safe X pid sk w'"
    using inv by (simp add: royalty_inv_def wallet_safe_def Let_def views)
  have placed: "placed R X pid sk w'"
    using inv by (simp add: royalty_inv_def placed_def holder)
  have owner: "owner_of w' sk = pid"
    using inv owners by (simp add: royalty_inv_def)
  have inv': "royalty_inv R X pid sk w'"
    by (rule royalty_invI [OF conjI [OF inv st] st' wal(1) owner wallet placed])
  let ?l = "stake_of R X pid sk w"
  have seen: "seen_of ?l = unat (di_seen_vouchers d)"
    using begun d by (auto simp: seen_of_def stake_of_eq [OF st] drop_begun_def split: option.splits)
  have card: "card (set ks) = length ks"
    using ks(1) by (rule distinct_card)
  have eligible: "\<forall>k \<in> set ks. k_drops ?l k = Some (k_idx ?l)"
    using paid by (force simp: stake_of_eq [OF st] voucher_at_Some)
  have drops: "map_option (\<lambda>v. unat (rv_drop_idx v)) (voucher_at R pid sk w' k) = bump (set ks) (k_drops ?l) k" for k
  proof (cases "k \<in> set ks")
    case True
    then have "ks \<noteq> []"
      by auto
    then have "unat (ry_drop_idx st + 1) = Suc (unat (ry_drop_idx st))"
      using ks(3) by (subst unat_add_checked) simp_all
    moreover obtain v where "voucher_at R pid sk w k = Some v" "rv_drop_idx v = ry_drop_idx st"
      using paid [OF True] by (auto simp: voucher_at_Some)
    ultimately show ?thesis
      using True by (simp add: vouchers bump_def stake_of_eq [OF st])
  qed (simp add: vouchers bump_def stake_of_eq [OF st])
  have stakes: "map_option (\<lambda>v. unat (rv_balance v)) (voucher_at R pid sk w' k)
      = map_option (\<lambda>v. unat (rv_balance v)) (voucher_at R pid sk w k)" for k
    by (simp add: vouchers option.map_comp comp_def)
  have "stake_of R X pid sk w' = after_drop (set ks) ?l"
  proof (cases "unat (di_seen_vouchers d) + length ks = unat (ry_vouchers_count st)")
    case True
    then have "unat (ry_drop_idx st) + 1 < 2 ^ 32" "ry_drop_idx st' = ry_drop_idx st + 1" "ry_distribution st' = None"
      using advanced by (simp_all add: drop_advanced_def kept)
    then have "k_seen (stake_of R X pid sk w') = None" "k_idx (stake_of R X pid sk w') = Suc (unat (ry_drop_idx st))"
      by (simp_all add: stake_of_eq [OF st'] unat_add_checked)
    then show ?thesis
      using True seen card drops stakes wal views(1)
      by (simp add: after_drop_def Let_def stake_of_eq [OF st] stake_of_eq [OF st'])
  next
    case False
    then have "unat (di_seen_vouchers d) + length ks < 2 ^ 32" "ry_drop_idx st' = ry_drop_idx st"
      "ry_distribution st' = Some (d\<lparr>di_seen_vouchers := di_seen_vouchers d + of_nat (length ks)\<rparr>)"
      using advanced by (simp_all add: drop_advanced_def kept)
    moreover from this(1) have "unat (di_seen_vouchers d + of_nat (length ks)) = unat (di_seen_vouchers d) + length ks"
      by (simp add: unat_add_checked unat_of_nat)
    ultimately have "k_seen (stake_of R X pid sk w') = Some (unat (di_seen_vouchers d) + length ks)"
      "k_idx (stake_of R X pid sk w') = unat (ry_drop_idx st)"
      by (simp_all add: stake_of_eq [OF st'])
    then show ?thesis
      using False seen card drops stakes wal views(1)
      by (simp add: after_drop_def Let_def stake_of_eq [OF st] stake_of_eq [OF st'])
  qed
  then have "stake_step own ?l (stake_of R X pid sk w')"
    using stake_step.dropped [OF eligible] by simp
  with inv' show ?thesis
    by (simp add: royalty_refines_def)
qed

text \<open>The other instructions leave the ledger as it is.\<close>

lemma claim_refines:
  assumes ok: "process_claim R X pid accounts w = Inr w'"
    and sk: "key (hd accounts) = sk" and inv: "royalty_inv R X pid sk w"
  shows "royalty_refines own R X pid sk w w'"
proof -
  obtain state_acc voucher_acc user it st v where accounts: "accounts = state_acc # voucher_acc # user # it"
    and st: "entity_at (SE R) w (key state_acc) = Some st" and v: "entity_at (VE R) w (key voucher_acc) = Some v"
    and done': "claimed_by R X (key state_acc) (key voucher_acc) (key user) st v w w'"
    using process_claim_effect [OF ok] by blast
  define vk where "vk = key voucher_acc"
  have "key state_acc = sk"
    using sk by (simp add: accounts)
  note st = st [unfolded this] and v = v [folded vk_def] and effect = done' [unfolded this, folded vk_def, unfolded claimed_by_def]
  let ?wk = "x_pda X (wallet_seeds sk) pid"
  have st': "entity_at (SE R) w' sk = Some st" and v': "entity_at (VE R) w' vk = Some v"
    and data: "\<And>k. k \<noteq> vk \<Longrightarrow> k \<noteq> sk \<Longrightarrow> data_of w' k = data_of w k" and owners: "\<And>k. owner_of w' k = owner_of w k"
    using effect by blast+
  have "is_token w ?wk"
    using inv by (auto simp: royalty_inv_def wallet_safe_def is_token_meta Let_def)
  then have "?wk \<noteq> vk" "?wk \<noteq> sk"
    using entity_not_token [OF v] entity_not_token [OF st] by metis+
  then have "data_of w' ?wk = data_of w ?wk"
    by (rule data)
  note views = token_views_of_data [OF this]
  show ?thesis
  proof (rule refines_untouched [OF inv st st' _ owners])
    show "entity_at (VE R) w' k = entity_at (VE R) w k" for k
    proof -
      consider "k = vk" | "k = sk" | "k \<noteq> vk" "k \<noteq> sk"
        by blast
      then show ?thesis
      proof cases
        case 3
        then show ?thesis
          by (intro entity_at_frame data)
      qed (simp_all add: v v' not_both [OF st] not_both [OF st'])
    qed
    show "wallet_safe X pid sk w'"
      using inv by (simp add: royalty_inv_def wallet_safe_def Let_def views)
  qed (simp_all add: same_books_def views)
qed

lemma migrate_refines:
  assumes ok: "process_migrate R X pid accounts realm vault w = Inr w'"
    and sk: "key (hd accounts) = sk" and inv: "royalty_inv R X pid sk w"
  shows "royalty_refines own R X pid sk w w'"
proof -
  obtain state_acc wallet it st st' where accounts: "accounts = state_acc # wallet # it"
    and st: "entity_at (SE R) w (key state_acc) = Some st" "entity_at (SE R) w' (key state_acc) = Some st'"
    and same: "if ry_token_mint st = 0
       then \<exists>mnt own nat. token_meta w (ry_wallet st) = Some (mnt, own, nat)
         \<and> st' = st\<lparr>ry_realm_addr := realm, ry_vault_addr := vault, ry_token_mint := mnt\<rparr>
       else st' = st"
    and raw: "raw_step {key state_acc} w w'" and owners: "\<forall>k. owner_of w' k = owner_of w k"
    using process_migrate_effect [OF ok] by blast
  have "key state_acc = sk"
    using sk by (simp add: accounts)
  note st = st [unfolded this] and raw = raw [unfolded this]
  note views = raw_step_tokens [OF raw]
  show ?thesis
  proof (rule refines_untouched [OF inv st])
    show "same_books st st'"
      using same by (auto simp: same_books_def split: if_splits)
    show "entity_at (VE R) w' k = entity_at (VE R) w k" for k
    proof (cases "k = sk")
      case False
      then show ?thesis
        using raw by (intro entity_at_frame) (simp add: raw_step_def)
    qed (simp add: not_both [OF st(1)] not_both [OF st(2)])
    show "wallet_safe X pid sk w'"
      using inv raw_step_wallet [OF raw] by (simp add: royalty_inv_def)
  qed (simp_all add: owners views)
qed

lemma sync_refines:
  assumes ok: "process_sync_weight_record R X pid accounts w = Inr w'"
    and sk: "key (hd accounts) = sk" and inv: "royalty_inv R X pid sk w" and apart: "royalty_apart X pid sk"
  shows "royalty_refines own R X pid sk w w'"
proof -
  obtain state_acc user voucher_acc it st where accounts: "accounts = state_acc # user # voucher_acc # it"
    and st: "entity_at (SE R) w (key state_acc) = Some st"
    and done': "synced_by R X pid (key state_acc) (key voucher_acc) (key user) st w w'"
    using process_sync_effect [OF ok] by blast
  define vk uk where "vk = key voucher_acc" and "uk = key user"
  have "key state_acc = sk"
    using sk by (simp add: accounts)
  note st = st [unfolded this] and effect = done' [unfolded this, folded vk_def uk_def, unfolded synced_by_def Let_def]
  let ?wk = "x_pda X (weight_seeds sk uk) pid" and ?mk = "x_pda X (max_weight_seeds sk) pid"
  have apart': "?wk \<noteq> ?mk" "?wk \<noteq> sk"
    using apart by (simp_all add: royalty_apart_def)
  have raw: "raw_step ({sk, ?wk, ?mk} \<union> (if uk = ry_owner st then {} else {vk})) w w'"
    and st': "entity_at (SE R) w' sk = Some st"
    and kept: "\<And>k v. entity_at (VE R) w k = Some v \<Longrightarrow> k \<noteq> ?wk \<Longrightarrow> k \<noteq> ?mk \<Longrightarrow> entity_at (VE R) w' k = Some v"
    and owners: "\<And>k. owner_of w k = pid \<Longrightarrow> owner_of w' k = pid"
    and records: "entity_at (VE R) w' ?wk = None" "entity_at (VE R) w' ?mk = None"
    using effect by blast+
  have voucher: "entity_at (VE R) w vk \<noteq> None \<and> owner_of w vk = pid" if "uk \<noteq> ry_owner st"
    using effect apart' that by blast
  have same: "voucher_at R pid sk w' k = voucher_at R pid sk w k
    \<and> (holder_at R pid w' k = None \<or> holder_at R pid w' k = holder_at R pid w k)" for k
  proof -
    consider (recd) "k = ?wk \<or> k = ?mk" | (state) "k = sk" | (held) "k \<noteq> ?wk" "k \<noteq> ?mk"
        "entity_at (VE R) w k \<noteq> None" "owner_of w k = pid"
      | (frame) "k \<noteq> sk" "k \<noteq> ?wk" "k \<noteq> ?mk" "uk = ry_owner st \<or> k \<noteq> vk"
      using voucher by metis
    then show ?thesis
    proof cases
      case recd
      then have "voucher_at R pid sk w k = None"
        by (intro records_no_voucher [OF inv apart]) blast
      then show ?thesis
        using recd records by (auto simp: voucher_at_None holder_at_None)
    next
      case state
      then show ?thesis
        using not_both [OF st] not_both [OF st'] by (simp add: voucher_at_None holder_at_None)
    next
      case held
      then obtain v where v: "entity_at (VE R) w k = Some v"
        by blast
      then show ?thesis
        using v kept [OF v held(1,2)] owners [OF held(4)] held(4) by (simp add: voucher_at_def holder_at_def)
    next
      case frame
      then have "k \<notin> {sk, ?wk, ?mk} \<union> (if uk = ry_owner st then {} else {vk})"
        by auto
      then have k: "data_of w' k = data_of w k" "owner_of w' k = owner_of w k"
        using raw unfolding raw_step_def by blast+
      show ?thesis
        using voucher_at_frame [OF entity_at_frame [OF k(1)] k(2)] holder_at_frame [OF entity_at_frame [OF k(1)] k(2)]
        by blast
    qed
  qed
  show ?thesis
  proof (rule refines_outside [OF inv st st'])
    show "owner_of w' sk = pid"
      using inv owners by (simp add: royalty_inv_def)
    show "wallet_safe X pid sk w'"
      using inv raw_step_wallet [OF raw] by (simp add: royalty_inv_def)
    show "placed R X pid sk w'"
    proof (rule placed_frame)
      show "placed R X pid sk w"
        using inv by (simp add: royalty_inv_def)
      show "holder_at R pid w' k = None \<or> holder_at R pid w' k = holder_at R pid w k
        \<or> (\<exists>u. k = x_pda X (voucher_seeds sk u) pid \<and> holder_at R pid w' k = Some (sk, u))" for k
        using same [of k] by blast
    qed
    show "voucher_at R pid sk w' k = voucher_at R pid sk w k" for k
      using same by blast
  qed (simp_all add: same_books_def raw_step_tokens [OF raw])
qed

text \<open>A state can only be initialised when no voucher names it yet.\<close>

lemma initialize_starts:
  assumes ok: "process_initialize R X pid accounts args w = Inr w'" and sk: "key (hd accounts) = sk"
    and fresh: "\<And>k s u. holder_at R pid w k = Some (s, u) \<Longrightarrow> s \<noteq> sk \<and> (\<forall>u'. k \<noteq> x_pda X (voucher_seeds sk u') pid)"
  shows "royalty_inv R X pid sk w' \<and> stake_of R X pid sk w' = \<lparr>k_idx = 0, k_seen = None, k_count = 0, k_held = 0,
    k_wallet = token_balance w' (x_pda X (wallet_seeds sk) pid), k_drops = (\<lambda>_. None), k_stakes = (\<lambda>_. None)\<rparr>"
proof -
  obtain state_acc mnt wallet fee_payer it st where accounts: "accounts = state_acc # mnt # wallet # fee_payer # it"
    and wallet: "key wallet = x_pda X (wallet_seeds (key state_acc)) pid"
    and st: "entity_at (SE R) w' (key state_acc) = Some st" "owner_of w' (key state_acc) = pid"
    and fields: "st = \<lparr>ry_wallet = key wallet, ry_owner = ia_owner args, ry_host = ia_host args,
        ry_total_distributed = 0, ry_total_user_distributed = 0, ry_settings = ia_settings args,
        ry_drop_idx = 0, ry_vouchers_count = 0, ry_tokens_held = 0, ry_distribution = None,
        ry_token_mint = key mnt, ry_realm_addr = ia_realm_addr args, ry_vault_addr = ia_vault_addr args\<rparr>"
    and token: "\<exists>nat. token_meta w' (key wallet) = Some (key mnt, key wallet, nat)" "token_delegate w' (key wallet) = None"
    and frame: "\<And>k. k \<noteq> key wallet \<Longrightarrow> k \<noteq> key state_acc \<Longrightarrow> data_of w' k = data_of w k \<and> owner_of w' k = owner_of w k"
    using process_initialize_effect [OF ok] by blast
  have "key state_acc = sk"
    using sk by (simp add: accounts)
  note st = st [unfolded this] and wallet = wallet [unfolded this] and frame = frame [unfolded this wallet]
    and token = token [unfolded wallet]
  let ?wk = "x_pda X (wallet_seeds sk) pid"
  have "is_token w' ?wk"
    using token by (auto simp: is_token_meta)
  then have "entity_at (VE R) w' ?wk = None"
    using entity_not_token [of "VE R" w' ?wk] by (cases "entity_at (VE R) w' ?wk") auto
  then have holder: "holder_at R pid w' k = None \<or> holder_at R pid w' k = holder_at R pid w k" for k
  proof (cases "k = ?wk \<or> k = sk")
    case False
    then have k: "data_of w' k = data_of w k" "owner_of w' k = owner_of w k"
      using frame by blast+
    show ?thesis
      using holder_at_frame [OF entity_at_frame [OF k(1)] k(2)] by blast
  qed (use not_both [OF st(1)] in \<open>auto simp: holder_at_None\<close>)
  then have fresh': "s \<noteq> sk \<and> (\<forall>u'. k \<noteq> x_pda X (voucher_seeds sk u') pid)" if "holder_at R pid w' k = Some (s, u)" for k s u
    using fresh that by (metis option.distinct(1))
  then have none: "voucher_at R pid sk w' k = None" for k
    using voucher_holder [of R pid sk w' k] by (cases "voucher_at R pid sk w' k") auto
  have "royalty_inv R X pid sk w'"
    unfolding royalty_inv_def
  proof (intro conjI exI [of _ st])
    show "wallet_safe X pid sk w'"
      using token by (auto simp: wallet_safe_def Let_def)
    show "placed R X pid sk w'"
      using fresh' unfolding placed_def by blast
  qed (use st in \<open>simp_all add: fields wallet\<close>)
  then show ?thesis
    by (simp add: stake_of_eq [OF st(1)] none) (simp add: fields)
qed

lemma initialize_once: "process_initialize R X pid accounts args w = Inr w' \<Longrightarrow> entity_at (SE R) w (key (hd accounts)) = None"
  using process_initialize_effect [of pid accounts args w w'] by auto

text \<open>One instruction of the program, at the entry point.\<close>

lemma instruction_refines:
  assumes laws: "precise_number P val" and ok: "process_instruction R P X pid accounts bytes w = Inr w'"
    and sk: "key (hd accounts) = sk" and inv: "royalty_inv R X pid sk w" and apart: "royalty_apart X pid sk"
    and signers: "\<forall>a \<in> set accounts. is_signer a \<longrightarrow> key a \<noteq> x_pda X (wallet_seeds sk) pid"
    and presented: "own \<longrightarrow> (\<exists>n. rx_parse R bytes = Some (WithdrawTokens n)) \<longrightarrow>
      voucher_at R pid sk w (key (accounts ! 2)) \<noteq> None"
  shows "royalty_refines own R X pid sk w w'"
proof -
  obtain ix where ix: "rx_parse R bytes = Some ix"
    using ok by (auto simp: process_instruction_def res_simps)
  show ?thesis
  proof (cases ix)
    case (Initialize args)
    then have "entity_at (SE R) w sk = None"
      using ok ix sk initialize_once by (auto simp: process_instruction_def)
    then show ?thesis
      using inv by (simp add: royalty_inv_def)
  next
    case Distribute
    then show ?thesis
      using ok ix by (intro distribute_refines [OF laws _ sk inv]) (simp add: process_instruction_def)
  next
    case Claim
    then show ?thesis
      using ok ix by (intro claim_refines [OF _ sk inv]) (simp add: process_instruction_def)
  next
    case (DepositTokens n)
    then show ?thesis
      using ok ix by (intro deposit_refines [OF _ sk inv apart signers]) (simp add: process_instruction_def)
  next
    case (WithdrawTokens n)
    then show ?thesis
      using ok ix presented by (intro withdraw_refines [OF _ sk inv apart]) (auto simp: process_instruction_def)
  next
    case SyncWeightRecord
    then show ?thesis
      using ok ix by (intro sync_refines [OF _ sk inv apart]) (simp add: process_instruction_def)
  next
    case (Migrate args)
    then show ?thesis
      using ok ix by (intro migrate_refines [OF _ sk inv]) (simp add: process_instruction_def)
  qed
qed

end

section \<open>The machine\<close>

text \<open>
  Everything else that happens on the chain, instructions for other states among it: it leaves the
  state and its vouchers alone and takes no tokens out of the wallet. Only the program writes to
  its accounts and only the program signs for the wallet; that it leaves the vouchers of a state
  alone when it is called for another one is an assumption, as withdrawals do not check it.
\<close>

definition elsewhere :: "royalty_ext \<Rightarrow> ext \<Rightarrow> pubkey \<Rightarrow> pubkey \<Rightarrow> world \<Rightarrow> world \<Rightarrow> bool" where
  "elsewhere R X pid sk w w' \<longleftrightarrow>
     entity_at (SE R) w' sk = entity_at (SE R) w sk \<and> owner_of w' sk = owner_of w sk
     \<and> (\<forall>k. voucher_at R pid sk w' k = voucher_at R pid sk w k)
     \<and> placed R X pid sk w' \<and> wallet_safe X pid sk w'
     \<and> token_balance w (x_pda X (wallet_seeds sk) pid) \<le> token_balance w' (x_pda X (wallet_seeds sk) pid)"

inductive royalty_step ::
  "bool \<Rightarrow> royalty_ext \<Rightarrow> 'n precise \<Rightarrow> ext \<Rightarrow> pubkey \<Rightarrow> pubkey \<Rightarrow> world \<Rightarrow> world \<Rightarrow> bool"
  for own R P X pid sk where
  processed:
    "process_instruction R P (X\<lparr>x_now := t\<rparr>) pid accounts bytes w = Inr w' \<Longrightarrow> key (hd accounts) = sk \<Longrightarrow>
     \<forall>a \<in> set accounts. is_signer a \<longrightarrow> key a \<noteq> x_pda X (wallet_seeds sk) pid \<Longrightarrow>
     own \<longrightarrow> (\<exists>n. rx_parse R bytes = Some (WithdrawTokens n)) \<longrightarrow>
       voucher_at R pid sk w (key (accounts ! 2)) \<noteq> None \<Longrightarrow>
     royalty_step own R P X pid sk w w'"
| others: "elsewhere R X pid sk w w' \<Longrightarrow> royalty_step own R P X pid sk w w'"

inductive royalty_run ::
  "bool \<Rightarrow> royalty_ext \<Rightarrow> 'n precise \<Rightarrow> ext \<Rightarrow> pubkey \<Rightarrow> pubkey \<Rightarrow> world \<Rightarrow> bool"
  for own R P X pid sk where
  initialized:
    "process_instruction R P (X\<lparr>x_now := t\<rparr>) pid accounts bytes w = Inr w' \<Longrightarrow>
     rx_parse R bytes = Some (Initialize args) \<Longrightarrow> key (hd accounts) = sk \<Longrightarrow>
     \<forall>k s u. holder_at R pid w k = Some (s, u) \<longrightarrow> s \<noteq> sk \<and> (\<forall>u'. k \<noteq> x_pda X (voucher_seeds sk u') pid) \<Longrightarrow>
     royalty_run own R P X pid sk w'"
| stepped: "royalty_run own R P X pid sk w \<Longrightarrow> royalty_step own R P X pid sk w w' \<Longrightarrow> royalty_run own R P X pid sk w'"

lemma elsewhere_refines:
  assumes "elsewhere R X pid sk w w'" and inv: "royalty_inv R X pid sk w"
  shows "royalty_refines own R X pid sk w w'"
proof -
  obtain st where st: "entity_at (SE R) w sk = Some st" and owner: "owner_of w sk = pid"
    using inv unfolding royalty_inv_def by blast
  note away = assms(1) [unfolded elsewhere_def]
  show ?thesis
  proof (rule refines_outside [OF inv st])
    show "entity_at (SE R) w' sk = Some st" "owner_of w' sk = pid"
      using away st owner by simp_all
    show "same_books st st"
      by (simp add: same_books_def)
  qed (use away in blast)+
qed

lemma royalty_step_refines:
  assumes world: "royalty_world X R" and laws: "precise_number P val" and apart: "royalty_apart X pid sk"
    and step: "royalty_step own R P X pid sk w w'" and inv: "royalty_inv R X pid sk w"
  shows "royalty_refines own R X pid sk w w'"
  using step
proof cases
  case (processed t accounts bytes)
  have "royalty_refines own R (X\<lparr>x_now := t\<rparr>) pid sk w w'"
    by (rule royalty_world.instruction_refines [OF royalty_world_at_time [OF world] laws processed(1,2)])
      (use inv apart processed in simp_all)
  then show ?thesis
    by simp
next
  case others
  then show ?thesis
    using inv by (rule elsewhere_refines)
qed

lemma royalty_run_ok:
  assumes world: "royalty_world X R" and laws: "precise_number P val" and apart: "royalty_apart X pid sk"
    and run: "royalty_run own R P X pid sk w"
  shows "royalty_inv R X pid sk w \<and> drops_ok (stake_of R X pid sk w)
    \<and> (own \<longrightarrow> stakes_covered (stake_of R X pid sk w))"
  using run
proof induction
  case (initialized t accounts bytes w w' args)
  have ok: "process_initialize R (X\<lparr>x_now := t\<rparr>) pid accounts args w = Inr w'"
    using initialized(1,2) by (simp add: process_instruction_def)
  have "s \<noteq> sk \<and> (\<forall>u'. k \<noteq> x_pda (X\<lparr>x_now := t\<rparr>) (voucher_seeds sk u') pid)"
    if "holder_at R pid w k = Some (s, u)" for k s u
    using initialized(4) that by auto
  from royalty_world.initialize_starts [OF royalty_world_at_time [OF world] ok initialized(3) this]
  show ?case
    by (simp add: drops_ok_def stakes_covered_def owed_def)
next
  case (stepped w w')
  then have "royalty_refines own R X pid sk w w'"
    using royalty_step_refines [OF world laws apart] by blast
  then show ?case
    using stepped.IH stake_step_drops stake_step_covered unfolding royalty_refines_def by (cases own) auto
qed

end
