(* ===== verification/RoyaltyDemo.thy ===== *)
theory RoyaltyDemo
  imports RoyaltyMachine
begin

text \<open>
  An executable royalty program: the codecs in the format Borsh publishes, governance crates that
  keep no votes, and a chain on which a state is created and used. It shows that what the locale
  \<open>royalty_world\<close> assumes can hold, and the witnesses run on it.
\<close>

section \<open>The instruction codec\<close>

definition initialize_args_codec :: "initialize_args codec" where
  "initialize_args_codec = iso_codec
     (\<lambda>a. (ia_owner a, ia_host a, ia_settings a, ia_realm_addr a, ia_vault_addr a))
     (\<lambda>(own, hst, se, realm, vault). \<lparr>ia_owner = own, ia_host = hst, ia_settings = se,
        ia_realm_addr = realm, ia_vault_addr = vault\<rparr>)
     (pair_codec key_codec (pair_codec key_codec (pair_codec settings_codec (pair_codec key_codec key_codec))))"

definition migrate_args_codec :: "migrate_args codec" where
  "migrate_args_codec = iso_codec (\<lambda>a. (ma_realm_addr a, ma_vault_addr a))
     (\<lambda>(realm, vault). \<lparr>ma_realm_addr = realm, ma_vault_addr = vault\<rparr>) (pair_codec key_codec key_codec)"

text \<open>A variant is its number followed by its fields.\<close>

definition royalty_instruction_codec :: "royalty_instruction codec" where
  "royalty_instruction_codec =
     \<lparr>enc = (\<lambda>ix. case ix of
        Initialize args \<Rightarrow> 0 # enc initialize_args_codec args
      | Distribute \<Rightarrow> [1]
      | Claim \<Rightarrow> [2]
      | DepositTokens n \<Rightarrow> 3 # enc u64_codec n
      | WithdrawTokens n \<Rightarrow> 4 # enc u64_codec n
      | SyncWeightRecord \<Rightarrow> [5]
      | Migrate args \<Rightarrow> 6 # enc migrate_args_codec args),
      dec = (\<lambda>bs. case bs of [] \<Rightarrow> None | b # rest \<Rightarrow>
        if b = 0 then map_option (\<lambda>(x, r). (Initialize x, r)) (dec initialize_args_codec rest)
        else if b = 1 then Some (Distribute, rest)
        else if b = 2 then Some (Claim, rest)
        else if b = 3 then map_option (\<lambda>(x, r). (DepositTokens x, r)) (dec u64_codec rest)
        else if b = 4 then map_option (\<lambda>(x, r). (WithdrawTokens x, r)) (dec u64_codec rest)
        else if b = 5 then Some (SyncWeightRecord, rest)
        else if b = 6 then map_option (\<lambda>(x, r). (Migrate x, r)) (dec migrate_args_codec rest)
        else None)\<rparr>"

lemma royalty_instruction_codec_lawful: "lawful royalty_instruction_codec"
proof -
  have "lawful initialize_args_codec"
    unfolding initialize_args_codec_def
    by (intro iso_codec_lawful codec_lawful royalty_codecs_lawful) simp
  moreover have "lawful migrate_args_codec"
    unfolding migrate_args_codec_def by (intro iso_codec_lawful codec_lawful) simp
  moreover have "lawful u64_codec"
    by (rule codec_lawful)
  ultimately show ?thesis
    unfolding lawful_def [of royalty_instruction_codec]
    by (auto simp: royalty_instruction_codec_def lawfulD split: royalty_instruction.split)
qed

section \<open>The program\<close>

definition demo_royalty :: royalty_ext where
  "demo_royalty =
     \<lparr>rx_state = royalty_state_codec, rx_voucher = royalty_voucher_codec,
      rx_parse = parse_all royalty_instruction_codec, rx_encode = enc royalty_instruction_codec,
      rx_weight_discriminator = [1], rx_max_weight_discriminator = [2],
      rx_weight_bytes = vw_account_discriminator, rx_max_weight_bytes = mw_account_discriminator,
      rx_owner_record_address = (\<lambda>_ _ _ _. 77), rx_owner_record_data = (\<lambda>_ _. Inl (Err UninitializedAccount)),
      rx_load_instruction = (\<lambda>_ _. Inl (Err InvalidArgument)),
      rx_instructions_id = 9, rx_ata_program = 8, rx_rent_id = 10\<rparr>"

lemma demo_royalty_simps [simp]:
  "rx_parse demo_royalty (rx_encode demo_royalty ix) = Some ix"
  "rx_owner_record_address demo_royalty a b c d = 77" "rx_instructions_id demo_royalty = 9"
  "rx_weight_bytes demo_royalty rec = vw_account_discriminator rec" "rx_weight_discriminator demo_royalty = [1]"
  "rx_max_weight_bytes demo_royalty mrec = mw_account_discriminator mrec"
  "rx_max_weight_discriminator demo_royalty = [2]" "rx_ata_program demo_royalty = 8" "rx_rent_id demo_royalty = 10"
  by (simp_all add: demo_royalty_def parse_all_enc royalty_instruction_codec_lawful)

lemma demo_entities: "SE demo_royalty = state_entity royalty_state_codec" "VE demo_royalty = voucher_entity royalty_voucher_codec"
  by (simp_all add: SE_def VE_def demo_royalty_def)

interpretation demo: royalty_world "sim now" demo_royalty
  by (intro royalty_world.intro royalty_world_axioms.intro sim.token_program_axioms)
    (simp_all add: demo_entities royalty_state.fitting_entity_axioms royalty_voucher.fitting_entity_axioms)

section \<open>Addresses\<close>

lemma unat_mod_1000: "unat (u mod 1000 :: pubkey) < 1000"
proof -
  have "unat (u mod 1000) = unat u mod unat (1000 :: pubkey)"
    by (rule unat_mod_distrib)
  then show ?thesis
    by simp
qed

lemma unat_code: "unat a < 2 ^ 200 \<Longrightarrow> unat (a + u mod 1000 :: pubkey) = unat a + unat (u mod 1000)"
  using unat_mod_1000 [of u] by (intro unat_add_checked) simp

lemma demo_pdas [simp]:
  "sim_pda (wallet_seeds 5) 100 = 100006005" "sim_pda (max_weight_seeds 5) 100 = 100015005"
  "sim_pda (voucher_seeds 5 u) 100 = 100007005000 + u mod 1000"
  "sim_pda (weight_seeds 5 u) 100 = 100011005000 + u mod 1000"
  by (simp_all add: sim_pda_def wallet_seeds_def max_weight_seeds_def voucher_seeds_def weight_seeds_def)

lemma demo_royalty_apart: "royalty_apart (sim t) 100 5"
proof -
  have "100011005000 + u mod 1000 \<noteq> (5 :: pubkey)" "100011005000 + u mod 1000 \<noteq> (100015005 :: pubkey)"
    "100015005 \<noteq> (100007005000 + u mod 1000 :: pubkey)"
    "100011005000 + u mod 1000 \<noteq> (100007005000 + v mod 1000 :: pubkey)" for u v :: pubkey
    unfolding word_unat_eq_iff using unat_mod_1000 [of u] unat_mod_1000 [of v] by (simp_all add: unat_code)
  then show ?thesis
    by (simp add: royalty_apart_def)
qed

section \<open>A chain\<close>

definition funds :: "pubkey \<Rightarrow> u64 \<Rightarrow> account" where
  "funds own amount = \<lparr>lamports = 1000, acc_owner = 6, data = TokenData \<lparr>t_mint = 30, t_owner = own,
     t_amount = amount, t_delegate = None, t_is_native = None, t_delegated_amount = 0, t_close_authority = None\<rparr>\<rparr>"

text \<open>A voucher of user 12 in another state, 6.\<close>

definition stray_voucher :: royalty_voucher where
  "stray_voucher = \<lparr>rv_user = 12, rv_state = 6, rv_drop_idx = 0, rv_balance = 100, rv_last_distribution = 0\<rparr>"

lemma saved_voucher [simp]:
  assumes "128 \<le> length bs"
  shows "serialize_to (VE demo_royalty) v bs = Inr (saved (VE demo_royalty) v bs)"
    "deserialize_from (VE demo_royalty) (saved (VE demo_royalty) v bs) = Inr v"
    "length (saved (VE demo_royalty) v bs) = length bs" "is_initialized (VE demo_royalty) (saved (VE demo_royalty) v bs)"
  using assms fitting_entity.serialize_saved [OF demo.voucher_codec] fitting_entity.read_saved [OF demo.voucher_codec]
    fitting_entity.length_saved [OF demo.voucher_codec] fitting_entity.saved_initialized [OF demo.voucher_codec]
  by simp_all

lemma saved_state [simp]:
  assumes "512 \<le> length bs"
  shows "serialize_to (SE demo_royalty) v bs = Inr (saved (SE demo_royalty) v bs)"
    "deserialize_from (SE demo_royalty) (saved (SE demo_royalty) v bs) = Inr v"
    "length (saved (SE demo_royalty) v bs) = length bs" "is_initialized (SE demo_royalty) (saved (SE demo_royalty) v bs)"
  using assms fitting_entity.serialize_saved [OF demo.state_codec] fitting_entity.read_saved [OF demo.state_codec]
    fitting_entity.length_saved [OF demo.state_codec] fitting_entity.saved_initialized [OF demo.state_codec]
  by simp_all

lemma fresh_bytes [simp]:
  "\<not> is_initialized (SE R) []" "\<not> is_initialized (VE R) []"
  "n \<noteq> 0 \<Longrightarrow> \<not> is_initialized E (replicate n 0)"
  by (simp_all add: is_initialized_def)

definition chain0 :: world where
  "chain0 = \<lparr>accts = (\<lambda>k. \<lparr>lamports = 0, acc_owner = 0, data = Raw []\<rparr>)
     (5 := \<lparr>lamports = 1000000640, acc_owner = 100, data = Raw (replicate 512 0)\<rparr>,
      9 := \<lparr>lamports = 1000, acc_owner = 1, data = Raw [0, 0]\<rparr>,
      22 := \<lparr>lamports = 1000000, acc_owner = 0, data = Raw []\<rparr>,
      30 := \<lparr>lamports = 1000, acc_owner = 6, data = MintData \<lparr>mt_authority = None, mt_supply = 1000\<rparr>\<rparr>,
      31 := funds 20 7, 20030 := funds 20 5, 11030 := funds 11 80, 12030 := funds 12 0,
      100007006012 := \<lparr>lamports = 300, acc_owner = 100, data = Raw (saved (VE demo_royalty) stray_voucher (replicate 128 0))\<rparr>),
     lam_locked = [], data_locked = []\<rparr>"

definition demo_args :: initialize_args where
  "demo_args = \<lparr>ia_owner = 20, ia_host = 21, ia_settings = quick_settings, ia_realm_addr = 40, ia_vault_addr = 31\<rparr>"

definition demo_state :: royalty_state where
  "demo_state = \<lparr>ry_wallet = 100006005, ry_owner = 20, ry_host = 21, ry_total_distributed = 0,
     ry_total_user_distributed = 0, ry_settings = quick_settings, ry_drop_idx = 0, ry_vouchers_count = 0,
     ry_tokens_held = 0, ry_distribution = None, ry_token_mint = 30, ry_realm_addr = 40, ry_vault_addr = 31\<rparr>"

lemmas run_simps = process_instruction_def Let_def next_account_info_def unwrap_def overflow_def
  read_data_def raw_bytes_def unpack_token_def or_panic_def
  next_expected_account_def next_signer_account_def next_expected_token_wallet_def next_atoken_wallet_def
  next_entity_def entity_from_acc_def initialize_entity_def drop_guard_def
  readonly_def writable_def rent_exempt_def data_len_def

lemma chain0_views:
  "data_of chain0 k = (if k = 5 then Raw (replicate 512 0) else if k = 9 then Raw [0, 0]
     else if k = 30 then MintData \<lparr>mt_authority = None, mt_supply = 1000\<rparr>
     else if k = 31 then data (funds 20 7) else if k = 20030 then data (funds 20 5)
     else if k = 11030 then data (funds 11 80) else if k = 12030 then data (funds 12 0)
     else if k = 100007006012 then Raw (saved (VE demo_royalty) stray_voucher (replicate 128 0)) else Raw [])"
  "owner_of chain0 k = (if k = 5 \<or> k = 100007006012 then 100 else if k = 9 then 1
     else if k = 30 \<or> k = 31 \<or> k = 20030 \<or> k = 11030 \<or> k = 12030 then 6 else 0)"
  "lamports_of chain0 k = (if k = 5 then 1000000640 else if k = 22 then 1000000 else if k = 100007006012 then 300
     else if k = 9 \<or> k = 30 \<or> k = 31 \<or> k = 20030 \<or> k = 11030 \<or> k = 12030 then 1000 else 0)"
  "lam_locked chain0 = []" "data_locked chain0 = []"
  by (simp_all add: chain0_def data_of_def owner_of_def lamports_of_def funds_def)

definition after :: "world res \<Rightarrow> world" where
  "after r = (case r of Inr w \<Rightarrow> w | Inl _ \<Rightarrow> chain0)"

text \<open>A call of the program, at time \<open>t\<close>.\<close>

definition call_at :: "i64 \<Rightarrow> account_info list \<Rightarrow> royalty_instruction \<Rightarrow> world \<Rightarrow> world res" where
  "call_at t accounts ix w = process_instruction demo_royalty fixed12 (sim t) 100 accounts (rx_encode demo_royalty ix) w"

lemmas handler_simps = call_at_def after_def initialize_ix_def deposit_ix_def withdraw_ix_def sync_weight_record_ix_def
  process_initialize_def process_deposit_def process_withdraw_def process_distribute_def process_claim_def
  process_sync_weight_record_def sim_create_def sim_init_def sim_transfer_tokens_def settings_valid_def demo_args_def
  saturating_add_def checked_add_def checked_sub_def check_no_other_programs_def enroll_def max_vote_weight_def
  update_max_voter_weight_def update_voter_weight_def create_or_save_account_def write_record_def
  assert_no_unrequilished_votes_def sync_balance_def demo_state_def funds_def quick_settings_def

text \<open>The state 5 is initialised.\<close>

definition initialize_accounts :: "account_info list" where
  "initialize_accounts = in_accounts (initialize_ix demo_royalty (sim 0) 100 5 30 22 demo_args)"

definition chain1 :: world where
  "chain1 = after (call_at 1 initialize_accounts (Initialize demo_args) chain0)"

lemma chain1: "call_at 1 initialize_accounts (Initialize demo_args) chain0 = Inr chain1"
  by (simp add: chain1_def initialize_accounts_def handler_simps run_simps chain0_views)

lemma chain1_views:
  "data_of chain1 k = (if k = 5 then Raw (saved (SE demo_royalty) demo_state (replicate 512 0))
     else if k = 100006005 then data (funds 100006005 0) else data_of chain0 k)"
  "owner_of chain1 k = (if k = 100006005 then 6 else owner_of chain0 k)"
  "lamports_of chain1 k = (if k = 22 then 999707 else if k = 100006005 then 293 else lamports_of chain0 k)"
  "lam_locked chain1 = []" "data_locked chain1 = []"
  by (simp_all add: chain1_def initialize_accounts_def handler_simps run_simps chain0_views)

text \<open>User 11 deposits 50 tokens.\<close>

definition deposit_accounts :: "account_info list" where
  "deposit_accounts = in_accounts (deposit_ix demo_royalty (sim 0) 100 5 31 30 11 20 22 50)"

definition chain2 :: world where
  "chain2 = after (call_at 2 deposit_accounts (DepositTokens 50) chain1)"

definition demo_voucher :: royalty_voucher where
  "demo_voucher = \<lparr>rv_user = 11, rv_state = 5, rv_drop_idx = 0, rv_balance = 50, rv_last_distribution = 0\<rparr>"

lemma chain2: "call_at 2 deposit_accounts (DepositTokens 50) chain1 = Inr chain2"
  by (simp add: chain2_def deposit_accounts_def handler_simps run_simps chain1_views chain0_views)

definition demo_state2 :: royalty_state where
  "demo_state2 = demo_state\<lparr>ry_vouchers_count := 1, ry_tokens_held := 50\<rparr>"

lemma chain2_views:
  "data_of chain2 k = (if k = 5
       then Raw (saved (SE demo_royalty) demo_state2 (saved (SE demo_royalty) demo_state (replicate 512 0)))
     else if k = 100007005011 then Raw (saved (VE demo_royalty) demo_voucher
       (saved (VE demo_royalty) (demo_voucher\<lparr>rv_balance := 0\<rparr>) (replicate 128 0)))
     else if k = 100015005 then Raw (2 # replicate 96 0)
     else if k = 100006005 then data (funds 100006005 50) else if k = 11030 then data (funds 11 30)
     else data_of chain0 k)"
  "owner_of chain2 k = (if k = 100006005 then 6 else if k = 100007005011 \<or> k = 100015005 then 100 else owner_of chain0 k)"
  "lamports_of chain2 k = (if k = 22 then 999226 else if k = 100006005 then 293 else if k = 100007005011 then 256
     else if k = 100015005 then 225 else lamports_of chain0 k)"
  "lam_locked chain2 = []" "data_locked chain2 = []"
  by (simp_all add: chain2_def deposit_accounts_def handler_simps run_simps chain1_views chain0_views
      demo_state2_def demo_voucher_def)

text \<open>User 12 withdraws the 50 tokens with the voucher of the state 6.\<close>

definition withdraw_accounts :: "pubkey \<Rightarrow> pubkey \<Rightarrow> account_info list" where
  "withdraw_accounts user voucher =
     (in_accounts (withdraw_ix demo_royalty (sim 0) 100 5 31 30 user 20 77 22 50))[2 := writable voucher False]"

definition chain3 :: world where
  "chain3 = after (call_at 3 (withdraw_accounts 12 100007006012) (WithdrawTokens 50) chain2)"

lemma chain3: "call_at 3 (withdraw_accounts 12 100007006012) (WithdrawTokens 50) chain2 = Inr chain3"
  by (simp add: chain3_def withdraw_accounts_def handler_simps run_simps chain2_views chain0_views stray_voucher_def demo_state2_def)

lemma chain3_views:
  "data_of chain3 5 = Raw (saved (SE demo_royalty) (demo_state2\<lparr>ry_tokens_held := 0\<rparr>)
     (saved (SE demo_royalty) demo_state2 (saved (SE demo_royalty) demo_state (replicate 512 0))))"
  "data_of chain3 100007005011 = data_of chain2 100007005011"
  "data_of chain3 100006005 = data (funds 100006005 0)" "data_of chain3 12030 = data (funds 12 50)"
  "owner_of chain3 100007005011 = 100"
  by (simp_all add: chain3_def withdraw_accounts_def handler_simps run_simps chain2_views chain0_views
      stray_voucher_def demo_state2_def)

text \<open>User 11 withdraws the tokens instead.\<close>

definition chain4 :: world where
  "chain4 = after (call_at 3 (withdraw_accounts 11 100007005011) (WithdrawTokens 50) chain2)"

lemma chain4: "call_at 3 (withdraw_accounts 11 100007005011) (WithdrawTokens 50) chain2 = Inr chain4"
  by (simp add: chain4_def withdraw_accounts_def handler_simps run_simps chain2_views chain0_views demo_voucher_def demo_state2_def)

lemmas drop_simps = borrow_lamports_def release_lamports_def start_distribution_def pay_from_def
  settings_calculate_split_def comission_def distribute_to_def fixed12_def u256_fits_def u64_of_u128_def
  distribution_minimum_lamports_def checked_mul_def assert_that_def ensure_def

text \<open>A drop with the voucher of user 11.\<close>

definition distribute_accounts :: "account_info list" where
  "distribute_accounts = [writable 5 False, writable 20 False, writable 21 False, readonly 9 False, writable 100007005011 False]"

definition chain5 :: world where
  "chain5 = after (call_at 4 distribute_accounts Distribute chain2)"

lemma chain5: "call_at 4 distribute_accounts Distribute chain2 = Inr chain5"
  by (simp add: chain5_def distribute_accounts_def drop_simps handler_simps run_simps chain2_views chain0_views demo_voucher_def demo_state2_def)

lemma chain5_views:
  "data_of chain5 5 = Raw (saved (SE demo_royalty) (demo_state2\<lparr>ry_total_distributed := 999999999,
       ry_total_user_distributed := 974999998, ry_drop_idx := 1\<rparr>)
     (saved (SE demo_royalty) demo_state2 (saved (SE demo_royalty) demo_state (replicate 512 0))))"
  "data_of chain5 100007005011 = Raw (saved (VE demo_royalty)
       (demo_voucher\<lparr>rv_drop_idx := 1, rv_last_distribution := 4\<rparr>) (saved (VE demo_royalty) demo_voucher
       (saved (VE demo_royalty) (demo_voucher\<lparr>rv_balance := 0\<rparr>) (replicate 128 0))))"
  "owner_of chain5 k = owner_of chain2 k"
  "lamports_of chain5 5 = 642" "lamports_of chain5 21 = 25000000" "lamports_of chain5 100007005011 = 975000254"
  "lamports_of chain5 11 = 0" "lam_locked chain5 = []" "data_locked chain5 = []"
  by (simp_all add: chain5_def distribute_accounts_def drop_simps handler_simps run_simps chain2_views chain0_views
      demo_voucher_def demo_state2_def)

text \<open>User 11 claims.\<close>

definition claim_accounts :: "account_info list" where
  "claim_accounts = [writable 5 False, writable 100007005011 False, writable 11 True]"

definition chain6 :: world where
  "chain6 = after (call_at 5 claim_accounts Claim chain5)"

lemma chain6: "call_at 5 claim_accounts Claim chain5 = Inr chain6"
  by (simp add: chain6_def claim_accounts_def borrow_lamports_def release_lamports_def handler_simps run_simps
      chain5_views chain2_views chain0_views demo_voucher_def demo_state2_def)

text \<open>Anyone records the weight of user 11.\<close>

definition sync_accounts :: "account_info list" where
  "sync_accounts = in_accounts (sync_weight_record_ix demo_royalty (sim 0) 100 5 31 20 30 11 22)"

definition chain7 :: world where
  "chain7 = after (call_at 6 sync_accounts SyncWeightRecord chain2)"

lemma chain7: "call_at 6 sync_accounts SyncWeightRecord chain2 = Inr chain7"
  by (simp add: chain7_def sync_accounts_def handler_simps run_simps chain2_views chain0_views demo_voucher_def demo_state2_def)

section \<open>The runs\<close>

lemma sim_time [simp]: "(sim t)\<lparr>x_now := t'\<rparr> = sim t'"
  by (simp add: sim_def)

lemma demo_step:
  assumes "call_at t accounts ix w = Inr w'" "key (hd accounts) = 5"
    and "\<forall>a \<in> set accounts. is_signer a \<longrightarrow> key a \<noteq> 100006005"
    and "own \<longrightarrow> (\<exists>n. ix = WithdrawTokens n) \<longrightarrow> voucher_at demo_royalty 100 5 w (key (accounts ! 2)) \<noteq> None"
  shows "royalty_step own demo_royalty fixed12 (sim 0) 100 5 w w'"
proof (rule royalty_step.processed)
  show "process_instruction demo_royalty fixed12 ((sim 0)\<lparr>x_now := t\<rparr>) 100 accounts (rx_encode demo_royalty ix) w = Inr w'"
    using assms(1) by (simp add: call_at_def)
qed (use assms in simp_all)

lemma not_vouchers [simp]:
  "deserialize_from (VE R) [] = Inl (Err AccountDataTooSmall)" "deserialize_from (VE R) [a, b] = Inl (Err AccountDataTooSmall)"
  "deserialize_from (VE R) (replicate 512 0) = Inl (Err UninitializedAccount)"
  by (simp_all add: deserialize_from_def ensure_def)

lemma holders0: "holder_at demo_royalty 100 chain0 k = Some (s, u) \<Longrightarrow> k = 100007006012 \<and> s = 6"
  by (auto simp: holder_at_def entity_at_def chain0_views stray_voucher_def funds_def split: if_splits)

lemma chain1_run: "royalty_run own demo_royalty fixed12 (sim 0) 100 5 chain1"
proof (rule royalty_run.initialized)
  show "process_instruction demo_royalty fixed12 ((sim 0)\<lparr>x_now := 1\<rparr>) 100 initialize_accounts
      (rx_encode demo_royalty (Initialize demo_args)) chain0 = Inr chain1"
    using chain1 by (simp add: call_at_def)
  show "\<forall>k s u. holder_at demo_royalty 100 chain0 k = Some (s, u) \<longrightarrow>
      s \<noteq> 5 \<and> (\<forall>u'. k \<noteq> x_pda (sim 0) (voucher_seeds 5 u') 100)"
  proof (intro allI impI)
    fix k s u assume "holder_at demo_royalty 100 chain0 k = Some (s, u)"
    then have "k = 100007006012" "s = 6"
      using holders0 by blast+
    moreover have "100007006012 \<noteq> (100007005000 + u' mod 1000 :: pubkey)" for u'
      unfolding word_unat_eq_iff using unat_mod_1000 [of u'] by (simp add: unat_code)
    ultimately show "s \<noteq> 5 \<and> (\<forall>u'. k \<noteq> x_pda (sim 0) (voucher_seeds 5 u') 100)"
      by simp
  qed
qed (simp_all add: initialize_accounts_def initialize_ix_def writable_def)

lemma chain2_run: "royalty_run own demo_royalty fixed12 (sim 0) 100 5 chain2"
  by (rule royalty_run.stepped [OF chain1_run demo_step [OF chain2]])
    (simp_all add: deposit_accounts_def deposit_ix_def writable_def readonly_def)

lemma chain3_step: "royalty_step False demo_royalty fixed12 (sim 0) 100 5 chain2 chain3"
  by (rule demo_step [OF chain3]) (simp_all add: withdraw_accounts_def withdraw_ix_def writable_def readonly_def)

lemma chain5_step: "royalty_step own demo_royalty fixed12 (sim 0) 100 5 chain2 chain5"
  by (rule demo_step [OF chain5]) (simp_all add: distribute_accounts_def writable_def readonly_def)

end
