(* ===== verification/RoyaltyProps.thy ===== *)
theory RoyaltyProps
  imports RoyaltyDemo
begin

text \<open>
  The properties of the royalty program: what each instruction does, how a drop is divided, what
  holds in every state the program reaches, and what it does not check.
\<close>

section \<open>The instructions\<close>

text \<open>
  C4: A successful distribution: the accounts are the state, its owner, its host, the instructions
  sysvar and distinct vouchers of the state that have not had their turn. A new drop needs half a
  SOL above the rent; the host gets 250 basis points of it, every voucher its share, the state
  keeps the rest and at least its rent. The vouchers move to the next drop, the state counts them
  and closes the drop with the last one; no other balance, owner or data changes.
\<close>

theorem royalty_distribute_effect:
  assumes "royalty_world X R" "precise_number P val" "process_distribute R P X pid accounts w = Inr w'"
  shows "\<exists>state_acc owner host ins it st st'. accounts = state_acc # owner # host # ins # it
    \<and> entity_at (SE R) w (key state_acc) = Some st \<and> owner_of w (key state_acc) = pid
    \<and> key owner = ry_owner st \<and> key host = ry_host st
    \<and> distributed_by R P X pid (key state_acc) st st' (map key it) w w'"
  using royalty_world.process_distribute_effect [OF assms] .

theorem royalty_distribute_effect_witness:
  "\<exists>st st'. distributed_by demo_royalty fixed12 (sim 4) 100 5 st st' [100007005011] chain2 chain5"
proof -
  have "process_distribute demo_royalty fixed12 (sim 4) 100 distribute_accounts chain2 = Inr chain5"
    using chain5 by (simp add: call_at_def process_instruction_def)
  from royalty_distribute_effect [OF demo.royalty_world_axioms fixed12.precise_number_axioms this]
  show ?thesis
    by (auto simp: distribute_accounts_def writable_def readonly_def)
qed

text \<open>
  C24: A claim moves exactly the lamports above the rent of the voucher to the user of the voucher,
  who must sign; it changes no other balance and no data but the two accounts it writes back.
\<close>

theorem royalty_claim_effect:
  assumes "royalty_world X R" "process_claim R X pid accounts w = Inr w'"
  shows "\<exists>state_acc voucher_acc user it st v. accounts = state_acc # voucher_acc # user # it
    \<and> entity_at (SE R) w (key state_acc) = Some st \<and> owner_of w (key state_acc) = pid
    \<and> entity_at (VE R) w (key voucher_acc) = Some v \<and> owner_of w (key voucher_acc) = pid
    \<and> rv_state v = key state_acc \<and> is_signer user \<and> key user = rv_user v
    \<and> claimed_by R X (key state_acc) (key voucher_acc) (key user) st v w w'"
  using royalty_world.process_claim_effect [OF assms] .

theorem royalty_claim_effect_witness:
  "unat (lamports_of chain6 11) = 974999998 \<and> lamports_of chain6 100007005011 = 256"
proof -
  have "process_claim demo_royalty (sim 5) 100 claim_accounts chain5 = Inr chain6"
    using chain6 by (simp add: call_at_def process_instruction_def)
  from royalty_claim_effect [OF demo.royalty_world_axioms this]
  show ?thesis
    by (auto simp: claim_accounts_def writable_def claimed_by_def chain5_views)
qed

text \<open>
  C25: A deposit moves the tokens from the associated account of the user, who signs and is neither
  owner nor host, to the wallet of the state; it credits the voucher at the address derived for
  that user, which a first deposit creates in the current drop, and the stake of the state. It
  is refused while a drop is running.
\<close>

theorem royalty_deposit_effect:
  assumes "royalty_world X R" "process_deposit R X pid accounts amount w = Inr w'"
  shows "\<exists>state_acc wallet voucher_acc user it st. accounts = state_acc # wallet # voucher_acc # user # it
    \<and> entity_at (SE R) w (key state_acc) = Some st \<and> owner_of w (key state_acc) = pid
    \<and> is_signer user \<and> key wallet = ry_wallet st
    \<and> key voucher_acc = x_pda X (voucher_seeds (key state_acc) (key user)) pid
    \<and> deposited_by R X pid (key state_acc) (key user) amount st w w'"
  using royalty_world.process_deposit_effect [OF assms] .

theorem royalty_deposit_effect_witness:
  "\<exists>st. deposited_by demo_royalty (sim 2) 100 5 11 50 st chain1 chain2"
proof -
  have "process_deposit demo_royalty (sim 2) 100 deposit_accounts 50 chain1 = Inr chain2"
    using chain2 by (simp add: call_at_def process_instruction_def)
  from royalty_deposit_effect [OF demo.royalty_world_axioms this]
  show ?thesis
    by (auto simp: deposit_accounts_def deposit_ix_def writable_def readonly_def)
qed

text \<open>
  C26: A withdrawal moves at most the balance of the voucher from the wallet of the state to the
  associated account of the user of the voucher, who must sign, and debits the voucher and the
  stake. Nothing in it relates the voucher to the state.
\<close>

theorem royalty_withdraw_effect:
  assumes "royalty_world X R" "process_withdraw R X pid accounts amount w = Inr w'"
  shows "\<exists>state_acc wallet voucher_acc user it st v. accounts = state_acc # wallet # voucher_acc # user # it
    \<and> entity_at (SE R) w (key state_acc) = Some st \<and> owner_of w (key state_acc) = pid
    \<and> entity_at (VE R) w (key voucher_acc) = Some v \<and> owner_of w (key voucher_acc) = pid
    \<and> is_signer user \<and> key user = rv_user v
    \<and> withdrawn_by R X pid (key state_acc) (key voucher_acc) amount st v w w'"
  using royalty_world.process_withdraw_effect [OF assms] .

theorem royalty_withdraw_effect_witness:
  "\<exists>st v. withdrawn_by demo_royalty (sim 3) 100 5 100007005011 50 st v chain2 chain4"
proof -
  have "process_withdraw demo_royalty (sim 3) 100 (withdraw_accounts 11 100007005011) 50 chain2 = Inr chain4"
    using chain4 by (simp add: call_at_def process_instruction_def)
  from royalty_withdraw_effect [OF demo.royalty_world_axioms this]
  show ?thesis
    by (auto simp: withdraw_accounts_def withdraw_ix_def writable_def readonly_def)
qed





section \<open>Shares\<close>

text \<open>
  C27: Reference: with settings that \<open>initialize\<close> accepts and a flat fee that fits, the split of the
  fixed-point code is the one of integers, the basis points rounded to the nearest lamport. It is
  refused exactly when the fees exceed the balance, and its three parts add up to the balance.
\<close>

theorem royalty_split_reference:
  assumes laws: "precise_number P val" and valid: "settings_valid s"
    and flat: "unat (se_host_flat_fee s) * unat n < 2 ^ 32" and fees: "fees_of s balance n = (owner, host)"
  shows "(owner + host \<le> unat balance \<longrightarrow>
      (\<exists>sp. settings_calculate_split P s balance n = Inr (Some sp)
        \<and> unat (sp_owner_comission sp) = owner \<and> unat (sp_host_comission sp) = host
        \<and> unat (sp_distribute_amount sp) + owner + host = unat balance))
    \<and> (unat balance < owner + host \<longrightarrow> settings_calculate_split P s balance n = Inr None)"
proof -
  have "unat (saturating_add (se_owner_fee s) (se_host_fee s)) < 10000"
    using valid by (simp add: settings_valid_def)
  then have "unat (se_owner_fee s) \<le> 10000" "unat (se_host_fee s) \<le> 10000"
    by (auto simp: saturating_add_def unat_add_checked unsigned_minus_1_eq_mask mask_eq_exp_minus_1 split: if_splits)
  note eq = precise_number.settings_split_eq [OF laws this flat, of balance, unfolded fees prod.case]
  have words: "unat (of_nat k :: u64) = k" if "k \<le> unat balance" for k
    using that unat_u64_less [of balance] by (simp add: unat_of_nat)
  show ?thesis
  proof (intro conjI impI)
    assume le: "owner + host \<le> unat balance"
    let ?sp = "\<lparr>sp_distribute_amount = of_nat (unat balance - owner - host), sp_owner_comission = of_nat owner,
      sp_host_comission = of_nat host\<rparr>"
    have "settings_calculate_split P s balance n = Inr (Some ?sp)"
      using eq le by (simp only: if_True)
    moreover have "unat (sp_owner_comission ?sp) = owner" "unat (sp_host_comission ?sp) = host"
        "unat (sp_distribute_amount ?sp) = unat balance - owner - host"
      using le by (simp_all only: fee_split.select_convs words)
    ultimately show "\<exists>sp. settings_calculate_split P s balance n = Inr (Some sp)
        \<and> unat (sp_owner_comission sp) = owner \<and> unat (sp_host_comission sp) = host
        \<and> unat (sp_distribute_amount sp) + owner + host = unat balance"
      using le by (intro exI [of _ ?sp]) (simp only: le_add_diff_inverse2 diff_diff_left add.assoc simp_thms)
  qed (simp add: eq)
qed

theorem royalty_split_reference_witness:
  "\<exists>sp. settings_calculate_split fixed12 quick_settings 1000000000 3 = Inr (Some sp)
     \<and> unat (sp_host_comission sp) = 25000000 \<and> unat (sp_distribute_amount sp) = 975000000"
proof -
  have valid: "settings_valid quick_settings"
    by (simp add: settings_valid_def quick_settings_def saturating_add_def)
  have fees: "fees_of quick_settings 1000000000 3 = (0, 25000000)"
    by (simp add: fees_of_def quick_settings_def bps_of_eq)
  from royalty_split_reference [OF fixed12.precise_number_axioms valid _ fees]
  show ?thesis
    by (auto simp: quick_settings_def)
qed

text \<open>
  C28: A voucher of the current drop always gets its share, never more than the whole drop: the
  exact \<open>balance * amount / tokens\<close> up to half a lamport and the error of a quotient with twelve
  decimals.
\<close>

theorem royalty_share_bounds:
  assumes laws: "precise_number P val" and drop: "rv_drop_idx v = idx"
    and stake: "0 < unat tokens" "unat (rv_balance v) \<le> unat tokens"
    and small: "unat (di_seen_vouchers d) + 1 < 2 ^ 32" "unat idx + 1 < 2 ^ 32"
  shows "\<exists>n. distribute_to P now d v idx tokens = Inr (n, d\<lparr>di_seen_vouchers := di_seen_vouchers d + 1\<rparr>,
      v\<lparr>rv_drop_idx := idx + 1, rv_last_distribution := now\<rparr>)
    \<and> unat n \<le> unat (di_distribute_amount d)
    \<and> 2 * pn_one * (unat n * unat tokens) \<le> 2 * pn_one * (unat (rv_balance v) * unat (di_distribute_amount d))
        + unat tokens * (unat (di_distribute_amount d) + pn_one)
    \<and> 2 * pn_one * (unat (rv_balance v) * unat (di_distribute_amount d)) \<le> 2 * pn_one * (unat n * unat tokens)
        + unat tokens * (2 * unat (di_distribute_amount d) + pn_one)"
proof -
  let ?D = "unat (di_distribute_amount d)"
  obtain z where r: "distribute_to P now d v idx tokens = Inr (of_nat (div_round (z * ?D) pn_one),
      d\<lparr>di_seen_vouchers := di_seen_vouchers d + 1\<rparr>, v\<lparr>rv_drop_idx := idx + 1, rv_last_distribution := now\<rparr>)"
    and z: "(unat (rv_balance v) * pn_one) div unat tokens \<le> z"
      "z \<le> div_round (unat (rv_balance v) * pn_one) (unat tokens)"
    and le: "div_round (z * ?D) pn_one \<le> ?D"
    using precise_number.distribute_to_eq [OF laws drop stake small, of now] by blast
  let ?n = "div_round (z * ?D) pn_one"
  have n: "unat (of_nat ?n :: u64) = ?n"
    using le unat_u64_less [of "di_distribute_amount d"] by (simp add: unat_of_nat)
  show ?thesis
    using r le share_close_chain [OF stake(1) z, of ?D, unfolded share_close_def]
    by (intro exI [of _ "of_nat ?n"]) (simp add: n)
qed

definition demo_drop :: distribution where
  "demo_drop = \<lparr>di_distribute_amount = 1000, di_seen_vouchers = 0\<rparr>"

theorem royalty_share_bounds_witness:
  "\<exists>n d v. distribute_to fixed12 4 demo_drop demo_voucher 0 150 = Inr (n, d, v) \<and> unat n \<le> 1000"
  using royalty_share_bounds [OF fixed12.precise_number_axioms, of demo_voucher 0 150 demo_drop 4]
  by (auto simp: demo_voucher_def demo_drop_def)

text \<open>The share of \<open>2 m\<close> equal stakes when the drop leaves \<open>m\<close>: rounded up, all of them.\<close>

lemma share_of_half:
  assumes laws: "precise_number P val" and m: "0 < m" "2 * m dvd pn_one" and b: "0 < unat b"
    and tokens: "unat tokens = 2 * m * unat b" and D: "unat D = 2 * m * q + m"
  shows "\<exists>n. share_of P D tokens b = Some n \<and> unat n = q + 1"
proof -
  define v d where "v = \<lparr>rv_user = 0, rv_state = 0, rv_drop_idx = 0, rv_balance = b, rv_last_distribution = 0\<rparr>"
    and "d = \<lparr>di_distribute_amount = D, di_seen_vouchers = 0\<rparr>"
  have stake: "0 < unat tokens" "unat (rv_balance v) \<le> unat tokens"
    using m b by (simp_all add: tokens v_def)
  obtain e where e: "pn_one = 2 * m * e"
    using m(2) by blast
  obtain z where r: "distribute_to P 0 d v 0 tokens = Inr (of_nat (div_round (z * unat D) pn_one),
      d\<lparr>di_seen_vouchers := di_seen_vouchers d + 1\<rparr>, v\<lparr>rv_drop_idx := 0 + 1, rv_last_distribution := 0\<rparr>)"
    and z: "(unat b * pn_one) div unat tokens \<le> z" "z \<le> div_round (unat b * pn_one) (unat tokens)"
    and le: "div_round (z * unat D) pn_one \<le> unat D"
    using precise_number.distribute_to_eq [OF laws _ stake, of 0 d 0] by (auto simp: v_def d_def)
  have "0 < e"
    using e by (cases e) simp_all
  have "unat b * pn_one = unat tokens * e"
    unfolding tokens e by simp
  from div_round_sandwich [OF stake(1) this z] have "z = e" .
  moreover have "2 * (e * (2 * m * q + m)) = 2 * (2 * m * e) * q + 2 * m * e"
    by (simp add: algebra_simps)
  ultimately have "div_round (z * unat D) pn_one = q + 1"
    unfolding D using m(1) \<open>0 < e\<close> by (intro div_round_unique) (simp_all add: e)
  moreover from this have "unat (of_nat (q + 1) :: u64) = q + 1"
    using le unat_u64_less [of D] by (simp only: unat_of_nat) simp
  ultimately show ?thesis
    using distribute_to_Inr [OF r] by (auto simp: v_def d_def)
qed

text \<open>
  C29: The shares are rounded to the nearest lamport, but the state keeps only two lamports in
  reserve. When \<open>2 m\<close> equal stakes (at least six, dividing \<open>10 ^ 12\<close>) share an amount that
  leaves the remainder \<open>m\<close>, all shares are rounded up: the call that pays them all never succeeds.
\<close>

theorem royalty_rounding_blocks:
  assumes world: "royalty_world X R" and laws: "precise_number P val"
    and accounts: "accounts = state_acc # owner # host # ins # it" "length it = 2 * m"
    and st: "entity_at (SE R) w (key state_acc) = Some st" "ry_distribution st = None"
    and vouchers: "\<forall>a \<in> set it. \<exists>v. entity_at (VE R) w (key a) = Some v \<and> rv_balance v = b"
    and m: "3 \<le> m" "2 * m dvd pn_one" and stakes: "0 < unat b" "unat (ry_tokens_held st) = 2 * m * unat b"
    and lamports: "unat (lamports_of w (key state_acc)) = unat (x_rent X 512) + 2 + amount"
      "amount = bps_of amount 250 + 2 * m * q + m"
  shows "process_distribute R P X pid accounts w \<noteq> Inr w'"
proof
  assume "process_distribute R P X pid accounts w = Inr w'"
  then obtain st' where "distributed_by R P X pid (key state_acc) st st' (map key it) w w'"
    using royalty_world.process_distribute_effect [OF world laws] accounts(1) st(1) by fastforce
  note effect = this [unfolded distributed_by_def Let_def]
  let ?sk = "key state_acc"
  obtain st1 d fee where begun: "drop_begun X (unat (lamports_of w ?sk)) st st1 fee" and d: "ry_distribution st1 = Some d"
    and left: "unat (lamports_of w' ?sk) + fee
      + sum_list (map (payout R P (di_distribute_amount d) (ry_tokens_held st) w) (map key it)) = unat (lamports_of w ?sk)"
    using effect by blast
  have rent: "unat (x_rent X 512) \<le> unat (lamports_of w' ?sk)"
    using effect by blast
  have fee: "fee = bps_of amount 250" and D: "unat (di_distribute_amount d) = 2 * m * q + m"
    using begun d st(2) lamports by (auto simp: drop_begun_def)
  obtain n where n: "share_of P (di_distribute_amount d) (ry_tokens_held st) b = Some n" "unat n = q + 1"
    using share_of_half [OF laws _ m(2) stakes(1) stakes(2) D] m(1) by auto
  have "payout R P (di_distribute_amount d) (ry_tokens_held st) w (key a) = q + 1" if "a \<in> set it" for a
    using that vouchers n by (auto simp: payout_def)
  then have "map (payout R P (di_distribute_amount d) (ry_tokens_held st) w) (map key it) = map (\<lambda>_. q + 1) it"
    by simp
  then have "sum_list (map (payout R P (di_distribute_amount d) (ry_tokens_held st) w) (map key it)) = 2 * m * q + 2 * m"
    by (simp only: sum_list_triv accounts(2)) simp
  then show False
    using left rent lamports m(1) unfolding fee by linarith
qed

text \<open>Eight vouchers with a stake of one token each, and 500000802 lamports on the state.\<close>

definition crowd_voucher :: royalty_voucher where
  "crowd_voucher = \<lparr>rv_user = 11, rv_state = 5, rv_drop_idx = 0, rv_balance = 1, rv_last_distribution = 0\<rparr>"

definition crowd :: world where
  "crowd = \<lparr>accts = (\<lambda>k. \<lparr>lamports = 256, acc_owner = 100,
       data = Raw (saved (VE demo_royalty) crowd_voucher (replicate 128 0))\<rparr>)
     (5 := \<lparr>lamports = 500000802, acc_owner = 100, data = Raw (saved (SE demo_royalty)
       (demo_state\<lparr>ry_vouchers_count := 8, ry_tokens_held := 8\<rparr>) (replicate 512 0))\<rparr>),
     lam_locked = [], data_locked = []\<rparr>"

theorem royalty_rounding_blocks_witness:
  "\<forall>w'. process_distribute demo_royalty fixed12 (sim 4) 100
     ([writable 5 False, writable 20 False, writable 21 False, readonly 9 False]
      @ map (\<lambda>k. writable k False) [201, 202, 203, 204, 205, 206, 207, 208]) crowd \<noteq> Inr w'"
proof (rule allI, rule royalty_rounding_blocks [OF demo.royalty_world_axioms fixed12.precise_number_axioms])
  show "entity_at (SE demo_royalty) crowd (key (writable 5 False)) = Some (demo_state\<lparr>ry_vouchers_count := 8, ry_tokens_held := 8\<rparr>)"
    by (simp add: crowd_def entity_at_def data_of_def writable_def)
  show "\<forall>a \<in> set (map (\<lambda>k. writable k False) [201, 202, 203, 204, 205, 206, 207, 208]).
      \<exists>v. entity_at (VE demo_royalty) crowd (key a) = Some v \<and> rv_balance v = 1"
    by (simp add: crowd_def entity_at_def data_of_def writable_def crowd_voucher_def)
  show "unat (lamports_of crowd (key (writable 5 False))) = unat (x_rent (sim 4) 512) + 2 + 500000160"
    by (simp add: crowd_def lamports_of_def writable_def)
  show "(500000160 :: nat) = bps_of 500000160 250 + 2 * 4 * 60937519 + 4"
    by (simp add: bps_of_eq)
qed (simp_all add: demo_state_def)

section \<open>What the accounts hold\<close>

text \<open>
  C31: Round trip: whatever codec Borsh derives for the state, a state stored in an account of the
  right size is read back, is refused as a voucher, and can not be initialised again.
\<close>

theorem royalty_state_roundtrip:
  assumes "lawful c" "\<forall>x. length (enc c x) < 512" "512 \<le> length bytes"
  shows "\<exists>bytes'. serialize_to (state_entity c) st bytes = Inr bytes' \<and> length bytes' = length bytes
    \<and> deserialize_from (state_entity c) bytes' = Inr st
    \<and> deserialize_from (voucher_entity c') bytes' = Inl (Err InvalidAccountData)
    \<and> (\<forall>w acc st'. data_of w (key acc) = Raw bytes' \<longrightarrow> key acc \<notin> set (data_locked w) \<longrightarrow>
         initialize_entity (state_entity c) st' acc w = Inl (Err AccountAlreadyInitialized))"
proof -
  have fits: "fitting_entity (state_entity c)"
    unfolding state_entity_def using assms(1,2) by (intro codec_entity_fits) simp_all
  note codec = fitting_entity.axioms(1) [OF fits]
  have "e_size (state_entity c) \<le> length bytes"
    using assms(3) by (simp add: state_entity_def codec_entity_def)
  note stored = fitting_entity.serialize_saved [OF fits this]
  note reads = entity_codec.serialize_to_Inr [OF codec stored [of st]]
  have "deserialize_from (voucher_entity c') (saved (state_entity c) st bytes) = Inl (Err InvalidAccountData)"
    using reads(2,4) assms(3)
    by (simp add: deserialize_from_def voucher_entity_def state_entity_def codec_entity_def ensure_def)
  then show ?thesis
    using stored [of st] reads(1,2) entity_codec.reinitialize_refused [OF codec stored [of st]] by blast
qed

theorem royalty_state_roundtrip_witness:
  "\<exists>bytes'. serialize_to (state_entity royalty_state_codec) demo_state (replicate 512 0) = Inr bytes'
     \<and> deserialize_from (state_entity royalty_state_codec) bytes' = Inr demo_state"
  using royalty_state_roundtrip [OF royalty_codecs_lawful(3), where bytes = "replicate 512 0" and st = demo_state
      and c' = royalty_voucher_codec] royalty_codecs_fit(1)
  by auto

section \<open>Reachable states\<close>





text \<open>
  C7: As long as every withdrawal presents a voucher of the state it withdraws from, the stakes are
  safe in every state that has been reached: the balances of the vouchers add up to what the state
  believes to hold, and the wallet holds at least that.
\<close>

theorem royalty_stakes_covered:
  assumes "royalty_world X R" "precise_number P val" "royalty_apart X pid sk"
    and "royalty_run True R P X pid sk w"
  shows "\<exists>st. entity_at (SE R) w sk = Some st
    \<and> (\<Sum>k | voucher_at R pid sk w k \<noteq> None. unat (rv_balance (the (voucher_at R pid sk w k)))) = unat (ry_tokens_held st)
    \<and> unat (ry_tokens_held st) \<le> token_balance w (ry_wallet st)"
proof -
  obtain st where st: "entity_at (SE R) w sk = Some st" "ry_wallet st = x_pda X (wallet_seeds sk) pid"
    and ok: "stakes_covered (stake_of R X pid sk w)"
    using royalty_run_ok [OF assms] by (auto simp: royalty_inv_def)
  let ?m = "k_stakes (stake_of R X pid sk w)"
  have dom: "dom ?m = {k. voucher_at R pid sk w k \<noteq> None}"
    by (auto simp: stake_of_eq [OF st(1)])
  have "owed ?m = (\<Sum>k | voucher_at R pid sk w k \<noteq> None. unat (rv_balance (the (voucher_at R pid sk w k))))"
    unfolding owed_def dom by (rule sum.cong [OF refl]) (auto simp: stake_of_eq [OF st(1)])
  then show ?thesis
    using ok st by (auto simp: stakes_covered_def stake_of_eq [OF st(1)])
qed

theorem royalty_stakes_covered_witness:
  "\<exists>st. entity_at (SE demo_royalty) chain2 5 = Some st \<and> unat (ry_tokens_held st) \<le> token_balance chain2 (ry_wallet st)"
  using royalty_stakes_covered [OF demo.royalty_world_axioms fixed12.precise_number_axioms demo_royalty_apart
      chain2_run] by blast


end
