(* ===== verification/Vest.thy ===== *)
theory Vest
  imports Precise Errors
begin

text \<open>
  The vesting schedule of the human program (\<open>human/src/vest.rs\<close>, constants of
  \<open>human/src/consts.rs\<close> without the feature \<open>dev\<close>): the vault is paid out in 36 parts of a month
  each, and a call pays for all parts that have elapsed since the last one.
\<close>

section \<open>The code\<close>

definition vesting_total_parts :: u8 where
  "vesting_total_parts = 36"

definition vesting_part_length :: i64 where
  "vesting_part_length = 2629800"

record vest_state =
  ve_deployed_at :: i64
  ve_vested_periods :: u8

datatype vesting_result = Vest u64 | PeriodVested | Completed

definition human_overflow :: program_error where
  "human_overflow = from_human_error HumanOverflow"

text \<open>\<open>elapsed as u128\<close> extends the sign; \<open>min\<close> and \<open>as u8\<close> are on unsigned words.\<close>

definition next_period :: "'n precise \<Rightarrow> vest_state \<Rightarrow> u64 \<Rightarrow> i64 \<Rightarrow> (vesting_result \<times> vest_state) res" where
  "next_period P v vault_supply now =
     (if ve_vested_periods v = vesting_total_parts then Inr (Completed, v) else
     and_then (ok_or human_overflow (checked_sub_i64 now (ve_deployed_at v))) (\<lambda>elapsed.
     and_then (unwrap (pn_new P (scast elapsed))) (\<lambda>elapsed.
     and_then (unwrap (pn_new P (scast vesting_part_length))) (\<lambda>part_len.
     and_then (ok_or human_overflow (pn_div P elapsed part_len)) (\<lambda>q.
     and_then (ok_or human_overflow (pn_floor P q)) (\<lambda>elapsed_parts.
     and_then (ok_or human_overflow (pn_imprecise P elapsed_parts)) (\<lambda>elapsed_parts.
     let elapsed_parts = ucast (min elapsed_parts (ucast vesting_total_parts)) :: u8;
         missed_parts = saturating_sub elapsed_parts (ve_vested_periods v) in
     if missed_parts = 0 then Inr (PeriodVested, v) else
     and_then (unwrap (checked_sub vesting_total_parts (ve_vested_periods v))) (\<lambda>remaining_periods.
     and_then (ok_or human_overflow (checked_div vault_supply (ucast remaining_periods))) (\<lambda>part.
     and_then (ok_or human_overflow (checked_mul part (ucast missed_parts))) (\<lambda>amount.
     and_then (ok_or human_overflow (checked_add (ve_vested_periods v) missed_parts)) (\<lambda>vested.
     Inr (Vest amount, v\<lparr>ve_vested_periods := vested\<rparr>))))))))))))"

section \<open>The parts that have elapsed\<close>

definition parts_at :: "vest_state \<Rightarrow> i64 \<Rightarrow> nat" where
  "parts_at v now = min 36 (unat (scast (now - ve_deployed_at v) :: u128) div 2629800)"

lemma parts_at_le: "parts_at v now \<le> 36"
  by (simp add: parts_at_def)

text \<open>Reading the elapsed seconds: as a number when they are not negative, else beyond all parts.\<close>

lemma unat_scast_i64:
  "0 \<le> sint (a :: i64) \<Longrightarrow> unat (scast a :: u128) = nat (sint a)"
  "sint a < 0 \<Longrightarrow> unat (scast a :: u128) = nat (2 ^ 128 + sint a)"
proof -
  let ?z = "sint a" and ?m = "2 ^ 128 :: int"
  have eq: "(scast a :: u128) = word_of_int ?z"
    by (rule scast_eq)
  have unat: "unat (scast a :: u128) = nat (?z mod ?m)"
    unfolding eq unat_eq_nat_uint uint_word_of_int by (simp only: len_num1 len_bit0 len_num0 len_bit1) simp
  have z: "- (2 ^ 63) \<le> ?z" "?z < 2 ^ 63"
    using sint_i64_bounds [of a] by blast+
  show "unat (scast a :: u128) = nat ?z" if "0 \<le> ?z"
    unfolding unat using that z(2) by (subst mod_pos_pos_trivial) simp_all
  show "unat (scast a :: u128) = nat (?m + ?z)" if "?z < 0"
  proof -
    have "?z mod ?m = (?m + ?z) mod ?m"
      by (simp only: mod_add_self1)
    also have "\<dots> = ?m + ?z"
      using that z(1) by (intro mod_pos_pos_trivial) simp_all
    finally show ?thesis
      unfolding unat by (simp only:)
  qed
qed

lemma parts_at_eq:
  assumes "fits_i64 (sint now - sint (ve_deployed_at v))"
  shows "sint (ve_deployed_at v) \<le> sint now \<Longrightarrow>
      parts_at v now = min 36 (nat (sint now - sint (ve_deployed_at v)) div 2629800)"
    "sint now < sint (ve_deployed_at v) \<Longrightarrow> parts_at v now = 36"
proof -
  have d: "sint (now - ve_deployed_at v) = sint now - sint (ve_deployed_at v)"
    using assms by (rule sint_checked(2))
  show "sint (ve_deployed_at v) \<le> sint now \<Longrightarrow>
      parts_at v now = min 36 (nat (sint now - sint (ve_deployed_at v)) div 2629800)"
    using d by (simp add: parts_at_def unat_scast_i64)
  assume "sint now < sint (ve_deployed_at v)"
  then have "unat (scast (now - ve_deployed_at v) :: u128) = nat (2 ^ 128 + (sint now - sint (ve_deployed_at v)))"
    using unat_scast_i64(2) [of "now - ve_deployed_at v"] unfolding d by simp
  moreover have "nat (2 ^ 127) \<le> nat (2 ^ 128 + (sint now - sint (ve_deployed_at v)))"
    using assms by (intro nat_mono) (simp add: fits_i64_def)
  ultimately have "2 ^ 127 \<le> unat (scast (now - ve_deployed_at v) :: u128)"
    by simp
  then have "(2 ^ 127) div 2629800 \<le> unat (scast (now - ve_deployed_at v) :: u128) div 2629800"
    by (rule div_le_mono)
  then show "parts_at v now = 36"
    by (simp add: parts_at_def)
qed

context precise_number
begin

text \<open>Dividing, rounding down and reading an integer is the division of integers.\<close>

lemma floor_chain:
  assumes x: "val x = a * pn_one" and y: "val y = l * pn_one" and l: "0 < l" "l < pn_one" and a: "a < 2 ^ 128"
  shows "\<exists>q f r. pn_div P x y = Some q \<and> pn_floor P q = Some f \<and> pn_imprecise P f = Some r \<and> unat r = a div l"
proof -
  have "pn_one \<le> val y" "val x * pn_one + pn_one < 2 ^ 256"
    using l a by (simp_all add: x y)
  then obtain q where q: "pn_div P x y = Some q" "(val x * pn_one) div val y \<le> val q"
      "val q \<le> div_round (val x * pn_one) (val y)"
    using div_val by blast
  have low: "(a * pn_one) div l \<le> val q"
    using q(2) by (simp add: x y mult.commute)
  have pos: "0 < val y"
    using l by (simp add: y)
  have "2 * val y * val q \<le> 2 * (val x * pn_one) + val y"
    using mult_left_mono [OF q(3), of "2 * val y"] div_round_bounds(2) [OF pos, of "val x * pn_one"] by linarith
  then have up: "2 * l * val q \<le> 2 * (a * pn_one) + l"
    by (simp add: x y)
  let ?k = "a div l"
  have split: "a = ?k * l + a mod l" "a mod l < l"
    using l by simp_all
  have "?k * pn_one \<le> (a * pn_one) div l"
    using l by (simp add: less_eq_div_iff_mult_less_eq)
  then have ge: "?k * pn_one \<le> val q"
    using low by linarith
  have "a + 1 \<le> ?k * l + l"
    using split by linarith
  then have "(a + 1) * pn_one \<le> (?k * l + l) * pn_one"
    by (rule mult_le_mono1)
  then have "a * pn_one + pn_one \<le> l * ((?k + 1) * pn_one)"
    by (simp only: add_mult_distrib add_mult_distrib2 mult_1 mult_1_right ac_simps)
  then have "2 * (a * pn_one) + l < 2 * (l * ((?k + 1) * pn_one))"
    using l(2) by linarith
  then have "2 * l * val q < 2 * l * ((?k + 1) * pn_one)"
    using up by (simp only: mult.assoc)
  then have less: "val q < (?k + 1) * pn_one"
    using l by simp
  have floor: "val q div pn_one = ?k"
    using ge less by (intro div_nat_eqI) (simp_all add: mult.commute)
  obtain f where f: "pn_floor P q = Some f" "val f = ?k * pn_one"
    using floor_val [of q] floor by auto
  have "?k < 2 ^ 128"
    using a div_le_dividend [of a l] by linarith
  then obtain r where "pn_imprecise P f = Some r" "unat r = ?k"
    using imprecise_int [OF f(2)] by blast
  then show ?thesis
    using q(1) f(1) by blast
qed

text \<open>The whole function over the natural numbers.\<close>

lemma next_period_eq:
  assumes vested: "unat (ve_vested_periods v) \<le> 36" and fits: "fits_i64 (sint now - sint (ve_deployed_at v))"
  shows "next_period P v vault now = Inr
    (let e = parts_at v now; p = unat (ve_vested_periods v) in
     if p = 36 then (Completed, v)
     else if e \<le> p then (PeriodVested, v)
     else (Vest (of_nat (unat vault div (36 - p) * (e - p))), v\<lparr>ve_vested_periods := of_nat e\<rparr>))"
proof (cases "ve_vested_periods v = 36")
  case True
  then show ?thesis
    by (simp add: next_period_def vesting_total_parts_def)
next
  case False
  define e p where "e = parts_at v now" and "p = unat (ve_vested_periods v)"
  have p: "p < 36"
    using vested False unat_eqI [of "ve_vested_periods v" 36] by (cases "p = 36") (simp_all add: p_def)
  have e: "e \<le> 36"
    unfolding e_def by (rule parts_at_le)
  let ?el = "scast (now - ve_deployed_at v) :: u128"
  obtain x where x: "pn_new P ?el = Some x" "val x = unat ?el * pn_one"
    by (rule new_obtain)
  obtain y where y: "pn_new P 2629800 = Some y" "val y = 2629800 * pn_one"
    by (rule new_obtain [of 2629800]) simp
  have "unat ?el < 2 ^ 128"
    using unsigned_less [where 'a = nat, of ?el] by simp
  then obtain q f r where chain: "pn_div P x y = Some q" "pn_floor P q = Some f" "pn_imprecise P f = Some r"
      "unat r = unat ?el div 2629800"
    using floor_chain [OF x(2) y(2)] by auto
  let ?e = "ucast (min r 36) :: u8"
  have "unat (min r 36) = e"
    using chain(4) by (simp add: e_def parts_at_def min_def word_le_nat_alt)
  then have e8: "unat ?e = e"
    using e by (subst unat_ucast_down) simp_all
  have missed: "unat (saturating_sub ?e (ve_vested_periods v)) = e - p"
    by (simp add: unat_saturating_sub e8 p_def)
  have run: "next_period P v vault now = (if e \<le> p then Inr (PeriodVested, v) else
     and_then (unwrap (checked_sub vesting_total_parts (ve_vested_periods v))) (\<lambda>remaining_periods.
     and_then (ok_or human_overflow (checked_div vault (ucast remaining_periods))) (\<lambda>part.
     and_then (ok_or human_overflow (checked_mul part (ucast (saturating_sub ?e (ve_vested_periods v))))) (\<lambda>amount.
     and_then (ok_or human_overflow (checked_add (ve_vested_periods v) (saturating_sub ?e (ve_vested_periods v)))) (\<lambda>vested.
     Inr (Vest amount, v\<lparr>ve_vested_periods := vested\<rparr>))))))"
    using False missed unat_eqI [of "saturating_sub ?e (ve_vested_periods v)" 0] fits
    by (auto simp: next_period_def Let_def vesting_total_parts_def vesting_part_length_def checked_sub_i64_def x(1) y(1) chain(1-3))
  show ?thesis
  proof (cases "e \<le> p")
    case True
    then show ?thesis
      using p by (simp add: run Let_def flip: e_def p_def)
  next
    case late: False
    let ?m = "saturating_sub ?e (ve_vested_periods v)" and ?r = "36 - ve_vested_periods v"
    have r: "unat ?r = 36 - p"
      using p by (subst unat_sub_checked) (simp_all add: p_def)
    have words: "unat (ucast ?r :: u64) = 36 - p" "unat (ucast ?m :: u64) = e - p"
      by (simp_all add: unat_ucast_up r missed)
    let ?part = "vault div ucast ?r"
    have part: "unat ?part = unat vault div (36 - p)"
      by (simp add: unat_div words)
    have "unat ?part * (e - p) \<le> unat ?part * (36 - p)"
      using e by (intro mult_le_mono) simp_all
    also have "\<dots> \<le> unat vault"
      unfolding part by (simp add: div_times_less_eq_dividend)
    finally have fits: "unat ?part * (e - p) < 2 ^ 64"
      using unat_u64_less [of vault] by linarith
    have "checked_mul ?part (ucast ?m) = Some (of_nat (unat vault div (36 - p) * (e - p)))"
    proof -
      have "unat (?part * ucast ?m) = unat vault div (36 - p) * (e - p)"
        using fits by (subst unat_mul_checked) (simp_all add: words part)
      then have "?part * ucast ?m = of_nat (unat vault div (36 - p) * (e - p))"
        by (metis word_of_unat)
      then show ?thesis
        using fits by (simp add: checked_mul_def words)
    qed
    moreover have "checked_add (ve_vested_periods v) ?m = Some (of_nat e)"
    proof -
      have "unat (ve_vested_periods v + ?m) = e"
        using e late by (subst unat_add_checked) (simp_all add: missed flip: p_def)
      then have "ve_vested_periods v + ?m = of_nat e"
        by (metis word_of_unat)
      then show ?thesis
        using e late by (simp add: checked_add_def missed flip: p_def)
    qed
    moreover have "checked_div vault (ucast ?r) = Some ?part"
      using p words(1) by (auto simp: checked_div_def)
    moreover have "checked_sub vesting_total_parts (ve_vested_periods v) = Some ?r"
      using p by (simp add: checked_sub_def vesting_total_parts_def flip: p_def)
    ultimately show ?thesis
      using late p by (simp add: run Let_def flip: e_def p_def)
  qed
qed

end

section \<open>A schedule of calls\<close>

text \<open>Calls at several times, each paying out of a vault that nobody adds to.\<close>

primrec paid :: "vesting_result \<Rightarrow> u64" where
  "paid (Vest amount) = amount"
| "paid PeriodVested = 0"
| "paid Completed = 0"

fun vest_run :: "'n precise \<Rightarrow> vest_state \<Rightarrow> u64 \<Rightarrow> i64 list \<Rightarrow> (vest_state \<times> u64) res" where
  "vest_run P v vault [] = Inr (v, vault)"
| "vest_run P v vault (now # ts) = and_then (next_period P v vault now) (\<lambda>(r, v').
     and_then (unwrap (checked_sub vault (paid r))) (\<lambda>vault'. vest_run P v' vault' ts))"

text \<open>With \<open>n\<close> parts to go before a call and \<open>m\<close> after it, the rest keeps its share of the
  supply \<open>S\<close>, up to 35 units of dust.\<close>

lemma vest_step_bounds:
  assumes "S * n \<le> 36 * left" "36 * left \<le> S * n + 36 * 35" "m \<le> n" "0 < n" "n \<le> (36 :: nat)"
  shows "S * m \<le> 36 * (left - left div n * (n - m))"
    "36 * (left - left div n * (n - m)) \<le> S * m + 36 * 35"
proof -
  define q r where "q = left div n" and "r = left mod n"
  have split: "left = q * n + r" "r < n"
    using assms(4) by (simp_all add: q_def r_def)
  obtain d where d: "n = m + d"
    using assms(3) by (auto simp: le_iff_add)
  have left: "left - q * (n - m) = q * m + r"
    unfolding split(1) d by (simp add: algebra_simps)
  have "m * (S * n) \<le> m * (36 * left)"
    using assms(1) by (rule mult_le_mono2)
  also have "m * (36 * left) = 36 * (q * m * n + m * r)"
    unfolding split(1) by (simp add: algebra_simps)
  also have "\<dots> \<le> 36 * (q * m * n + n * r)"
    using assms(3) by (simp add: mult_le_mono1)
  finally have "(S * m) * n \<le> (36 * (q * m + r)) * n"
    by (simp add: algebra_simps)
  then show "S * m \<le> 36 * (left - left div n * (n - m))"
    unfolding q_def [symmetric] left using assms(4) by (simp only: mult_le_cancel2)
  have r: "r \<le> 35"
    using split(2) assms(5) by linarith
  have "m * (36 * left) \<le> m * (S * n + 36 * 35)"
    using assms(2) by (rule mult_le_mono2)
  moreover have "d * r \<le> d * 35"
    using r by (rule mult_le_mono2)
  moreover have "(36 * (q * m + r)) * n = m * (36 * left) + 36 * (d * r)"
    unfolding split(1) d by (simp add: algebra_simps)
  moreover have "(S * m + 36 * 35) * n = m * (S * n + 36 * 35) + 36 * (d * 35)"
    unfolding d by (simp only: add_mult_distrib add_mult_distrib2 ac_simps)
  ultimately have "(36 * (q * m + r)) * n \<le> (S * m + 36 * 35) * n"
    by linarith
  then show "36 * (left - left div n * (n - m)) \<le> S * m + 36 * 35"
    unfolding q_def [symmetric] left using assms(4) by (simp only: mult_le_cancel2)
qed

text \<open>The parts due at a time, in seconds since the deployment.\<close>

definition parts_due :: "vest_state \<Rightarrow> i64 \<Rightarrow> nat" where
  "parts_due v now = min 36 (nat (sint now - sint (ve_deployed_at v)) div 2629800)"

lemma parts_due_at:
  assumes "0 \<le> sint (ve_deployed_at v)" "sint (ve_deployed_at v) \<le> sint now"
  shows "fits_i64 (sint now - sint (ve_deployed_at v))" "parts_at v now = parts_due v now"
proof -
  show "fits_i64 (sint now - sint (ve_deployed_at v))"
    using assms sint_i64_bounds(2) [of now] by (simp add: fits_i64_def)
  then show "parts_at v now = parts_due v now"
    using assms(2) by (simp add: parts_at_eq(1) parts_due_def)
qed

context precise_number
begin

lemma next_period_pays:
  assumes p: "unat (ve_vested_periods v) \<le> 36" and t: "0 \<le> sint (ve_deployed_at v)"
    "sint (ve_deployed_at v) \<le> sint now"
    and S: "S * (36 - unat (ve_vested_periods v)) \<le> 36 * unat vault"
    "36 * unat vault \<le> S * (36 - unat (ve_vested_periods v)) + 36 * 35"
  shows "\<exists>r v'. next_period P v vault now = Inr (r, v') \<and> ve_deployed_at v' = ve_deployed_at v
    \<and> unat (ve_vested_periods v') = max (unat (ve_vested_periods v)) (parts_due v now)
    \<and> unat (paid r) \<le> unat vault
    \<and> S * (36 - unat (ve_vested_periods v')) \<le> 36 * (unat vault - unat (paid r))
    \<and> 36 * (unat vault - unat (paid r)) \<le> S * (36 - unat (ve_vested_periods v')) + 36 * 35"
proof -
  define p e where "p = unat (ve_vested_periods v)" and "e = parts_due v now"
  have e36: "e \<le> 36" and p36: "p \<le> 36"
    using p by (simp_all add: e_def parts_due_def p_def)
  have run: "next_period P v vault now = Inr (if p = 36 then (Completed, v)
      else if e \<le> p then (PeriodVested, v)
      else (Vest (of_nat (unat vault div (36 - p) * (e - p))), v\<lparr>ve_vested_periods := of_nat e\<rparr>))"
    unfolding next_period_eq [OF p parts_due_at(1) [OF t]] parts_due_at(2) [OF t] Let_def
    by (simp only: p_def e_def)
  show ?thesis
  proof (cases "p = 36 \<or> e \<le> p")
    case True
    then obtain r where "next_period P v vault now = Inr (r, v)" "paid r = 0"
      using run by (cases "p = 36") simp_all
    moreover have "max p e = p"
      using True e36 by auto
    ultimately show ?thesis
      using S by (simp add: flip: p_def e_def)
  next
    case False
    then have less: "p < e" "p < 36"
      using p36 by simp_all
    let ?n = "36 - p" and ?m = "36 - e"
    have nm: "?n - ?m = e - p" "?m \<le> ?n" "0 < ?n" "?n \<le> 36"
      using less e36 by simp_all
    define amount where "amount = unat vault div ?n * (e - p)"
    have "amount \<le> unat vault div ?n * ?n"
      unfolding amount_def using nm by (intro mult_le_mono2) simp
    also have "\<dots> \<le> unat vault"
      by (simp add: div_times_less_eq_dividend)
    finally have le: "amount \<le> unat vault" .
    then have u64: "unat (of_nat amount :: u64) = amount"
      using unat_u64_less [of vault] by (intro unat_of_nat_fits) simp
    have e8: "unat (of_nat e :: u8) = e"
      using e36 by (intro unat_of_nat_fits) simp
    note bounds = vest_step_bounds [of S ?n "unat vault" ?m, OF S [folded p_def] nm(2-4), unfolded nm(1), folded amount_def]
    have "next_period P v vault now = Inr (Vest (of_nat amount), v\<lparr>ve_vested_periods := of_nat e\<rparr>)"
      using run less by (simp only: amount_def split: if_splits) simp
    then show ?thesis
      using bounds le less by (simp add: u64 e8 max_def flip: p_def e_def)
  qed
qed

text \<open>
  Over any schedule the vault keeps the share of the parts that are not due yet, up to 35 units.
\<close>

lemma vest_run_bounds:
  assumes "unat (ve_vested_periods v) \<le> 36" "0 \<le> sint (ve_deployed_at v)"
    "\<forall>t \<in> set ts. sint (ve_deployed_at v) \<le> sint t"
    "S * (36 - unat (ve_vested_periods v)) \<le> 36 * unat vault"
    "36 * unat vault \<le> S * (36 - unat (ve_vested_periods v)) + 36 * 35"
  shows "\<exists>v' rest. vest_run P v vault ts = Inr (v', rest)
    \<and> unat (ve_vested_periods v') = fold max (map (parts_due v) ts) (unat (ve_vested_periods v))
    \<and> S * (36 - unat (ve_vested_periods v')) \<le> 36 * unat rest
    \<and> 36 * unat rest \<le> S * (36 - unat (ve_vested_periods v')) + 36 * 35"
  using assms
proof (induction ts arbitrary: v vault)
  case Nil
  then show ?case by simp
next
  case (Cons t ts)
  obtain r v' where step: "next_period P v vault t = Inr (r, v')" "ve_deployed_at v' = ve_deployed_at v"
      "unat (ve_vested_periods v') = max (unat (ve_vested_periods v)) (parts_due v t)"
      "unat (paid r) \<le> unat vault"
      "S * (36 - unat (ve_vested_periods v')) \<le> 36 * (unat vault - unat (paid r))"
      "36 * (unat vault - unat (paid r)) \<le> S * (36 - unat (ve_vested_periods v')) + 36 * 35"
    using next_period_pays [OF Cons.prems(1,2) _ Cons.prems(4,5), of t] Cons.prems(3) by auto
  have sub: "checked_sub vault (paid r) = Some (vault - paid r)" "unat (vault - paid r) = unat vault - unat (paid r)"
    using step(4) by (simp_all add: checked_sub_def unat_sub_checked)
  have due: "parts_due v' = parts_due v"
    using step(2) by (simp add: parts_due_def fun_eq_iff)
  have le: "unat (ve_vested_periods v') \<le> 36"
    using Cons.prems(1) by (simp add: step(3) parts_due_def)
  show ?case
    using Cons.IH [of v' "vault - paid r"] Cons.prems(2,3) step le
    by (simp add: sub due max.commute)
qed

end

end
