(* ===== verification/HumanState.thy ===== *)
theory HumanState
  imports Vest Entity "HOL-Library.Signed_Division"
begin

text \<open>
  The accounts of the human program (\<open>human/src/state.rs\<close>): the state of the contract with its
  drop, its migration from the previous version, the prices and splits computed from it, and the
  records of posts and reposts.

  The Borsh codecs of the types are arguments, as in \<open>Entity\<close>; codecs that follow the published
  format are at the end. A Rust \<open>String\<close> is the \<open>string\<close> of its UTF-8 bytes, a post id is 32
  bytes and has the type of a key.
\<close>

section \<open>Data\<close>

definition state_acc_size :: nat where
  "state_acc_size = 512 + 1"

record drop_v2 =
  d2_id :: u64
  d2_price :: u64
  d2_amount :: u64
  d2_created_at :: i64
  d2_start_date :: i64
  d2_end_date :: i64

record drop_v1 =
  d1_price :: u64
  d1_start_date :: i64
  d1_end_date :: i64

record state_split =
  ss_percent :: u16
  ss_split_addr :: pubkey

record buy_split =
  bs_owner_split :: u64
  bs_commission :: u64
  bs_treasury_split :: u64
  bs_token_commission :: u64

record contract_state =
  cs_token :: pubkey
  cs_owner :: pubkey
  cs_admin :: pubkey
  cs_commission_addr :: pubkey
  cs_treasury_addr :: pubkey
  cs_swap_state :: pubkey
  cs_sold :: u64
  cs_vest :: vest_state
  cs_drop :: "drop_v2 option"
  cs_current_round :: "pubkey option"
  cs_completed_rounds_count :: u64

record contract_state_v3 =
  c3_token :: pubkey
  c3_owner :: pubkey
  c3_admin :: pubkey
  c3_commission_addr :: pubkey
  c3_sold :: u64
  c3_vest :: vest_state
  c3_drop :: "drop_v1 option"
  c3_additional_split :: "state_split option"

record post_info =
  pi_state :: pubkey
  pi_post_id :: pubkey
  pi_created_at :: i64
  pi_repost_price :: "u64 option"
  pi_royalty_address :: pubkey
  pi_payer :: pubkey
  pi_name :: string
  pi_symbol :: string
  pi_uri :: string

record repost_record =
  rr_state :: pubkey
  rr_token :: pubkey
  rr_user :: pubkey
  rr_post_id :: pubkey
  rr_reposted_at :: i64
  rr_receive_amount :: u64
  rr_payer :: pubkey

record init_instruction =
  ii_owner :: pubkey
  ii_admin :: pubkey
  ii_commission :: pubkey
  ii_treasury :: pubkey
  ii_swap_state :: pubkey

definition contract_entity :: "contract_state codec \<Rightarrow> contract_state entity" where
  "contract_entity c = codec_entity state_acc_size 0x45 c"

definition contract_v3_entity :: "contract_state_v3 codec \<Rightarrow> contract_state_v3 entity" where
  "contract_v3_entity c = codec_entity state_acc_size 0x44 c"

definition post_info_entity ::
  "(post_info \<Rightarrow> u8 list option) \<Rightarrow> (u8 list \<Rightarrow> (post_info \<times> u8 list) option) \<Rightarrow> post_info entity" where
  "post_info_entity ser de = \<lparr>e_size = 350, e_magic = 0x44, e_ser = ser, e_de = de\<rparr>"

definition repost_record_entity :: "repost_record codec \<Rightarrow> repost_record entity" where
  "repost_record_entity c = codec_entity 177 0x40 c"

section \<open>Constants\<close>

definition buy_commission :: u16 where "buy_commission = 1000"
definition treasury_commission :: u16 where "treasury_commission = 8000"
definition max_repost_time :: i64 where "max_repost_time = 24 * 60 * 60"
definition repost_redeem_cooldown :: i64 where "repost_redeem_cooldown = 24 * 60 * 60"
definition default_report_price_lamports :: u64 where "default_report_price_lamports = 10000000"
definition post_royalty_commission_bsp :: u16 where "post_royalty_commission_bsp = 1000"
definition free_repost_receive_amount :: u64 where "free_repost_receive_amount = 100"

section \<open>The drop and its price\<close>

text \<open>One commission of \<open>x\<close>: multiply, divide by ten thousand, round to an integer.\<close>

definition bsp_part :: "'n precise \<Rightarrow> 'n \<Rightarrow> 'n \<Rightarrow> 'n \<Rightarrow> u64 option" where
  "bsp_part P x percent bsp = do {
     p \<leftarrow> pn_mul P x percent;
     q \<leftarrow> pn_div P p bsp;
     r \<leftarrow> pn_imprecise P q;
     u64_of_u128 r
   }"

definition calculate_split_by_lamports :: "'n precise \<Rightarrow> u64 \<Rightarrow> buy_split option" where
  "calculate_split_by_lamports P l = do {
     lamports_precise \<leftarrow> pn_new P (ucast l);
     bsp \<leftarrow> pn_new P 10000;
     commission_percent \<leftarrow> pn_new P (ucast buy_commission);
     additional_split_percent \<leftarrow> pn_new P (ucast treasury_commission);
     commission \<leftarrow> bsp_part P lamports_precise commission_percent bsp;
     treasury_split \<leftarrow> bsp_part P lamports_precise additional_split_percent bsp;
     rest \<leftarrow> checked_sub l commission;
     owner_split \<leftarrow> checked_sub rest treasury_split;
     Some \<lparr>bs_owner_split = owner_split, bs_commission = commission, bs_treasury_split = treasury_split,
           bs_token_commission = 0\<rparr>
   }"

definition calculate_split :: "'n precise \<Rightarrow> u64 \<Rightarrow> u64 \<Rightarrow> buy_split option" where
  "calculate_split P price_per_chatlan token_amount = do {
     l \<leftarrow> checked_mul price_per_chatlan token_amount;
     tokens_precise \<leftarrow> pn_new P (ucast token_amount);
     commission_percent \<leftarrow> pn_new P (ucast buy_commission);
     bsp \<leftarrow> pn_new P 10000;
     token_commission \<leftarrow> bsp_part P tokens_precise commission_percent bsp;
     s \<leftarrow> calculate_split_by_lamports P l;
     Some (s\<lparr>bs_token_commission := token_commission\<rparr>)
   }"

definition get_ongoing_drop_price :: "contract_state \<Rightarrow> i64 \<Rightarrow> u64 res" where
  "get_ongoing_drop_price s now =
     and_then (ok_or (from_human_error NoDrop) (cs_drop s)) (\<lambda>d.
     and_then (ensure (\<not> (sint now < sint (d2_start_date d) \<or> sint (d2_end_date d) < sint now))
       (from_human_error DropTimeframeExpired)) (\<lambda>_.
     Inr (d2_price d)))"

definition calculate_buy_split :: "'n precise \<Rightarrow> contract_state \<Rightarrow> i64 \<Rightarrow> u64 \<Rightarrow> u64 \<Rightarrow> buy_split res" where
  "calculate_buy_split P s now token_amount expected_price =
     and_then (get_ongoing_drop_price s now) (\<lambda>price_per_chatlan.
     and_then (ensure (\<not> unat expected_price < unat price_per_chatlan)
       (from_human_error ExpectedPriceMismatch)) (\<lambda>_.
     ok_or human_overflow (calculate_split P price_per_chatlan token_amount)))"

definition create_drop ::
  "contract_state \<Rightarrow> u64 \<Rightarrow> u64 \<Rightarrow> u64 \<Rightarrow> i64 \<Rightarrow> i64 \<Rightarrow> i64 \<Rightarrow> contract_state res" where
  "create_drop s price ident amount now start_date end_date =
     and_then (ensure (cs_drop s = None) (from_human_error DropInvalidDate)) (\<lambda>_.
     and_then (ensure (price \<noteq> 0) (from_human_error DropPriceZero)) (\<lambda>_.
     and_then (ensure (\<not> sint end_date \<le> sint start_date) (from_human_error DropInvalidDate)) (\<lambda>_.
     Inr (s\<lparr>cs_drop := Some \<lparr>d2_id = ident, d2_price = price, d2_amount = amount, d2_created_at = now,
       d2_start_date = start_date, d2_end_date = end_date\<rparr>\<rparr>))))"

definition clear_drop :: "contract_state \<Rightarrow> contract_state" where
  "clear_drop s = s\<lparr>cs_drop := None\<rparr>"

section \<open>Initialisation and migration\<close>

text \<open>\<open>copy_slice(&mut data[1..], src)\<close>: a source longer than the rest of the account is a fault.\<close>

definition copy_payload :: "u8 \<Rightarrow> u8 list \<Rightarrow> u8 list \<Rightarrow> u8 list res" where
  "copy_payload magic src bytes =
     and_then (assert_that (length src \<le> length (tl bytes))) (\<lambda>_.
     Inr (magic # src @ drop (1 + length src) bytes))"

definition migrate_v3 ::
  "contract_state_v3 \<Rightarrow> pubkey \<Rightarrow> pubkey \<Rightarrow> pubkey \<Rightarrow> i64 \<Rightarrow> contract_state" where
  "migrate_v3 s swap_state new_commission treasury now =
     \<lparr>cs_token = c3_token s, cs_owner = c3_owner s, cs_admin = c3_admin s,
      cs_commission_addr = new_commission,
      cs_treasury_addr = (case map_option ss_split_addr (c3_additional_split s) of
        None \<Rightarrow> treasury | Some a \<Rightarrow> a),
      cs_swap_state = swap_state, cs_sold = c3_sold s, cs_vest = c3_vest s,
      cs_drop = map_option (\<lambda>d. \<lparr>d2_id = 0, d2_price = d1_price d, d2_amount = 10000000,
        d2_created_at = now, d2_start_date = d1_start_date d, d2_end_date = d1_end_date d\<rparr>) (c3_drop s),
      cs_current_round = None, cs_completed_rounds_count = 0\<rparr>"

definition try_migrate_state ::
  "contract_state entity \<Rightarrow> contract_state_v3 entity \<Rightarrow> u8 list \<Rightarrow> pubkey \<Rightarrow> pubkey \<Rightarrow> pubkey \<Rightarrow> i64
    \<Rightarrow> u8 list res" where
  "try_migrate_state E4 E3 bytes swap_state new_commission treasury now =
     and_then (ensure (bytes \<noteq> []) InvalidAccountData) (\<lambda>_.
     if hd bytes = e_magic E4 then Inr bytes
     else if hd bytes = e_magic E3 then
       and_then (deserialize_from E3 bytes) (\<lambda>v3.
       and_then (ok_or BorshIoError (e_ser E4 (migrate_v3 v3 swap_state new_commission treasury now))) (\<lambda>v4.
       copy_payload (e_magic E4) v4 bytes))
     else Inl (Err InvalidAccountData))"

definition init_state ::
  "contract_state entity \<Rightarrow> u8 list \<Rightarrow> pubkey \<Rightarrow> init_instruction \<Rightarrow> i64 \<Rightarrow> u8 list res" where
  "init_state E bytes token args now =
     and_then (ensure (bytes \<noteq> []) AccountDataTooSmall) (\<lambda>_.
     and_then (ensure (hd bytes = 0) AccountAlreadyInitialized) (\<lambda>_.
     let s = \<lparr>cs_token = token, cs_owner = ii_owner args, cs_admin = ii_admin args,
       cs_commission_addr = ii_commission args, cs_treasury_addr = ii_treasury args,
       cs_swap_state = ii_swap_state args, cs_sold = 0,
       cs_vest = \<lparr>ve_deployed_at = now, ve_vested_periods = 0\<rparr>, cs_drop = None,
       cs_current_round = None, cs_completed_rounds_count = 0\<rparr> in
     and_then (ensure (\<not> is_initialized E bytes) AccountAlreadyInitialized) (\<lambda>_.
     serialize_to E s bytes)))"

section \<open>Posts and reposts\<close>

definition can_repost :: "post_info \<Rightarrow> i64 \<Rightarrow> bool" where
  "can_repost p now = (case checked_sub_i64 (pi_created_at p) now of
     None \<Rightarrow> False | Some elapsed \<Rightarrow> sint elapsed < sint max_repost_time)"

text \<open>
  The subtraction of the week pattern panics on overflow, \<open>%\<close> rounds to zero. The quotient by
  86400 is a double; it is above 3 and below 4 exactly when the dividend, an integer of at most
  twenty bits, is above 259200 and below 345600.
\<close>

definition can_redeem :: "repost_record \<Rightarrow> i64 \<Rightarrow> bool res" where
  "can_redeem r now =
     (let cooldown_elapsed = (case checked_sub_i64 (rr_reposted_at r) now of
        None \<Rightarrow> False | Some elapsed \<Rightarrow> sint elapsed < sint repost_redeem_cooldown) in
     and_then (unwrap (checked_sub_i64 now 345600)) (\<lambda>d.
     let week = sint d smod 604800; is_thursday = (259200 < week \<and> week < 345600) in
     Inr (cooldown_elapsed \<and> is_thursday)))"

section \<open>The split over the natural numbers\<close>

text \<open>Ten percent of the amount and eighty percent of it, each to the nearest lamport, never
  exceed the amount.\<close>

lemma bps_tenths: "bps_of a 1000 = (a + 5) div 10" "bps_of a 8000 = (8 * a + 5) div 10"
proof -
  have "a * 1000 + 5000 = 1000 * (a + 5)" "a * 8000 + 5000 = 1000 * (8 * a + 5)" "(10000 :: nat) = 1000 * 10"
    by simp_all
  then show "bps_of a 1000 = (a + 5) div 10" "bps_of a 8000 = (8 * a + 5) div 10"
    unfolding bps_of_eq by (simp_all only: div_mult_mult1)
qed

lemma commissions_le: "bps_of a 1000 + bps_of a 8000 \<le> a"
proof -
  define x y where "x = (a + 5) div 10" and "y = (8 * a + 5) div 10"
  have "10 * x \<le> a + 5" "10 * y \<le> 8 * a + 5"
    by (simp_all add: x_def y_def)
  then have "10 * (x + y) \<le> 9 * a + 10"
    by simp
  moreover have "x + y = 0" if "a = 0"
    using that by (simp add: x_def y_def)
  ultimately show ?thesis
    unfolding bps_tenths x_def [symmetric] y_def [symmetric] by (cases "a = 0") simp_all
qed

definition lamports_split :: "nat \<Rightarrow> buy_split" where
  "lamports_split n = \<lparr>bs_owner_split = of_nat (n - bps_of n 1000 - bps_of n 8000),
     bs_commission = of_nat (bps_of n 1000), bs_treasury_split = of_nat (bps_of n 8000),
     bs_token_commission = 0\<rparr>"

lemma lamports_split_sum:
  "n < 2 ^ 64 \<Longrightarrow> unat (bs_owner_split (lamports_split n)) + unat (bs_commission (lamports_split n))
     + unat (bs_treasury_split (lamports_split n)) = n"
proof -
  assume n: "n < 2 ^ 64"
  have "bps_of n 1000 \<le> n" "bps_of n 8000 \<le> n"
    by (simp_all add: bps_of_le)
  with n have "unat (of_nat (bps_of n 1000) :: u64) = bps_of n 1000"
    "unat (of_nat (bps_of n 8000) :: u64) = bps_of n 8000"
    "unat (of_nat (n - bps_of n 1000 - bps_of n 8000) :: u64) = n - bps_of n 1000 - bps_of n 8000"
    by (auto intro!: unat_of_nat_fits)
  then show ?thesis
    using commissions_le [of n] by (simp add: lamports_split_def)
qed

context precise_number
begin

lemma bsp_part_eq:
  fixes x :: u64 and b :: u16
  assumes "val xp = unat x * pn_one" "val bp = unat b * pn_one" "val bsp = 10000 * pn_one" "unat b \<le> 10000"
  shows "bsp_part P xp bp bsp = Some (of_nat (bps_of (unat x) (unat b)))"
proof -
  have "unat b < 2 ^ 16"
    using assms(4) by simp
  moreover have "bps_of (unat x) (unat b) < 2 ^ 64"
    using bps_of_le [OF assms(4), of "unat x"] unat_u64_less [of x] by linarith
  ultimately show ?thesis
    unfolding bsp_part_def by (intro bps_chain [OF assms(1-3) refl unat_u64_less])
qed

lemma split_by_lamports_eq: "calculate_split_by_lamports P l = Some (lamports_split (unat l))"
proof -
  let ?c = "bps_of (unat l) 1000" and ?t = "bps_of (unat l) 8000"
  obtain x where x: "pn_new P (ucast l) = Some x" "val x = unat l * pn_one"
    by (rule new_obtain [of "ucast l"]) (simp add: unat_ucast_up)
  obtain bsp where bsp: "pn_new P 10000 = Some bsp" "val bsp = 10000 * pn_one"
    by (rule new_obtain [of 10000]) simp
  obtain c where c: "pn_new P (ucast buy_commission) = Some c" "val c = unat buy_commission * pn_one"
    by (rule new_obtain [of "ucast buy_commission"]) (simp add: unat_ucast_up)
  obtain t where t: "pn_new P (ucast treasury_commission) = Some t" "val t = unat treasury_commission * pn_one"
    by (rule new_obtain [of "ucast treasury_commission"]) (simp add: unat_ucast_up)
  have rates: "unat buy_commission = 1000" "unat treasury_commission = 8000"
    by (simp_all add: buy_commission_def treasury_commission_def)
  have parts: "bsp_part P x c bsp = Some (of_nat ?c)" "bsp_part P x t bsp = Some (of_nat ?t)"
    using bsp_part_eq [OF x(2) c(2) bsp(2)] bsp_part_eq [OF x(2) t(2) bsp(2)] by (simp_all add: rates)
  have "?c \<le> unat l" "?t \<le> unat l" and sum: "?c + ?t \<le> unat l"
    using commissions_le [of "unat l"] by simp_all
  then have words: "unat (of_nat ?c :: u64) = ?c" "unat (of_nat ?t :: u64) = ?t"
    using unat_u64_less [of l] by (auto intro!: unat_of_nat_fits)
  have rest: "unat (l - of_nat ?c) = unat l - ?c"
    using sum by (subst unat_sub_checked) (simp_all add: words)
  then have "unat (l - of_nat ?c - of_nat ?t) = unat l - ?c - ?t"
    using sum by (subst unat_sub_checked) (simp_all add: words)
  then have "l - of_nat ?c - of_nat ?t = of_nat (unat l - ?c - ?t)"
    by (metis word_of_unat)
  then show ?thesis
    using sum
    by (simp add: calculate_split_by_lamports_def lamports_split_def x(1) bsp(1) c(1) t(1) parts
        checked_sub_def words rest)
qed

text \<open>Only the product of price and amount can overflow.\<close>

lemma calculate_split_eq:
  "calculate_split P price amount =
     (if unat price * unat amount < 2 ^ 64
      then Some ((lamports_split (unat price * unat amount))\<lparr>bs_token_commission := of_nat (bps_of (unat amount) 1000)\<rparr>)
      else None)"
proof -
  obtain x where x: "pn_new P (ucast amount) = Some x" "val x = unat amount * pn_one"
    by (rule new_obtain [of "ucast amount"]) (simp add: unat_ucast_up)
  obtain bsp where bsp: "pn_new P 10000 = Some bsp" "val bsp = 10000 * pn_one"
    by (rule new_obtain [of 10000]) simp
  obtain c where c: "pn_new P (ucast buy_commission) = Some c" "val c = unat buy_commission * pn_one"
    by (rule new_obtain [of "ucast buy_commission"]) (simp add: unat_ucast_up)
  have "bsp_part P x c bsp = Some (of_nat (bps_of (unat amount) 1000))"
    using bsp_part_eq [OF x(2) c(2) bsp(2)] by (simp add: buy_commission_def)
  then show ?thesis
    by (simp add: calculate_split_def x(1) bsp(1) c(1) split_by_lamports_eq checked_mul_def unat_mul_checked)
qed

end

section \<open>The windows\<close>

lemma i64_consts:
  "sint max_repost_time = 86400" "sint repost_redeem_cooldown = 86400" "sint (345600 :: i64) = 345600"
  by (simp_all add: max_repost_time_def repost_redeem_cooldown_def)

text \<open>What the two guards test: how far the creation lies after \<open>now\<close>.\<close>

lemma can_repost_eq: "can_repost p now \<longleftrightarrow>
  - (2 ^ 63) \<le> sint (pi_created_at p) - sint now \<and> sint (pi_created_at p) - sint now < 86400"
proof (cases "fits_i64 (sint (pi_created_at p) - sint now)")
  case True
  then show ?thesis
    by (simp add: can_repost_def checked_sub_i64_def sint_checked(2) i64_consts fits_i64_def)
next
  case False
  then show ?thesis
    by (auto simp: can_repost_def checked_sub_i64_def fits_i64_def)
qed

text \<open>The day of the week of a time, Monday 0; the epoch was a Thursday.\<close>

definition weekday :: "int \<Rightarrow> int" where
  "weekday t = (t div 86400 + 3) mod 7"

lemma thursday: "0 \<le> t - 345600 \<Longrightarrow>
  (259200 < (t - 345600) smod 604800 \<and> (t - 345600) smod 604800 < 345600) \<longleftrightarrow> weekday t = 3 \<and> t mod 86400 \<noteq> 0"
proof -
  assume t: "0 \<le> t - 345600"
  then have "(t - 345600) smod 604800 = (t - 345600) mod (86400 * 7)"
    by (simp add: signed_modulo_int_def sgn_if)
  also have "\<dots> = 86400 * ((t - 345600) div 86400 mod 7) + (t - 345600) mod 86400"
    by (rule zmod_zmult2_eq) simp
  also have "\<dots> = 86400 * weekday t + t mod 86400"
  proof -
    have "(t - 345600) div 86400 = t div 86400 - 4" "(t - 345600) mod 86400 = t mod 86400"
      using div_mult_self1 [of 86400 t "- 4"] mod_mult_self1 [of t "- 4" 86400] by simp_all
    moreover have "(t div 86400 - 4) mod 7 = weekday t"
      using mod_mult_self1 [of "t div 86400 - 4" 1 7] by (simp add: weekday_def add.commute)
    ultimately show ?thesis
      by (simp only:)
  qed
  finally have eq: "(t - 345600) smod 604800 = 86400 * weekday t + t mod 86400" .
  have "0 \<le> weekday t" "weekday t < 7" "0 \<le> t mod 86400" "t mod 86400 < 86400"
    by (simp_all add: weekday_def)
  then show ?thesis
    unfolding eq by (cases "weekday t \<le> 2"; cases "weekday t = 3") auto
qed

lemma can_redeem_eq:
  assumes "345600 \<le> sint now" "- (2 ^ 63) \<le> sint (rr_reposted_at r) - sint now"
    "sint (rr_reposted_at r) - sint now < 2 ^ 63"
  shows "can_redeem r now = Inr (sint (rr_reposted_at r) - sint now < 86400
    \<and> weekday (sint now) = 3 \<and> sint now mod 86400 \<noteq> 0)"
proof -
  have fits: "fits_i64 (sint (rr_reposted_at r) - sint now)" "fits_i64 (sint now - sint (345600 :: i64))"
    using assms sint_i64_bounds [of now] by (simp_all add: fits_i64_def)
  have "sint (now - 345600) = sint now - 345600"
    using sint_checked(2) [OF fits(2)] by simp
  then show ?thesis
    using fits thursday [of "sint now"] assms(1)
    by (simp add: can_redeem_def checked_sub_i64_def sint_checked(2) i64_consts Let_def)
qed

section \<open>The Borsh encoding of the types\<close>

definition vest_state_codec :: "vest_state codec" where
  "vest_state_codec = iso_codec (\<lambda>v. (ve_deployed_at v, ve_vested_periods v))
     (\<lambda>(a, b). \<lparr>ve_deployed_at = a, ve_vested_periods = b\<rparr>) (pair_codec u64_codec u8_codec)"

definition drop_v2_codec :: "drop_v2 codec" where
  "drop_v2_codec = iso_codec
     (\<lambda>d. (d2_id d, d2_price d, d2_amount d, d2_created_at d, d2_start_date d, d2_end_date d))
     (\<lambda>(a, b, c, d, e, f). \<lparr>d2_id = a, d2_price = b, d2_amount = c, d2_created_at = d,
        d2_start_date = e, d2_end_date = f\<rparr>)
     (pair_codec u64_codec (pair_codec u64_codec (pair_codec u64_codec (pair_codec u64_codec
       (pair_codec u64_codec u64_codec)))))"

definition drop_v1_codec :: "drop_v1 codec" where
  "drop_v1_codec = iso_codec (\<lambda>d. (d1_price d, d1_start_date d, d1_end_date d))
     (\<lambda>(a, b, c). \<lparr>d1_price = a, d1_start_date = b, d1_end_date = c\<rparr>)
     (pair_codec u64_codec (pair_codec u64_codec u64_codec))"

definition state_split_codec :: "state_split codec" where
  "state_split_codec = iso_codec (\<lambda>s. (ss_percent s, ss_split_addr s))
     (\<lambda>(a, b). \<lparr>ss_percent = a, ss_split_addr = b\<rparr>) (pair_codec u16_codec key_codec)"

definition contract_state_codec :: "contract_state codec" where
  "contract_state_codec = iso_codec
     (\<lambda>s. (cs_token s, cs_owner s, cs_admin s, cs_commission_addr s, cs_treasury_addr s, cs_swap_state s,
        cs_sold s, cs_vest s, cs_drop s, cs_current_round s, cs_completed_rounds_count s))
     (\<lambda>(a, b, c, d, e, f, g, h, i, j, k). \<lparr>cs_token = a, cs_owner = b, cs_admin = c,
        cs_commission_addr = d, cs_treasury_addr = e, cs_swap_state = f, cs_sold = g, cs_vest = h,
        cs_drop = i, cs_current_round = j, cs_completed_rounds_count = k\<rparr>)
     (pair_codec key_codec (pair_codec key_codec (pair_codec key_codec (pair_codec key_codec
       (pair_codec key_codec (pair_codec key_codec (pair_codec u64_codec (pair_codec vest_state_codec
       (pair_codec (option_codec drop_v2_codec) (pair_codec (option_codec key_codec) u64_codec))))))))))"

definition contract_state_v3_codec :: "contract_state_v3 codec" where
  "contract_state_v3_codec = iso_codec
     (\<lambda>s. (c3_token s, c3_owner s, c3_admin s, c3_commission_addr s, c3_sold s, c3_vest s, c3_drop s,
        c3_additional_split s))
     (\<lambda>(a, b, c, d, e, f, g, h). \<lparr>c3_token = a, c3_owner = b, c3_admin = c, c3_commission_addr = d,
        c3_sold = e, c3_vest = f, c3_drop = g, c3_additional_split = h\<rparr>)
     (pair_codec key_codec (pair_codec key_codec (pair_codec key_codec (pair_codec key_codec
       (pair_codec u64_codec (pair_codec vest_state_codec (pair_codec (option_codec drop_v1_codec)
       (option_codec state_split_codec))))))))"

definition repost_record_codec :: "repost_record codec" where
  "repost_record_codec = iso_codec
     (\<lambda>r. (rr_state r, rr_token r, rr_user r, rr_post_id r, rr_reposted_at r, rr_receive_amount r, rr_payer r))
     (\<lambda>(a, b, c, d, e, f, g). \<lparr>rr_state = a, rr_token = b, rr_user = c, rr_post_id = d,
        rr_reposted_at = e, rr_receive_amount = f, rr_payer = g\<rparr>)
     (pair_codec key_codec (pair_codec key_codec (pair_codec key_codec (pair_codec key_codec
       (pair_codec u64_codec (pair_codec u64_codec key_codec))))))"

text \<open>A \<open>PostInfo\<close> has strings, whose lengths must fit four bytes.\<close>

definition post_info_codec :: "post_info codec" where
  "post_info_codec = iso_codec
     (\<lambda>p. (pi_state p, pi_post_id p, pi_created_at p, pi_repost_price p, pi_royalty_address p, pi_payer p,
        pi_name p, pi_symbol p, pi_uri p))
     (\<lambda>(a, b, c, d, e, f, g, h, i). \<lparr>pi_state = a, pi_post_id = b, pi_created_at = c, pi_repost_price = d,
        pi_royalty_address = e, pi_payer = f, pi_name = g, pi_symbol = h, pi_uri = i\<rparr>)
     (pair_codec key_codec (pair_codec key_codec (pair_codec u64_codec (pair_codec (option_codec u64_codec)
       (pair_codec key_codec (pair_codec key_codec (pair_codec string_codec (pair_codec string_codec
       string_codec))))))))"

definition post_info_ser :: "post_info \<Rightarrow> u8 list option" where
  "post_info_ser p =
     (if length (pi_name p) < 2 ^ 32 \<and> length (pi_symbol p) < 2 ^ 32 \<and> length (pi_uri p) < 2 ^ 32
      then Some (enc post_info_codec p) else None)"

lemma vest_state_codec_lawful: "lawful vest_state_codec"
  unfolding vest_state_codec_def by (intro iso_codec_lawful codec_lawful) (simp_all add: codec_lawful)

lemma drop_codecs_lawful: "lawful drop_v2_codec" "lawful drop_v1_codec" "lawful state_split_codec"
  unfolding drop_v2_codec_def drop_v1_codec_def state_split_codec_def
  by (intro iso_codec_lawful codec_lawful, simp)+

lemma contract_codecs_lawful:
  "lawful contract_state_codec" "lawful contract_state_v3_codec" "lawful repost_record_codec"
  unfolding contract_state_codec_def contract_state_v3_codec_def repost_record_codec_def
  by (intro iso_codec_lawful codec_lawful vest_state_codec_lawful drop_codecs_lawful, simp)+

lemma contract_codecs_fit:
  "length (enc contract_state_codec s) < state_acc_size"
  "length (enc contract_state_v3_codec s3) < state_acc_size"
  "length (enc repost_record_codec r) < 177"
  by (cases "cs_drop s"; cases "cs_current_round s"; cases "c3_drop s3"; cases "c3_additional_split s3";
      simp add: contract_state_codec_def contract_state_v3_codec_def repost_record_codec_def vest_state_codec_def
        drop_v2_codec_def drop_v1_codec_def state_split_codec_def enc_simps state_acc_size_def)+

interpretation contract: fitting_entity "contract_entity contract_state_codec"
  unfolding contract_entity_def by (rule codec_entity_fits) (simp_all add: contract_codecs_lawful contract_codecs_fit)

interpretation contract_v3: fitting_entity "contract_v3_entity contract_state_v3_codec"
  unfolding contract_v3_entity_def by (rule codec_entity_fits) (simp_all add: contract_codecs_lawful contract_codecs_fit)

interpretation repost_record: fitting_entity "repost_record_entity repost_record_codec"
  unfolding repost_record_entity_def by (rule codec_entity_fits) (simp_all add: contract_codecs_lawful contract_codecs_fit)

lemma post_info_reads:
  assumes "post_info_ser p = Some s"
  shows "dec post_info_codec (s @ rest) = Some (p, rest)"
proof -
  have laws: "dec key_codec (enc key_codec k @ r) = Some (k, r)" "dec u64_codec (enc u64_codec n @ r) = Some (n, r)"
    "dec (option_codec u64_codec) (enc (option_codec u64_codec) m @ r) = Some (m, r)" for k n m r
    by (intro lawfulD codec_lawful)+
  have "length (pi_name p) < 2 ^ 32" "length (pi_symbol p) < 2 ^ 32" "length (pi_uri p) < 2 ^ 32"
    and s: "s = enc post_info_codec p"
    using assms by (simp_all add: post_info_ser_def split: if_splits)
  note strings = this(1-3) [THEN string_codec_reads]
  show ?thesis
    unfolding s by (simp add: post_info_codec_def iso_codec_def pair_codec_def laws strings)
qed

interpretation post_info: entity_codec "post_info_entity post_info_ser (dec post_info_codec)"
  by unfold_locales (simp_all add: post_info_entity_def post_info_reads)

section \<open>What migration leaves\<close>

lemma migrate_effect:
  assumes E4: "fitting_entity (contract_entity c4)" and old: "deserialize_from (contract_v3_entity c3) bytes = Inr v3"
  shows "\<exists>bytes'. try_migrate_state (contract_entity c4) (contract_v3_entity c3) bytes swap_state new_commission treasury now
        = Inr bytes'
    \<and> deserialize_from (contract_entity c4) bytes' = Inr (migrate_v3 v3 swap_state new_commission treasury now)
    \<and> length bytes' = length bytes \<and> hd bytes' = 0x45"
proof -
  let ?E4 = "contract_entity c4" and ?new = "migrate_v3 v3 swap_state new_commission treasury now"
  have sizes: "e_size (contract_v3_entity c3) = state_acc_size" "e_magic (contract_v3_entity c3) = 0x44"
    "e_size ?E4 = state_acc_size" "e_magic ?E4 = 0x45"
    by (simp_all add: contract_v3_entity_def contract_entity_def codec_entity_def)
  have len: "state_acc_size \<le> length bytes" and hd: "hd bytes = 0x44"
    using old by (auto simp: deserialize_from_def res_simps sizes)
  then have some: "bytes \<noteq> []"
    by (auto simp: state_acc_size_def)
  obtain ser where ser: "e_ser ?E4 ?new = Some ser" "length ser < state_acc_size"
    using fitting_entity.fits [OF E4, of ?new] by (auto simp: sizes)
  let ?bytes' = "0x45 # ser @ drop (1 + length ser) bytes"
  have fit: "length ser \<le> length bytes - 1"
    using len ser(2) by simp
  have saved: "saved ?E4 ?new bytes = ?bytes'"
    by (simp add: saved_def ser(1) sizes)
  have "try_migrate_state ?E4 (contract_v3_entity c3) bytes swap_state new_commission treasury now = Inr ?bytes'"
    using some old fit by (simp add: try_migrate_state_def sizes hd ser(1) copy_payload_def)
  moreover have "deserialize_from ?E4 ?bytes' = Inr ?new" "length ?bytes' = length bytes"
    using fitting_entity.read_saved [OF E4, of bytes ?new] fitting_entity.length_saved [OF E4, of bytes ?new] len
    unfolding saved sizes by simp_all
  ultimately show ?thesis
    by (intro exI [of _ ?bytes']) simp
qed

lemma migrate_current: "hd bytes = 0x45 \<Longrightarrow> bytes \<noteq> [] \<Longrightarrow>
  try_migrate_state (contract_entity c4) E3 bytes swap_state new_commission treasury now = Inr bytes"
  by (simp add: try_migrate_state_def contract_entity_def codec_entity_def)

end
