(* ===== verification/Human.thy ===== *)
theory Human
  imports HumanState Fanout Round
begin

text \<open>
  The processor of the human program (\<open>human/src/lib.rs\<close> and \<open>process_vest\<close> of
  \<open>human/src/vest.rs\<close>): the state and the wallets of a token, the deposit of collected
  commission into a swap pool, posts and reposts with the tokens a repost earns, rounds that sell
  tokens of the vault, and their vesting for the owner.

  The record \<open>human_ext\<close> holds what the repository does not define: the codecs that Borsh
  derives, the readers of the accounts of the swap, metadata and compression programs, their
  addresses, and the effect of the instructions of other programs that the round and royalty
  programs do not use. The fanout and round programs are the models of \<open>Fanout\<close> and \<open>Round\<close>.
\<close>

section \<open>Instructions\<close>

record create_drop_instruction =
  cd_id :: u64
  cd_amount :: u64
  cd_price :: u64
  cd_start_date :: i64
  cd_end_date :: i64

record register_post_instruction =
  rp_royalty_addr :: pubkey
  rp_post_id :: pubkey
  rp_created_at :: i64
  rp_post_name :: string
  rp_post_metadata_uri :: string
  rp_collection_name :: string
  rp_collection_metadata_uri :: string
  rp_symbol :: string
  rp_repost_price :: u64

record create_round_instruction =
  ri_bidding_start :: i64
  ri_bidding_end :: i64
  ri_offer_amount :: u64
  ri_target_bid :: u64

datatype human_instruction =
    CreateWallets
  | Init init_instruction
  | Deprecated1
  | Deprecated2
  | Deprecated3
  | Deprecated4
  | VestTokens
  | MigrateState
  | SetAdmin pubkey
  | DepositCommission
  | RegisterPost register_post_instruction
  | Repost
  | RedeemRepost
  | CreateRound create_round_instruction
  | ClaimRoundVesting
  | InitializeTree
  | RepostCompressed

section \<open>What comes from other crates\<close>

record nft_creator =
  nc_address :: pubkey
  nc_share :: u8
  nc_verified :: bool

record metadata_args =
  md_name :: string
  md_symbol :: string
  md_uri :: string
  md_seller_fee :: u16
  md_collection :: pubkey
  md_creators :: "nft_creator list"

text \<open>
  The instructions of other programs, beyond those of \<open>cpi\<close>. Arguments that the sources always
  pass as \<open>None\<close> or as a constant of the called crate are left out.
\<close>

datatype human_cpi =
    Allocate (al_account: pubkey) (al_space: nat) (al_extra: pubkey)
  | Assign (as_account: pubkey) (as_owner: pubkey)
  | InitMint (im_mint: pubkey) (im_authority: pubkey) (im_freeze: "pubkey option") (im_decimals: u8)
  | CreateAta (ca_payer: pubkey) (ca_user: pubkey) (ca_mint: pubkey)
  | MintTo (mi_mint: pubkey) (mi_account: pubkey) (mi_authority: pubkey) (mi_amount: u64)
  | Approve (ap_source: pubkey) (ap_delegate: pubkey) (ap_owner: pubkey) (ap_amount: u64)
  | DepositAllTokenTypes (da_swap: pubkey) (da_swap_authority: pubkey) (da_user_authority: pubkey)
      (da_token_a: pubkey) (da_token_b: pubkey) (da_swap_a: pubkey) (da_swap_b: pubkey)
      (da_pool_mint: pubkey) (da_destination: pubkey) (da_pool_tokens: u64) (da_maximum_a: u64)
      (da_maximum_b: u64)
  | CreateMetadata (cm_metadata: pubkey) (cm_mint: pubkey) (cm_mint_authority: pubkey) (cm_payer: pubkey)
      (cm_update_authority: pubkey) (cm_name: string) (cm_symbol: string) (cm_uri: string)
      (cm_creators: "nft_creator list") (cm_fee: u16) (cm_collection_size: "u64 option")
  | UpdatePrimarySale (up_metadata: pubkey) (up_authority: pubkey) (up_happened: bool)
  | CreateMasterEdition (ce_edition: pubkey) (ce_mint: pubkey) (ce_update_authority: pubkey)
      (ce_mint_authority: pubkey) (ce_metadata: pubkey) (ce_payer: pubkey) (ce_max_supply: "u64 option")
  | VerifyCollection (vc_sized: bool) (vc_metadata: pubkey) (vc_authority: pubkey) (vc_payer: pubkey)
      (vc_update_authority: pubkey) (vc_collection_mint: pubkey) (vc_collection: pubkey) (vc_edition: pubkey)
  | MintNewEdition (me_metadata: pubkey) (me_edition: pubkey) (me_master_edition: pubkey) (me_mint: pubkey)
      (me_mint_authority: pubkey) (me_payer: pubkey) (me_owner: pubkey) (me_token_account: pubkey)
      (me_update_authority: pubkey) (me_master_metadata: pubkey) (me_master_mint: pubkey) (me_number: u64)
  | SetCollectionSize (sz_metadata: pubkey) (sz_authority: pubkey) (sz_mint: pubkey) (sz_size: u64)
  | CreateTree (tr_tree_authority: pubkey) (tr_tree: pubkey) (tr_payer: pubkey) (tr_creator: pubkey)
      (tr_max_depth: u32) (tr_max_buffer: u32) (tr_public: "bool option")
  | MintToCollection (mc_tree_authority: pubkey) (mc_user: pubkey) (mc_tree: pubkey) (mc_payer: pubkey)
      (mc_authority: pubkey) (mc_collection_mint: pubkey) (mc_collection_metadata: pubkey)
      (mc_collection_edition: pubkey) (mc_args: metadata_args)
  | FanoutInitialize (fi_account: pubkey) (fi_members: "member list")
  | RoundCreate (rc_accounts: create_round_accs) (rc_params: create_round_params)

text \<open>What the code reads of a pool of the swap program and of a metadata account.\<close>

record swap_pool =
  sw_token_a :: pubkey
  sw_token_b :: pubkey
  sw_pool_mint :: pubkey

record nft_metadata =
  nm_sized_collection :: bool

record human_ext =
  hx_state :: "contract_state codec"
  hx_state_v3 :: "contract_state_v3 codec"
  hx_record :: "repost_record codec"
  hx_post_ser :: "post_info \<Rightarrow> u8 list option"
  hx_post_de :: "u8 list \<Rightarrow> (post_info \<times> u8 list) option"
  hx_parse :: "u8 list \<Rightarrow> human_instruction option"
  hx_encode :: "human_instruction \<Rightarrow> u8 list"
  hx_cpi :: "account_info list \<Rightarrow> human_cpi \<Rightarrow> seed list list \<Rightarrow> world \<Rightarrow> world res"
  hx_swap :: "acct_data \<Rightarrow> swap_pool res"
  hx_trading_tokens :: "u128 \<Rightarrow> u128 \<Rightarrow> u128 \<Rightarrow> u128 \<Rightarrow> (u128 \<times> u128) option"
  hx_metadata :: "account \<Rightarrow> nft_metadata res"
  hx_metadata_bytes :: "acct_data \<Rightarrow> nft_metadata res"
  hx_edition_supply :: "account \<Rightarrow> u64 res"
  hx_metadata_pda :: "pubkey \<Rightarrow> pubkey"
  hx_edition_pda :: "pubkey \<Rightarrow> pubkey"
  hx_metadata_id :: pubkey
  hx_rent_id :: pubkey

definition HE :: "human_ext \<Rightarrow> contract_state entity" where
  "HE H = contract_entity (hx_state H)"

definition H3 :: "human_ext \<Rightarrow> contract_state_v3 entity" where
  "H3 H = contract_v3_entity (hx_state_v3 H)"

definition PE :: "human_ext \<Rightarrow> post_info entity" where
  "PE H = post_info_entity (hx_post_ser H) (hx_post_de H)"

definition RE :: "human_ext \<Rightarrow> repost_record entity" where
  "RE H = repost_record_entity (hx_record H)"

section \<open>Addresses\<close>

text \<open>\<open>find_keyed_address!\<close> with the seeds of the macros.\<close>

definition keyed_seeds :: "string \<Rightarrow> seed \<Rightarrow> seed list" where
  "keyed_seeds s token = [SeedStr ''HMN_V1'', SeedStr s, token]"

definition authority_seed :: "seed list" where
  "authority_seed = keyed_seeds ''TRANSFER'' (SeedStr [])"

definition state_seed :: "pubkey \<Rightarrow> seed list" where
  "state_seed token = keyed_seeds ''STATE'' (SeedKey token)"

definition wallet_seed :: "pubkey \<Rightarrow> seed list" where
  "wallet_seed token = keyed_seeds ''WALLET'' (SeedKey token)"

definition vault_seed :: "pubkey \<Rightarrow> seed list" where
  "vault_seed token = keyed_seeds ''VAULT'' (SeedKey token)"

definition master_post_mint_seed :: "pubkey \<Rightarrow> seed list" where
  "master_post_mint_seed ident = keyed_seeds ''MASTER_POST'' (SeedKey ident)"

definition post_info_seed :: "pubkey \<Rightarrow> seed list" where
  "post_info_seed ident = keyed_seeds ''POST_INFO'' (SeedKey ident)"

definition repost_record_seed :: "pubkey \<Rightarrow> seed list" where
  "repost_record_seed mnt = keyed_seeds ''REPOST_RECORD'' (SeedKey mnt)"

definition collection_mint_seed :: "pubkey \<Rightarrow> seed list" where
  "collection_mint_seed token = keyed_seeds ''COLLECTION'' (SeedKey token)"

text \<open>The addresses declared with \<open>declare_id!\<close>, read as numbers in base 58.\<close>

definition swap_program_id :: pubkey where
  "swap_program_id = 2955484619801708729955810908767036852535823000555399349843543162762786268363"

definition tree_id :: pubkey where
  "tree_id = 6008622006865755530510724643286796821680092328187815222011315705978132184626"

definition fanout_id :: pubkey where
  "fanout_id = 98002730688034833637986967982472071785912538526961798422955466302923362938992"

definition round_id :: pubkey where
  "round_id = 2874626343915605449062284268721086243809062946979176479894608501305463869252"

section \<open>Reading accounts\<close>

definition unpack_mint :: "acct_data \<Rightarrow> mint res" where
  "unpack_mint d = (case d of MintData m \<Rightarrow> Inr m | _ \<Rightarrow> Inl (Err InvalidAccountData))"

definition data_is_empty :: "ext \<Rightarrow> account_info \<Rightarrow> world \<Rightarrow> bool" where
  "data_is_empty X acc w \<longleftrightarrow> data_len X (data_of w (key acc)) = 0"

text \<open>\<open>unpack(&acc.try_borrow_data()?)\<close>.\<close>

definition token_of :: "account_info \<Rightarrow> world \<Rightarrow> token_account res" where
  "token_of acc w = and_then (read_data (key acc) w) unpack_token"

definition mint_of :: "account_info \<Rightarrow> world \<Rightarrow> mint res" where
  "mint_of acc w = and_then (read_data (key acc) w) unpack_mint"

lemma unpack_mint_Inr [res_simps]: "unpack_mint d = Inr m \<longleftrightarrow> d = MintData m"
  by (cases d) (auto simp: unpack_mint_def)

section \<open>State, wallets and administration\<close>

definition process_init_state ::
  "human_ext \<Rightarrow> ext \<Rightarrow> pubkey \<Rightarrow> account_info list \<Rightarrow> init_instruction \<Rightarrow> world \<Rightarrow> world res" where
  "process_init_state H X pid accounts args w =
     and_then (next_account_info accounts) (\<lambda>(st, it).
     and_then (next_account_info it) (\<lambda>(mint_acc, it).
     and_then (next_account_info it) (\<lambda>(fee_payer, it).
     and_then (next_expected_account it (x_token_id X)) (\<lambda>(_, it).
     and_then (next_expected_account it (x_system_id X)) (\<lambda>(_, it).
     and_then (ensure (owner_of w (key mint_acc) = x_token_id X) InvalidArgument) (\<lambda>_.
     let seeds = state_seed (key mint_acc); state_addr = x_pda X seeds pid in
     and_then (ensure (key st = state_addr) InvalidArgument) (\<lambda>_.
     and_then (or_panic (read_data (key mint_acc) w)) (\<lambda>d.
     and_then (unpack_mint d) (\<lambda>m.
     and_then (ensure (mt_authority m = None) InvalidArgument) (\<lambda>_.
     and_then (x_cpi X accounts
       (SystemCreate (key fee_payer) state_addr (x_rent X state_acc_size) state_acc_size pid) [seeds] w) (\<lambda>w.
     and_then (ensure (owner_of w (key st) = pid) IllegalOwner) (\<lambda>_.
     and_then (read_data (key st) w) (\<lambda>d.
     and_then (raw_bytes d) (\<lambda>bs.
     and_then (init_state (HE H) bs (key mint_acc) args (x_now X)) (\<lambda>bs'.
     Inr (set_data (key st) (Raw bs') w))))))))))))))))"

definition process_migrate_state ::
  "human_ext \<Rightarrow> ext \<Rightarrow> account_info list \<Rightarrow> world \<Rightarrow> world res" where
  "process_migrate_state H X accounts w =
     and_then (next_account_info accounts) (\<lambda>(st, it).
     and_then (next_account_info it) (\<lambda>(token_mint, it).
     and_then (next_account_info it) (\<lambda>(wsol_commission, it).
     and_then (next_account_info it) (\<lambda>(treasury, it).
     and_then (or_panic (read_data (key st) w)) (\<lambda>d.
     and_then (raw_bytes d) (\<lambda>bs.
     and_then (ensure (bs \<noteq> []) InvalidAccountData) (\<lambda>_.
     and_then (try_migrate_state (HE H) (H3 H) bs (key token_mint) (key wsol_commission) (key treasury)
       (x_now X)) (\<lambda>bs'.
     Inr (set_data (key st) (Raw bs') w)))))))))"

definition process_create_wallets ::
  "ext \<Rightarrow> pubkey \<Rightarrow> account_info list \<Rightarrow> world \<Rightarrow> world res" where
  "process_create_wallets X pid accounts w =
     and_then (next_account_info accounts) (\<lambda>(token_mint, it).
     and_then (next_account_info it) (\<lambda>(wallet, it).
     and_then (next_account_info it) (\<lambda>(vault, it).
     and_then (next_account_info it) (\<lambda>(fee_payer, it).
     and_then (next_account_info it) (\<lambda>(_, it).
     and_then (next_account_info it) (\<lambda>(_, it).
     let wallet_seeds = wallet_seed (key token_mint); wallet_addr = x_pda X wallet_seeds pid in
     and_then (ensure (key wallet = wallet_addr) InvalidArgument) (\<lambda>_.
     let vault_seeds = vault_seed (key token_mint); vault_addr = x_pda X vault_seeds pid in
     and_then (ensure (key vault = vault_addr) InvalidArgument) (\<lambda>_.
     let transfer_authority = x_pda X authority_seed pid; min_balance = x_rent X 165 in
     and_then (x_cpi X accounts
       (SystemCreate (key fee_payer) wallet_addr min_balance 165 (x_token_id X)) [wallet_seeds] w) (\<lambda>w.
     and_then (x_cpi X accounts (TokenInit wallet_addr (key token_mint) transfer_authority) [] w) (\<lambda>w.
     and_then (x_cpi X accounts
       (SystemCreate (key fee_payer) vault_addr min_balance 165 (x_token_id X)) [vault_seeds] w) (\<lambda>w.
     x_cpi X accounts (TokenInit vault_addr (key token_mint) transfer_authority) [] w)))))))))))"

definition process_set_admin ::
  "human_ext \<Rightarrow> pubkey \<Rightarrow> account_info list \<Rightarrow> pubkey \<Rightarrow> world \<Rightarrow> world res" where
  "process_set_admin H pid accounts new_admin w =
     and_then (next_entity (HE H) accounts pid w) (\<lambda>(st, state_acc, it).
     and_then (next_signer_account it (cs_admin st)) (\<lambda>(_, it).
     drop_guard (HE H) (st\<lparr>cs_admin := new_admin\<rparr>) state_acc w))"

text \<open>
  Vesting (\<open>vest.rs\<close>), which the dispatcher has switched off. Its own reader of the vault
  checks the address and not the owner.
\<close>

definition next_vault_wallet ::
  "account_info list \<Rightarrow> pubkey \<Rightarrow> world \<Rightarrow> (token_account \<times> account_info list) res" where
  "next_vault_wallet it addr w =
     and_then (next_account_info it) (\<lambda>(acc, it).
     and_then (ensure (key acc = addr) InvalidArgument) (\<lambda>_.
     and_then (or_panic (read_data (key acc) w)) (\<lambda>d.
     and_then (unpack_token d) (\<lambda>t. Inr (t, it)))))"

definition process_vest ::
  "human_ext \<Rightarrow> 'n precise \<Rightarrow> ext \<Rightarrow> pubkey \<Rightarrow> account_info list \<Rightarrow> world \<Rightarrow> world res" where
  "process_vest H P X pid accounts w =
     and_then (next_entity (HE H) accounts pid w) (\<lambda>(st, state_acc, it).
     let vault_addr = x_pda X (vault_seed (cs_token st)) pid in
     and_then (next_vault_wallet it vault_addr w) (\<lambda>(vault, it).
     and_then (next_account_info it) (\<lambda>(owner_token_wallet, it).
     and_then (next_account_info it) (\<lambda>(transfer_authority_info, it).
     and_then (next_account_info it) (\<lambda>(token_program, it).
     and_then (ensure (key owner_token_wallet = x_ata X (cs_owner st) (cs_token st)) InvalidArgument) (\<lambda>_.
     and_then (ensure (key token_program = x_token_id X) InvalidArgument) (\<lambda>_.
     and_then (ensure (key transfer_authority_info = x_pda X authority_seed pid) InvalidSeeds) (\<lambda>_.
     and_then (next_period P (cs_vest st) (t_amount vault) (x_now X)) (\<lambda>(r, v).
     let st = st\<lparr>cs_vest := v\<rparr> in
     and_then (case r of
         Vest amount \<Rightarrow> x_cpi X accounts (TokenTransfer vault_addr (key owner_token_wallet)
           (key transfer_authority_info) amount) [authority_seed] w
       | PeriodVested \<Rightarrow> Inr w
       | Completed \<Rightarrow> Inr w) (\<lambda>w.
     drop_guard (HE H) st state_acc w))))))))))"

section \<open>Deposit of the commission\<close>

definition calculate_pool_tokens :: "'n precise \<Rightarrow> u64 \<Rightarrow> u64 \<Rightarrow> u64 \<Rightarrow> u64 res" where
  "calculate_pool_tokens P wsol_amount pool_token_supply swap_token_balance =
     and_then (unwrap (pn_new P (ucast wsol_amount))) (\<lambda>wsol_amount.
     and_then (unwrap (pn_new P (ucast pool_token_supply))) (\<lambda>pool_token_supply.
     and_then (unwrap (pn_new P (ucast swap_token_balance))) (\<lambda>swap_token_balance.
     and_then (ok_or human_overflow (pn_mul P wsol_amount pool_token_supply)) (\<lambda>p.
     and_then (ok_or human_overflow (pn_div P p swap_token_balance)) (\<lambda>q.
     and_then (ok_or human_overflow (pn_floor P q)) (\<lambda>f.
     and_then (ok_or human_overflow (pn_imprecise P f)) (\<lambda>r.
     ok_or human_overflow (u64_of_u128 r))))))))"

text \<open>
  The temporary wSOL account: lamports move from the state to the stash while both cells are
  borrowed, then the stash becomes a token account.
\<close>

definition create_stash ::
  "human_ext \<Rightarrow> ext \<Rightarrow> account_info list \<Rightarrow> account_info \<Rightarrow> account_info \<Rightarrow> u64 \<Rightarrow> pubkey \<Rightarrow> world \<Rightarrow> world res" where
  "create_stash H X accounts state_acc stash to_fund authority w =
     and_then (borrow_lamports (key state_acc) w) (\<lambda>w.
     and_then (borrow_lamports (key stash) w) (\<lambda>w.
     and_then (unwrap (checked_sub (lamports_of w (key state_acc)) to_fund)) (\<lambda>l.
     let w = set_lamports (key state_acc) l w in
     and_then (unwrap (checked_add (lamports_of w (key stash)) to_fund)) (\<lambda>l.
     let w = release_lamports (key stash) (release_lamports (key state_acc) (set_lamports (key stash) l w)) in
     and_then (hx_cpi H accounts (Allocate (key stash) 165 (key state_acc)) [] w) (\<lambda>w.
     and_then (hx_cpi H accounts (Assign (key stash) (x_token_id X)) [] w) (\<lambda>w.
     x_cpi X accounts (TokenInit (key stash) (x_native_mint X) authority) [] w))))))"

definition process_deposit_commission ::
  "human_ext \<Rightarrow> 'n precise \<Rightarrow> ext \<Rightarrow> pubkey \<Rightarrow> account_info list \<Rightarrow> world \<Rightarrow> world res" where
  "process_deposit_commission H P X pid accounts w =
     and_then (next_entity (HE H) accounts pid w) (\<lambda>(st, state_acc, it).
     let vault = x_pda X (vault_seed (cs_token st)) pid in
     and_then (next_expected_token_wallet X it vault w) (\<lambda>(vault_wallet, it).
     and_then (next_account_info it) (\<lambda>(stash, it).
     let authority = x_pda X authority_seed pid in
     and_then (next_expected_account it authority) (\<lambda>(_, it).
     and_then (next_expected_account it (cs_swap_state st)) (\<lambda>(swap_state_acc, it).
     and_then (read_data (key swap_state_acc) w) (\<lambda>d.
     and_then (hx_swap H d) (\<lambda>swap_state.
     let swap_auth = x_pda X [SeedKey (cs_swap_state st)] swap_program_id in
     and_then (next_expected_account it swap_auth) (\<lambda>(_, it).
     and_then (next_expected_account it (sw_token_a swap_state)) (\<lambda>(swap_wallet_a, it).
     and_then (next_expected_account it (sw_token_b swap_state)) (\<lambda>(swap_wallet_b, it).
     and_then (next_expected_account it (sw_pool_mint swap_state)) (\<lambda>(pool_token_mint, it).
     and_then (next_atoken_wallet X it (cs_owner st) (sw_pool_mint swap_state) w) (\<lambda>(owner_lp_wallet, _, it).
     let wallet_rent = x_rent X 165; state_rent = x_rent X state_acc_size in
     and_then (ok_or human_overflow (checked_sub (lamports_of w (key state_acc)) state_rent)) (\<lambda>to_deposit_lp.
     and_then (ok_or human_overflow (checked_add to_deposit_lp wallet_rent)) (\<lambda>to_fund_wsol_account.
     and_then (mint_of pool_token_mint w) (\<lambda>pool_mint.
     and_then (token_of swap_wallet_a w) (\<lambda>swap_token_wallet.
     and_then (token_of swap_wallet_b w) (\<lambda>swap_wsol_wallet.
     and_then (calculate_pool_tokens P to_deposit_lp (mt_supply pool_mint) (t_amount swap_wsol_wallet)) (\<lambda>pool_tokens.
     and_then (ok_or human_overflow (hx_trading_tokens H (ucast pool_tokens) (ucast (mt_supply pool_mint))
       (ucast (t_amount swap_token_wallet)) (ucast (t_amount swap_wsol_wallet)))) (\<lambda>(token_a_amount, _).
     if unat (t_amount vault_wallet) < unat token_a_amount then drop_guard (HE H) st state_acc w else
     and_then (create_stash H X accounts state_acc stash to_fund_wsol_account authority w) (\<lambda>w.
     and_then (hx_cpi H accounts (DepositAllTokenTypes (cs_swap_state st) swap_auth authority vault (key stash)
       (key swap_wallet_a) (key swap_wallet_b) (key pool_token_mint) owner_lp_wallet pool_tokens (- 1) (- 1))
       [authority_seed] w) (\<lambda>w.
     and_then (x_cpi X accounts (TokenClose (key stash) (key state_acc) authority) [authority_seed] w) (\<lambda>w.
     drop_guard (HE H) st state_acc w))))))))))))))))))))))"

section \<open>Posts\<close>

text \<open>A token without decimals and with a supply of one, in the associated wallet of \<open>to_wallet\<close>.\<close>

definition mint_nft ::
  "human_ext \<Rightarrow> ext \<Rightarrow> pubkey \<Rightarrow> pubkey \<Rightarrow> pubkey \<Rightarrow> pubkey \<Rightarrow> account_info list \<Rightarrow> seed list list
    \<Rightarrow> world \<Rightarrow> world res" where
  "mint_nft H X mnt to_wallet authority payer accounts seeds w =
     and_then (x_cpi X accounts (SystemCreate payer mnt (x_rent X 82) 82 (x_token_id X)) seeds w) (\<lambda>w.
     and_then (hx_cpi H accounts (InitMint mnt authority (Some authority) 0) seeds w) (\<lambda>w.
     let atoken_wallet = x_ata X to_wallet mnt in
     and_then (hx_cpi H accounts (CreateAta payer to_wallet mnt) [] w) (\<lambda>w.
     hx_cpi H accounts (MintTo mnt atoken_wallet authority 1) seeds w)))"

definition save_post_info ::
  "human_ext \<Rightarrow> ext \<Rightarrow> pubkey \<Rightarrow> pubkey \<Rightarrow> post_info \<Rightarrow> account_info \<Rightarrow> account_info list \<Rightarrow> world \<Rightarrow> world res" where
  "save_post_info H X pid payer_addr post_info post_info_acc accounts w =
     (let seeds = post_info_seed (pi_post_id post_info); derived_info_key = x_pda X seeds pid in
     and_then (ensure (key post_info_acc = derived_info_key) InvalidArgument) (\<lambda>_.
     and_then (x_cpi X accounts (SystemCreate payer_addr derived_info_key (x_rent X 350) 350 pid) [seeds] w) (\<lambda>w.
     initialize_entity (PE H) post_info post_info_acc w)))"

definition post_creators :: "pubkey \<Rightarrow> pubkey \<Rightarrow> pubkey \<Rightarrow> nft_creator list" where
  "post_creators royalty_addr owner authority =
     [\<lparr>nc_address = royalty_addr, nc_share = 100, nc_verified = False\<rparr>,
      \<lparr>nc_address = owner, nc_share = 0, nc_verified = False\<rparr>,
      \<lparr>nc_address = authority, nc_share = 0, nc_verified = True\<rparr>]"

text \<open>The collection of the token, made by the first post.\<close>

definition create_collection ::
  "human_ext \<Rightarrow> ext \<Rightarrow> pubkey \<Rightarrow> pubkey \<Rightarrow> pubkey \<Rightarrow> seed list \<Rightarrow> register_post_instruction
    \<Rightarrow> nft_creator list \<Rightarrow> account_info list \<Rightarrow> world \<Rightarrow> world res" where
  "create_collection H X collection_mint authority payer collection_seeds args creators accounts w =
     (let metadata = hx_metadata_pda H collection_mint; edition = hx_edition_pda H collection_mint in
     and_then (mint_nft H X collection_mint authority authority payer accounts
       [collection_seeds, authority_seed] w) (\<lambda>w.
     and_then (hx_cpi H accounts (CreateMetadata metadata collection_mint authority payer authority
       (rp_collection_name args) (rp_symbol args) (rp_collection_metadata_uri args) creators
       post_royalty_commission_bsp (Some 0)) [authority_seed] w) (\<lambda>w.
     hx_cpi H accounts (CreateMasterEdition edition collection_mint authority authority metadata payer (Some 0))
       [authority_seed] w)))"

definition create_master_post ::
  "human_ext \<Rightarrow> ext \<Rightarrow> pubkey \<Rightarrow> pubkey \<Rightarrow> account_info \<Rightarrow> pubkey \<Rightarrow> pubkey \<Rightarrow> seed list
    \<Rightarrow> register_post_instruction \<Rightarrow> nft_creator list \<Rightarrow> account_info list \<Rightarrow> world \<Rightarrow> world res" where
  "create_master_post H X master_mint collection_mint collection_metadata_acc authority payer master_seeds
     args creators accounts w =
     (let metadata = hx_metadata_pda H master_mint; edition = hx_edition_pda H master_mint in
     and_then (mint_nft H X master_mint authority authority payer accounts [master_seeds, authority_seed] w) (\<lambda>w.
     and_then (hx_cpi H accounts (CreateMetadata metadata master_mint authority payer authority
       (rp_post_name args) (rp_symbol args) (rp_post_metadata_uri args) creators
       post_royalty_commission_bsp None) [authority_seed] w) (\<lambda>w.
     and_then (hx_cpi H accounts (UpdatePrimarySale metadata authority True) [authority_seed] w) (\<lambda>w.
     and_then (hx_cpi H accounts (CreateMasterEdition edition master_mint authority authority metadata payer None)
       [authority_seed] w) (\<lambda>w.
     and_then (hx_metadata H (accts w (key collection_metadata_acc))) (\<lambda>collection_meta.
     hx_cpi H accounts (VerifyCollection (nm_sized_collection collection_meta) metadata authority payer
       authority collection_mint (hx_metadata_pda H collection_mint) (hx_edition_pda H collection_mint))
       [authority_seed] w))))))"

definition process_register_post ::
  "human_ext \<Rightarrow> ext \<Rightarrow> pubkey \<Rightarrow> account_info list \<Rightarrow> register_post_instruction \<Rightarrow> world \<Rightarrow> world res" where
  "process_register_post H X pid accounts args w =
     (let authority = x_pda X authority_seed pid in
     and_then (next_entity (HE H) accounts pid w) (\<lambda>(st, state_acc, it).
     and_then (next_account_info it) (\<lambda>(_, it).
     and_then (next_account_info it) (\<lambda>(payer, it).
     and_then (next_account_info it) (\<lambda>(post_info_acc, it).
     if \<not> data_is_empty X post_info_acc w then drop_guard (HE H) st state_acc w else
     let master_seeds = master_post_mint_seed (rp_post_id args); master_mint = x_pda X master_seeds pid in
     and_then (next_expected_account it master_mint) (\<lambda>(master_post_mint_acc, it).
     and_then (next_expected_account it (x_ata X authority master_mint)) (\<lambda>(_, it).
     and_then (next_expected_account it (hx_metadata_pda H master_mint)) (\<lambda>(_, it).
     and_then (next_expected_account it (hx_edition_pda H master_mint)) (\<lambda>(_, it).
     and_then (next_expected_account it authority) (\<lambda>(_, it).
     let collection_seeds = collection_mint_seed (cs_token st); collection_mint = x_pda X collection_seeds pid in
     and_then (next_expected_account it collection_mint) (\<lambda>(collection_mint_acc, it).
     and_then (next_expected_account it (x_ata X authority collection_mint)) (\<lambda>(_, it).
     and_then (next_expected_account it (hx_metadata_pda H collection_mint)) (\<lambda>(collection_metadata_acc, it).
     and_then (next_expected_account it (hx_edition_pda H collection_mint)) (\<lambda>(_, it).
     if \<not> data_is_empty X master_post_mint_acc w then drop_guard (HE H) st state_acc w else
     let creators = post_creators (rp_royalty_addr args) (cs_owner st) authority in
     and_then (if data_is_empty X collection_mint_acc w
       then create_collection H X collection_mint authority (key payer) collection_seeds args creators accounts w
       else Inr w) (\<lambda>w.
     and_then (if 0 < unat (rp_repost_price args)
       then create_master_post H X master_mint collection_mint collection_metadata_acc authority (key payer)
         master_seeds args creators accounts w
       else Inr w) (\<lambda>w.
     and_then (save_post_info H X pid (key payer)
       \<lparr>pi_state = key state_acc, pi_post_id = rp_post_id args, pi_created_at = rp_created_at args,
        pi_repost_price = Some (rp_repost_price args), pi_royalty_address = rp_royalty_addr args,
        pi_payer = key payer, pi_name = rp_post_name args, pi_symbol = rp_symbol args,
        pi_uri = rp_post_metadata_uri args\<rparr> post_info_acc accounts w) (\<lambda>w.
     drop_guard (HE H) st state_acc w)))))))))))))))))"

section \<open>Reposts\<close>

definition calculate_tokens_for_repost_fee :: "'n precise \<Rightarrow> u64 \<Rightarrow> u64 \<Rightarrow> u64 \<Rightarrow> u64 option" where
  "calculate_tokens_for_repost_fee P amount_in wsol_amount chatlans_amount = do {
     amount_in \<leftarrow> pn_new P (ucast amount_in);
     coeff \<leftarrow> pn_new P 1000000000;
     wsol \<leftarrow> pn_new P (ucast wsol_amount);
     a_balance \<leftarrow> pn_mul P wsol coeff;
     chatlans \<leftarrow> pn_new P (ucast chatlans_amount);
     b_balance \<leftarrow> pn_mul P chatlans coeff;
     const_prod \<leftarrow> pn_mul P a_balance b_balance;
     a \<leftarrow> pn_add P a_balance amount_in;
     prod \<leftarrow> pn_mul P b_balance a;
     y \<leftarrow> pn_sub P prod const_prod;
     amount_out \<leftarrow> pn_div P y a;
     r \<leftarrow> pn_imprecise P amount_out;
     u64_of_u128 r
   }"

definition save_repost_record ::
  "human_ext \<Rightarrow> ext \<Rightarrow> pubkey \<Rightarrow> pubkey \<Rightarrow> repost_record \<Rightarrow> account_info \<Rightarrow> pubkey \<Rightarrow> account_info list
    \<Rightarrow> world \<Rightarrow> world res" where
  "save_repost_record H X pid payer_addr record_v record_acc repost_mint accounts w =
     and_then (x_cpi X accounts (SystemCreate payer_addr (key record_acc) (x_rent X 177) 177 pid)
       [repost_record_seed repost_mint] w) (\<lambda>w.
     initialize_entity (RE H) record_v record_acc w)"

definition process_repost ::
  "human_ext \<Rightarrow> 'n precise \<Rightarrow> ext \<Rightarrow> pubkey \<Rightarrow> account_info list \<Rightarrow> world \<Rightarrow> world res" where
  "process_repost H P X pid accounts w =
     and_then (next_entity (HE H) accounts pid w) (\<lambda>(st, state_acc, it).
     and_then (next_account_info it) (\<lambda>(master_mint, it).
     and_then (next_account_info it) (\<lambda>(master_wallet, it).
     and_then (next_account_info it) (\<lambda>(master_metadata, it).
     and_then (next_account_info it) (\<lambda>(master_edition, it).
     and_then (next_entity (PE H) it pid w) (\<lambda>(post_info, post_info_acc, it).
     and_then (next_account_info it) (\<lambda>(repost_mint, it).
     and_then (next_account_info it) (\<lambda>(repost_metadata, it).
     and_then (next_account_info it) (\<lambda>(repost_edition, it).
     and_then (next_account_info it) (\<lambda>(_, it).
     and_then (next_account_info it) (\<lambda>(user, it).
     and_then (next_account_info it) (\<lambda>(_, it).
     and_then (next_expected_account it (x_ata X (key user) (cs_token st))) (\<lambda>(user_wallet, it).
     and_then (next_expected_account it (cs_owner st)) (\<lambda>(_, it).
     and_then (next_expected_account it (cs_treasury_addr st)) (\<lambda>(_, it).
     and_then (next_account_info it) (\<lambda>(record_acc, it).
     and_then (next_expected_account it (x_pda X authority_seed pid)) (\<lambda>(authority, it).
     and_then (next_expected_account it (cs_swap_state st)) (\<lambda>(swap_state_acc, it).
     and_then (read_data (key swap_state_acc) w) (\<lambda>d.
     and_then (hx_swap H d) (\<lambda>swap_state.
     and_then (next_expected_token_wallet X it (sw_token_a swap_state) w) (\<lambda>(swap_wallet_token, it).
     and_then (next_expected_token_wallet X it (sw_token_b swap_state) w) (\<lambda>(swap_wallet_wsol, it).
     and_then (ensure (pi_state post_info = key state_acc) InvalidArgument) (\<lambda>_.
     and_then (ensure (key master_mint = x_pda X (master_post_mint_seed (pi_post_id post_info)) pid)
       InvalidArgument) (\<lambda>_.
     and_then (ensure (can_repost post_info (x_now X)) (from_human_error RepostWindowExpired)) (\<lambda>_.
     let repost_price = (case pi_repost_price post_info of None \<Rightarrow> default_report_price_lamports | Some p \<Rightarrow> p);
         repost_price = (if key user = cs_owner st then 0 else repost_price) in
     and_then (ok_or human_overflow (calculate_split_by_lamports P repost_price)) (\<lambda>split.
     and_then (x_cpi X accounts (SystemTransfer (key user) (cs_owner st) (bs_owner_split split)) [] w) (\<lambda>w.
     and_then (x_cpi X accounts (SystemTransfer (key user) (cs_treasury_addr st) (bs_treasury_split split)) [] w) (\<lambda>w.
     and_then (x_cpi X accounts (SystemTransfer (key user) (key state_acc) (bs_commission split)) [] w) (\<lambda>w.
     and_then (mint_nft H X (key repost_mint) (key user) (key authority) (key user) accounts [authority_seed] w) (\<lambda>w.
     and_then (ensure (owner_of w (key master_edition) = hx_metadata_id H) IllegalOwner) (\<lambda>_.
     and_then (ensure (hx_edition_pda H (key master_mint) = key master_edition) InvalidArgument) (\<lambda>_.
     and_then (hx_edition_supply H (accts w (key master_edition))) (\<lambda>supply_v.
     and_then (ok_or human_overflow (checked_add supply_v 1)) (\<lambda>edition.
     and_then (hx_cpi H accounts (MintNewEdition (key repost_metadata) (key repost_edition) (key master_edition)
       (key repost_mint) (key authority) (key user) (key authority) (key master_wallet) (key authority)
       (key master_metadata) (key master_mint) edition) [authority_seed] w) (\<lambda>w.
     and_then (hx_cpi H accounts (UpdatePrimarySale (key repost_metadata) (key authority) True)
       [authority_seed] w) (\<lambda>w.
     and_then (ok_or human_overflow (calculate_tokens_for_repost_fee P repost_price
       (t_amount swap_wallet_wsol) (t_amount swap_wallet_token))) (\<lambda>amount.
     let amount = max amount 1;
         repost = \<lparr>rr_state = key state_acc, rr_token = cs_token st, rr_user = key user,
           rr_post_id = pi_post_id post_info, rr_reposted_at = x_now X, rr_receive_amount = amount,
           rr_payer = key user\<rparr> in
     and_then (if key user \<noteq> cs_owner st
       then save_repost_record H X pid (key user) repost record_acc (key repost_mint) accounts w
       else Inr w) (\<lambda>w.
     and_then (if data_is_empty X user_wallet w
       then hx_cpi H accounts (CreateAta (key user) (key user) (cs_token st)) [] w
       else Inr w) (\<lambda>w.
     and_then (drop_guard (PE H) post_info post_info_acc w) (\<lambda>w.
     drop_guard (HE H) st state_acc w))))))))))))))))))))))))))))))))))))))))"

section \<open>Redeeming a repost\<close>

text \<open>
  \<open>AccountInfo::realloc\<close> borrows the data of the account mutably. The caller holds such a borrow
  of the same account, so the data is locked while it runs.
\<close>

definition realloc_data :: "pubkey \<Rightarrow> nat \<Rightarrow> world \<Rightarrow> world res" where
  "realloc_data k n w =
     and_then (read_data k w) (\<lambda>d.
     and_then (raw_bytes d) (\<lambda>bs.
     Inr (set_data k (Raw (take n bs @ replicate (n - length bs) 0)) w)))"

definition migrate_record :: "human_ext \<Rightarrow> account_info \<Rightarrow> world \<Rightarrow> world res" where
  "migrate_record H record_acc w =
     (let k = key record_acc in
     and_then (read_data k w) (\<lambda>d.
     case d of
       Raw bs \<Rightarrow>
         if length bs = 145 \<and> hd bs = e_magic (RE H)
         then and_then (realloc_data k (e_size (RE H)) (w\<lparr>data_locked := k # data_locked w\<rparr>)) (\<lambda>w.
           Inr (set_data k (case data_of w k of Raw bs \<Rightarrow> Raw (take 144 bs @ replicate (length bs - 144) 0) | d \<Rightarrow> d)
             (w\<lparr>data_locked := remove1 k (data_locked w)\<rparr>)))
         else Inr w
     | _ \<Rightarrow> Inr w))"

text \<open>The payer's cell stays borrowed; \<open>memset\<close> clears the data.\<close>

definition erase_repost_record :: "account_info \<Rightarrow> pubkey \<Rightarrow> world \<Rightarrow> world res" where
  "erase_repost_record acc payer w =
     and_then (borrow_lamports (key acc) w) (\<lambda>w.
     let taken = lamports_of w (key acc); w = release_lamports (key acc) (set_lamports (key acc) 0 w) in
     and_then (ok_or human_overflow (checked_add (lamports_of w payer) taken)) (\<lambda>l.
     let w = set_lamports payer l w in
     and_then (read_data (key acc) w) (\<lambda>d.
     and_then (raw_bytes d) (\<lambda>bs.
     Inr (set_data (key acc) (Raw (replicate (length bs) 0)) w)))))"

definition process_redeem_repost ::
  "human_ext \<Rightarrow> ext \<Rightarrow> pubkey \<Rightarrow> account_info list \<Rightarrow> world \<Rightarrow> world res" where
  "process_redeem_repost H X pid accounts w =
     and_then (next_entity (HE H) accounts pid w) (\<lambda>(st, state_acc, it).
     and_then (case it of [] \<Rightarrow> Inl (Err NotEnoughAccountKeys) | a # _ \<Rightarrow> migrate_record H a w) (\<lambda>w.
     and_then (next_entity (RE H) it pid w) (\<lambda>(rec, record_acc, it).
     let vault_addr = x_pda X (vault_seed (cs_token st)) pid in
     and_then (next_expected_token_wallet X it vault_addr w) (\<lambda>(_, it).
     and_then (next_expected_account it (rr_user rec)) (\<lambda>(_, it).
     and_then (next_atoken_wallet X it (rr_user rec) (rr_token rec) w) (\<lambda>(user_wallet_addr, _, it).
     and_then (next_expected_account it (rr_payer rec)) (\<lambda>(return_payer, it).
     let authority = x_pda X authority_seed pid in
     and_then (next_expected_account it authority) (\<lambda>(_, it).
     and_then (ensure (rr_state rec = key state_acc) InvalidArgument) (\<lambda>_.
     and_then (can_redeem rec (x_now X)) (\<lambda>can.
     if \<not> can then and_then (drop_guard (RE H) rec record_acc w) (\<lambda>w. drop_guard (HE H) st state_acc w) else
     and_then (x_cpi X accounts (TokenTransfer vault_addr user_wallet_addr authority (rr_receive_amount rec))
       [authority_seed] w) (\<lambda>w.
     and_then (drop_guard (RE H) rec record_acc w) (\<lambda>w.
     and_then (borrow_lamports (key return_payer) w) (\<lambda>w.
     and_then (erase_repost_record record_acc (key return_payer) w) (\<lambda>w.
     drop_guard (HE H) st state_acc (release_lamports (key return_payer) w)))))))))))))))"

section \<open>Rounds\<close>

definition expected_members :: "contract_state \<Rightarrow> pubkey \<Rightarrow> member list" where
  "expected_members st state_addr =
     [\<lparr>address = cs_treasury_addr st, share = 9650\<rparr>, \<lparr>address = cs_admin st, share = 250\<rparr>,
      \<lparr>address = state_addr, share = 100\<rparr>]"

definition deserialize_fanout :: "acct_data \<Rightarrow> fanout res" where
  "deserialize_fanout d = (case d of FanoutData fo \<Rightarrow> Inr fo | _ \<Rightarrow> Inl (Err AnchorError))"

definition deserialize_round :: "acct_data \<Rightarrow> round res" where
  "deserialize_round d = (case d of RoundData r \<Rightarrow> Inr r | _ \<Rightarrow> Inl (Err AnchorError))"

lemma deserialize_Inr [res_simps]:
  "deserialize_fanout d = Inr fo \<longleftrightarrow> d = FanoutData fo" "deserialize_round d = Inr r \<longleftrightarrow> d = RoundData r"
  by (cases d, auto simp: deserialize_fanout_def deserialize_round_def)+

definition ensure_fanout ::
  "human_ext \<Rightarrow> ext \<Rightarrow> account_info list \<Rightarrow> account_info \<Rightarrow> account_info \<Rightarrow> member list \<Rightarrow> world \<Rightarrow> world res" where
  "ensure_fanout H X accounts fanout_acc payer ms w =
     (if owner_of w (key fanout_acc) = fanout_id then
        and_then (read_data (key fanout_acc) w) (\<lambda>d.
        and_then (deserialize_fanout d) (\<lambda>fo.
        and_then (ensure (members fo = ms) InvalidArgument) (\<lambda>_. Inr w)))
      else
        let size = 8 + 8 + 4 + (32 + 2) * length ms in
        and_then (x_cpi X accounts (SystemCreate (key payer) (key fanout_acc) (x_rent X size) size fanout_id) [] w) (\<lambda>w.
        hx_cpi H accounts (FanoutInitialize (key fanout_acc) ms) [] w))"

definition process_create_round ::
  "human_ext \<Rightarrow> ext \<Rightarrow> pubkey \<Rightarrow> account_info list \<Rightarrow> create_round_instruction \<Rightarrow> world \<Rightarrow> world res" where
  "process_create_round H X pid accounts args w =
     and_then (or_panic (next_entity (HE H) accounts pid w)) (\<lambda>(st, state_acc, it).
     let vault_addr = x_pda X (vault_seed (cs_token st)) pid in
     and_then (next_expected_token_wallet X it vault_addr w) (\<lambda>(_, it).
     let authority = x_pda X authority_seed pid in
     and_then (next_expected_account it authority) (\<lambda>(_, it).
     and_then (next_account_info it) (\<lambda>(fanout_acc, it).
     and_then (next_account_info it) (\<lambda>(payer, it).
     and_then (next_account_info it) (\<lambda>(round_acc, it).
     and_then (next_account_info it) (\<lambda>(offer_wallet, it).
     and_then (next_account_info it) (\<lambda>(offer_mint, it).
     and_then (next_account_info it) (\<lambda>(bid_wallet, it).
     and_then (next_account_info it) (\<lambda>(bid_mint, it).
     and_then (next_account_info it) (\<lambda>(round_authority, it).
     and_then (ensure_fanout H X accounts fanout_acc payer (expected_members st (key state_acc)) w) (\<lambda>w.
     let amount = ri_offer_amount args in
     and_then (hx_cpi H accounts (Approve vault_addr authority authority amount) [authority_seed] w) (\<lambda>w.
     let params = \<lparr>p_heir = cs_owner st, p_recipient = key fanout_acc, p_target_bid = ri_target_bid args,
           p_bidding_start = ri_bidding_start args, p_bidding_end = ri_bidding_end args\<rparr>;
         accs = \<lparr>cr_round = writable (key round_acc) True, cr_offer_wallet = writable (key offer_wallet) False,
           cr_offer_mint = readonly (key offer_mint) False, cr_offer_source_wallet = writable vault_addr False,
           cr_offer_source_authority = readonly authority True, cr_bid_wallet = writable (key bid_wallet) False,
           cr_bid_mint = readonly (key bid_mint) False, cr_authority = readonly (key round_authority) False,
           cr_payer = writable (key payer) True, cr_token_program = readonly (x_token_id X) False,
           cr_system_program = readonly (x_system_id X) False\<rparr> in
     and_then (hx_cpi H accounts (RoundCreate accs params) [authority_seed] w) (\<lambda>w.
     drop_guard (HE H) (st\<lparr>cs_current_round := Some (key round_acc)\<rparr>) state_acc w))))))))))))))"

text \<open>Ten percent of the offer of an accepted round go to the owner, as far as the vault has them.\<close>

definition process_claim_round_vesting ::
  "human_ext \<Rightarrow> ext \<Rightarrow> pubkey \<Rightarrow> account_info list \<Rightarrow> world \<Rightarrow> world res" where
  "process_claim_round_vesting H X pid accounts w =
     and_then (next_entity (HE H) accounts pid w) (\<lambda>(st, state_acc, it).
     let vault_addr = x_pda X (vault_seed (cs_token st)) pid in
     and_then (next_expected_token_wallet X it vault_addr w) (\<lambda>(vault_wallet, it).
     let authority = x_pda X authority_seed pid in
     and_then (next_expected_account it authority) (\<lambda>(_, it).
     and_then (next_account_info it) (\<lambda>(round_acc, it).
     and_then (next_atoken_wallet X it (cs_owner st) (cs_token st) w) (\<lambda>(owner_wallet, _, it).
     and_then (read_data (key round_acc) w) (\<lambda>d.
     and_then (deserialize_round d) (\<lambda>r.
     if cs_current_round st \<noteq> Some (key round_acc) then drop_guard (HE H) st state_acc w else
     and_then (ensure (r_status r = Accepted) InvalidArgument) (\<lambda>_.
     and_then (unwrap (r_total_offer r)) (\<lambda>total_offer.
     and_then (unwrap (checked_div total_offer 10)) (\<lambda>amount.
     let amount = min amount (t_amount vault_wallet) in
     and_then (x_cpi X accounts (TokenTransfer vault_addr owner_wallet authority amount) [authority_seed] w) (\<lambda>w.
     and_then (unwrap (checked_add (cs_completed_rounds_count st) 1)) (\<lambda>n.
     drop_guard (HE H) (st\<lparr>cs_current_round := None, cs_completed_rounds_count := n\<rparr>) state_acc w))))))))))))"

section \<open>Compressed reposts\<close>

definition process_initialize_tree ::
  "human_ext \<Rightarrow> ext \<Rightarrow> pubkey \<Rightarrow> account_info list \<Rightarrow> world \<Rightarrow> world res" where
  "process_initialize_tree H X pid accounts w =
     (let authority = x_pda X authority_seed pid in
     and_then (next_expected_account accounts authority) (\<lambda>(_, it).
     and_then (next_expected_account it tree_id) (\<lambda>(tree, it).
     and_then (assert_that (data_len X (data_of w (key tree)) = 1561592)) (\<lambda>_.
     and_then (next_account_info it) (\<lambda>(tree_authority, it).
     and_then (next_account_info it) (\<lambda>(payer, it).
     hx_cpi H accounts (CreateTree (key tree_authority) (key tree) (key payer) authority 30 512 (Some False))
       [authority_seed] w))))))"

definition process_repost_compressed ::
  "human_ext \<Rightarrow> ext \<Rightarrow> pubkey \<Rightarrow> account_info list \<Rightarrow> world \<Rightarrow> world res" where
  "process_repost_compressed H X pid accounts w =
     and_then (next_entity (HE H) accounts pid w) (\<lambda>(st, state_acc, it).
     and_then (next_entity (PE H) it pid w) (\<lambda>(post_info, post_info_acc, it).
     and_then (next_account_info it) (\<lambda>(user, it).
     and_then (next_account_info it) (\<lambda>(user_wallet, it).
     and_then (next_account_info it) (\<lambda>(payer, it).
     and_then (next_account_info it) (\<lambda>(repost_mint, it).
     and_then (next_account_info it) (\<lambda>(record_acc, it).
     let authority = x_pda X authority_seed pid in
     and_then (next_expected_account it authority) (\<lambda>(_, it).
     and_then (next_account_info it) (\<lambda>(tree_authority, it).
     and_then (next_expected_account it tree_id) (\<lambda>(tree, it).
     let collection_mint = x_pda X (collection_mint_seed (cs_token st)) pid in
     and_then (next_expected_account it collection_mint) (\<lambda>(_, it).
     let collection_metadata = hx_metadata_pda H collection_mint in
     and_then (next_expected_account it collection_metadata) (\<lambda>(collection_metadata_acc, it).
     let collection_edition = hx_edition_pda H collection_mint in
     and_then (next_expected_account it collection_edition) (\<lambda>(_, it).
     and_then (ensure (pi_state post_info = key state_acc) InvalidArgument) (\<lambda>_.
     and_then (ensure (can_repost post_info (x_now X)) (from_human_error RepostWindowExpired)) (\<lambda>_.
     let repost = \<lparr>rr_state = key state_acc, rr_token = cs_token st, rr_user = key user,
           rr_post_id = pi_post_id post_info, rr_reposted_at = x_now X,
           rr_receive_amount = free_repost_receive_amount, rr_payer = key payer\<rparr> in
     and_then (if key user \<noteq> cs_owner st
       then save_repost_record H X pid (key payer) repost record_acc (key repost_mint) accounts w
       else Inr w) (\<lambda>w.
     and_then (if data_is_empty X user_wallet w
       then hx_cpi H accounts (CreateAta (key payer) (key user) (cs_token st)) [] w
       else Inr w) (\<lambda>w.
     let args = \<lparr>md_name = pi_name post_info, md_symbol = pi_symbol post_info, md_uri = pi_uri post_info,
           md_seller_fee = post_royalty_commission_bsp, md_collection = collection_mint,
           md_creators = post_creators (pi_royalty_address post_info) (cs_owner st) authority\<rparr> in
     and_then (read_data (key collection_metadata_acc) w) (\<lambda>d.
     and_then (hx_metadata_bytes H d) (\<lambda>meta.
     and_then (if \<not> nm_sized_collection meta
       then hx_cpi H accounts (SetCollectionSize collection_metadata authority collection_mint 0) [authority_seed] w
       else Inr w) (\<lambda>w.
     and_then (hx_cpi H accounts (MintToCollection (key tree_authority) (key user) (key tree) (key payer)
       authority collection_mint collection_metadata collection_edition args) [authority_seed] w) (\<lambda>w.
     and_then (drop_guard (PE H) post_info post_info_acc w) (\<lambda>w.
     drop_guard (HE H) st state_acc w))))))))))))))))))))))"

section \<open>The entry point\<close>

text \<open>
  The repair of states written before rounds existed. Reading a byte or a slice past the end
  of the data panics. The account is the first one of any instruction; only bytes are looked at,
  an account that another program types is left alone (the code would panic on some of them, and
  none is accepted by an instruction in this place, except a mint, which starts with a zero or
  a one).
\<close>

definition byte_at :: "nat \<Rightarrow> u8 list \<Rightarrow> u8 res" where
  "byte_at i bs = and_then (assert_that (i < length bs)) (\<lambda>_. Inr (bs ! i))"

definition u64_at :: "nat \<Rightarrow> u8 list \<Rightarrow> nat res" where
  "u64_at i bs = (case le_dec 8 (drop i bs) of None \<Rightarrow> Inl Panic | Some (n, _) \<Rightarrow> Inr n)"

definition fix_state :: "u8 list \<Rightarrow> u8 list res" where
  "fix_state bs =
     (if bs = [] \<or> hd bs \<noteq> 0x45 then Inr bs else
      and_then (byte_at 210 bs) (\<lambda>drop_tag.
      let current_round_offset = (if drop_tag = 1 then 211 + 48 else 211) in
      and_then (byte_at current_round_offset bs) (\<lambda>round_tag.
      let completed_rounds_offset =
        (if round_tag = 1 then current_round_offset + 1 + 32 else current_round_offset + 1) in
      and_then (u64_at completed_rounds_offset bs) (\<lambda>completed_rounds_count.
      if 1 < unat round_tag \<or> 1000 < completed_rounds_count
      then Inr (take current_round_offset bs @ replicate (length bs - current_round_offset) 0)
      else Inr bs))))"

definition try_fix_state :: "account_info list \<Rightarrow> world \<Rightarrow> world res" where
  "try_fix_state accounts w =
     (case accounts of [] \<Rightarrow> Inl Panic | a # _ \<Rightarrow>
      and_then (or_panic (read_data (key a) w)) (\<lambda>d.
      case d of
        Raw bs \<Rightarrow> and_then (fix_state bs) (\<lambda>bs'. Inr (set_data (key a) (Raw bs') w))
      | _ \<Rightarrow> Inr w))"

definition process_instruction ::
  "human_ext \<Rightarrow> 'n precise \<Rightarrow> ext \<Rightarrow> pubkey \<Rightarrow> account_info list \<Rightarrow> u8 list \<Rightarrow> world \<Rightarrow> world res" where
  "process_instruction H P X pid accounts instruction_data w =
     and_then (try_fix_state accounts w) (\<lambda>w.
     and_then (ok_or InvalidInstructionData (hx_parse H instruction_data)) (\<lambda>instruction.
     case instruction of
       CreateWallets \<Rightarrow> process_create_wallets X pid accounts w
     | Init ii \<Rightarrow> process_init_state H X pid accounts ii w
     | Deprecated1 \<Rightarrow> Inr w
     | Deprecated2 \<Rightarrow> Inr w
     | Deprecated3 \<Rightarrow> Inr w
     | Deprecated4 \<Rightarrow> Inr w
     | VestTokens \<Rightarrow> Inr w
     | MigrateState \<Rightarrow> process_migrate_state H X accounts w
     | SetAdmin admin \<Rightarrow> process_set_admin H pid accounts admin w
     | DepositCommission \<Rightarrow> process_deposit_commission H P X pid accounts w
     | RegisterPost args \<Rightarrow> process_register_post H X pid accounts args w
     | Repost \<Rightarrow> process_repost H P X pid accounts w
     | RedeemRepost \<Rightarrow> process_redeem_repost H X pid accounts w
     | CreateRound args \<Rightarrow> process_create_round H X pid accounts args w
     | ClaimRoundVesting \<Rightarrow> process_claim_round_vesting H X pid accounts w
     | InitializeTree \<Rightarrow> process_initialize_tree H X pid accounts w
     | RepostCompressed \<Rightarrow> process_repost_compressed H X pid accounts w))"

section \<open>The instruction builders\<close>

definition create_init_instruction ::
  "human_ext \<Rightarrow> ext \<Rightarrow> pubkey \<Rightarrow> pubkey \<Rightarrow> pubkey \<Rightarrow> pubkey \<Rightarrow> init_instruction \<Rightarrow> instruction" where
  "create_init_instruction H X pid st token feepayer args =
     \<lparr>in_program_id = pid,
      in_accounts = [writable st False, readonly token False, readonly feepayer True,
        readonly (x_token_id X) False, readonly (x_system_id X) False, readonly pid False],
      in_data = hx_encode H (Init args)\<rparr>"

definition create_wallets :: "human_ext \<Rightarrow> ext \<Rightarrow> pubkey \<Rightarrow> pubkey \<Rightarrow> pubkey \<Rightarrow> instruction" where
  "create_wallets H X pid token_mint fee_payer =
     \<lparr>in_program_id = pid,
      in_accounts = [readonly token_mint False, writable (x_pda X (wallet_seed token_mint) pid) False,
        writable (x_pda X (vault_seed token_mint) pid) False, readonly fee_payer True,
        readonly (x_token_id X) False, readonly (x_system_id X) False, readonly (hx_rent_id H) False,
        readonly pid False],
      in_data = hx_encode H CreateWallets\<rparr>"

end
