(* ===== verification/HumanFix.thy ===== *)
theory HumanFix
  imports Human
begin

text \<open>
  The repair of the state that runs before every instruction (\<open>try_fix_state\<close>), against the layout
  of a state that Borsh writes: what the repair reads, and which states it changes.
\<close>

section \<open>The layout of a stored state\<close>

definition state_head :: "contract_state \<Rightarrow> u8 list" where
  "state_head s = enc key_codec (cs_token s) @ enc key_codec (cs_owner s) @ enc key_codec (cs_admin s)
     @ enc key_codec (cs_commission_addr s) @ enc key_codec (cs_treasury_addr s) @ enc key_codec (cs_swap_state s)
     @ enc u64_codec (cs_sold s) @ enc vest_state_codec (cs_vest s)"

definition state_drop :: "contract_state \<Rightarrow> u8 list" where
  "state_drop s = enc (option_codec drop_v2_codec) (cs_drop s)"

definition state_round :: "contract_state \<Rightarrow> u8 list" where
  "state_round s = enc (option_codec key_codec) (cs_current_round s)"

definition state_count :: "contract_state \<Rightarrow> u8 list" where
  "state_count s = le_enc 8 (unat (cs_completed_rounds_count s))"

lemma state_layout: "enc contract_state_codec s = state_head s @ state_drop s @ state_round s @ state_count s"
  by (simp add: contract_state_codec_def state_head_def state_drop_def state_round_def state_count_def enc_simps)

lemma state_head_length [simp]: "length (state_head s) = 209"
  by (simp add: state_head_def vest_state_codec_def enc_simps)

lemma state_drop_cases:
  "cs_drop s = None \<and> state_drop s = [0] \<or> (\<exists>d. cs_drop s \<noteq> None \<and> state_drop s = 1 # d \<and> length d = 48)"
  by (cases "cs_drop s") (simp_all add: state_drop_def drop_v2_codec_def enc_simps)

lemma state_round_cases:
  "cs_current_round s = None \<and> state_round s = [0]
   \<or> (\<exists>d. cs_current_round s \<noteq> None \<and> state_round s = 1 # d \<and> length d = 32)"
  by (cases "cs_current_round s") (simp_all add: state_round_def enc_simps)

lemma count_reads: "le_dec 8 (state_count s @ rest) = Some (unat (cs_completed_rounds_count s), rest)"
  unfolding state_count_def by (rule le_dec_enc) (use unat_u64_less in simp)

text \<open>The bytes the repair keeps, up to the tag of the round.\<close>

definition kept_length :: "contract_state \<Rightarrow> nat" where
  "kept_length s = 210 + length (state_drop s)"

lemma u64_at_count: "u64_at (length xs) (xs @ state_count s @ rest) = Inr (unat (cs_completed_rounds_count s))"
  by (simp add: u64_at_def count_reads)

lemma nth_mid: "length xs = n \<Longrightarrow> (xs @ y # ys) ! n = y"
  by auto

lemma fix_state_stored:
  assumes bytes: "bytes = 0x45 # state_head s @ state_drop s @ state_round s @ state_count s @ rest"
  shows "fix_state bytes = Inr (if 1000 < unat (cs_completed_rounds_count s)
    then take (kept_length s) bytes @ replicate (length bytes - kept_length s) 0 else bytes)"
proof -
  let ?head = "0x45 # state_head s"
  obtain dt dr where d: "state_drop s = dt # dr" "dt = 1 \<or> dt = 0" "length dr = (if dt = 1 then 48 else 0)"
    using state_drop_cases [of s] by auto
  obtain rt rr where r: "state_round s = rt # rr" "rt = 1 \<or> rt = 0" "length rr = (if rt = 1 then 32 else 0)"
    using state_round_cases [of s] by auto
  have at1: "byte_at 210 bytes = Inr dt"
  proof -
    have "bytes = ?head @ dt # (dr @ state_round s @ state_count s @ rest)"
      by (simp add: bytes d(1))
    then show ?thesis
      by (simp add: byte_at_def nth_append)
  qed
  let ?o = "if dt = 1 then 211 + 48 else 211 :: nat"
  have o: "?o = kept_length s" "?o = length (?head @ state_drop s)"
    by (simp_all add: kept_length_def d(1,3))
  have split2: "bytes = (?head @ state_drop s) @ rt # (rr @ state_count s @ rest)"
    by (simp add: bytes r(1))
  have at2: "byte_at ?o bytes = Inr rt"
    unfolding o(2) byte_at_def split2 by (simp add: nth_append)
  let ?c = "if rt = 1 then ?o + 1 + 32 else ?o + 1"
  have c: "?c = length (?head @ state_drop s @ state_round s)"
    using o(2) r(3) by (simp add: r(1))
  have "bytes = (?head @ state_drop s @ state_round s) @ state_count s @ rest"
    by (simp add: bytes)
  then have at3: "u64_at ?c bytes = Inr (unat (cs_completed_rounds_count s))"
    unfolding c by (simp only: u64_at_count)
  have start: "bytes \<noteq> []" "hd bytes = 0x45"
    by (simp_all add: bytes)
  have tag: "\<not> 1 < unat rt"
    using r(2) by auto
  show ?thesis
    unfolding fix_state_def Let_def at1 and_then_simps at2 at3 o(1) [symmetric]
    using start tag by simp
qed

text \<open>What a wiped state reads as.\<close>

lemma le_enc_zero: "le_enc k 0 = replicate k 0"
  by (induction k) simp_all

lemma zeros_split: "replicate (9 + m) (0 :: u8) = [0] @ replicate 8 0 @ replicate m 0"
proof -
  have "(9 :: nat) + m = Suc (8 + m)"
    by simp
  then show ?thesis
    by (simp only: replicate_Suc replicate_add append_Cons append_Nil)
qed

lemma fix_state_wiped:
  assumes bytes: "bytes = 0x45 # state_head s @ state_drop s @ state_round s @ state_count s @ rest"
    and long: "kept_length s + 9 \<le> length bytes"
  shows "\<exists>rest'. take (kept_length s) bytes @ replicate (length bytes - kept_length s) 0
    = 0x45 # enc contract_state_codec (s\<lparr>cs_current_round := None, cs_completed_rounds_count := 0\<rparr>) @ rest'"
proof -
  let ?s' = "s\<lparr>cs_current_round := None, cs_completed_rounds_count := 0\<rparr>"
  define m where "m = length bytes - kept_length s - 9"
  have "take (kept_length s) bytes = 0x45 # state_head s @ state_drop s"
  proof -
    have "kept_length s = length (0x45 # state_head s @ state_drop s)"
      by (simp add: kept_length_def)
    moreover have "bytes = (0x45 # state_head s @ state_drop s) @ state_round s @ state_count s @ rest"
      by (simp add: bytes)
    ultimately show ?thesis
      by (metis append_eq_conv_conj)
  qed
  moreover have "length bytes - kept_length s = 9 + m"
    using long by (simp add: m_def)
  moreover have "state_head ?s' = state_head s" "state_drop ?s' = state_drop s" "state_round ?s' = [0]"
    "state_count ?s' = replicate 8 0"
    by (simp_all add: state_head_def state_drop_def state_round_def state_count_def enc_simps le_enc_zero)
  ultimately have "take (kept_length s) bytes @ replicate (length bytes - kept_length s) 0
    = 0x45 # enc contract_state_codec ?s' @ replicate m 0"
    by (simp only: state_layout zeros_split append_Cons append_assoc)
  then show ?thesis
    by blast
qed

end
