(* ===== verification/HumanSafety.thy ===== *)
theory HumanSafety
  imports HumanFix
begin

text \<open>
  What the handlers of \<open>Human\<close> do to the chain. The locale \<open>human_world\<close> collects what they rely on:
  the token and system programs, the codecs of the accounts, the approval of a delegate, and that
  the instructions for the fanout and the round program run the handlers of \<open>Fanout\<close> and \<open>Round\<close>.
\<close>

definition token_approved :: "pubkey \<Rightarrow> pubkey \<Rightarrow> pubkey \<Rightarrow> u64 \<Rightarrow> world \<Rightarrow> world \<Rightarrow> bool" where
  "token_approved src delegate own n w w' \<longleftrightarrow>
     (\<exists>t. data_of w src = TokenData t \<and> t_owner t = own
        \<and> data_of w' src = TokenData (t\<lparr>t_delegate := Some delegate, t_delegated_amount := n\<rparr>))
     \<and> owner_of w' src = owner_of w src
     \<and> (\<forall>k. k \<noteq> src \<longrightarrow> accts w' k = accts w k) \<and> same_locks w w'"

locale human_world = token_program +
  fixes H :: human_ext
  assumes state_codec: "fitting_entity (HE H)"
    and record_codec: "fitting_entity (RE H)"
    and post_codec: "entity_codec (PE H)"
    and approve: "hx_cpi H infos (Approve src delegate own n) seeds w = Inr w' \<Longrightarrow>
      token_approved src delegate own n w w'"
    and fanout_call: "hx_cpi H infos (FanoutInitialize k ms) seeds w = Inr w' \<Longrightarrow>
      Fanout.initialize X fanout_id k ms w = Inr w'"
    and round_call: "hx_cpi H infos (RoundCreate A params) seeds w = Inr w' \<Longrightarrow>
      \<exists>ev. create_round X round_id A params w = Inr (ev, w')"

section \<open>Entities\<close>

lemma human_magic [simp]:
  "e_magic (HE H) = 0x45" "e_magic (RE H) = 0x40" "e_magic (PE H) = 0x44" "e_magic (H3 H) = 0x44"
  "e_size (HE H) = state_acc_size" "e_size (RE H) = 177" "e_size (PE H) = 350"
  by (simp_all add: HE_def RE_def PE_def H3_def contract_entity_def repost_record_entity_def
      post_info_entity_def contract_v3_entity_def codec_entity_def)

lemma entity_raw: "entity_at E w k = Some x \<Longrightarrow> \<exists>bs. data_of w k = Raw bs \<and> e_size E \<le> length bs"
  by (auto simp: entity_at_eq deserialize_from_def res_simps not_less)

lemma raw_not_token: "data_of w k = Raw bs \<Longrightarrow> \<not> is_token w k"
  by (simp add: is_token_def)

context human_world
begin

lemma state_stored:
  assumes "drop_guard (HE H) s acc w = Inr w'"
  shows "entity_at (HE H) w' (key acc) = Some s" "token_balance w' k = token_balance w k"
    "k \<noteq> key acc \<Longrightarrow> accts w' k = accts w k" "owner_of w' k = owner_of w k" "same_locks w w'"
proof -
  have codec: "entity_codec (HE H)"
    using state_codec by (rule fitting_entity.axioms)
  show "entity_at (HE H) w' (key acc) = Some s"
    by (rule entity_codec.drop_guard_stored(1) [OF codec assms])
  show "k \<noteq> key acc \<Longrightarrow> accts w' k = accts w k" "owner_of w' k = owner_of w k" "same_locks w w'"
    using drop_guard_frame [OF assms] by blast+
  show "token_balance w' k = token_balance w k"
    using drop_guard_frame(5) [OF assms, of k] drop_guard_frame(6,7) [OF assms] by (cases "k = key acc") (auto simp: token_balance_def)
qed

end

section \<open>The vesting of a round\<close>

definition round_vesting_paid ::
  "human_ext \<Rightarrow> ext \<Rightarrow> pubkey \<Rightarrow> pubkey \<Rightarrow> contract_state \<Rightarrow> round \<Rightarrow> world \<Rightarrow> world \<Rightarrow> bool" where
  "round_vesting_paid H X pid state_addr st r w w' \<longleftrightarrow>
     (let vault = x_pda X (vault_seed (cs_token st)) pid; wallet = x_ata X (cs_owner st) (cs_token st) in
     \<exists>offer. r_status r = Accepted \<and> r_total_offer r = Some offer
       \<and> (let amount = min (unat offer div 10) (token_balance w vault) in
          (vault \<noteq> wallet \<longrightarrow> token_balance w' vault = token_balance w vault - amount
             \<and> token_balance w' wallet = token_balance w wallet + amount)
          \<and> (\<forall>k. k \<noteq> vault \<longrightarrow> k \<noteq> wallet \<longrightarrow> token_balance w' k = token_balance w k))
       \<and> entity_at (HE H) w' state_addr = Some (st\<lparr>cs_current_round := None,
           cs_completed_rounds_count := cs_completed_rounds_count st + 1\<rparr>))"

context human_world
begin

lemma claim_round_effect:
  assumes "process_claim_round_vesting H X pid accounts w = Inr w'"
  shows "\<exists>state_acc vault_acc auth round_acc it st r. accounts = state_acc # vault_acc # auth # round_acc # it
    \<and> entity_at (HE H) w (key state_acc) = Some st \<and> owner_of w (key state_acc) = pid
    \<and> data_of w (key round_acc) = RoundData r
    \<and> (if cs_current_round st = Some (key round_acc) then round_vesting_paid H X pid (key state_acc) st r w w'
       else entity_at (HE H) w' (key state_acc) = Some st \<and> (\<forall>k. token_balance w' k = token_balance w k))"
proof -
  obtain state_acc b1 st vault_acc b2 vault auth b3 round_acc b4 owner_acc b5 wk owner_wallet r where
      accounts: "accounts = state_acc # b1" "b1 = vault_acc # b2" "b2 = auth # b3" "b3 = round_acc # b4" "b4 = owner_acc # b5"
    and st: "entity_at (HE H) w (key state_acc) = Some st" "owner_of w (key state_acc) = pid"
    and vault: "key vault_acc = x_pda X (vault_seed (cs_token st)) pid"
      "data_of w (x_pda X (vault_seed (cs_token st)) pid) = TokenData vault"
    and owner: "wk = x_ata X (cs_owner st) (cs_token st)" 
    and r: "data_of w (key round_acc) = RoundData r"
    and run: "(if cs_current_round st \<noteq> Some (key round_acc) then drop_guard (HE H) st state_acc w else
     and_then (ensure (r_status r = Accepted) InvalidArgument) (\<lambda>_.
     and_then (unwrap (r_total_offer r)) (\<lambda>total_offer.
     and_then (unwrap (checked_div total_offer 10)) (\<lambda>amount.
     and_then (x_cpi X accounts (TokenTransfer (x_pda X (vault_seed (cs_token st)) pid) wk (x_pda X authority_seed pid)
       (min amount (t_amount vault))) [authority_seed] w) (\<lambda>w.
     and_then (unwrap (checked_add (cs_completed_rounds_count st) 1)) (\<lambda>n.
     drop_guard (HE H) (st\<lparr>cs_current_round := None, cs_completed_rounds_count := n\<rparr>) state_acc w)))))) = Inr w'"
    using assms unfolding process_claim_round_vesting_def Let_def
    by (simp add: res_simps split_paired_Ex) (elim exE conjE, rule that, assumption+)
  show ?thesis
  proof (cases "cs_current_round st = Some (key round_acc)")
    case False
    then have "drop_guard (HE H) st state_acc w = Inr w'"
      using run by simp
    from state_stored(1,2) [OF this] show ?thesis
      using st accounts r False by auto
  next
    case True
    let ?vk = "x_pda X (vault_seed (cs_token st)) pid"
    obtain offer w1 where offer: "r_status r = Accepted" "r_total_offer r = Some offer"
      and move: "x_cpi X accounts (TokenTransfer ?vk wk (x_pda X authority_seed pid)
        (min (offer div 10) (t_amount vault))) [authority_seed] w = Inr w1"
      and drop: "drop_guard (HE H) (st\<lparr>cs_current_round := None,
        cs_completed_rounds_count := cs_completed_rounds_count st + 1\<rparr>) state_acc w1 = Inr w'"
      using run True by (auto simp: res_simps checked_simps Let_def)
    let ?n = "min (offer div 10) (t_amount vault)"
    have n: "unat ?n = min (unat offer div 10) (token_balance w ?vk)"
      by (simp add: vault(2) token_balance_def min_def word_le_nat_alt unat_div)
    note moved = transfer_tokens [OF move]
    have "token_balance w1 k = token_balance w k" if "k \<noteq> ?vk" "k \<noteq> wk" for k
      using moved that by (intro views_of_accts(4)) (simp add: token_transferred_def)
    moreover have "?vk \<noteq> wk \<Longrightarrow>
      token_balance w1 ?vk = token_balance w ?vk - unat ?n
      \<and> token_balance w1 wk = token_balance w wk + unat ?n"
      using moved by (simp add: token_transferred_def)
    ultimately have "round_vesting_paid H X pid (key state_acc) st r w w'"
      unfolding round_vesting_paid_def Let_def
      using offer state_stored(1,2) [OF drop] by (simp only: owner n) blast
    then show ?thesis
      using st accounts r True by auto
  qed
qed

end

section \<open>Creating a round\<close>

text \<open>What \<open>create_round\<close> of the round program leaves alone, and what it makes.\<close>

definition round_offered :: "create_round_accs \<Rightarrow> create_round_params \<Rightarrow> u64 \<Rightarrow> round \<Rightarrow> bool" where
  "round_offered A params n r \<longleftrightarrow> r_status r = Pending \<and> r_heir r = p_heir params
     \<and> r_recipient r = p_recipient params \<and> r_total_offer r = Some n \<and> r_total_bid r = None
     \<and> r_target_bid r = p_target_bid params \<and> r_return_wallet r = key (cr_offer_source_wallet A)
     \<and> sint (p_bidding_start params) < sint (p_bidding_end params)"

context token_program
begin

lemma create_round_effect:
  assumes ok: "create_round X pid A params w = Inr (ev, w')"
  shows "\<exists>source r. data_of w (key (cr_offer_source_wallet A)) = TokenData source
    \<and> 0 < unat (t_delegated_amount source)
    \<and> data_of w' (key (cr_round A)) = RoundData r \<and> round_offered A params (t_delegated_amount source) r
    \<and> token_balance w' (key (cr_offer_source_wallet A)) + unat (t_delegated_amount source)
      = token_balance w (key (cr_offer_source_wallet A))
    \<and> (\<forall>k. data_of w k \<noteq> Raw [] \<longrightarrow> \<not> is_token w k \<longrightarrow> keeps k w w')
    \<and> same_locks w w'"
proof -
  let ?rk = "key (cr_round A)" and ?src = "key (cr_offer_source_wallet A)"
  obtain source w1 w2 w3 w4 w5 w6 r where
      source: "data_of w ?src = TokenData source" "t_delegate source \<noteq> None" "0 < unat (t_delegated_amount source)"
    and i1: "x_init X (cr_payer A) (cr_round A) (8 + round_init_space) pid [] w = Inr w1"
    and i2: "x_init X (cr_payer A) (cr_offer_wallet A) 165 (x_token_id X) [[SeedStr ''OFFER'', SeedKey ?rk]] w1 = Inr w2"
    and i3: "call_init_token X (cr_offer_wallet A) (cr_offer_mint A) (key (cr_authority A)) w2 = Inr w3"
    and i4: "x_init X (cr_payer A) (cr_bid_wallet A) 165 (x_token_id X) [[SeedStr ''BID'', SeedKey ?rk]] w3 = Inr w4"
    and i5: "call_init_token X (cr_bid_wallet A) (cr_bid_mint A) (key (cr_authority A)) w4 = Inr w5"
    and move: "call_transfer X (cr_offer_source_wallet A) (cr_offer_wallet A) (cr_offer_source_authority A)
      (t_delegated_amount source) [] w5 = Inr w6"
    and w': "w' = set_data ?rk (RoundData r) w6" and r: "round_offered A params (t_delegated_amount source) r"
    using ok
    by (auto simp: create_round_def load_create_round_def init_token_def Let_def res_simps round_offered_def not_le)
  have keep5: "keeps k w w5" if "data_of w k \<noteq> Raw []" for k
  proof -
    have 1: "keeps k w w1"
      using init_keeps [OF i1, of k] init_fresh(1) [OF i1] that by metis
    then have 2: "keeps k w1 w2"
      using init_keeps [OF i2, of k] init_fresh(1) [OF i2] that unfolding keeps_def by metis
    moreover have 3: "keeps k w2 w3"
      using init_token_keeps [OF i3, of k] init_fresh(1) [OF i2] that 1 unfolding keeps_def by metis
    moreover have 4: "keeps k w3 w4"
      using init_keeps [OF i4, of k] init_fresh(1) [OF i4] that 1 2 3 unfolding keeps_def by metis
    moreover have "keeps k w4 w5"
      using init_token_keeps [OF i5, of k] init_fresh(1) [OF i4] that 1 2 3 unfolding keeps_def by metis
    ultimately show ?thesis
      using 1 by (blast intro: keeps_trans)
  qed
  have rk: "data_of w ?rk = Raw []" "data_of w (key (cr_offer_wallet A)) = Raw [] \<or> ?rk = key (cr_offer_wallet A)"
    using init_fresh(1) [OF i1] init_fresh(1) [OF i2] init_keeps [OF i1, of "key (cr_offer_wallet A)"]
    by (auto simp: keeps_def)
  then have ne: "?src \<noteq> ?rk" "?src \<noteq> key (cr_offer_wallet A)"
    using source(1) by auto
  have "keeps ?src w w5"
    using source(1) by (intro keep5) simp
  then have balance5: "token_balance w5 ?src = token_balance w ?src"
    by (rule keeps_token(2))
  note moved = transfer_tokens [OF move [unfolded call_transfer_def]]
  then have balance6: "token_balance w6 ?src + unat (t_delegated_amount source) = token_balance w5 ?src"
    using ne(2) by (simp add: token_transferred_def)
  have "keeps k w w'" if "data_of w k \<noteq> Raw []" "\<not> is_token w k" for k
  proof -
    have "\<not> is_token w5 k"
      using keeps_token(1) [OF keep5 [OF that(1)]] that(2) by simp
    with transfer_keeps [OF move] have "keeps k w5 w6"
      by blast
    moreover have "k \<noteq> ?rk"
      using that(1) rk(1) by auto
    ultimately show ?thesis
      using keeps_trans [OF keep5 [OF that(1)]] by (simp add: w' keeps_def)
  qed
  moreover have "token_balance w' ?src = token_balance w6 ?src"
    using ne(1) by (simp add: w' token_balance_def)
  moreover have "same_locks w w'"
    using init_account [OF i1] init_account [OF i2] init_account [OF i4]
      initialize_account [OF i3 [unfolded call_init_token_def]] initialize_account [OF i5 [unfolded call_init_token_def]] moved
    by (simp add: account_initialized_def token_initialized_def token_transferred_def same_locks_def w')
  ultimately show ?thesis
    using source(1,3) r balance5 balance6 by (intro exI [of _ source] exI [of _ r]) (simp add: w')
qed

end

context human_world
begin

text \<open>The fanout that receives the bids has the members the state prescribes.\<close>

lemma fanout_ready:
  assumes "ensure_fanout H X accounts fanout_acc payer ms w = Inr w'"
  shows "\<exists>fo. data_of w' (key fanout_acc) = FanoutData fo \<and> members fo = ms"
    "owner_of w' (key fanout_acc) = fanout_id" "same_locks w w'"
    "data_of w k \<noteq> Raw [] \<Longrightarrow> keeps k w w'"
proof -
  have "(\<exists>fo. data_of w' (key fanout_acc) = FanoutData fo \<and> members fo = ms)
    \<and> owner_of w' (key fanout_acc) = fanout_id \<and> same_locks w w' \<and> (\<forall>k. data_of w k \<noteq> Raw [] \<longrightarrow> keeps k w w')"
  proof (cases "owner_of w (key fanout_acc) = fanout_id")
    case True
    then show ?thesis
      using assms by (auto simp: ensure_fanout_def res_simps same_locks_def)
  next
    case False
    let ?fk = "key fanout_acc" and ?size = "8 + 8 + 4 + (32 + 2) * length ms"
    obtain w1 where made: "x_cpi X accounts (SystemCreate (key payer) ?fk (x_rent X ?size) ?size fanout_id) [] w = Inr w1"
      and init: "hx_cpi H accounts (FanoutInitialize ?fk ms) [] w1 = Inr w'"
      using assms False by (auto simp: ensure_fanout_def res_simps Let_def)
    note made = create_account [OF made]
    have w': "w' = set_data ?fk (FanoutData \<lparr>distributed = 0, members = ms\<rparr>) w1"
      using fanout_call [OF init] by (simp add: initialize_iff)
    have keep: "keeps k w w1" if "k \<noteq> ?fk" for k
      using made that by (cases "k = key payer") (auto simp: account_created_def keeps_def intro: views_of_accts)
    have owner: "owner_of w1 ?fk = fanout_id" and empty: "data_of w ?fk = Raw []"
      using made by (simp_all add: account_created_def owner_of_def)
    have "keeps k w w'" if "data_of w k \<noteq> Raw []" for k
      using keep [of k] that empty by (cases "k = ?fk") (auto simp: w' keeps_def)
    then show ?thesis
      using made owner by (simp add: w' same_locks_def account_created_def)
  qed
  then show "\<exists>fo. data_of w' (key fanout_acc) = FanoutData fo \<and> members fo = ms"
    "owner_of w' (key fanout_acc) = fanout_id" "same_locks w w'" "data_of w k \<noteq> Raw [] \<Longrightarrow> keeps k w w'"
    by blast+
qed

end

definition round_created_by ::
  "human_ext \<Rightarrow> ext \<Rightarrow> pubkey \<Rightarrow> pubkey \<Rightarrow> pubkey \<Rightarrow> pubkey \<Rightarrow> create_round_instruction \<Rightarrow> contract_state
    \<Rightarrow> world \<Rightarrow> world \<Rightarrow> bool" where
  "round_created_by H X pid state_addr fanout_addr round_addr args st w w' \<longleftrightarrow>
     (let vault = x_pda X (vault_seed (cs_token st)) pid in
     (\<exists>fo. data_of w' fanout_addr = FanoutData fo \<and> members fo = expected_members st state_addr)
     \<and> owner_of w' fanout_addr = fanout_id
     \<and> (\<exists>r. data_of w' round_addr = RoundData r \<and> r_status r = Pending \<and> r_heir r = cs_owner st
          \<and> r_recipient r = fanout_addr \<and> r_total_offer r = Some (ri_offer_amount args)
          \<and> r_target_bid r = ri_target_bid args \<and> r_return_wallet r = vault)
     \<and> 0 < unat (ri_offer_amount args)
     \<and> token_balance w' vault + unat (ri_offer_amount args) = token_balance w vault
     \<and> entity_at (HE H) w' state_addr = Some (st\<lparr>cs_current_round := Some round_addr\<rparr>))"

context human_world
begin

lemma create_round_handler_effect:
  assumes "process_create_round H X pid accounts args w = Inr w'"
  shows "\<exists>state_acc vault_acc auth fanout_acc payer round_acc it st.
    accounts = state_acc # vault_acc # auth # fanout_acc # payer # round_acc # it
    \<and> entity_at (HE H) w (key state_acc) = Some st \<and> owner_of w (key state_acc) = pid
    \<and> round_created_by H X pid (key state_acc) (key fanout_acc) (key round_acc) args st w w'"
proof -
  obtain state_acc b1 st vault_acc b2 vault auth b3 fanout_acc b4 payer b5 round_acc b6 offer_wallet b7 offer_mint b8
      bid_wallet b9 bid_mint b10 round_authority b11 w1 w2 w3 where
      accounts: "accounts = state_acc # b1" "b1 = vault_acc # b2" "b2 = auth # b3" "b3 = fanout_acc # b4" "b4 = payer # b5"
        "b5 = round_acc # b6" "b6 = offer_wallet # b7" "b7 = offer_mint # b8" "b8 = bid_wallet # b9"
        "b9 = bid_mint # b10" "b10 = round_authority # b11"
    and st: "entity_at (HE H) w (key state_acc) = Some st" "owner_of w (key state_acc) = pid"
    and vault: "data_of w (x_pda X (vault_seed (cs_token st)) pid) = TokenData vault"
    and fanout: "ensure_fanout H X accounts fanout_acc payer (expected_members st (key state_acc)) w = Inr w1"
    and approved: "hx_cpi H accounts (Approve (x_pda X (vault_seed (cs_token st)) pid) (x_pda X authority_seed pid)
        (x_pda X authority_seed pid) (ri_offer_amount args)) [authority_seed] w1 = Inr w2"
    and made: "hx_cpi H accounts (RoundCreate
       \<lparr>cr_round = writable (key round_acc) True, cr_offer_wallet = writable (key offer_wallet) False,
           cr_offer_mint = readonly (key offer_mint) False,
           cr_offer_source_wallet = writable (x_pda X (vault_seed (cs_token st)) pid) False,
           cr_offer_source_authority = readonly (x_pda X authority_seed pid) True,
           cr_bid_wallet = writable (key bid_wallet) False,
           cr_bid_mint = readonly (key bid_mint) False, cr_authority = readonly (key round_authority) False,
           cr_payer = writable (key payer) True, cr_token_program = readonly (x_token_id X) False,
           cr_system_program = readonly (x_system_id X) False\<rparr>
        \<lparr>p_heir = cs_owner st, p_recipient = key fanout_acc, p_target_bid = ri_target_bid args,
           p_bidding_start = ri_bidding_start args, p_bidding_end = ri_bidding_end args\<rparr>) [authority_seed] w2 = Inr w3"
    and guard: "drop_guard (HE H) (st\<lparr>cs_current_round := Some (key round_acc)\<rparr>) state_acc w3 = Inr w'"
    using assms unfolding process_create_round_def Let_def
    by (simp add: res_simps split_paired_Ex) (elim exE conjE, rule that, assumption+)
  let ?vk = "x_pda X (vault_seed (cs_token st)) pid" and ?fk = "key fanout_acc" and ?rk = "key round_acc"
    and ?sk = "key state_acc"
  note f = fanout_ready [OF fanout]
  note a = approve [OF approved]
  obtain ev where round: "create_round X round_id
       \<lparr>cr_round = writable (key round_acc) True, cr_offer_wallet = writable (key offer_wallet) False,
           cr_offer_mint = readonly (key offer_mint) False,
           cr_offer_source_wallet = writable (x_pda X (vault_seed (cs_token st)) pid) False,
           cr_offer_source_authority = readonly (x_pda X authority_seed pid) True,
           cr_bid_wallet = writable (key bid_wallet) False,
           cr_bid_mint = readonly (key bid_mint) False, cr_authority = readonly (key round_authority) False,
           cr_payer = writable (key payer) True, cr_token_program = readonly (x_token_id X) False,
           cr_system_program = readonly (x_system_id X) False\<rparr>
        \<lparr>p_heir = cs_owner st, p_recipient = key fanout_acc, p_target_bid = ri_target_bid args,
           p_bidding_start = ri_bidding_start args, p_bidding_end = ri_bidding_end args\<rparr> w2 = Inr (ev, w3)"
    using round_call [OF made] by blast
  obtain source r where source: "data_of w2 ?vk = TokenData source" "0 < unat (t_delegated_amount source)"
    and r: "data_of w3 ?rk = RoundData r" "r_status r = Pending" "r_heir r = cs_owner st" "r_recipient r = ?fk"
      "r_total_offer r = Some (t_delegated_amount source)" "r_target_bid r = ri_target_bid args" "r_return_wallet r = ?vk"
    and balance: "token_balance w3 ?vk + unat (t_delegated_amount source) = token_balance w2 ?vk"
    and keep3: "\<And>k. data_of w2 k \<noteq> Raw [] \<Longrightarrow> \<not> is_token w2 k \<Longrightarrow> keeps k w2 w3"
    using create_round_effect [OF round] by (auto simp: round_offered_def writable_def)
  obtain t where t: "data_of w1 ?vk = TokenData t"
      "data_of w2 ?vk = TokenData (t\<lparr>t_delegate := Some (x_pda X authority_seed pid), t_delegated_amount := ri_offer_amount args\<rparr>)"
    using a by (auto simp: token_approved_def)
  have amount: "t_delegated_amount source = ri_offer_amount args" "token_balance w2 ?vk = token_balance w1 ?vk"
    using source(1) t by (auto simp: token_balance_def)
  have "keeps ?vk w w1"
    using vault by (intro f(4)) simp
  then have balance1: "token_balance w1 ?vk = token_balance w ?vk"
    by (rule keeps_token(2))
  obtain fo where fo: "data_of w1 ?fk = FanoutData fo" "members fo = expected_members st ?sk"
    using f(1) by blast
  have "?fk \<noteq> ?vk"
    using fo(1) t(1) by auto
  then have keep2: "keeps ?fk w1 w2"
    using a by (intro keepsI) (simp add: token_approved_def)
  have "keeps ?fk w2 w3"
    using fo(1) keep2 by (intro keep3) (simp_all add: keeps_def is_token_def)
  with keep2 have fo3: "data_of w3 ?fk = FanoutData fo" "owner_of w3 ?fk = fanout_id"
    using fo(1) f(2) by (simp_all add: keeps_def)
  note g = drop_guard_frame [OF guard]
  have "?fk \<noteq> ?sk" "?rk \<noteq> ?sk"
    using g(7) fo3(1) r(1) by auto
  then have "data_of w' ?fk = FanoutData fo" "owner_of w' ?fk = fanout_id" "data_of w' ?rk = RoundData r"
    using g(2,5) fo3 r(1) by simp_all
  then have "round_created_by H X pid ?sk ?fk ?rk args st w w'"
    unfolding round_created_by_def Let_def
    using fo(2) r(2-7) source(2) balance amount balance1 state_stored(1,2) [OF guard] by simp
  then show ?thesis
    using accounts st by metis
qed

end

section \<open>Redeeming a repost\<close>

text \<open>The migration of an old record runs into the borrow of its own caller.\<close>

lemma realloc_locked: "realloc_data k n (w\<lparr>data_locked := k # ks\<rparr>) = Inl (Err AccountBorrowFailed)"
  by (simp add: realloc_data_def read_data_def)

lemma migrate_old_record:
  "data_of w (key acc) = Raw bs \<Longrightarrow> length bs = 145 \<Longrightarrow> hd bs = 0x40 \<Longrightarrow>
   migrate_record H acc w = Inl (Err AccountBorrowFailed)"
  by (simp add: migrate_record_def read_data_def realloc_locked Let_def)

lemma migrate_record_Inr:
  assumes "migrate_record H acc w = Inr w'"
  shows "w' = w"
proof (cases "data_of w (key acc)")
  case (Raw bs)
  then show ?thesis
    using assms by (auto simp: migrate_record_def res_simps realloc_locked Let_def split: if_splits)
qed (use assms in \<open>auto simp: migrate_record_def res_simps Let_def\<close>)

definition record_redeemed ::
  "human_ext \<Rightarrow> ext \<Rightarrow> pubkey \<Rightarrow> pubkey \<Rightarrow> contract_state \<Rightarrow> repost_record \<Rightarrow> world \<Rightarrow> world \<Rightarrow> bool" where
  "record_redeemed H X pid record_addr st rec w w' \<longleftrightarrow>
     (let vault = x_pda X (vault_seed (cs_token st)) pid; wallet = x_ata X (rr_user rec) (rr_token rec);
          n = unat (rr_receive_amount rec) in
     n \<le> token_balance w vault
     \<and> (vault \<noteq> wallet \<longrightarrow> token_balance w' vault = token_balance w vault - n
          \<and> token_balance w' wallet = token_balance w wallet + n)
     \<and> (\<forall>k. k \<noteq> vault \<longrightarrow> k \<noteq> wallet \<longrightarrow> token_balance w' k = token_balance w k)
     \<and> entity_at (RE H) w' record_addr = None \<and> lamports_of w' record_addr = 0)"

lemma token_balance_cong: "data_of w' k = data_of w k \<Longrightarrow> token_balance w' k = token_balance w k"
  by (simp add: token_balance_def)

lemma erase_record_effect:
  assumes "erase_repost_record acc payer (w\<lparr>lam_locked := payer # ks\<rparr>) = Inr w'"
  shows "0 < e_size E \<Longrightarrow> entity_at E w' (key acc) = None" "lamports_of w' (key acc) = 0"
    "k \<noteq> key acc \<Longrightarrow> data_of w' k = data_of w k" "owner_of w' k = owner_of w k"
    "\<exists>bs. data_of w (key acc) = Raw bs"
proof -
  have ne: "key acc \<noteq> payer"
    using assms by (auto simp: erase_repost_record_def borrow_lamports_def ensure_def)
  obtain bs l where bs: "data_of w (key acc) = Raw bs"
    and w': "w' = set_data (key acc) (Raw (replicate (length bs) 0)) (set_lamports payer l (release_lamports (key acc)
        (set_lamports (key acc) 0 (w\<lparr>lam_locked := key acc # payer # ks\<rparr>))))"
    using assms by (auto simp: erase_repost_record_def res_simps Let_def)
  have "deserialize_from E (replicate (length bs) 0) \<noteq> Inr x" if "0 < e_size E" for x
    using that by (cases bs) (auto simp: deserialize_from_def res_simps)
  then show "0 < e_size E \<Longrightarrow> entity_at E w' (key acc) = None"
    by (cases "entity_at E w' (key acc)") (auto simp: entity_at_eq w')
  show "lamports_of w' (key acc) = 0" "k \<noteq> key acc \<Longrightarrow> data_of w' k = data_of w k" "owner_of w' k = owner_of w k"
    "\<exists>bs. data_of w (key acc) = Raw bs"
    using ne bs by (simp_all add: w')
qed

context human_world
begin

lemma redeem_effect:
  assumes "process_redeem_repost H X pid accounts w = Inr w'"
  shows "\<exists>state_acc record_acc it st rec can. accounts = state_acc # record_acc # it
    \<and> entity_at (HE H) w (key state_acc) = Some st \<and> owner_of w (key state_acc) = pid
    \<and> entity_at (RE H) w (key record_acc) = Some rec \<and> owner_of w (key record_acc) = pid
    \<and> rr_state rec = key state_acc \<and> can_redeem rec (x_now X) = Inr can
    \<and> (if can then record_redeemed H X pid (key record_acc) st rec w w'
       else entity_at (RE H) w' (key record_acc) = Some rec \<and> (\<forall>k. token_balance w' k = token_balance w k))"
proof -
  obtain state_acc b1 st w0 record_acc b2 rec vault_acc b3 user b4 wallet_acc b5 wk payer b6 auth b7 can where
      accounts: "accounts = state_acc # b1" "b1 = record_acc # b2"
    and st: "entity_at (HE H) w (key state_acc) = Some st" "owner_of w (key state_acc) = pid"
    and mig: "(case b1 of [] \<Rightarrow> Inl (Err NotEnoughAccountKeys) | a # x \<Rightarrow> migrate_record H a w) = Inr w0"
    and rec: "entity_at (RE H) w0 (key record_acc) = Some rec" "owner_of w0 (key record_acc) = pid"
    and rest: "b2 = vault_acc # b3" "b3 = user # b4" "b4 = wallet_acc # b5"
      "wk = x_ata X (rr_user rec) (rr_token rec)"
      "b5 = payer # b6" "b6 = auth # b7" "rr_state rec = key state_acc"
    and can: "can_redeem rec (x_now X) = Inr can"
    and run: "(if \<not> can then and_then (drop_guard (RE H) rec record_acc w0) (drop_guard (HE H) st state_acc) else
     and_then (x_cpi X accounts (TokenTransfer (x_pda X (vault_seed (cs_token st)) pid) wk
       (x_pda X authority_seed pid) (rr_receive_amount rec)) [authority_seed] w0) (\<lambda>w.
     and_then (drop_guard (RE H) rec record_acc w) (\<lambda>w.
     and_then (borrow_lamports (key payer) w) (\<lambda>w.
     and_then (erase_repost_record record_acc (key payer) w) (\<lambda>w.
     drop_guard (HE H) st state_acc (release_lamports (key payer) w)))))) = Inr w'"
    using assms unfolding process_redeem_repost_def Let_def
    by (simp add: res_simps split_paired_Ex, elim exE conjE) (rule that)
  have w0: "w0 = w"
    using mig accounts(2) migrate_record_Inr [of H record_acc w w0] by simp
  have apart: "key record_acc \<noteq> key state_acc"
    using entity_magic [OF st(1), of "RE H" rec] rec(1) by (auto simp: w0)
  let ?vk = "x_pda X (vault_seed (cs_token st)) pid" and ?rk = "key record_acc"
  have codec: "entity_codec (RE H)"
    using record_codec by (rule fitting_entity.axioms)
  show ?thesis
  proof (cases can)
    case False
    obtain w1 where g1: "drop_guard (RE H) rec record_acc w = Inr w1" and g2: "drop_guard (HE H) st state_acc w1 = Inr w'"
      using run False by (auto simp: res_simps w0)
    have "entity_at (RE H) w' ?rk = Some rec"
      using entity_codec.drop_guard_stored(1) [OF codec g1]
        entity_at_frame [OF views_of_accts(1) [OF state_stored(3) [OF g2 apart]], of "RE H"] by simp
    moreover have "token_balance w1 k = token_balance w k" for k
      using drop_guard_frame(5) [OF g1, of k] drop_guard_frame(6,7) [OF g1]
      by (cases "k = ?rk") (auto simp: token_balance_def)
    ultimately have "entity_at (RE H) w' ?rk = Some rec \<and> (\<forall>k. token_balance w' k = token_balance w k)"
      using state_stored(2) [OF g2] by simp
    then show ?thesis
      using accounts st rec [unfolded w0] rest(7) can False
      by (intro exI [of _ state_acc] exI [of _ record_acc] exI [of _ b2] exI [of _ st] exI [of _ rec] exI [of _ can]) simp
  next
    case True
    obtain w1 w2 w3 where move: "x_cpi X accounts (TokenTransfer ?vk wk (x_pda X authority_seed pid) (rr_receive_amount rec))
        [authority_seed] w = Inr w1"
      and g1: "drop_guard (RE H) rec record_acc w1 = Inr w2"
      and erased: "erase_repost_record record_acc (key payer) (w2\<lparr>lam_locked := key payer # lam_locked w2\<rparr>) = Inr w3"
      and g2: "drop_guard (HE H) st state_acc (release_lamports (key payer) w3) = Inr w'"
      using run True by (auto simp: res_simps w0)
    note moved = transfer_tokens [OF move] and e = erase_record_effect [OF erased] and g = drop_guard_frame [OF g2]
    have same: "token_balance w' k = token_balance w1 k" for k
    proof -
      have "token_balance w' k = token_balance w3 k"
        using state_stored(2) [OF g2] by (simp add: token_balance_def)
      moreover have "token_balance w3 k = token_balance w1 k"
      proof (cases "k = ?rk")
        case True
        then show ?thesis
          using drop_guard_frame(7) [OF g1] erased
          by (auto simp: token_balance_def erase_repost_record_def res_simps Let_def)
      next
        case False
        then show ?thesis
          using drop_guard_frame(5) [OF g1 False] e(3) [OF False] by (simp add: token_balance_def)
      qed
      ultimately show ?thesis
        by simp
    qed
    have other: "token_balance w1 k = token_balance w k" if "k \<noteq> ?vk" "k \<noteq> wk" for k
      using moved that by (intro views_of_accts(4)) (simp add: token_transferred_def)
    have "entity_at (RE H) w' ?rk = None" "lamports_of w' ?rk = 0"
      using erase_record_effect(1) [OF erased, of "RE H"] e(2) g(5) [OF apart] g(1) [of ?rk] entity_at_frame [of w' ?rk w3 "RE H"] by simp_all
    then have "record_redeemed H X pid ?rk st rec w w'"
      unfolding record_redeemed_def Let_def rest(4) [symmetric]
      using moved other by (simp add: same token_transferred_def)
    then show ?thesis
      using accounts st rec [unfolded w0] rest(7) can True
      by (intro exI [of _ state_acc] exI [of _ record_acc] exI [of _ b2] exI [of _ st] exI [of _ rec] exI [of _ can]) simp
  qed
qed

end

end
