(* ===== verification/HumanDemo.thy ===== *)
theory HumanDemo
  imports HumanSafety
begin

text \<open>
  An executable human program, the chain it runs on, and what the locale \<open>human_world\<close> assumes
  shown for it: the codecs of \<open>HumanState\<close>, an approval of the token program, calls of the
  fanout and round programs that run their models, and mints of compressed posts that leave the chain alone.
\<close>

section \<open>The chain\<close>

text \<open>
  As \<open>sim\<close>, but a seed that is a string counts as the sum of its characters, and of the program
  the last three digits are used, so that the addresses of the run are apart.
\<close>

fun string_code :: "seed \<Rightarrow> pubkey" where
  "string_code (SeedStr s) = sum_list (map of_char s) mod 1000"
| "string_code (SeedKey k) = k mod 1000"

definition human_pda :: "seed list \<Rightarrow> pubkey \<Rightarrow> pubkey" where
  "human_pda seeds pid = fold (\<lambda>s acc. acc * 1000 + string_code s) seeds (pid mod 1000)"

definition human_sim :: "i64 \<Rightarrow> ext" where
  "human_sim now = (sim now)\<lparr>x_pda := human_pda\<rparr>"

lemma human_sim_simps [simp]:
  "x_pda (human_sim now) = human_pda" "x_ata (human_sim now) user mnt = user * 1000 + mnt"
  "x_rent (human_sim now) n = of_nat (128 + n)" "x_now (human_sim now) = now" "x_space (human_sim now) = sim_space"
  "x_token_id (human_sim now) = 6" "x_system_id (human_sim now) = 0" "x_native_mint (human_sim now) = 7"
  "x_cpi (human_sim now) = sim_cpi" "x_init (human_sim now) = sim_init_account"
  by (simp_all add: human_sim_def)

interpretation human_sim: token_program "human_sim now"
proof -
  have "account_initialized (human_sim now) p a n own w w' = account_initialized (sim now) p a n own w w'" for p a n own w w'
    by (simp add: account_initialized_def rent_exempt_def)
  then show "token_program (human_sim now)"
    by unfold_locales
      (simp_all add: sim_transfer_tokens_ok sim_close_ok sim_init_ok sim_transfer_lamports_ok sim_create_ok
        sim_init_account_ok [where now = now])
qed

section \<open>The other programs\<close>

definition sim_approve :: "pubkey \<Rightarrow> pubkey \<Rightarrow> pubkey \<Rightarrow> u64 \<Rightarrow> world \<Rightarrow> world res" where
  "sim_approve src delegate own n w =
     (case data_of w src of
        TokenData t \<Rightarrow>
          if t_owner t = own
          then Inr (set_data src (TokenData (t\<lparr>t_delegate := Some delegate, t_delegated_amount := n\<rparr>)) w)
          else Inl (Err (External 4))
      | _ \<Rightarrow> Inl (Err (External 3)))"

lemma sim_approve_ok: "sim_approve src delegate own n w = Inr w' \<Longrightarrow> token_approved src delegate own n w w'"
  unfolding sim_approve_def token_approved_def
  by (auto simp: same_locks_def split: acct_data.splits if_splits)

fun human_sim_cpi :: "i64 \<Rightarrow> account_info list \<Rightarrow> human_cpi \<Rightarrow> seed list list \<Rightarrow> world \<Rightarrow> world res" where
  "human_sim_cpi now infos (Approve src delegate own n) seeds w = sim_approve src delegate own n w"
| "human_sim_cpi now infos (FanoutInitialize k ms) seeds w = Fanout.initialize (human_sim now) fanout_id k ms w"
| "human_sim_cpi now infos (RoundCreate A params) seeds w =
     and_then (create_round (human_sim now) round_id A params w) (\<lambda>(_, w). Inr w)"
| "human_sim_cpi now infos (MintToCollection a b c d e f g h i) seeds w = Inr w"
| "human_sim_cpi now infos ix seeds w = Inl (Err (External 99))"

definition demo_human :: "i64 \<Rightarrow> human_ext" where
  "demo_human now =
     \<lparr>hx_state = contract_state_codec, hx_state_v3 = contract_state_v3_codec, hx_record = repost_record_codec,
      hx_post_ser = post_info_ser, hx_post_de = dec post_info_codec,
      hx_parse = (\<lambda>bs. if bs = [14] then Some ClaimRoundVesting else if bs = [12] then Some RedeemRepost else None),
      hx_encode = (\<lambda>ix. case ix of ClaimRoundVesting \<Rightarrow> [14] | RedeemRepost \<Rightarrow> [12] | _ \<Rightarrow> []),
      hx_cpi = human_sim_cpi now, hx_swap = (\<lambda>_. Inl (Err InvalidAccountData)),
      hx_trading_tokens = (\<lambda>_ _ _ _. None), hx_metadata = (\<lambda>_. Inl (Err InvalidAccountData)),
      hx_metadata_bytes = (\<lambda>_. Inr \<lparr>nm_sized_collection = True\<rparr>), hx_edition_supply = (\<lambda>_. Inl (Err InvalidAccountData)),
      hx_metadata_pda = (\<lambda>k. k * 10 + 1), hx_edition_pda = (\<lambda>k. k * 10 + 2), hx_metadata_id = 11, hx_rent_id = 10\<rparr>"

lemma demo_human_simps [simp]:
  "hx_cpi (demo_human now) = human_sim_cpi now" "hx_metadata_bytes (demo_human now) d = Inr \<lparr>nm_sized_collection = True\<rparr>"
  "hx_metadata_pda (demo_human now) k = k * 10 + 1" "hx_edition_pda (demo_human now) k = k * 10 + 2" "HE (demo_human now) = contract_entity contract_state_codec"
  "RE (demo_human now) = repost_record_entity repost_record_codec"
  "H3 (demo_human now) = contract_v3_entity contract_state_v3_codec"
  "PE (demo_human now) = post_info_entity post_info_ser (dec post_info_codec)"
  by (simp_all add: demo_human_def HE_def RE_def H3_def PE_def)

interpretation demo_human: human_world "human_sim now" "demo_human now"
proof (intro human_world.intro human_world_axioms.intro human_sim.token_program_axioms)
  show "\<exists>ev. create_round (human_sim now) round_id A params w = Inr (ev, w')"
    if "hx_cpi (demo_human now) infos (RoundCreate A params) seeds w = Inr w'" for infos A params seeds w w'
    using that by (auto simp: res_simps)
qed (simp_all add: contract.fitting_entity_axioms repost_record.fitting_entity_axioms post_info.entity_codec_axioms
    sim_approve_ok)

section \<open>Accounts\<close>

abbreviation DHE :: "contract_state entity" where
  "DHE \<equiv> contract_entity contract_state_codec"

abbreviation DRE :: "repost_record entity" where
  "DRE \<equiv> repost_record_entity repost_record_codec"

lemma entity_sizes [simp]:
  "e_size (contract_entity c) = 513" "e_magic (contract_entity c) = 0x45"
  "e_size (repost_record_entity d) = 177" "e_magic (repost_record_entity d) = 0x40"
  by (simp_all add: contract_entity_def repost_record_entity_def codec_entity_def state_acc_size_def)

lemma saved_contract [simp]:
  assumes "513 \<le> length bs"
  shows "serialize_to DHE v bs = Inr (saved DHE v bs)" "deserialize_from DHE (saved DHE v bs) = Inr v"
    "length (saved DHE v bs) = length bs" "is_initialized DHE (saved DHE v bs)"
  using assms contract.serialize_saved contract.read_saved contract.length_saved contract.saved_initialized by simp_all

lemma saved_record [simp]:
  assumes "177 \<le> length bs"
  shows "serialize_to DRE v bs = Inr (saved DRE v bs)" "deserialize_from DRE (saved DRE v bs) = Inr v"
    "length (saved DRE v bs) = length bs" "is_initialized DRE (saved DRE v bs)"
  using assms repost_record.serialize_saved repost_record.read_saved repost_record.length_saved
    repost_record.saved_initialized by simp_all

lemma saved_hd [simp]: "hd (saved DHE v bs) = 0x45" "hd (saved DRE r bs) = 0x40"
  by (simp_all add: saved_def contract_entity_def repost_record_entity_def codec_entity_def)

definition human_state :: contract_state where
  "human_state = \<lparr>cs_token = 30, cs_owner = 20, cs_admin = 21, cs_commission_addr = 23, cs_treasury_addr = 24,
     cs_swap_state = 25, cs_sold = 0, cs_vest = \<lparr>ve_deployed_at = 0, ve_vested_periods = 0\<rparr>, cs_drop = None,
     cs_current_round = Some 61, cs_completed_rounds_count = 4\<rparr>"

definition human_record :: repost_record where
  "human_record = \<lparr>rr_state = 50, rr_token = 30, rr_user = 12, rr_post_id = 4, rr_reposted_at = 1672272000,
     rr_receive_amount = 5, rr_payer = 12\<rparr>"

definition wallet_of :: "pubkey \<Rightarrow> u64 \<Rightarrow> account" where
  "wallet_of own amount = \<lparr>lamports = 1000, acc_owner = 6, data = TokenData \<lparr>t_mint = 30, t_owner = own,
     t_amount = amount, t_delegate = None, t_is_native = None, t_delegated_amount = 0, t_close_authority = None\<rparr>\<rparr>"

definition accepted_round :: round where
  "accepted_round = round_default\<lparr>r_status := Accepted, r_total_offer := Some 705\<rparr>"

text \<open>
  The state is 50, the vault holds 1000 tokens, 61 is an accepted round, 70 a repost record of
  user 12, 71 one in the old format.
\<close>

definition human_chain :: world where
  "human_chain = \<lparr>accts = (\<lambda>k. \<lparr>lamports = 0, acc_owner = 0, data = Raw []\<rparr>)
     (50 := \<lparr>lamports = 5000, acc_owner = 100, data = Raw (saved DHE human_state (replicate 513 0))\<rparr>,
      100457396030 := wallet_of 100457613000 1000,
      20030 := wallet_of 20 0, 12030 := wallet_of 12 0,
      22 := \<lparr>lamports = 100000, acc_owner = 0, data = Raw []\<rparr>,
      30 := \<lparr>lamports = 1000, acc_owner = 6, data = MintData \<lparr>mt_authority = None, mt_supply = 1000\<rparr>\<rparr>,
      61 := \<lparr>lamports = 1000, acc_owner = round_id, data = RoundData accepted_round\<rparr>,
      70 := \<lparr>lamports = 305, acc_owner = 100, data = Raw (saved DRE human_record (replicate 177 0))\<rparr>,
      71 := \<lparr>lamports = 273, acc_owner = 100, data = Raw (0x40 # replicate 144 0)\<rparr>),
     lam_locked = [], data_locked = []\<rparr>"

lemma human_chain_views:
  "data_of human_chain k = (if k = 50 then Raw (saved DHE human_state (replicate 513 0))
     else if k = 100457396030 then data (wallet_of 100457613000 1000) else if k = 20030 then data (wallet_of 20 0)
     else if k = 12030 then data (wallet_of 12 0) else if k = 30 then MintData \<lparr>mt_authority = None, mt_supply = 1000\<rparr>
     else if k = 61 then RoundData accepted_round
     else if k = 70 then Raw (saved DRE human_record (replicate 177 0))
     else if k = 71 then Raw (0x40 # replicate 144 0) else Raw [])"
  "owner_of human_chain k = (if k = 50 \<or> k = 70 \<or> k = 71 then 100 else if k = 61 then round_id
     else if k = 100457396030 \<or> k = 20030 \<or> k = 12030 \<or> k = 30 then 6 else 0)"
  "lamports_of human_chain k = (if k = 50 then 5000 else if k = 22 then 100000 else if k = 70 then 305
     else if k = 71 then 273 else if k = 100457396030 \<or> k = 20030 \<or> k = 12030 \<or> k = 30 \<or> k = 61 then 1000 else 0)"
  "lam_locked human_chain = []" "data_locked human_chain = []"
  by (simp_all add: human_chain_def data_of_def owner_of_def lamports_of_def wallet_of_def)

lemma human_pdas [simp]:
  "human_pda authority_seed 100 = 100457613000" "human_pda (vault_seed 30) 100 = 100457396030"
  by (simp_all add: human_pda_def authority_seed_def vault_seed_def keyed_seeds_def)

section \<open>Runs\<close>

lemmas human_run_simps = Let_def next_account_info_def unwrap_def ensure_def
  read_data_def raw_bytes_def unpack_token_def or_panic_def deserialize_round_def deserialize_fanout_def
  next_expected_account_def next_signer_account_def next_expected_token_wallet_def next_atoken_wallet_def
  next_entity_def entity_from_acc_def initialize_entity_def drop_guard_def readonly_def writable_def
  sim_transfer_tokens_def checked_simps

definition claim_accounts_at :: "pubkey \<Rightarrow> account_info list" where
  "claim_accounts_at round_addr = [writable 50 False, writable 100457396030 False, readonly 100457613000 False,
     readonly round_addr False, writable 20030 False]"

lemma claim_runs:
  "\<exists>w'. process_claim_round_vesting (demo_human 0) (human_sim 0) 100 (claim_accounts_at 61) human_chain = Inr w'"
  by (simp add: process_claim_round_vesting_def claim_accounts_at_def human_run_simps human_chain_views
      human_state_def wallet_of_def accepted_round_def round_default_def checked_div_def checked_add_def)

definition round_accounts :: "account_info list" where
  "round_accounts = [writable 50 False, writable 100457396030 False, readonly 100457613000 False,
     writable 60 True, writable 22 True, writable 5 True,
     writable 252370005 False, readonly 30 False,
     writable 252207005 False, readonly 30 False,
     readonly 252306005 False]"

definition round_args :: create_round_instruction where
  "round_args = \<lparr>ri_bidding_start = 10, ri_bidding_end = 20, ri_offer_amount = 300, ri_target_bid = 1000\<rparr>"

lemma round_pdas [simp]:
  "human_pda [SeedStr ''AUTH'', SeedKey 5] round_id
    = 252306005"
  "human_pda [SeedStr ''OFFER'', SeedKey 5] round_id
    = 252370005"
  "human_pda [SeedStr ''BID'', SeedKey 5] round_id
    = 252207005"
  by (simp_all add: human_pda_def round_id_def)

lemma program_ids [simp]: "fanout_id \<noteq> 0" "round_id \<noteq> 0"
  by (simp_all add: fanout_id_def round_id_def)

lemma check_shares_demo: "check_shares 0 (expected_members human_state 50) = Inr 10000"
  by (simp add: expected_members_def)

definition landed :: "world res \<Rightarrow> world" where
  "landed r = (case r of Inr w \<Rightarrow> w | Inl _ \<Rightarrow> human_chain)"

text \<open>The fanout 60 is made, the vault approved, the round created.\<close>

definition fanout_chain :: world where
  "fanout_chain = landed (ensure_fanout (demo_human 0) (human_sim 0) round_accounts (writable 60 True) (writable 22 True)
     (expected_members human_state 50) human_chain)"

lemma members_demo: "length (expected_members human_state 50) = 3" "expected_members human_state 50 \<noteq> []"
  by (simp_all add: expected_members_def)

lemma fanout_chain:
  "ensure_fanout (demo_human 0) (human_sim 0) round_accounts (writable 60 True) (writable 22 True)
     (expected_members human_state 50) human_chain = Inr fanout_chain"
  by (simp add: fanout_chain_def landed_def ensure_fanout_def human_run_simps human_chain_views sim_create_def
      Fanout.initialize_def check_zero_def members_demo check_shares_demo fanout_size_def rent_exempt_def)

lemma fanout_chain_views:
  "data_of fanout_chain k = (if k = 60 then FanoutData \<lparr>distributed = 0, members = expected_members human_state 50\<rparr>
     else data_of human_chain k)"
  "owner_of fanout_chain k = (if k = 60 then fanout_id else owner_of human_chain k)"
  "lamports_of fanout_chain k = (if k = 60 then 250 else if k = 22 then 99750 else lamports_of human_chain k)"
  "lam_locked fanout_chain = []" "data_locked fanout_chain = []"
  by (simp_all add: fanout_chain_def landed_def ensure_fanout_def human_run_simps human_chain_views sim_create_def
      Fanout.initialize_def check_zero_def members_demo check_shares_demo fanout_size_def rent_exempt_def)

definition approved_chain :: world where
  "approved_chain = landed (sim_approve 100457396030 100457613000 100457613000 300 fanout_chain)"

lemma approved_chain: "sim_approve 100457396030 100457613000 100457613000 300 fanout_chain = Inr approved_chain"
  by (simp add: approved_chain_def landed_def sim_approve_def fanout_chain_views human_chain_views wallet_of_def)

lemma approved_chain_views:
  "data_of approved_chain k = (if k = 100457396030 then TokenData \<lparr>t_mint = 30, t_owner = 100457613000,
     t_amount = 1000, t_delegate = Some 100457613000, t_is_native = None, t_delegated_amount = 300,
     t_close_authority = None\<rparr> else data_of fanout_chain k)"
  "owner_of approved_chain k = owner_of fanout_chain k" "lamports_of approved_chain k = lamports_of fanout_chain k"
  "lam_locked approved_chain = []" "data_locked approved_chain = []"
  by (simp_all add: approved_chain_def landed_def sim_approve_def fanout_chain_views human_chain_views wallet_of_def)

definition demo_round_accs :: create_round_accs where
  "demo_round_accs = \<lparr>cr_round = writable 5 True,
     cr_offer_wallet = writable 252370005 False,
     cr_offer_mint = readonly 30 False, cr_offer_source_wallet = writable 100457396030 False,
     cr_offer_source_authority = readonly 100457613000 True,
     cr_bid_wallet = writable 252207005 False,
     cr_bid_mint = readonly 30 False,
     cr_authority = readonly 252306005 False,
     cr_payer = writable 22 True, cr_token_program = readonly 6 False, cr_system_program = readonly 0 False\<rparr>"

definition demo_round_params :: create_round_params where
  "demo_round_params = \<lparr>p_heir = 20, p_recipient = 60, p_target_bid = 1000, p_bidding_start = 10, p_bidding_end = 20\<rparr>"

definition opened_chain :: world where
  "opened_chain = landed (sim_init_account (cr_payer demo_round_accs) (cr_round demo_round_accs) 347 round_id [] approved_chain)"

lemmas opening_simps = sim_init_account_def sim_rent_def saturating_sub_def demo_round_accs_def writable_def readonly_def
  approved_chain_views fanout_chain_views human_chain_views

lemma opened_chain:
  "sim_init_account (cr_payer demo_round_accs) (cr_round demo_round_accs) (8 + round_init_space) round_id [] approved_chain
    = Inr opened_chain"
  by (simp add: opened_chain_def landed_def opening_simps round_init_space_def)

lemma opened_chain_views:
  "data_of opened_chain k = (if k = 5 then Raw (replicate 347 0) else data_of approved_chain k)"
  "owner_of opened_chain k = (if k = 5 then round_id else owner_of approved_chain k)"
  "lamports_of opened_chain k = (if k = 5 then 475 else if k = 22 then 99275 else lamports_of approved_chain k)"
  "lam_locked opened_chain = []" "data_locked opened_chain = []"
  by (simp_all add: opened_chain_def landed_def opening_simps)

definition offered_chain :: world where
  "offered_chain = landed (init_token (human_sim 0) (cr_payer demo_round_accs) (cr_offer_wallet demo_round_accs)
     (cr_offer_mint demo_round_accs) (key (cr_authority demo_round_accs)) [[SeedStr ''OFFER'', SeedKey 5]] opened_chain)"

lemmas init_token_simps = init_token_def call_init_token_def sim_init_def opened_chain_views opening_simps

lemma offered_chain:
  "init_token (human_sim 0) (cr_payer demo_round_accs) (cr_offer_wallet demo_round_accs) (cr_offer_mint demo_round_accs)
     (key (cr_authority demo_round_accs)) [[SeedStr ''OFFER'', SeedKey 5]] opened_chain = Inr offered_chain"
  by (simp add: offered_chain_def landed_def init_token_simps)

definition empty_wallet :: token_account where
  "empty_wallet = \<lparr>t_mint = 30, t_owner = 252306005, t_amount = 0, t_delegate = None,
     t_is_native = None, t_delegated_amount = 0, t_close_authority = None\<rparr>"

lemma offered_chain_views:
  "data_of offered_chain k = (if k = 252370005 then TokenData empty_wallet else data_of opened_chain k)"
  "owner_of offered_chain k = (if k = 252370005 then 6 else owner_of opened_chain k)"
  "lamports_of offered_chain 22 = 98982"
  "k \<noteq> 22 \<Longrightarrow> k \<noteq> 252370005 \<Longrightarrow> lamports_of offered_chain k = lamports_of opened_chain k"
  "lam_locked offered_chain = []" "data_locked offered_chain = []"
  by (simp_all add: offered_chain_def landed_def init_token_simps empty_wallet_def)

definition bidding_chain :: world where
  "bidding_chain = landed (init_token (human_sim 0) (cr_payer demo_round_accs) (cr_bid_wallet demo_round_accs)
     (cr_bid_mint demo_round_accs) (key (cr_authority demo_round_accs)) [[SeedStr ''BID'', SeedKey 5]] offered_chain)"

lemma bidding_chain:
  "init_token (human_sim 0) (cr_payer demo_round_accs) (cr_bid_wallet demo_round_accs) (cr_bid_mint demo_round_accs)
     (key (cr_authority demo_round_accs)) [[SeedStr ''BID'', SeedKey 5]] offered_chain = Inr bidding_chain"
  by (simp add: bidding_chain_def landed_def offered_chain_views init_token_simps)

lemma bidding_chain_views:
  "data_of bidding_chain k = (if k = 252207005 then TokenData empty_wallet else data_of offered_chain k)"
  "owner_of bidding_chain k = (if k = 252207005 then 6 else owner_of offered_chain k)"
  "data_locked bidding_chain = []"
  by (simp_all add: bidding_chain_def landed_def offered_chain_views init_token_simps empty_wallet_def)

text \<open>The vault with its delegate, as the round program loads it.\<close>

definition approved_vault :: token_account where
  "approved_vault = \<lparr>t_mint = 30, t_owner = 100457613000, t_amount = 1000, t_delegate = Some 100457613000,
     t_is_native = None, t_delegated_amount = 300, t_close_authority = None\<rparr>"

lemma accounts_loaded:
  "load_create_round (human_sim 0) round_id demo_round_accs approved_chain = Inr (approved_vault, bidding_chain)"
proof -
  have "load_mint (human_sim 0) (key (cr_offer_mint demo_round_accs)) approved_chain = Inr \<lparr>mt_authority = None, mt_supply = 1000\<rparr>"
    "load_mint (human_sim 0) (key (cr_bid_mint demo_round_accs)) approved_chain = Inr \<lparr>mt_authority = None, mt_supply = 1000\<rparr>"
    "load_token (human_sim 0) (key (cr_offer_source_wallet demo_round_accs)) approved_chain = Inr approved_vault"
    by (simp_all add: load_mint_def load_token_def opening_simps approved_vault_def)
  moreover have "key (cr_round demo_round_accs) = 5"
    by (simp add: demo_round_accs_def writable_def)
  ultimately show ?thesis
    unfolding load_create_round_def Let_def
    by (simp add: opened_chain offered_chain bidding_chain)
      (simp add: demo_round_accs_def writable_def readonly_def offer_pda_def bid_pda_def authority_pda_def)
qed

lemma round_made:
  "\<exists>ev w'. create_round (human_sim 0) round_id demo_round_accs demo_round_params approved_chain = Inr (ev, w')
    \<and> data_of w' 50 = data_of human_chain 50 \<and> owner_of w' 50 = 100 \<and> data_locked w' = []"
  unfolding create_round_def accounts_loaded
  by (simp add: Let_def approved_vault_def demo_round_params_def call_transfer_def sim_transfer_tokens_def
      bidding_chain_views offered_chain_views opened_chain_views opening_simps empty_wallet_def)

lemma round_runs:
  "\<exists>w'. process_create_round (demo_human 0) (human_sim 0) 100 round_accounts round_args human_chain = Inr w'"
proof -
  obtain ev w' where w': "create_round (human_sim 0) round_id demo_round_accs demo_round_params approved_chain = Inr (ev, w')"
      "data_of w' 50 = data_of human_chain 50" "owner_of w' 50 = 100" "data_locked w' = []"
    using round_made by blast
  have "cs_token human_state = 30" "cs_owner human_state = 20"
    by (simp_all add: human_state_def)
  then show ?thesis
    using fanout_chain approved_chain w'
    by (simp add: process_create_round_def round_accounts_def human_run_simps human_chain_views wallet_of_def
        round_args_def demo_round_accs_def demo_round_params_def)
qed

definition redeem_accounts :: "account_info list" where
  "redeem_accounts = [writable 50 False, writable 70 False, writable 100457396030 False, readonly 12 False,
     writable 12030 False, writable 12 False, readonly 100457613000 False]"

lemma human_record_redeemable: "can_redeem human_record 1672272001 = Inr True"
proof -
  have "sint (1672272001 :: i64) = 1672272001" "sint (1672272000 :: i64) = 1672272000"
    by (simp_all add: sint_of_small)
  then show ?thesis
    using can_redeem_eq [of 1672272001 human_record] by (simp add: human_record_def weekday_def)
qed

lemma redeem_runs:
  "\<exists>w'. process_redeem_repost (demo_human 1672272001) (human_sim 1672272001) 100 redeem_accounts human_chain = Inr w'"
  using human_record_redeemable
  by (simp add: process_redeem_repost_def redeem_accounts_def human_run_simps human_chain_views
      human_state_def wallet_of_def human_record_def migrate_record_def erase_repost_record_def borrow_lamports_def
      release_lamports_def checked_add_def)

end
