(* ===== verification/HumanProps.thy ===== *)
theory HumanProps
  imports HumanDemo
begin

text \<open>
  The properties of the human program: the vesting schedule, the split of a price, drops, the
  windows for reposting and redeeming, the migration and the repair of the state.
\<close>

section \<open>Vesting\<close>

text \<open>
  C9: For any sequence of calls at times since the deployment, in any order and with any gaps, the vault
  holds afterwards the share of the parts that are not yet due, and at most 35 units of dust; the
  number of parts counted as vested is the largest number that was due at a call.
\<close>
theorem vest_schedule:
  assumes P: "precise_number P val" and start: "ve_vested_periods v = 0" "0 \<le> sint (ve_deployed_at v)"
    and times: "\<forall>t \<in> set ts. sint (ve_deployed_at v) \<le> sint t"
  shows "\<exists>v' rest. vest_run P v vault ts = Inr (v', rest)
    \<and> unat (ve_vested_periods v') = fold max (map (parts_due v) ts) 0
    \<and> unat vault * (36 - unat (ve_vested_periods v')) \<le> 36 * unat rest
    \<and> 36 * unat rest \<le> unat vault * (36 - unat (ve_vested_periods v')) + 36 * 35"
  using precise_number.vest_run_bounds [OF P, of v ts "unat vault" vault] start times by simp

theorem vest_schedule_witness:
  "\<exists>v' rest. vest_run fixed12 \<lparr>ve_deployed_at = 0, ve_vested_periods = 0\<rparr> 36035 [2629800, 94672800] = Inr (v', rest)
    \<and> unat (ve_vested_periods v') = 36 \<and> unat rest \<le> 35"
proof -
  let ?v = "\<lparr>ve_deployed_at = 0, ve_vested_periods = 0\<rparr>"
  have "sint (2629800 :: i64) = 2629800" "sint (94672800 :: i64) = 94672800"
    by (simp_all add: sint_of_small)
  then show ?thesis
    using vest_schedule [OF fixed12.precise_number_axioms, of ?v "[2629800, 94672800]" 36035]
    by (auto simp: parts_due_def)
qed

text \<open>
  C33: \<open>next_period\<close>, written with checked and fixed-point arithmetic, computes the reference over the
  natural numbers and never overflows: everything is paid out after 36 parts; otherwise the vault is
  divided equally among the parts not yet vested and the missed ones are paid. A clock before
  the deployment counts as all parts elapsed.
\<close>
theorem vest_next_period_reference:
  assumes P: "precise_number P val" and v: "unat (ve_vested_periods v) \<le> 36"
    and fits: "fits_i64 (sint now - sint (ve_deployed_at v))"
  shows "next_period P v vault now = Inr
    (let e = (if sint now < sint (ve_deployed_at v) then 36 else parts_due v now); p = unat (ve_vested_periods v) in
     if p = 36 then (Completed, v)
     else if e \<le> p then (PeriodVested, v)
     else (Vest (of_nat (unat vault div (36 - p) * (e - p))), v\<lparr>ve_vested_periods := of_nat e\<rparr>))"
proof -
  have "parts_at v now = (if sint now < sint (ve_deployed_at v) then 36 else parts_due v now)"
    using parts_at_eq [OF fits] by (simp add: parts_due_def)
  then show ?thesis
    unfolding precise_number.next_period_eq [OF P v fits] by simp
qed

theorem vest_next_period_reference_witness:
  "next_period fixed12 \<lparr>ve_deployed_at = 100, ve_vested_periods = 0\<rparr> 360000 99
    = Inr (Vest 360000, \<lparr>ve_deployed_at = 100, ve_vested_periods = 36\<rparr>)"
proof -
  have "sint (99 :: i64) = 99" "sint (100 :: i64) = 100"
    by (simp_all add: sint_of_small)
  then show ?thesis
    using vest_next_period_reference
      [OF fixed12.precise_number_axioms, of "\<lparr>ve_deployed_at = 100, ve_vested_periods = 0\<rparr>" 99 360000]
    by (simp add: fits_i64_def)
qed

section \<open>Prices and drops\<close>

text \<open>
  C34: Splitting any number of lamports succeeds; owner, commission and treasury get exactly the whole
  amount, ten percent and eighty percent rounded to the nearest lamport for the latter two. The price of
  a purchase can be split exactly when the product of price and amount fits 64 bits.
\<close>
theorem human_split:
  assumes P: "precise_number P val"
  shows "(\<exists>s. calculate_split_by_lamports P l = Some s
      \<and> unat (bs_owner_split s) + unat (bs_commission s) + unat (bs_treasury_split s) = unat l
      \<and> unat (bs_commission s) = bps_of (unat l) 1000 \<and> unat (bs_treasury_split s) = bps_of (unat l) 8000)
    \<and> (calculate_split P price amount = None \<longleftrightarrow> 2 ^ 64 \<le> unat price * unat amount)"
proof -
  have "bps_of (unat l) 1000 \<le> unat l" "bps_of (unat l) 8000 \<le> unat l"
    by (simp_all add: bps_of_le)
  then have "unat (bs_commission (lamports_split (unat l))) = bps_of (unat l) 1000"
    "unat (bs_treasury_split (lamports_split (unat l))) = bps_of (unat l) 8000"
    unfolding lamports_split_def using unat_u64_less [of l] by (simp_all add: unat_of_nat_fits)
  then show ?thesis
    using lamports_split_sum [OF unat_u64_less, of l]
    by (simp add: precise_number.split_by_lamports_eq [OF P] precise_number.calculate_split_eq [OF P] not_less)
qed

theorem human_split_witness:
  "calculate_split_by_lamports fixed12 15 \<noteq> None \<and> calculate_split fixed12 100000000000 100000000 \<noteq> None"
  using human_split [OF fixed12.precise_number_axioms, of 15 100000000000 100000000] by auto

text \<open>
  C35: The life of a drop. \<open>create_drop\<close> succeeds only without a drop, with a price and a window that is
  not empty; then a purchase succeeds exactly inside the window (both ends included), at an expected
  price that is not below the price, for an amount whose cost fits 64 bits, and the other cases are
  the three errors, in this order. A second drop is refused, and without a drop no purchase succeeds.
\<close>
theorem human_drop_lifecycle:
  assumes P: "precise_number P val"
    and made: "create_drop s price ident amount now start_date end_date = Inr s'"
  shows "cs_drop s = None \<and> price \<noteq> 0 \<and> sint start_date < sint end_date
    \<and> calculate_buy_split P s' t n expected =
      (if sint t < sint start_date \<or> sint end_date < sint t then Inl (Err (from_human_error DropTimeframeExpired))
       else if unat expected < unat price then Inl (Err (from_human_error ExpectedPriceMismatch))
       else if 2 ^ 64 \<le> unat price * unat n then Inl (Err (from_human_error HumanOverflow))
       else Inr ((lamports_split (unat price * unat n))\<lparr>bs_token_commission := of_nat (bps_of (unat n) 1000)\<rparr>))
    \<and> create_drop s' price2 ident2 amount2 now2 start2 end2 = Inl (Err (from_human_error DropInvalidDate))
    \<and> calculate_buy_split P (clear_drop s') t n expected = Inl (Err (from_human_error NoDrop))"
proof -
  have s': "s' = s\<lparr>cs_drop := Some \<lparr>d2_id = ident, d2_price = price, d2_amount = amount, d2_created_at = now,
      d2_start_date = start_date, d2_end_date = end_date\<rparr>\<rparr>" "cs_drop s = None" "price \<noteq> 0"
      "sint start_date < sint end_date"
    using made by (auto simp: create_drop_def res_simps)
  show ?thesis
    using s'(2-4)
    by (auto simp: s'(1) calculate_buy_split_def get_ongoing_drop_price_def create_drop_def clear_drop_def
        precise_number.calculate_split_eq [OF P] human_overflow_def ensure_def)
qed

definition blank_state :: contract_state where
  "blank_state = \<lparr>cs_token = 1, cs_owner = 2, cs_admin = 3, cs_commission_addr = 4, cs_treasury_addr = 5,
     cs_swap_state = 6, cs_sold = 0, cs_vest = \<lparr>ve_deployed_at = 0, ve_vested_periods = 0\<rparr>, cs_drop = None,
     cs_current_round = None, cs_completed_rounds_count = 0\<rparr>"

theorem human_drop_lifecycle_witness:
  "\<exists>s'. create_drop blank_state 7 1 100 0 10 20 = Inr s'
    \<and> calculate_buy_split fixed12 s' 20 10 7 = Inr ((lamports_split 70)\<lparr>bs_token_commission := 1\<rparr>)
    \<and> calculate_buy_split fixed12 s' 21 10 7 = Inl (Err (from_human_error DropTimeframeExpired))"
proof -
  have small: "sint (10 :: i64) = 10" "sint (20 :: i64) = 20" "sint (21 :: i64) = 21"
    by (simp_all add: sint_of_small)
  then obtain s' where s': "create_drop blank_state 7 1 100 0 10 20 = Inr s'"
    by (simp add: create_drop_def blank_state_def)
  then show ?thesis
    using human_drop_lifecycle [OF fixed12.precise_number_axioms s', of 20 10 7]
      human_drop_lifecycle [OF fixed12.precise_number_axioms s', of 21 10 7]
    by (simp add: small bps_tenths)
qed

section \<open>Reposting and redeeming\<close>

text \<open>
  C36: Neither window closes or opens with time: at any moment from its creation on a post can be
  reposted, and from the moment of the repost on a record can be redeemed on every Thursday (midnight
  itself excluded). The subtraction \<open>created_at - now\<close> of the code is the wrong way round; the limits of
  24 hours have no effect on records whose time is not in the future.
\<close>
theorem human_windows:
  assumes post: "- (2 ^ 62) \<le> sint (pi_created_at p)" "sint (pi_created_at p) \<le> sint now" "sint now < 2 ^ 62"
    and rec: "- (2 ^ 62) \<le> sint (rr_reposted_at r)" "sint (rr_reposted_at r) \<le> sint now" "345600 \<le> sint now"
  shows "can_repost p now \<and> can_redeem r now = Inr (weekday (sint now) = 3 \<and> sint now mod 86400 \<noteq> 0)"
  using post rec by (simp add: can_repost_eq can_redeem_eq)

definition blank_post :: post_info where
  "blank_post = \<lparr>pi_state = 1, pi_post_id = 2, pi_created_at = 0, pi_repost_price = None,
     pi_royalty_address = 3, pi_payer = 4, pi_name = ''a'', pi_symbol = ''b'', pi_uri = ''c''\<rparr>"

definition blank_record :: repost_record where
  "blank_record = \<lparr>rr_state = 1, rr_token = 2, rr_user = 3, rr_post_id = 4, rr_reposted_at = 1672272000,
     rr_receive_amount = 5, rr_payer = 3\<rparr>"

theorem human_windows_witness:
  "can_repost blank_post 1672272001 \<and> can_redeem blank_record 1672272001 = Inr True"
proof -
  have "sint (1672272001 :: i64) = 1672272001" "sint (1672272000 :: i64) = 1672272000"
    by (simp_all add: sint_of_small)
  then show ?thesis
    using human_windows [of blank_post 1672272001 blank_record]
    by (simp add: blank_post_def blank_record_def weekday_def)
qed

section \<open>Migration and repair\<close>

lemma set_data_same: "data_of w k = d \<Longrightarrow> set_data k d w = w"
  by (auto simp: set_data_def put_def data_of_def)





text \<open>
  C38: The repair before every instruction leaves a stored state alone as long as it counts at
  most 1000 completed rounds. The state of a project with more rounds is taken for a damaged one: the
  round in progress is dropped and the counter starts again at zero; the rest is kept.
\<close>
theorem human_fix_state:
  assumes stored: "data_of w (key a) = Raw (0x45 # enc contract_state_codec s @ rest)" "key a \<notin> set (data_locked w)"
    and long: "state_acc_size \<le> Suc (length (enc contract_state_codec s) + length rest)"
  shows "\<exists>w'. try_fix_state (a # it) w = Inr w'
    \<and> entity_at (contract_entity contract_state_codec) w' (key a) = Some
        (if unat (cs_completed_rounds_count s) \<le> 1000 then s
         else s\<lparr>cs_current_round := None, cs_completed_rounds_count := 0\<rparr>)
    \<and> (unat (cs_completed_rounds_count s) \<le> 1000 \<longrightarrow> w' = w)"
proof -
  let ?E = "contract_entity contract_state_codec" and ?n = "unat (cs_completed_rounds_count s)"
  let ?new = "if ?n \<le> 1000 then s else s\<lparr>cs_current_round := None, cs_completed_rounds_count := 0\<rparr>"
  define bytes where "bytes = 0x45 # enc contract_state_codec s @ rest"
  have bytes: "bytes = 0x45 # state_head s @ state_drop s @ state_round s @ state_count s @ rest"
    by (simp add: bytes_def state_layout)
  have size: "state_acc_size \<le> length bytes"
    using long by (simp add: bytes_def)
  have reads: "deserialize_from ?E (0x45 # enc contract_state_codec x @ r) = Inr x"
    if "state_acc_size \<le> Suc (length (enc contract_state_codec x) + length r)" for x r
    using that lawfulD [OF contract_codecs_lawful(1), of x r]
    by (simp add: deserialize_from_def contract_entity_def codec_entity_def)
  have kept: "kept_length s + 9 \<le> length bytes"
    using size state_drop_cases [of s] by (auto simp: kept_length_def state_acc_size_def)
  define bs' where "bs' = (if 1000 < ?n then take (kept_length s) bytes @ replicate (length bytes - kept_length s) 0 else bytes)"
  have fixed: "fix_state bytes = Inr bs'"
    unfolding bs'_def by (rule fix_state_stored [OF bytes])
  have "deserialize_from ?E bs' = Inr ?new"
  proof (cases "?n \<le> 1000")
    case True
    then show ?thesis
      using reads [of s rest] long by (simp add: bs'_def bytes_def)
  next
    case False
    let ?s' = "s\<lparr>cs_current_round := None, cs_completed_rounds_count := 0\<rparr>"
    obtain rest' where r: "bs' = 0x45 # enc contract_state_codec ?s' @ rest'"
      using fix_state_wiped [OF bytes kept] False by (auto simp: bs'_def)
    have "length bs' = length bytes"
      using False kept by (simp add: bs'_def)
    then show ?thesis
      using reads [of ?s' rest'] size False by (simp add: r)
  qed
  moreover have "try_fix_state (a # it) w = Inr (set_data (key a) (Raw bs') w)"
    using stored fixed by (simp add: try_fix_state_def read_data_def or_panic_def bytes_def)
  moreover have "set_data (key a) (Raw bs') w = w" if "?n \<le> 1000"
    using that stored(1) by (simp add: bs'_def bytes_def set_data_same)
  ultimately show ?thesis
    by (intro exI [of _ "set_data (key a) (Raw bs') w"]) (simp add: entity_at_eq)
qed

definition busy_state :: contract_state where
  "busy_state = human_state\<lparr>cs_completed_rounds_count := 1001\<rparr>"

definition busy_chain :: world where
  "busy_chain = set_data 50 (Raw (0x45 # enc contract_state_codec busy_state @ replicate 513 0)) human_chain"

theorem human_fix_state_witness:
  "\<exists>w' s. try_fix_state [writable 50 False] busy_chain = Inr w' \<and> entity_at DHE w' 50 = Some s
    \<and> cs_completed_rounds_count s = 0 \<and> cs_current_round s = None \<and> cs_current_round busy_state = Some 61"
proof -
  have "data_of busy_chain (key (writable 50 False)) = Raw (0x45 # enc contract_state_codec busy_state @ replicate 513 0)"
    "key (writable 50 False) \<notin> set (data_locked busy_chain)"
    "state_acc_size \<le> Suc (length (enc contract_state_codec busy_state) + length (replicate 513 (0 :: u8)))"
    by (simp_all add: busy_chain_def writable_def human_chain_def state_acc_size_def)
  from human_fix_state [OF this, of "[]"] show ?thesis
    by (auto simp: busy_state_def human_state_def writable_def)
qed

end
