(* ===== verification/HumanPosts.thy ===== *)
theory HumanPosts
  imports HumanDemo
begin

text \<open>
  What a compressed repost leaves. The locale \<open>foreign_calls\<close> adds a rule of the runtime to
  \<open>human_world\<close>: the programs for associated accounts, metadata and compression cannot change
  accounts that the human program owns.
\<close>

fun foreign_call :: "human_cpi \<Rightarrow> bool" where
  "foreign_call (CreateAta p u m) = True"
| "foreign_call (SetCollectionSize a b c d) = True"
| "foreign_call (MintToCollection a b c d e f g h i) = True"
| "foreign_call _ = False"

locale foreign_calls = human_world +
  fixes pid :: pubkey
  assumes foreign: "hx_cpi H infos c seeds w = Inr w' \<Longrightarrow> foreign_call c \<Longrightarrow> owner_of w k = pid \<Longrightarrow> keeps k w w'"

text \<open>A record that promises the user 100 units.\<close>

definition free_record :: "pubkey \<Rightarrow> contract_state \<Rightarrow> post_info \<Rightarrow> pubkey \<Rightarrow> pubkey \<Rightarrow> i64 \<Rightarrow> repost_record" where
  "free_record state_addr st post user payer now =
     \<lparr>rr_state = state_addr, rr_token = cs_token st, rr_user = user, rr_post_id = pi_post_id post,
      rr_reposted_at = now, rr_receive_amount = 100, rr_payer = payer\<rparr>"

lemma record_saved:
  assumes world: "human_world X H" and ok: "save_repost_record H X pid payer rec acc mnt accounts w = Inr w'"
  shows "data_of w (key acc) = Raw []" "entity_at (RE H) w' (key acc) = Some rec" "owner_of w' (key acc) = pid"
    "data_of w k \<noteq> Raw [] \<Longrightarrow> keeps k w w'"
proof -
  obtain w1 where made: "x_cpi X accounts (SystemCreate payer (key acc) (x_rent X 177) 177 pid) [repost_record_seed mnt] w = Inr w1"
    and init: "initialize_entity (RE H) rec acc w1 = Inr w'"
    using ok by (auto simp: save_repost_record_def res_simps)
  have tokens: "token_program X" and codec: "entity_codec (RE H)"
    using world by (auto simp: human_world_def human_world_axioms_def dest: fitting_entity.axioms)
  note c = system_program.create_account [OF token_program.axioms(1) [OF tokens] made]
  obtain bs bs' where w': "w' = set_data (key acc) (Raw bs') w1"
    using entity_codec.initialize_stored(2) [OF codec init] by blast
  show empty: "data_of w (key acc) = Raw []"
    using c by (simp add: account_created_def)
  show "entity_at (RE H) w' (key acc) = Some rec"
    by (rule entity_codec.initialize_stored(1) [OF codec init])
  show "owner_of w' (key acc) = pid"
    using c by (simp add: w') (simp add: account_created_def owner_of_def)
  show "keeps k w w'" if "data_of w k \<noteq> Raw []"
  proof -
    have "k \<noteq> key acc"
      using that empty by auto
    then have "keeps k w w1"
      using c by (cases "k = payer") (auto simp: account_created_def keeps_def intro: views_of_accts)
    then show ?thesis
      using \<open>k \<noteq> key acc\<close> by (simp add: w' keeps_def)
  qed
qed

lemma entity_keeps: "keeps k w w' \<Longrightarrow> entity_at E w' k = entity_at E w k"
  by (rule entity_at_frame) (simp add: keeps_def)

lemma entity_not_empty: "entity_at E w k = Some x \<Longrightarrow> 0 < e_size E \<Longrightarrow> data_of w k \<noteq> Raw []"
  by (auto simp: entity_at_eq deserialize_from_def res_simps)

lemma compressed_repost_effect:
  assumes world: "foreign_calls X H pid"
    and ok: "process_repost_compressed H X pid accounts w = Inr w'"
  shows "\<exists>state_acc post_acc user user_wallet payer mnt record_acc it st post.
    accounts = state_acc # post_acc # user # user_wallet # payer # mnt # record_acc # it
    \<and> entity_at (HE H) w (key state_acc) = Some st \<and> entity_at (PE H) w (key post_acc) = Some post
    \<and> pi_state post = key state_acc \<and> can_repost post (x_now X)
    \<and> entity_at (HE H) w' (key state_acc) = Some st \<and> entity_at (PE H) w' (key post_acc) = Some post
    \<and> (key user \<noteq> cs_owner st \<longrightarrow> data_of w (key record_acc) = Raw []
        \<and> owner_of w' (key record_acc) = pid
        \<and> entity_at (RE H) w' (key record_acc)
          = Some (free_record (key state_acc) st post (key user) (key payer) (x_now X)))
    \<and> (\<forall>k rec. owner_of w k = pid \<longrightarrow> entity_at (RE H) w k = Some rec \<longrightarrow>
          owner_of w' k = pid \<and> entity_at (RE H) w' k = Some rec)"
proof -
  have human: "human_world X H"
    using world by (rule foreign_calls.axioms)
  then have codecs: "entity_codec (HE H)" "entity_codec (PE H)"
    by (auto simp: human_world_def human_world_axioms_def dest: fitting_entity.axioms)
  let ?auth = "x_pda X authority_seed pid"
  obtain state_acc b1 st post_acc b2 post user b3 user_wallet b4 payer b5 mnt b6 record_acc b7 auth b8 tree_auth b9 tree b10
      w1 w2 meta_acc meta w3 w4 w5 where
      accounts: "accounts = state_acc # b1" "b1 = post_acc # b2" "b2 = user # b3" "b3 = user_wallet # b4" "b4 = payer # b5"
        "b5 = mnt # b6" "b6 = record_acc # b7"
    and st: "entity_at (HE H) w (key state_acc) = Some st" "owner_of w (key state_acc) = pid"
    and post: "entity_at (PE H) w (key post_acc) = Some post" "owner_of w (key post_acc) = pid"
    and checks: "pi_state post = key state_acc" "can_repost post (x_now X)"
    and auth: "b7 = auth # b8" "b8 = tree_auth # b9" "b9 = tree # b10"
    and saved: "(if key user \<noteq> cs_owner st
       then save_repost_record H X pid (key payer) \<lparr>rr_state = key state_acc, rr_token = cs_token st, rr_user = key user,
          rr_post_id = pi_post_id post, rr_reposted_at = x_now X, rr_receive_amount = free_repost_receive_amount,
          rr_payer = key payer\<rparr> record_acc (key mnt) accounts w
       else Inr w) = Inr w1"
    and ata: "(if data_is_empty X user_wallet w1 then hx_cpi H accounts (CreateAta (key payer) (key user) (cs_token st)) [] w1
       else Inr w1) = Inr w2"
    and meta: "hx_metadata_bytes H (data_of w2 (key (meta_acc :: account_info))) = Inr meta"
    and sized: "(if \<not> nm_sized_collection meta
       then hx_cpi H accounts (SetCollectionSize (hx_metadata_pda H (x_pda X (collection_mint_seed (cs_token st)) pid)) ?auth
         (x_pda X (collection_mint_seed (cs_token st)) pid) 0) [authority_seed] w2
       else Inr w2) = Inr w3"
    and minted: "hx_cpi H accounts (MintToCollection (key tree_auth) (key user) (key tree) (key payer) ?auth
         (x_pda X (collection_mint_seed (cs_token st)) pid) (hx_metadata_pda H (x_pda X (collection_mint_seed (cs_token st)) pid))
         (hx_edition_pda H (x_pda X (collection_mint_seed (cs_token st)) pid))
         \<lparr>md_name = pi_name post, md_symbol = pi_symbol post, md_uri = pi_uri post,
          md_seller_fee = post_royalty_commission_bsp, md_collection = x_pda X (collection_mint_seed (cs_token st)) pid,
          md_creators = post_creators (pi_royalty_address post) (cs_owner st) ?auth\<rparr>) [authority_seed] w3 = Inr w4"
    and g1: "drop_guard (PE H) post post_acc w4 = Inr w5" and g2: "drop_guard (HE H) st state_acc w5 = Inr w'"
    using ok unfolding process_repost_compressed_def Let_def
    by (simp add: res_simps split_paired_Ex) (elim exE conjE, rule that, assumption+)
  have kept: "keeps k v v'" if "hx_cpi H accounts c seeds v = Inr v'" "foreign_call c" "owner_of v k = pid" for c seeds v v' k
    using foreign_calls.foreign [OF world] that by blast
  have later: "keeps k w1 w4" if k: "owner_of w1 k = pid" for k
  proof -
    have 2: "keeps k w1 w2"
      using ata kept [of "CreateAta (key payer) (key user) (cs_token st)" "[]" w1 w2 k] k by (simp split: if_splits)
    then have "keeps k w2 w3"
      using sized kept [of "SetCollectionSize _ _ _ _" "[authority_seed]" w2 w3 k] k by (auto simp: keeps_def split: if_splits)
    with 2 have 3: "keeps k w1 w3"
      by (rule keeps_trans)
    then have "keeps k w3 w4"
      using kept [OF minted] k by (simp add: keeps_def)
    with 3 show ?thesis
      by (rule keeps_trans)
  qed
  have first: "keeps k w w1" if "data_of w k \<noteq> Raw []" for k
    using saved record_saved(4) [OF human _ that] by (auto split: if_splits)
  have sizes: "data_of w (key state_acc) \<noteq> Raw []" "data_of w (key post_acc) \<noteq> Raw []"
    using entity_not_empty [OF st(1)] entity_not_empty [OF post(1)] by (simp_all add: state_acc_size_def)
  have apart: "key post_acc \<noteq> key state_acc"
    using entity_magic [OF st(1), of "PE H" post] post(1) by auto
  have "entity_at (HE H) w' (key state_acc) = Some st" "entity_at (PE H) w5 (key post_acc) = Some post"
    using entity_codec.drop_guard_stored(1) [OF codecs(1) g2] entity_codec.drop_guard_stored(1) [OF codecs(2) g1] by simp_all
  then have ends: "entity_at (HE H) w' (key state_acc) = Some st" "entity_at (PE H) w' (key post_acc) = Some post"
    using entity_at_frame [OF drop_guard_frame(5) [OF g2 apart], of "PE H"] by simp_all
  have new: "data_of w (key record_acc) = Raw [] \<and> owner_of w' (key record_acc) = pid
      \<and> entity_at (RE H) w' (key record_acc) = Some (free_record (key state_acc) st post (key user) (key payer) (x_now X))"
    if "key user \<noteq> cs_owner st"
  proof -
    let ?rec = "free_record (key state_acc) st post (key user) (key payer) (x_now X)" and ?rk = "key record_acc"
    have save: "save_repost_record H X pid (key payer) ?rec record_acc (key mnt) accounts w = Inr w1"
      using saved that by (simp add: free_record_def free_repost_receive_amount_def)
    note r = record_saved [OF human save]
    have k4: "keeps ?rk w1 w4"
      by (rule later [OF r(3)])
    have ne: "?rk \<noteq> key state_acc" "?rk \<noteq> key post_acc"
      using r(1) sizes by auto
    have "data_of w' ?rk = data_of w4 ?rk" "owner_of w' ?rk = owner_of w4 ?rk"
      using drop_guard_frame(5) [OF g2 ne(1)] drop_guard_frame(5) [OF g1 ne(2)] drop_guard_frame(2) [OF g2] drop_guard_frame(2) [OF g1]
      by simp_all
    with k4 have "keeps ?rk w1 w'"
      by (simp add: keeps_def)
    from entity_keeps [OF this, of "RE H"] this show ?thesis
      using r(1-3) unfolding keeps_def by (elim conjE) simp
  qed
  have old: "owner_of w' k = pid \<and> entity_at (RE H) w' k = Some rec"
    if k: "owner_of w k = pid" "entity_at (RE H) w k = Some rec" for k rec
  proof -
    have ne: "k \<noteq> key state_acc" "k \<noteq> key post_acc"
      using k(2) st(1) post(1) entity_magic [of "RE H" w k rec "HE H" st] entity_magic [of "RE H" w k rec "PE H" post] by auto
    have 1: "keeps k w w1"
      using entity_not_empty [OF k(2)] by (intro first) simp
    then have "owner_of w1 k = pid"
      using k(1) by (simp add: keeps_def)
    from keeps_trans [OF 1 later [OF this]] have "keeps k w w4" .
    moreover have "data_of w' k = data_of w4 k" "owner_of w' k = owner_of w4 k"
      using drop_guard_frame(5) [OF g2 ne(1)] drop_guard_frame(5) [OF g1 ne(2)] drop_guard_frame(2) [OF g2] drop_guard_frame(2) [OF g1]
      by simp_all
    ultimately have kept: "keeps k w w'"
      by (simp add: keeps_def)
    from entity_keeps [OF this, of "RE H"] kept show ?thesis
      using k unfolding keeps_def by (elim conjE) simp
  qed
  have all: "accounts = state_acc # post_acc # user # user_wallet # payer # mnt # record_acc # b7"
    using accounts by simp
  show ?thesis
    by (intro exI conjI allI impI, rule all, rule st(1), rule post(1), rule checks(1), rule checks(2), rule ends(1),
        rule ends(2)) (use new old in blast)+
qed

section \<open>Runs of compressed reposts\<close>

fun repost_run ::
  "human_ext \<Rightarrow> ext \<Rightarrow> pubkey \<Rightarrow> account_info list list \<Rightarrow> world \<Rightarrow> world res" where
  "repost_run H X pid [] w = Inr w"
| "repost_run H X pid (accounts # calls) w =
     and_then (process_repost_compressed H X pid accounts w) (\<lambda>w. repost_run H X pid calls w)"

definition promised :: "human_ext \<Rightarrow> pubkey \<Rightarrow> world \<Rightarrow> account_info list \<Rightarrow> bool" where
  "promised H pid w accounts \<longleftrightarrow> owner_of w (key (accounts ! 6)) = pid
     \<and> (\<exists>rec. entity_at (RE H) w (key (accounts ! 6)) = Some rec \<and> rr_state rec = key (accounts ! 0)
        \<and> rr_user rec = key (accounts ! 2) \<and> rr_receive_amount rec = 100 \<and> rr_payer rec = key (accounts ! 4))"

lemma repost_run_effect:
  assumes world: "foreign_calls X H pid"
  shows "repost_run H X pid calls w = Inr w' \<Longrightarrow> entity_at (HE H) w s = Some st \<Longrightarrow>
    \<forall>accounts \<in> set calls. key (accounts ! 0) = s \<and> key (accounts ! 2) \<noteq> cs_owner st \<Longrightarrow>
    \<forall>accounts \<in> set old. promised H pid w accounts \<Longrightarrow> distinct (map (\<lambda>a. key (a ! 6)) old) \<Longrightarrow>
    (\<forall>accounts \<in> set (calls @ old). promised H pid w' accounts) \<and> distinct (map (\<lambda>a. key (a ! 6)) (calls @ old))
      \<and> entity_at (HE H) w' s = Some st"
proof (induction calls arbitrary: w old)
  case (Cons accounts calls)
  obtain w1 where run: "process_repost_compressed H X pid accounts w = Inr w1" "repost_run H X pid calls w1 = Inr w'"
    using Cons.prems(1) by (auto simp: res_simps)
  obtain state_acc post_acc user user_wallet payer mnt record_acc it st' post where
      a: "accounts = state_acc # post_acc # user # user_wallet # payer # mnt # record_acc # it"
    and st': "entity_at (HE H) w (key state_acc) = Some st'" "entity_at (HE H) w1 (key state_acc) = Some st'"
    and made: "key user \<noteq> cs_owner st' \<longrightarrow> data_of w (key record_acc) = Raw [] \<and> owner_of w1 (key record_acc) = pid
        \<and> entity_at (RE H) w1 (key record_acc)
          = Some (free_record (key state_acc) st' post (key user) (key payer) (x_now X))"
    and kept: "\<forall>k rec. owner_of w k = pid \<longrightarrow> entity_at (RE H) w k = Some rec \<longrightarrow>
          owner_of w1 k = pid \<and> entity_at (RE H) w1 k = Some rec"
    using compressed_repost_effect [OF world run(1)] by blast
  have s: "key state_acc = s" "st' = st" "key user \<noteq> cs_owner st"
    using Cons.prems(2,3) st'(1) by (auto simp: a)
  have new: "data_of w (key record_acc) = Raw []" "promised H pid w1 accounts"
    using made s by (auto simp: a promised_def free_record_def)
  have "promised H pid w1 b" if "b \<in> set old" for b
    using Cons.prems(4) kept that by (fastforce simp: promised_def)
  moreover have "key (accounts ! 6) \<notin> (\<lambda>b. key (b ! 6)) ` set old"
    using Cons.prems(4) new(1) entity_not_empty [of "RE H" w "key (accounts ! 6)"] by (auto simp: promised_def a)
  ultimately have "(\<forall>b \<in> set (calls @ accounts # old). promised H pid w' b)
      \<and> distinct (map (\<lambda>a. key (a ! 6)) (calls @ accounts # old)) \<and> entity_at (HE H) w' s = Some st"
    using Cons.prems(3,5) new(2) st'(2) s(1,2) by (intro Cons.IH [OF run(2)]) simp_all
  then show ?case
    by auto
qed simp

section \<open>An executable run\<close>

interpretation demo_foreign: foreign_calls "human_sim now" "demo_human now" pid
proof (intro foreign_calls.intro foreign_calls_axioms.intro demo_human.human_world_axioms)
  show "keeps k w w'" if "hx_cpi (demo_human now) infos c seeds w = Inr w'" "foreign_call c" for infos c seeds w w' k
    using that by (cases c) auto
qed

definition demo_post :: post_info where
  "demo_post = \<lparr>pi_state = 50, pi_post_id = 7, pi_created_at = 0, pi_repost_price = None, pi_royalty_address = 3,
     pi_payer = 22, pi_name = ''a'', pi_symbol = ''b'', pi_uri = ''c''\<rparr>"

abbreviation DPE :: "post_info entity" where
  "DPE \<equiv> post_info_entity post_info_ser (dec post_info_codec)"

definition post_bytes :: "u8 list" where
  "post_bytes = 0x44 # enc post_info_codec demo_post @ replicate 350 0"

lemma demo_post_ser: "post_info_ser demo_post = Some (enc post_info_codec demo_post)"
  by (simp add: post_info_ser_def demo_post_def)

lemma demo_post_length: "length (enc post_info_codec demo_post) < 350"
  by (simp add: post_info_codec_def enc_simps demo_post_def string_codec_def)

lemma post_bytes_simps [simp]:
  "deserialize_from DPE post_bytes = Inr demo_post" "serialize_to DPE demo_post post_bytes = Inr post_bytes"
  using post_info_reads [OF demo_post_ser, of "replicate 350 0"] demo_post_length
  by (simp_all add: post_bytes_def deserialize_from_def serialize_to_def post_info_entity_def demo_post_ser)

definition post_chain :: world where
  "post_chain = put 80 \<lparr>lamports = 1000, acc_owner = 100, data = Raw post_bytes\<rparr> human_chain"

definition repost_accounts :: "pubkey \<Rightarrow> pubkey \<Rightarrow> account_info list" where
  "repost_accounts mnt rec = [writable 50 False, writable 80 False, readonly 12 False, writable 12030 False, writable 22 True,
     readonly mnt False, writable rec False, readonly 100457613000 False, readonly 92 False, writable tree_id False,
     readonly 100457748030 False, writable 1004577480301 False, readonly 1004577480302 False]"

lemma collection_pda [simp]: "human_pda (collection_mint_seed 30) 100 = 100457748030"
  by (simp add: human_pda_def collection_mint_seed_def keyed_seeds_def)

lemma post_chain_views:
  "data_of post_chain k = (if k = 80 then Raw post_bytes else data_of human_chain k)"
  "owner_of post_chain k = (if k = 80 then 100 else owner_of human_chain k)"
  "lamports_of post_chain k = (if k = 80 then 1000 else lamports_of human_chain k)"
  "lam_locked post_chain = []" "data_locked post_chain = []"
  by (simp_all add: post_chain_def human_chain_views)

lemma demo_can_repost: "can_repost demo_post 5"
proof -
  have "sint (5 :: i64) = 5"
    by (simp add: sint_of_small)
  then show ?thesis
    by (simp add: can_repost_eq demo_post_def)
qed

definition reposted_chain :: world where
  "reposted_chain = landed (process_repost_compressed (demo_human 5) (human_sim 5) 100 (repost_accounts 91 90) post_chain)"

lemma human_state_fields: "cs_token human_state = 30" "cs_owner human_state = 20" "pi_state demo_post = 50"
  by (simp_all add: human_state_def demo_post_def)

lemma zero_record [simp]: "\<not> is_initialized DRE (replicate 177 0)"
  by (simp add: is_initialized_def)

lemmas repost_run_simps = process_repost_compressed_def repost_accounts_def human_run_simps
  human_state_fields demo_can_repost wallet_of_def data_is_empty_def data_len_def save_repost_record_def sim_create_def

lemma reposted_chain:
  "process_repost_compressed (demo_human 5) (human_sim 5) 100 (repost_accounts 91 90) post_chain = Inr reposted_chain"
  by (simp add: reposted_chain_def landed_def repost_run_simps post_chain_views human_chain_views)

lemma reposted_chain_views:
  "data_of reposted_chain k = (if k = 50 then Raw (saved DHE human_state (saved DHE human_state (replicate 513 0)))
     else if k = 90 then Raw (saved DRE (free_record 50 human_state demo_post 12 22 5) (replicate 177 0))
     else data_of post_chain k)"
  "owner_of reposted_chain k = (if k = 90 then 100 else owner_of post_chain k)"
  "lamports_of reposted_chain k = (if k = 90 then 305 else if k = 22 then 99695 else lamports_of post_chain k)"
  "lam_locked reposted_chain = []" "data_locked reposted_chain = []"
  by (simp_all add: reposted_chain_def landed_def repost_run_simps post_chain_views human_chain_views free_record_def
      free_repost_receive_amount_def)

lemma reposts_run:
  "\<exists>w'. repost_run (demo_human 5) (human_sim 5) 100 [repost_accounts 91 90, repost_accounts 94 93] post_chain = Inr w'"
  by (simp add: reposted_chain)
    (simp add: repost_run_simps reposted_chain_views post_chain_views human_chain_views)

end
