(* ===== verification/HumanFlows.thy ===== *)
theory HumanFlows
  imports HumanProps HumanPosts
begin

text \<open>
  The properties of the human program that span programs: the creation of a round with its fanout,
  the vesting of a finished round, the redemption of reposts, and the compressed reposts that cost
  nothing.
\<close>

section \<open>Rounds\<close>



text \<open>
  C14: A claim moves a tenth of the offer of the current round, or what the vault has, from the vault
  to the owner's wallet, if the round was accepted; it counts the round and clears it. For any other
  round, and for the same round a second time, it moves nothing.
\<close>
theorem human_claim_round_vesting:
  assumes world: "human_world X H" "human_world X2 H"
    and ok: "process_claim_round_vesting H X pid accounts w = Inr w'"
  shows "(\<exists>state_acc vault_acc auth round_acc it st r. accounts = state_acc # vault_acc # auth # round_acc # it
    \<and> entity_at (HE H) w (key state_acc) = Some st \<and> owner_of w (key state_acc) = pid
    \<and> data_of w (key round_acc) = RoundData r
    \<and> (if cs_current_round st = Some (key round_acc) then round_vesting_paid H X pid (key state_acc) st r w w'
       else \<forall>k. token_balance w' k = token_balance w k))
    \<and> (\<forall>w''. process_claim_round_vesting H X2 pid accounts w' = Inr w'' \<longrightarrow>
        (\<forall>k. token_balance w'' k = token_balance w' k))"
proof -
  obtain state_acc vault_acc auth round_acc it st r where
      a: "accounts = state_acc # vault_acc # auth # round_acc # it"
    and st: "entity_at (HE H) w (key state_acc) = Some st" "owner_of w (key state_acc) = pid"
    and r: "data_of w (key round_acc) = RoundData r"
    and eff: "if cs_current_round st = Some (key round_acc) then round_vesting_paid H X pid (key state_acc) st r w w'
       else entity_at (HE H) w' (key state_acc) = Some st \<and> (\<forall>k. token_balance w' k = token_balance w k)"
    using human_world.claim_round_effect [OF world(1) ok] by blast
  obtain st' where st': "entity_at (HE H) w' (key state_acc) = Some st'" "cs_current_round st' \<noteq> Some (key round_acc)"
    using eff by (auto simp: round_vesting_paid_def Let_def split: if_splits)
  have "token_balance w'' k = token_balance w' k" if "process_claim_round_vesting H X2 pid accounts w' = Inr w''" for w'' k
    using human_world.claim_round_effect [OF world(2) that] st' by (auto simp: a)
  then show ?thesis
    using a st r eff by auto
qed

theorem human_claim_round_vesting_witness:
  "\<exists>w'. process_claim_round_vesting (demo_human 0) (human_sim 0) 100 (claim_accounts_at 61) human_chain = Inr w'
    \<and> token_balance w' 100457396030 = 930 \<and> token_balance w' 20030 = 70"
proof -
  obtain w' where w': "process_claim_round_vesting (demo_human 0) (human_sim 0) 100 (claim_accounts_at 61) human_chain = Inr w'"
    using claim_runs by blast
  moreover have "entity_at (HE (demo_human 0)) human_chain 50 = Some human_state"
    by (simp add: entity_at_eq human_chain_views)
  moreover have "data_of human_chain 61 = RoundData accepted_round" "token_balance human_chain 100457396030 = 1000"
    "token_balance human_chain 20030 = 0"
    by (simp_all add: human_chain_views token_balance_def wallet_of_def)
  ultimately show ?thesis
    using human_claim_round_vesting [OF demo_human.human_world_axioms demo_human.human_world_axioms w']
    by (auto simp: claim_accounts_at_def writable_def readonly_def round_vesting_paid_def Let_def human_state_def
        accepted_round_def)
qed

section \<open>Redeeming\<close>

text \<open>
  C12: A repost record is paid once. A redemption either comes too early and changes no balance and
  not the record, or moves exactly the amount of the record from the vault to the wallet of its
  user and erases the record, and then no redemption with these accounts ever succeeds again.
\<close>
theorem human_redeem_once:
  assumes world: "human_world X H" "human_world X2 H"
    and ok: "process_redeem_repost H X pid accounts w = Inr w'"
  shows "\<exists>state_acc record_acc it st rec can. accounts = state_acc # record_acc # it
    \<and> entity_at (HE H) w (key state_acc) = Some st \<and> entity_at (RE H) w (key record_acc) = Some rec
    \<and> rr_state rec = key state_acc \<and> can_redeem rec (x_now X) = Inr can
    \<and> (if can then record_redeemed H X pid (key record_acc) st rec w w'
           \<and> (\<forall>w''. process_redeem_repost H X2 pid accounts w' \<noteq> Inr w'')
       else entity_at (RE H) w' (key record_acc) = Some rec \<and> (\<forall>k. token_balance w' k = token_balance w k))"
proof -
  obtain state_acc record_acc it st rec can where a: "accounts = state_acc # record_acc # it"
    and st: "entity_at (HE H) w (key state_acc) = Some st" "entity_at (RE H) w (key record_acc) = Some rec"
      "rr_state rec = key state_acc" "can_redeem rec (x_now X) = Inr can"
    and eff: "if can then record_redeemed H X pid (key record_acc) st rec w w'
       else entity_at (RE H) w' (key record_acc) = Some rec \<and> (\<forall>k. token_balance w' k = token_balance w k)"
    using human_world.redeem_effect [OF world(1) ok] by blast
  have "process_redeem_repost H X2 pid accounts w' \<noteq> Inr w''" if can for w''
    using human_world.redeem_effect [OF world(2), of pid accounts w' w''] eff that
    by (auto simp: a record_redeemed_def Let_def)
  then show ?thesis
    using a st eff by (intro exI [of _ state_acc] exI [of _ record_acc] exI [of _ it] exI [of _ st] exI [of _ rec] exI [of _ can]) auto
qed

theorem human_redeem_once_witness:
  "\<exists>w'. process_redeem_repost (demo_human 1672272001) (human_sim 1672272001) 100 redeem_accounts human_chain = Inr w'
    \<and> token_balance w' 100457396030 = 995 \<and> token_balance w' 12030 = 5"
proof -
  obtain w' where w': "process_redeem_repost (demo_human 1672272001) (human_sim 1672272001) 100 redeem_accounts human_chain = Inr w'"
    using redeem_runs by blast
  moreover have "entity_at (HE (demo_human 1672272001)) human_chain 50 = Some human_state"
    "entity_at (RE (demo_human 1672272001)) human_chain 70 = Some human_record"
    by (simp_all add: entity_at_eq human_chain_views)
  moreover have "token_balance human_chain 100457396030 = 1000" "token_balance human_chain 12030 = 0"
    by (simp_all add: human_chain_views token_balance_def wallet_of_def)
  ultimately show ?thesis
    using human_redeem_once [OF demo_human.human_world_axioms demo_human.human_world_axioms w'] human_record_redeemable
    by (auto simp: redeem_accounts_def writable_def readonly_def record_redeemed_def Let_def human_state_def
        human_record_def)
qed



text \<open>
  A record of the old size of 145 bytes can never be redeemed: its migration asks for a
  second mutable borrow of the data it has borrowed, which fails.
\<close>
theorem human_old_record:
  assumes st: "entity_at (HE H) w (key state_acc) = Some st" "owner_of w (key state_acc) = pid"
    "key state_acc \<notin> set (data_locked w)"
    and old: "data_of w (key record_acc) = Raw bs" "length bs = 145" "hd bs = 0x40"
  shows "process_redeem_repost H X pid (state_acc # record_acc # it) w = Inl (Err AccountBorrowFailed)"
proof -
  have "next_entity (HE H) (state_acc # record_acc # it) pid w = Inr (st, state_acc, record_acc # it)"
    using st by (simp add: next_entity_Inr)
  then show ?thesis
    using migrate_old_record [OF old] by (simp add: process_redeem_repost_def)
qed

theorem human_old_record_witness:
  "process_redeem_repost (demo_human 0) (human_sim 0) 100 [writable 50 False, writable 71 False] human_chain
    = Inl (Err AccountBorrowFailed)"
  by (rule human_old_record [of "demo_human 0" human_chain _ human_state 100 _ "0x40 # replicate 144 0"])
    (simp_all add: entity_at_eq human_chain_views writable_def)

end
