(* ===== verification/Escrow.thy ===== *)
theory Escrow
  imports Entity
begin

text \<open>
  The escrow program (\<open>escrow/src/lib.rs\<close>): a request holds tokens of its author, or collects them
  from contributors, until the destination accepts or declines it or the author cancels.

  The codecs that Borsh derives and the addresses of the sysvars are fields of \<open>escrow_ext\<close>.
\<close>

section \<open>Data\<close>

record funded_request =
  fr_author :: pubkey

record unfunded_request =
  ur_collected :: u64
  ur_deadline :: "i64 option"
  ur_accept_threshold :: u64

datatype request = Funded funded_request | Unfunded unfunded_request

datatype request_status = ReqUnitialized | ReqOpen | ReqDeclined | ReqAccepted

record escrow_state =
  es_status :: request_status
  es_created_at :: i64
  es_wallet :: pubkey
  es_destination :: pubkey
  es_payer :: pubkey
  es_request :: request

record escrow_voucher =
  ev_state :: pubkey
  ev_user :: pubkey
  ev_amount :: u64

definition is_open :: "escrow_state \<Rightarrow> bool" where
  "is_open s \<longleftrightarrow> es_status s = ReqOpen"

definition expired :: "escrow_state \<Rightarrow> i64 \<Rightarrow> bool" where
  "expired s now \<longleftrightarrow> is_open s \<and>
     (case es_request s of
        Unfunded r \<Rightarrow> (case ur_deadline r of
            Some dl \<Rightarrow> sint dl < sint now \<and> unat (ur_collected r) < unat (ur_accept_threshold r)
          | None \<Rightarrow> False)
      | Funded _ \<Rightarrow> False)"

definition try_accept :: "escrow_state \<Rightarrow> escrow_state res" where
  "try_accept s =
     and_then (ensure (es_status s = ReqOpen) (Custom 0x16)) (\<lambda>_.
     and_then (case es_request s of
         Unfunded r \<Rightarrow> ensure (\<not> unat (ur_collected r) < unat (ur_accept_threshold r)) (Custom 0x16)
       | Funded _ \<Rightarrow> Inr ()) (\<lambda>_.
     Inr (s\<lparr>es_status := ReqAccepted\<rparr>)))"

definition is_funded :: "escrow_state \<Rightarrow> bool" where
  "is_funded s = (case es_request s of Funded _ \<Rightarrow> True | Unfunded _ \<Rightarrow> False)"

datatype create_request_type =
    CreateFunded pubkey
  | CreateUnfunded "i64 option" u64

record create_request_instruction =
  ci_dest :: pubkey
  ci_payer :: pubkey
  ci_rtype :: create_request_type

datatype escrow_instruction =
    CreateRequest create_request_instruction
  | Contribute pubkey
  | Refund
  | Cancel
  | Accept
  | Decline

record escrow_ext =
  ee_state :: "escrow_state codec"
  ee_voucher :: "escrow_voucher codec"
  ee_parse :: "u8 list \<Rightarrow> escrow_instruction option"
  ee_rent_id :: pubkey
  ee_clock_id :: pubkey

section \<open>Calls and sysvars\<close>

text \<open>
  \<open>invoke\<close> and \<open>invoke_signed\<close> borrow the cells of the accounts of the instruction before they
  call, and fail when the caller still holds one of them.
\<close>

fun cpi_accounts :: "cpi \<Rightarrow> pubkey list" where
  "cpi_accounts (TokenTransfer src dst auth n) = [src, dst, auth]"
| "cpi_accounts (TokenClose a dst auth) = [a, dst, auth]"
| "cpi_accounts (TokenInit a mnt own) = [a, mnt]"
| "cpi_accounts (SystemTransfer src dst n) = [src, dst]"
| "cpi_accounts (SystemCreate src a l n own) = [src, a]"

definition invoke_signed ::
  "ext \<Rightarrow> account_info list \<Rightarrow> cpi \<Rightarrow> seed list list \<Rightarrow> world \<Rightarrow> world res" where
  "invoke_signed X accounts c seeds w =
     and_then (ensure (\<forall>k \<in> set (cpi_accounts c). k \<notin> set (lam_locked w) \<and> k \<notin> set (data_locked w))
       AccountBorrowFailed) (\<lambda>_.
     x_cpi X accounts c seeds w)"

text \<open>\<open>from_account_info\<close> of the rent and the clock: the address is checked, the value is the sysvar's.\<close>

definition next_sysvar :: "account_info list \<Rightarrow> pubkey \<Rightarrow> account_info list res" where
  "next_sysvar it ident =
     and_then (next_account_info it) (\<lambda>(acc, it).
     and_then (ensure (key acc = ident) InvalidArgument) (\<lambda>_. Inr it))"

definition authority_seeds :: "pubkey \<Rightarrow> seed list" where
  "authority_seeds state_addr = [SeedStr ''HMN_R1'', SeedStr ''A'', SeedKey state_addr]"

section \<open>The accounts of the program\<close>

definition state_size :: nat where
  "state_size = 138"

text \<open>
  \<open>sol_memcpy\<close> does not compare the lengths; what does not fit falls into the reserve that the
  runtime keeps behind the data of an account.
\<close>

definition copy_slice :: "u8 list \<Rightarrow> u8 list \<Rightarrow> u8 list" where
  "copy_slice dst src = take (length dst) src @ drop (length src) dst"

definition bytes_of :: "account_info \<Rightarrow> world \<Rightarrow> u8 list res" where
  "bytes_of acc w = and_then (read_data (key acc) w) raw_bytes"

definition write_state :: "escrow_ext \<Rightarrow> u8 list \<Rightarrow> escrow_state \<Rightarrow> u8 list res" where
  "write_state E bytes s =
     and_then (ensure (\<not> length bytes < state_size) AccountDataTooSmall) (\<lambda>_.
     and_then (ensure (\<not> (case parse_all (ee_state E) bytes of
         Some old \<Rightarrow> es_status old \<noteq> ReqUnitialized
       | None \<Rightarrow> False)) AccountAlreadyInitialized) (\<lambda>_.
     Inr (copy_slice bytes (enc (ee_state E) s))))"

definition next_owned_token_wallet ::
  "ext \<Rightarrow> account_info list \<Rightarrow> pubkey \<Rightarrow> pubkey \<Rightarrow> world
    \<Rightarrow> (pubkey \<times> token_account \<times> account_info list) res" where
  "next_owned_token_wallet X it pid state_addr w =
     and_then (next_account_info it) (\<lambda>(wallet, it).
     and_then (ensure (owner_of w (key wallet) = x_token_id X) InvalidArgument) (\<lambda>_.
     and_then (or_panic (read_data (key wallet) w)) (\<lambda>d.
     and_then (unpack_token d) (\<lambda>t.
     and_then (ensure (t_owner t = x_pda X (authority_seeds state_addr) pid) IllegalOwner) (\<lambda>_.
     and_then (ensure (t_close_authority t = None) IllegalOwner) (\<lambda>_.
     Inr (key wallet, t, it)))))))"

definition next_state_account ::
  "escrow_ext \<Rightarrow> account_info list \<Rightarrow> pubkey \<Rightarrow> world
    \<Rightarrow> (escrow_state \<times> account_info \<times> account_info list) res" where
  "next_state_account E it pid w =
     and_then (next_account_info it) (\<lambda>(state_acc, it).
     and_then (ensure (owner_of w (key state_acc) = pid) IllegalOwner) (\<lambda>_.
     and_then (bytes_of state_acc w) (\<lambda>bytes.
     and_then (ok_or BorshIoError (parse_all (ee_state E) bytes)) (\<lambda>s.
     and_then (ensure (es_status s \<noteq> ReqUnitialized) UninitializedAccount) (\<lambda>_.
     Inr (s, state_acc, it))))))"

definition save_state :: "escrow_ext \<Rightarrow> escrow_state \<Rightarrow> account_info \<Rightarrow> world \<Rightarrow> world res" where
  "save_state E s state_acc w =
     and_then (bytes_of state_acc w) (\<lambda>bytes.
     Inr (set_data (key state_acc) (Raw (copy_slice bytes (enc (ee_state E) s))) w))"

definition erase_state :: "escrow_state \<Rightarrow> account_info \<Rightarrow> account_info \<Rightarrow> world \<Rightarrow> world res" where
  "erase_state s state_acc payer_acc w =
     and_then (assert_that (es_status s \<noteq> ReqOpen)) (\<lambda>_.
     and_then (case es_request s of
         Unfunded r \<Rightarrow> assert_that (ur_collected r = 0)
       | Funded _ \<Rightarrow> Inr ()) (\<lambda>_.
     let l = lamports_of w (key state_acc) in
     and_then (borrow_lamports (key state_acc) w) (\<lambda>w.
     let w = release_lamports (key state_acc) (set_lamports (key state_acc) 0 w) in
     and_then (borrow_lamports (key payer_acc) w) (\<lambda>w.
     and_then (ok_or (from_escrow_error EscrowOverflow) (checked_add (lamports_of w (key payer_acc)) l)) (\<lambda>l'.
     let w = set_lamports (key payer_acc) l' w in
     and_then (bytes_of state_acc w) (\<lambda>bytes.
     Inr (release_lamports (key payer_acc)
       (set_data (key state_acc) (Raw (replicate (length bytes) 0)) w))))))))"

section \<open>Creating a request\<close>

definition process_create ::
  "escrow_ext \<Rightarrow> ext \<Rightarrow> pubkey \<Rightarrow> account_info list \<Rightarrow> create_request_instruction \<Rightarrow> world \<Rightarrow> world res" where
  "process_create E X pid accounts args w =
     and_then (next_account_info accounts) (\<lambda>(state_acc, it).
     and_then (next_owned_token_wallet X it pid (key state_acc) w) (\<lambda>(wallet_addr, wallet, it).
     and_then (read_data (key state_acc) w) (\<lambda>d.
     and_then (ensure (rent_exempt X (lamports_of w (key state_acc)) state_size) AccountNotRentExempt) (\<lambda>_.
     and_then (case ci_rtype args of
         CreateFunded author \<Rightarrow> ensure (t_amount wallet \<noteq> 0) InsufficientFunds
       | CreateUnfunded dl threshold \<Rightarrow> ensure (\<not> t_amount wallet \<noteq> 0) InvalidAccountData) (\<lambda>_.
     let request = (case ci_rtype args of
           CreateFunded author \<Rightarrow> Funded \<lparr>fr_author = author\<rparr>
         | CreateUnfunded dl threshold \<Rightarrow>
             Unfunded \<lparr>ur_collected = 0, ur_deadline = dl, ur_accept_threshold = threshold\<rparr>);
         s = \<lparr>es_status = ReqOpen, es_created_at = x_now X, es_wallet = wallet_addr,
           es_destination = ci_dest args, es_payer = ci_payer args, es_request = request\<rparr> in
     and_then (raw_bytes d) (\<lambda>bytes.
     and_then (write_state E bytes s) (\<lambda>bytes'.
     Inr (set_data (key state_acc) (Raw bytes') w))))))))"

section \<open>Contributing\<close>

definition get_voucher ::
  "escrow_ext \<Rightarrow> ext \<Rightarrow> account_info \<Rightarrow> pubkey \<Rightarrow> world \<Rightarrow> escrow_voucher option res" where
  "get_voucher E X voucher_acc pid w =
     and_then (ensure (is_writable voucher_acc) InvalidArgument) (\<lambda>_.
     and_then (ensure (owner_of w (key voucher_acc) = pid) IncorrectProgramId) (\<lambda>_.
     and_then (ensure (rent_exempt X (lamports_of w (key voucher_acc)) (data_len X (data_of w (key voucher_acc))))
       AccountNotRentExempt) (\<lambda>_.
     and_then (bytes_of voucher_acc w) (\<lambda>bytes.
     Inr (case parse_all (ee_voucher E) bytes of
         Some v \<Rightarrow> if 0 < unat (ev_amount v) then Some v else None
       | None \<Rightarrow> None)))))"

definition process_contribute ::
  "escrow_ext \<Rightarrow> ext \<Rightarrow> pubkey \<Rightarrow> account_info list \<Rightarrow> pubkey \<Rightarrow> world \<Rightarrow> world res" where
  "process_contribute E X pid accounts user w =
     and_then (next_state_account E accounts pid w) (\<lambda>(s, state_acc, it).
     and_then (next_expected_token_wallet X it (es_wallet s) w) (\<lambda>(_, it).
     and_then (next_signer_account it (es_destination s)) (\<lambda>(source_wallet, it).
     and_then (ensure (owner_of w (key source_wallet) = x_token_id X) IllegalOwner) (\<lambda>_.
     and_then (read_data (key source_wallet) w) (\<lambda>d.
     and_then (unpack_token d) (\<lambda>source_data.
     let amount = t_delegated_amount source_data in
     and_then (ensure (amount \<noteq> 0) InvalidArgument) (\<lambda>_.
     and_then (ok_or InvalidArgument (t_delegate source_data)) (\<lambda>delegate.
     and_then (next_signer_account it delegate) (\<lambda>(_, it).
     and_then (next_account_info it) (\<lambda>(voucher_acc, it).
     and_then (next_sysvar it (ee_rent_id E)) (\<lambda>it.
     and_then (next_sysvar it (ee_clock_id E)) (\<lambda>it.
     if expired s (x_now X)
     then and_then (save_state E (s\<lparr>es_status := ReqDeclined\<rparr>) state_acc w) (\<lambda>_. Inl (Err (Custom 0x17))) else
     and_then (ensure (is_open s) (Custom 0x12)) (\<lambda>_.
     case es_request s of
       Funded _ \<Rightarrow> Inl (Err (Custom 0x12))
     | Unfunded r \<Rightarrow>
       and_then (invoke_signed X accounts (TokenTransfer (key source_wallet) (es_wallet s) delegate amount) [] w) (\<lambda>w.
       and_then (get_voucher E X voucher_acc pid w) (\<lambda>old.
       and_then (case old of
           None \<Rightarrow> Inr 0
         | Some v \<Rightarrow> and_then (ensure (ev_user v = user) IllegalOwner) (\<lambda>_. Inr (ev_amount v))) (\<lambda>previous.
       and_then (ok_or (from_escrow_error EscrowOverflow) (checked_add previous amount)) (\<lambda>n.
       let v = \<lparr>ev_state = key state_acc, ev_user = user, ev_amount = n\<rparr> in
       and_then (bytes_of voucher_acc w) (\<lambda>bytes.
       let w = set_data (key voucher_acc) (Raw (copy_slice bytes (enc (ee_voucher E) v))) w in
       and_then (ok_or (from_escrow_error EscrowOverflow) (checked_add (ur_collected r) amount)) (\<lambda>collected.
       save_state E (s\<lparr>es_request := Unfunded (r\<lparr>ur_collected := collected\<rparr>)\<rparr>) state_acc w)))))))))))))))))))"

section \<open>Refunding contributions\<close>

text \<open>The payer's lamports are borrowed by the caller, so the cell of the voucher must be another one.\<close>

definition redeem_voucher :: "account_info \<Rightarrow> pubkey \<Rightarrow> world \<Rightarrow> world res" where
  "redeem_voucher voucher_acc payer w =
     and_then (borrow_lamports (key voucher_acc) w) (\<lambda>w.
     let l = lamports_of w (key voucher_acc);
         w = release_lamports (key voucher_acc) (set_lamports (key voucher_acc) 0 w) in
     and_then (ok_or (from_escrow_error EscrowOverflow) (checked_add (lamports_of w payer) l)) (\<lambda>l'.
     let w = set_lamports payer l' w in
     and_then (bytes_of voucher_acc w) (\<lambda>bytes.
     Inr (set_data (key voucher_acc) (Raw (replicate (length bytes) 0)) w))))"

text \<open>The loop over pairs of a voucher and a user's wallet; it returns what is still collected.\<close>

function refund_all ::
  "escrow_ext \<Rightarrow> ext \<Rightarrow> pubkey \<Rightarrow> account_info list \<Rightarrow> escrow_state \<Rightarrow> pubkey \<Rightarrow> pubkey \<Rightarrow> pubkey
    \<Rightarrow> account_info list \<Rightarrow> u64 \<Rightarrow> world \<Rightarrow> (u64 \<times> world) res" where
  "refund_all E X pid accounts s state_addr mnt payer it collected w =
     (case it of [] \<Rightarrow> Inr (collected, w)
      | voucher_acc # it \<Rightarrow>
      and_then (get_voucher E X voucher_acc pid w) (\<lambda>old.
      and_then (ok_or UninitializedAccount old) (\<lambda>v.
      and_then (redeem_voucher voucher_acc payer w) (\<lambda>w.
      and_then (ok_or (Custom 0x14) (checked_sub collected (ev_amount v))) (\<lambda>collected.
      case it of [] \<Rightarrow> Inl (Err NotEnoughAccountKeys)
      | user_wallet # it \<Rightarrow>
      and_then (ensure (x_ata X (ev_user v) mnt = key user_wallet) InvalidArgument) (\<lambda>_.
      if es_status s = ReqAccepted then refund_all E X pid accounts s state_addr mnt payer it collected w else
      and_then (invoke_signed X accounts (TokenTransfer (es_wallet s) (key user_wallet)
        (x_pda X (authority_seeds state_addr) pid) (ev_amount v)) [authority_seeds state_addr] w) (\<lambda>w.
      refund_all E X pid accounts s state_addr mnt payer it collected w)))))))"
  by pat_completeness auto

termination
  by (relation "measure (\<lambda>(E, X, pid, accounts, s, state_addr, mnt, payer, it, collected, w). length it)") auto

declare refund_all.simps [simp del]

definition process_refund ::
  "escrow_ext \<Rightarrow> ext \<Rightarrow> pubkey \<Rightarrow> account_info list \<Rightarrow> world \<Rightarrow> world res" where
  "process_refund E X pid accounts w =
     and_then (next_state_account E accounts pid w) (\<lambda>(s, state_acc, it).
     and_then (next_expected_token_wallet X it (es_wallet s) w) (\<lambda>(wallet, it).
     and_then (next_account_info it) (\<lambda>(payer, it).
     and_then (next_sysvar it (ee_rent_id E)) (\<lambda>it.
     and_then (next_sysvar it (ee_clock_id E)) (\<lambda>it.
     and_then (ensure (key payer = es_payer s) IllegalOwner) (\<lambda>_.
     and_then (ensure (\<not> is_open s) InvalidArgument) (\<lambda>_.
     case es_request s of
       Funded _ \<Rightarrow> Inl (Err (Custom 0x12))
     | Unfunded r \<Rightarrow>
       let authority = x_pda X (authority_seeds (key state_acc)) pid in
       and_then (borrow_lamports (key payer) w) (\<lambda>w.
       and_then (refund_all E X pid accounts s (key state_acc) (t_mint wallet) (key payer) it (ur_collected r) w)
         (\<lambda>(collected, w).
       if 0 < unat collected then Inr (release_lamports (key payer) w) else
       and_then (ensure (t_amount wallet = 0) (Custom 0x15)) (\<lambda>_.
       and_then (invoke_signed X accounts (TokenClose (es_wallet s) (key payer) authority)
         [authority_seeds (key state_acc)] w) (\<lambda>w.
       and_then (erase_state (s\<lparr>es_request := Unfunded (r\<lparr>ur_collected := collected\<rparr>)\<rparr>) state_acc payer w) (\<lambda>w.
       Inr (release_lamports (key payer) w)))))))))))))"

section \<open>Accepting, cancelling, declining\<close>

definition process_accept ::
  "escrow_ext \<Rightarrow> ext \<Rightarrow> pubkey \<Rightarrow> account_info list \<Rightarrow> world \<Rightarrow> world res" where
  "process_accept E X pid accounts w =
     and_then (next_state_account E accounts pid w) (\<lambda>(s, state_acc, it).
     and_then (next_expected_token_wallet X it (es_wallet s) w) (\<lambda>(wallet, it).
     and_then (next_signer_account it (es_destination s)) (\<lambda>(_, it).
     and_then (next_account_info it) (\<lambda>(destination_wallet, it).
     and_then (next_account_info it) (\<lambda>(payer, it).
     and_then (next_sysvar it (ee_clock_id E)) (\<lambda>it.
     and_then (ensure (key payer = es_payer s) IllegalOwner) (\<lambda>_.
     if expired s (x_now X)
     then and_then (save_state E (s\<lparr>es_status := ReqDeclined\<rparr>) state_acc w) (\<lambda>_. Inl (Err (Custom 0x17))) else
     and_then (ensure (is_open s) (Custom 0x10)) (\<lambda>_.
     and_then (ensure (t_amount wallet \<noteq> 0) (Custom 0x11)) (\<lambda>_.
     and_then (try_accept s) (\<lambda>s.
     let authority = x_pda X (authority_seeds (key state_acc)) pid; seeds = [authority_seeds (key state_acc)] in
     and_then (invoke_signed X accounts (TokenTransfer (es_wallet s) (key destination_wallet) authority
       (t_amount wallet)) seeds w) (\<lambda>w.
     if is_funded s then
       and_then (invoke_signed X accounts (TokenClose (es_wallet s) (key payer) authority) seeds w) (\<lambda>w.
       erase_state s state_acc payer w)
     else save_state E s state_acc w)))))))))))"

text \<open>The wallet of wrapped SOL is closed to the authority, which passes the lamports on.\<close>

definition return_native ::
  "ext \<Rightarrow> account_info list \<Rightarrow> pubkey \<Rightarrow> pubkey \<Rightarrow> pubkey \<Rightarrow> pubkey \<Rightarrow> u64 \<Rightarrow> u64 \<Rightarrow> seed list list
    \<Rightarrow> world \<Rightarrow> world res" where
  "return_native X accounts wallet_addr authority author payer amount rent_balance seeds w =
     and_then (invoke_signed X accounts (TokenClose wallet_addr authority authority) seeds w) (\<lambda>w.
     and_then (invoke_signed X accounts (SystemTransfer authority author amount) seeds w) (\<lambda>w.
     invoke_signed X accounts (SystemTransfer authority payer rent_balance) seeds w))"

definition return_tokens ::
  "ext \<Rightarrow> account_info list \<Rightarrow> pubkey \<Rightarrow> pubkey \<Rightarrow> pubkey \<Rightarrow> pubkey \<Rightarrow> u64 \<Rightarrow> seed list list
    \<Rightarrow> world \<Rightarrow> world res" where
  "return_tokens X accounts wallet_addr author_wallet authority payer amount seeds w =
     and_then (invoke_signed X accounts (TokenTransfer wallet_addr author_wallet authority amount) seeds w) (\<lambda>w.
     invoke_signed X accounts (TokenClose wallet_addr payer authority) seeds w)"

definition process_cancel ::
  "escrow_ext \<Rightarrow> ext \<Rightarrow> pubkey \<Rightarrow> account_info list \<Rightarrow> world \<Rightarrow> world res" where
  "process_cancel E X pid accounts w =
     and_then (next_state_account E accounts pid w) (\<lambda>(s, state_acc, it).
     and_then (next_expected_token_wallet X it (es_wallet s) w) (\<lambda>(wallet, it).
     and_then (case es_request s of Funded r \<Rightarrow> Inr (fr_author r) | Unfunded _ \<Rightarrow> Inl (Err (Custom 0x13))) (\<lambda>author.
     and_then (next_signer_account it author) (\<lambda>(_, it).
     and_then (next_expected_account it (es_payer s)) (\<lambda>(payer, it).
     and_then (ensure (is_open s) (Custom 0x10)) (\<lambda>_.
     let s = s\<lparr>es_status := ReqDeclined\<rparr>; authority = x_pda X (authority_seeds (key state_acc)) pid;
         seeds = [authority_seeds (key state_acc)] in
     and_then (next_expected_account it authority) (\<lambda>(_, it).
     and_then (case t_is_native wallet of
         Some rent_balance \<Rightarrow>
           and_then (next_expected_account it (x_ata X author (t_mint wallet))) (\<lambda>(_, it).
           and_then (next_expected_account it (x_token_id X)) (\<lambda>(_, it).
           and_then (next_expected_account it (x_system_id X)) (\<lambda>(_, it).
           return_native X accounts (es_wallet s) authority author (key payer) (t_amount wallet) rent_balance seeds w)))
       | None \<Rightarrow>
           and_then (next_atoken_wallet X it author (t_mint wallet) w) (\<lambda>(author_wallet, _, it).
           and_then (next_expected_account it (x_token_id X)) (\<lambda>(_, it).
           return_tokens X accounts (es_wallet s) author_wallet authority (key payer) (t_amount wallet) seeds w))) (\<lambda>w.
     erase_state s state_acc payer w))))))))"

text \<open>Here the token and the system program are looked for after the wallet is closed.\<close>

definition process_decline ::
  "escrow_ext \<Rightarrow> ext \<Rightarrow> pubkey \<Rightarrow> account_info list \<Rightarrow> world \<Rightarrow> world res" where
  "process_decline E X pid accounts w =
     and_then (next_state_account E accounts pid w) (\<lambda>(s, state_acc, it).
     and_then (next_expected_token_wallet X it (es_wallet s) w) (\<lambda>(wallet, it).
     and_then (next_signer_account it (es_destination s)) (\<lambda>(_, it).
     and_then (next_expected_account it (es_payer s)) (\<lambda>(payer, it).
     and_then (ensure (is_open s) (Custom 0x10)) (\<lambda>_.
     let s = s\<lparr>es_status := ReqDeclined\<rparr> in
     case es_request s of
       Unfunded _ \<Rightarrow> save_state E s state_acc w
     | Funded r \<Rightarrow>
       let authority = x_pda X (authority_seeds (key state_acc)) pid; seeds = [authority_seeds (key state_acc)] in
       and_then (next_expected_account it authority) (\<lambda>(_, it).
       and_then (case t_is_native wallet of
           Some rent_balance \<Rightarrow>
             and_then (next_expected_account it (fr_author r)) (\<lambda>(_, it).
             and_then (invoke_signed X accounts (TokenClose (es_wallet s) authority authority) seeds w) (\<lambda>w.
             and_then (next_expected_account it (x_token_id X)) (\<lambda>(_, it).
             and_then (next_expected_account it (x_system_id X)) (\<lambda>(_, it).
             and_then (invoke_signed X accounts (SystemTransfer authority (fr_author r) (t_amount wallet)) seeds w) (\<lambda>w.
             invoke_signed X accounts (SystemTransfer authority (key payer) rent_balance) seeds w)))))
         | None \<Rightarrow>
             and_then (next_atoken_wallet X it (fr_author r) (t_mint wallet) w) (\<lambda>(author_wallet, _, it).
             and_then (next_expected_account it (fr_author r)) (\<lambda>(_, it).
             return_tokens X accounts (es_wallet s) author_wallet authority (key payer) (t_amount wallet) seeds w))) (\<lambda>w.
       erase_state s state_acc payer w)))))))"

section \<open>The entry point\<close>

definition process_instruction ::
  "escrow_ext \<Rightarrow> ext \<Rightarrow> pubkey \<Rightarrow> account_info list \<Rightarrow> u8 list \<Rightarrow> world \<Rightarrow> world res" where
  "process_instruction E X pid accounts instruction_data w =
     and_then (ok_or InvalidInstructionData (ee_parse E instruction_data)) (\<lambda>instruction.
     case instruction of
       CreateRequest inst \<Rightarrow> process_create E X pid accounts inst w
     | Contribute user \<Rightarrow> process_contribute E X pid accounts user w
     | Refund \<Rightarrow> process_refund E X pid accounts w
     | Accept \<Rightarrow> process_accept E X pid accounts w
     | Decline \<Rightarrow> process_decline E X pid accounts w
     | Cancel \<Rightarrow> process_cancel E X pid accounts w)"

end
