(* ===== verification/EscrowSafety.thy ===== *)
theory EscrowSafety
  imports Escrow Programs
begin

text \<open>
  What the handlers of the escrow program do. The locale \<open>escrow_world\<close> has the token and system
  programs and the laws of the codecs: a funded request takes all 138 bytes of a state, an unfunded one
  less, and zeros do not read as a request.
\<close>

locale escrow_world = token_program +
  fixes E :: escrow_ext
  assumes state_lawful: "lawful (ee_state E)"
    and voucher_lawful: "lawful (ee_voucher E)"
    and funded_length: "is_funded s \<Longrightarrow> length (enc (ee_state E) s) = state_size"
    and unfunded_length: "\<not> is_funded s \<Longrightarrow> length (enc (ee_state E) s) < state_size"
    and zeros: "parse_all (ee_state E) (replicate n 0) = Some s \<Longrightarrow> es_status s = ReqUnitialized"

section \<open>Loading a request\<close>

definition request_at :: "escrow_ext \<Rightarrow> pubkey \<Rightarrow> world \<Rightarrow> pubkey \<Rightarrow> escrow_state option" where
  "request_at E pid w k = (case data_of w k of
     Raw bs \<Rightarrow> (case parse_all (ee_state E) bs of
         Some s \<Rightarrow> if owner_of w k = pid \<and> es_status s \<noteq> ReqUnitialized then Some s else None
       | None \<Rightarrow> None)
   | _ \<Rightarrow> None)"

lemma request_at_eq: "request_at E pid w k = Some s \<longleftrightarrow> owner_of w k = pid \<and> es_status s \<noteq> ReqUnitialized
  \<and> (\<exists>bs. data_of w k = Raw bs \<and> parse_all (ee_state E) bs = Some s)"
  by (auto simp: request_at_def split: acct_data.splits option.splits if_splits)

lemma bytes_of_Inr [res_simps]:
  "bytes_of acc w = Inr bs \<longleftrightarrow> key acc \<notin> set (data_locked w) \<and> data_of w (key acc) = Raw bs"
  by (auto simp: bytes_of_def res_simps)

lemma next_state_account_Inr [res_simps]:
  "next_state_account E it pid w = Inr (s, acc, rest) \<longleftrightarrow>
     it = acc # rest \<and> request_at E pid w (key acc) = Some s \<and> key acc \<notin> set (data_locked w)"
  by (auto simp: next_state_account_def res_simps request_at_eq)

lemma next_sysvar_Inr [res_simps]: "next_sysvar it k = Inr rest \<longleftrightarrow> (\<exists>acc. it = acc # rest \<and> key acc = k)"
  by (auto simp: next_sysvar_def res_simps)

lemma invoke_Inr [res_simps]: "invoke_signed X accounts c seeds w = Inr w' \<longleftrightarrow>
  (\<forall>k \<in> set (cpi_accounts c). k \<notin> set (lam_locked w) \<and> k \<notin> set (data_locked w)) \<and> x_cpi X accounts c seeds w = Inr w'"
  by (simp add: invoke_signed_def res_simps)

text \<open>Every handler but \<open>process_create\<close> loads the request first.\<close>

lemma handlers_load:
  assumes "next_state_account E accounts pid w = Inl e"
  shows "process_contribute E X pid accounts user w = Inl e" "process_refund E X pid accounts w = Inl e"
    "process_accept E X pid accounts w = Inl e" "process_cancel E X pid accounts w = Inl e"
    "process_decline E X pid accounts w = Inl e"
  using assms by (simp_all add: process_contribute_def process_refund_def process_accept_def process_cancel_def
      process_decline_def)

lemma copy_shorter: "length src \<le> length dst \<Longrightarrow> copy_slice dst src = src @ drop (length src) dst"
  by (simp add: copy_slice_def)

context escrow_world
begin

text \<open>A request that leaves bytes over does not load.\<close>

lemma written_reads:
  assumes "length (enc (ee_state E) s) \<le> length bytes"
  shows "parse_all (ee_state E) (copy_slice bytes (enc (ee_state E) s))
    = (if length bytes = length (enc (ee_state E) s) then Some s else None)"
proof (cases "length bytes = length (enc (ee_state E) s)")
  case True
  then show ?thesis
    by (simp add: copy_slice_def parse_all_enc [OF state_lawful])
next
  case False
  then have "drop (length (enc (ee_state E) s)) bytes \<noteq> []"
    using assms by simp
  then show ?thesis
    using assms False by (simp add: copy_shorter parse_all_longer [OF state_lawful])
qed

lemma enc_fits: "length (enc (ee_state E) s) \<le> state_size"
  using funded_length [of s] unfunded_length [of s] by (cases "is_funded s") auto

end

section \<open>Creating\<close>

lemma create_effect:
  assumes "process_create E X pid accounts args w = Inr w'"
  shows "\<exists>state_acc wallet_acc it t bytes s. accounts = state_acc # wallet_acc # it
    \<and> data_of w (key wallet_acc) = TokenData t \<and> t_owner t = x_pda X (authority_seeds (key state_acc)) pid
    \<and> t_close_authority t = None
    \<and> data_of w (key state_acc) = Raw bytes \<and> state_size \<le> length bytes
    \<and> s = \<lparr>es_status = ReqOpen, es_created_at = x_now X, es_wallet = key wallet_acc, es_destination = ci_dest args,
        es_payer = ci_payer args, es_request = (case ci_rtype args of
          CreateFunded author \<Rightarrow> Funded \<lparr>fr_author = author\<rparr>
        | CreateUnfunded dl threshold \<Rightarrow>
            Unfunded \<lparr>ur_collected = 0, ur_deadline = dl, ur_accept_threshold = threshold\<rparr>)\<rparr>
    \<and> w' = set_data (key state_acc) (Raw (copy_slice bytes (enc (ee_state E) s))) w
    \<and> (is_funded s \<longleftrightarrow> t_amount t \<noteq> 0)"
proof -
  obtain state_acc b1 wallet_acc b2 t bytes where a: "accounts = state_acc # b1" "b1 = wallet_acc # b2"
    and t: "data_of w (key wallet_acc) = TokenData t" "t_owner t = x_pda X (authority_seeds (key state_acc)) pid"
      "t_close_authority t = None"
    and amount: "(case ci_rtype args of
         CreateFunded author \<Rightarrow> ensure (t_amount t \<noteq> 0) InsufficientFunds
       | CreateUnfunded dl threshold \<Rightarrow> ensure (\<not> t_amount t \<noteq> 0) InvalidAccountData) = Inr ()"
    and bytes: "data_of w (key state_acc) = Raw bytes"
    and w': "and_then (write_state E bytes \<lparr>es_status = ReqOpen, es_created_at = x_now X, es_wallet = key wallet_acc,
        es_destination = ci_dest args, es_payer = ci_payer args, es_request = (case ci_rtype args of
          CreateFunded author \<Rightarrow> Funded \<lparr>fr_author = author\<rparr>
        | CreateUnfunded dl threshold \<Rightarrow>
            Unfunded \<lparr>ur_collected = 0, ur_deadline = dl, ur_accept_threshold = threshold\<rparr>)\<rparr>) (\<lambda>bytes'.
       Inr (set_data (key state_acc) (Raw bytes') w)) = Inr w'"
    using assms unfolding process_create_def next_owned_token_wallet_def Let_def
    by (auto simp: res_simps)
  show ?thesis
    using a t amount bytes w' by (auto simp: write_state_def res_simps is_funded_def split: create_request_type.splits)
qed

section \<open>Settling a funded request\<close>

text \<open>All tokens of the wallet go to \<open>dest\<close>, the wallet is closed, the state is erased.\<close>

definition request_settled :: "pubkey \<Rightarrow> pubkey \<Rightarrow> pubkey \<Rightarrow> pubkey \<Rightarrow> world \<Rightarrow> world \<Rightarrow> bool" where
  "request_settled state_addr wallet dest payer w w' \<longleftrightarrow>
     (wallet \<noteq> dest \<longrightarrow> token_balance w' dest = token_balance w dest + token_balance w wallet)
     \<and> \<not> is_token w' wallet
     \<and> (\<forall>k. k \<noteq> wallet \<longrightarrow> k \<noteq> dest \<longrightarrow> token_balance w' k = token_balance w k)
     \<and> (\<exists>n. data_of w' state_addr = Raw (replicate n 0))
     \<and> (state_addr \<noteq> payer \<longrightarrow> lamports_of w' state_addr = 0)"

text \<open>The wallet of wrapped SOL: its lamports without the reserve go to \<open>author\<close>.\<close>

definition native_settled :: "pubkey \<Rightarrow> pubkey \<Rightarrow> pubkey \<Rightarrow> pubkey \<Rightarrow> pubkey \<Rightarrow> world \<Rightarrow> world \<Rightarrow> bool" where
  "native_settled state_addr wallet auth author payer w w' \<longleftrightarrow>
     (author \<notin> {state_addr, wallet, auth, payer} \<longrightarrow>
        unat (lamports_of w' author) = unat (lamports_of w author) + token_balance w wallet)
     \<and> \<not> is_token w' wallet
     \<and> (\<forall>k. k \<noteq> wallet \<longrightarrow> token_balance w' k = token_balance w k)
     \<and> (\<exists>n. data_of w' state_addr = Raw (replicate n 0))
     \<and> (state_addr \<noteq> payer \<longrightarrow> lamports_of w' state_addr = 0)"

lemma erase_effect:
  assumes "erase_state s acc payer w = Inr w'"
  shows "\<exists>n. data_of w' (key acc) = Raw (replicate n 0)" "key acc \<noteq> key payer \<Longrightarrow> lamports_of w' (key acc) = 0"
    "k \<noteq> key acc \<Longrightarrow> data_of w' k = data_of w k" "token_balance w' k = token_balance w k"
    "k \<noteq> key acc \<Longrightarrow> k \<noteq> key payer \<Longrightarrow> lamports_of w' k = lamports_of w k" "is_token w' k = is_token w k"
proof -
  obtain bs l where bs: "data_of w (key acc) = Raw bs"
    and w': "w' = release_lamports (key payer) (set_data (key acc) (Raw (replicate (length bs) 0)) (set_lamports (key payer) l
      ((release_lamports (key acc) (set_lamports (key acc) 0 (w\<lparr>lam_locked := key acc # lam_locked w\<rparr>)))
        \<lparr>lam_locked := key payer # remove1 (key acc) (key acc # lam_locked w)\<rparr>)))"
    using assms by (auto simp: erase_state_def res_simps Let_def release_lamports_def)
  show "\<exists>n. data_of w' (key acc) = Raw (replicate n 0)" "key acc \<noteq> key payer \<Longrightarrow> lamports_of w' (key acc) = 0"
    "k \<noteq> key acc \<Longrightarrow> data_of w' k = data_of w k" "token_balance w' k = token_balance w k"
    "k \<noteq> key acc \<Longrightarrow> k \<noteq> key payer \<Longrightarrow> lamports_of w' k = lamports_of w k" "is_token w' k = is_token w k"
    using bs by (auto simp: w' token_balance_def is_token_def)
qed

lemma closed_tokens:
  assumes "token_closed sys a dst auth w w'"
  shows "\<not> is_token w' a" "k \<noteq> a \<Longrightarrow> token_balance w' k = token_balance w k"
proof -
  show "\<not> is_token w' a"
    using assms by (simp add: token_closed_def is_token_def)
  assume "k \<noteq> a"
  then have "data_of w' k = data_of w k"
    using assms by (cases "k = dst") (auto simp: token_closed_def intro: views_of_accts)
  then show "token_balance w' k = token_balance w k"
    by (simp add: token_balance_def)
qed

context token_program
begin

lemma settle_effect:
  assumes paid: "return_tokens X accounts wallet dest auth payer n seeds w = Inr w1" "unat n = token_balance w wallet"
    and erased: "erase_state s acc payer_acc w1 = Inr w'"
  shows "request_settled (key acc) wallet dest (key payer_acc) w w'"
proof -
  obtain w0 where move: "x_cpi X accounts (TokenTransfer wallet dest auth n) seeds w = Inr w0"
    and close: "x_cpi X accounts (TokenClose wallet payer auth) seeds w0 = Inr w1"
    using paid(1) by (auto simp: return_tokens_def res_simps)
  note m = transfer_tokens [OF move] and c = close_account [OF close] and e = erase_effect [OF erased]
  have "token_balance w0 k = token_balance w k" if "k \<noteq> wallet" "k \<noteq> dest" for k
    using m that by (intro views_of_accts(4)) (simp add: token_transferred_def)
  moreover have "wallet \<noteq> dest \<Longrightarrow> token_balance w0 dest = token_balance w dest + token_balance w wallet"
    using m paid(2) by (simp add: token_transferred_def)
  ultimately show ?thesis
    using closed_tokens [OF c] e by (auto simp: request_settled_def)
qed

lemma native_effect:
  assumes paid: "return_native X accounts wallet auth author payer n reserve seeds w = Inr w1"
      "unat n = token_balance w wallet"
    and erased: "erase_state s acc payer_acc w1 = Inr w'" and payer: "payer = key payer_acc"
  shows "native_settled (key acc) wallet auth author payer w w'"
proof -
  obtain w2 w3 where close: "x_cpi X accounts (TokenClose wallet auth auth) seeds w = Inr w2"
    and pay1: "x_cpi X accounts (SystemTransfer auth author n) seeds w2 = Inr w3"
    and pay2: "x_cpi X accounts (SystemTransfer auth payer reserve) seeds w3 = Inr w1"
    using paid(1) by (auto simp: return_native_def res_simps)
  note c = close_account [OF close] and l1 = transfer_lamports [OF pay1] and l2 = transfer_lamports [OF pay2]
    and e = erase_effect [OF erased]
  have data: "data_of w1 k = data_of w2 k" for k
    using l1 l2 by (simp add: lamports_transferred_def)
  then have "token_balance w1 k = token_balance w2 k" "is_token w1 k = is_token w2 k" for k
    by (simp_all add: token_balance_def is_token_def)
  moreover have "unat (lamports_of w1 author) = unat (lamports_of w author) + token_balance w wallet"
    if "author \<notin> {key acc, wallet, auth, payer}"
  proof -
    have "lamports_of w2 author = lamports_of w author" "lamports_of w1 author = lamports_of w3 author"
      using c l2 that by (auto simp: token_closed_def lamports_transferred_def intro: views_of_accts(2))
    then show ?thesis
      using l1 that paid(2) by (auto simp: lamports_transferred_def)
  qed
  ultimately show ?thesis
    using closed_tokens [OF c] e payer by (auto simp: native_settled_def)
qed

end

definition author_repaid :: "ext \<Rightarrow> pubkey \<Rightarrow> pubkey \<Rightarrow> pubkey \<Rightarrow> escrow_state \<Rightarrow> world \<Rightarrow> world \<Rightarrow> bool" where
  "author_repaid X pid state_addr author s w w' \<longleftrightarrow>
     (\<exists>t. data_of w (es_wallet s) = TokenData t \<and>
       (if t_is_native t = None then request_settled state_addr (es_wallet s) (x_ata X author (t_mint t)) (es_payer s) w w'
        else native_settled state_addr (es_wallet s) (x_pda X (authority_seeds state_addr) pid) author (es_payer s) w w'))"

lemma settled_wiped:
  "request_settled k wallet dest payer w w' \<Longrightarrow> \<exists>n. data_of w' k = Raw (replicate n 0)"
  "author_repaid X pid k author s w w' \<Longrightarrow> \<exists>n. data_of w' k = Raw (replicate n 0)"
  by (auto simp: author_repaid_def request_settled_def native_settled_def split: if_splits)

definition has_signed :: "account_info list \<Rightarrow> pubkey \<Rightarrow> bool" where
  "has_signed accounts k \<longleftrightarrow> (\<exists>a \<in> set accounts. key a = k \<and> is_signer a)"

context token_program
begin

lemma accept_effect:
  assumes s: "next_state_account E accounts pid w = Inr (s, state_acc, it)" "es_request s = Funded r"
    and ok: "process_accept E X pid accounts w = Inr w'"
  shows "is_open s \<and> has_signed accounts (es_destination s)
    \<and> 0 < token_balance w (es_wallet s)
    \<and> request_settled (key state_acc) (es_wallet s) (key (accounts ! 3)) (es_payer s) w w'"
proof -
  let ?auth = "x_pda X (authority_seeds (key state_acc)) pid" and ?seeds = "[authority_seeds (key state_acc)]"
  have funded: "is_funded s" "\<not> expired s now" for now
    using s(2) by (simp_all add: is_funded_def expired_def)
  obtain wallet b1 wallet_acc dest_acc b2 dest_wallet b3 payer b4 s' w1 w2 where
      it: "it = wallet_acc # b1" "b1 = dest_acc # b2" "b2 = dest_wallet # b3" "b3 = payer # b4"
    and wallet: "data_of w (es_wallet s) = TokenData wallet" "t_amount wallet \<noteq> 0"
    and dest: "key dest_acc = es_destination s" "is_signer dest_acc" and payer: "key payer = es_payer s"
    and opened: "is_open s" and s': "try_accept s = Inr s'"
    and move: "invoke_signed X accounts (TokenTransfer (es_wallet s) (key dest_wallet) ?auth (t_amount wallet)) ?seeds w = Inr w1"
    and close: "invoke_signed X accounts (TokenClose (es_wallet s') (key payer) ?auth) ?seeds w1 = Inr w2"
    and erased: "erase_state s' state_acc payer w2 = Inr w'"
    using ok s(1) funded unfolding process_accept_def
    by (auto simp: res_simps Let_def try_accept_def is_funded_def invoke_Inr split: request.splits)
  have s'_wallet: "es_wallet s' = es_wallet s"
    using s' by (auto simp: try_accept_def res_simps)
  have "return_tokens X accounts (es_wallet s) (key dest_wallet) ?auth (key payer) (t_amount wallet) ?seeds w = Inr w2"
    using move close by (simp add: return_tokens_def s'_wallet)
  from settle_effect [OF this _ erased] wallet(1)
  have "request_settled (key state_acc) (es_wallet s) (key dest_wallet) (es_payer s) w w'"
    by (simp add: token_balance_def payer)
  moreover have "0 < token_balance w (es_wallet s)"
    using wallet by (simp add: token_balance_def unat_gt_0)
  moreover have "accounts = state_acc # it"
    using s(1) by (simp add: res_simps)
  ultimately show ?thesis
    using opened dest it by (auto simp: has_signed_def)
qed

lemma cancel_effect:
  assumes s: "next_state_account E accounts pid w = Inr (s, state_acc, it)" "es_request s = Funded r"
    and ok: "process_cancel E X pid accounts w = Inr w'"
  shows "is_open s \<and> has_signed accounts (fr_author r) \<and> author_repaid X pid (key state_acc) (fr_author r) s w w'"
proof -
  let ?auth = "x_pda X (authority_seeds (key state_acc)) pid" and ?seeds = "[authority_seeds (key state_acc)]"
    and ?s = "s\<lparr>es_status := ReqDeclined\<rparr>"
  obtain wallet b1 wallet_acc author_acc b2 payer b3 auth_acc b4 w1 where
      it: "it = wallet_acc # b1" "b1 = author_acc # b2" "b2 = payer # b3" "b3 = auth_acc # b4"
    and wallet: "data_of w (es_wallet s) = TokenData wallet"
    and author: "key author_acc = fr_author r" "is_signer author_acc" and payer: "key payer = es_payer s"
    and opened: "is_open s"
    and run: "(case t_is_native wallet of
         Some rent_balance \<Rightarrow>
           and_then (next_expected_account b4 (x_ata X (fr_author r) (t_mint wallet))) (\<lambda>(_, it).
           and_then (next_expected_account it (x_token_id X)) (\<lambda>(_, it).
           and_then (next_expected_account it (x_system_id X)) (\<lambda>(_, it).
           return_native X accounts (es_wallet ?s) ?auth (fr_author r) (key payer) (t_amount wallet) rent_balance ?seeds w)))
       | None \<Rightarrow>
           and_then (next_atoken_wallet X b4 (fr_author r) (t_mint wallet) w) (\<lambda>(author_wallet, _, it).
           and_then (next_expected_account it (x_token_id X)) (\<lambda>(_, it).
           return_tokens X accounts (es_wallet ?s) author_wallet ?auth (key payer) (t_amount wallet) ?seeds w))) = Inr w1"
    and erased: "erase_state ?s state_acc payer w1 = Inr w'"
    using ok by (auto simp: process_cancel_def s Let_def res_simps)
  have n: "unat (t_amount wallet) = token_balance w (es_wallet s)"
    by (simp add: token_balance_def wallet)
  have "author_repaid X pid (key state_acc) (fr_author r) s w w'"
  proof (cases "t_is_native wallet")
    case None
    then have "return_tokens X accounts (es_wallet s) (x_ata X (fr_author r) (t_mint wallet)) ?auth (key payer)
        (t_amount wallet) ?seeds w = Inr w1"
      using run by (auto simp: res_simps)
    from settle_effect [OF this n erased] show ?thesis
      using wallet None by (simp add: author_repaid_def payer)
  next
    case (Some reserve)
    then have "return_native X accounts (es_wallet s) ?auth (fr_author r) (key payer) (t_amount wallet) reserve ?seeds w = Inr w1"
      using run by (auto simp: res_simps)
    from native_effect [OF this n erased refl] show ?thesis
      using wallet Some by (simp add: author_repaid_def payer)
  qed
  moreover have "accounts = state_acc # it"
    using s(1) by (simp add: res_simps)
  ultimately show ?thesis
    using opened author it by (auto simp: has_signed_def)
qed

lemma decline_effect:
  assumes s: "next_state_account E accounts pid w = Inr (s, state_acc, it)" "es_request s = Funded r"
    and ok: "process_decline E X pid accounts w = Inr w'"
  shows "is_open s \<and> has_signed accounts (es_destination s) \<and> author_repaid X pid (key state_acc) (fr_author r) s w w'"
proof -
  let ?auth = "x_pda X (authority_seeds (key state_acc)) pid" and ?seeds = "[authority_seeds (key state_acc)]"
    and ?s = "s\<lparr>es_status := ReqDeclined\<rparr>"
  obtain wallet b1 wallet_acc dest_acc b2 payer b3 auth_acc b4 w1 where
      it: "it = wallet_acc # b1" "b1 = dest_acc # b2" "b2 = payer # b3" "b3 = auth_acc # b4"
    and wallet: "data_of w (es_wallet s) = TokenData wallet"
    and dest: "key dest_acc = es_destination s" "is_signer dest_acc" and payer: "key payer = es_payer s"
    and opened: "is_open s"
    and run: "(case t_is_native wallet of
           Some rent_balance \<Rightarrow>
             and_then (next_expected_account b4 (fr_author r)) (\<lambda>(_, it).
             and_then (invoke_signed X accounts (TokenClose (es_wallet ?s) ?auth ?auth) ?seeds w) (\<lambda>w.
             and_then (next_expected_account it (x_token_id X)) (\<lambda>(_, it).
             and_then (next_expected_account it (x_system_id X)) (\<lambda>(_, it).
             and_then (invoke_signed X accounts (SystemTransfer ?auth (fr_author r) (t_amount wallet)) ?seeds w) (\<lambda>w.
             invoke_signed X accounts (SystemTransfer ?auth (key payer) rent_balance) ?seeds w)))))
         | None \<Rightarrow>
             and_then (next_atoken_wallet X b4 (fr_author r) (t_mint wallet) w) (\<lambda>(author_wallet, _, it).
             and_then (next_expected_account it (fr_author r)) (\<lambda>(_, it).
             return_tokens X accounts (es_wallet ?s) author_wallet ?auth (key payer) (t_amount wallet) ?seeds w))) = Inr w1"
    and erased: "erase_state ?s state_acc payer w1 = Inr w'"
    using ok by (auto simp: process_decline_def s Let_def res_simps)
  have n: "unat (t_amount wallet) = token_balance w (es_wallet s)"
    by (simp add: token_balance_def wallet)
  have "author_repaid X pid (key state_acc) (fr_author r) s w w'"
  proof (cases "t_is_native wallet")
    case None
    then have "return_tokens X accounts (es_wallet s) (x_ata X (fr_author r) (t_mint wallet)) ?auth (key payer)
        (t_amount wallet) ?seeds w = Inr w1"
      using run by (auto simp: res_simps)
    from settle_effect [OF this n erased] show ?thesis
      using wallet None by (simp add: author_repaid_def payer)
  next
    case (Some reserve)
    then have "return_native X accounts (es_wallet s) ?auth (fr_author r) (key payer) (t_amount wallet) reserve ?seeds w = Inr w1"
      using run by (auto simp: res_simps return_native_def)
    from native_effect [OF this n erased refl] show ?thesis
      using wallet Some by (simp add: author_repaid_def payer)
  qed
  moreover have "accounts = state_acc # it"
    using s(1) by (simp add: res_simps)
  ultimately show ?thesis
    using opened dest it by (auto simp: has_signed_def)
qed

end

context escrow_world
begin

lemma settled_unreadable: "data_of w (key acc) = Raw (replicate n 0) \<Longrightarrow>
  next_state_account E (acc # it) pid w \<noteq> Inr x"
  using zeros by (cases x) (auto simp: res_simps request_at_eq)

end

end
