(* ===== verification/EscrowProps.thy ===== *)
theory EscrowProps
  imports EscrowSafety
begin

text \<open>
  The properties of the escrow program, and an executable instance: the codecs in the format Borsh
  publishes and a chain with a funded request.
\<close>

section \<open>The codecs\<close>

definition status_codec :: "request_status codec" where
  "status_codec =
     \<lparr>enc = (\<lambda>s. [case s of ReqUnitialized \<Rightarrow> 0 | ReqOpen \<Rightarrow> 1 | ReqDeclined \<Rightarrow> 2 | ReqAccepted \<Rightarrow> 3]),
      dec = (\<lambda>bs. case bs of [] \<Rightarrow> None | b # rest \<Rightarrow>
        if b = 0 then Some (ReqUnitialized, rest) else if b = 1 then Some (ReqOpen, rest)
        else if b = 2 then Some (ReqDeclined, rest) else if b = 3 then Some (ReqAccepted, rest) else None)\<rparr>"

definition funded_codec :: "funded_request codec" where
  "funded_codec = iso_codec fr_author (\<lambda>k. \<lparr>fr_author = k\<rparr>) key_codec"

definition unfunded_codec :: "unfunded_request codec" where
  "unfunded_codec = iso_codec (\<lambda>r. (ur_collected r, ur_deadline r, ur_accept_threshold r))
     (\<lambda>(c, dl, t). \<lparr>ur_collected = c, ur_deadline = dl, ur_accept_threshold = t\<rparr>)
     (pair_codec u64_codec (pair_codec (option_codec u64_codec) u64_codec))"

definition request_codec :: "request codec" where
  "request_codec =
     \<lparr>enc = (\<lambda>r. case r of Funded x \<Rightarrow> 0 # enc funded_codec x | Unfunded x \<Rightarrow> 1 # enc unfunded_codec x),
      dec = (\<lambda>bs. case bs of [] \<Rightarrow> None | b # rest \<Rightarrow>
        if b = 0 then map_option (\<lambda>(x, r). (Funded x, r)) (dec funded_codec rest)
        else if b = 1 then map_option (\<lambda>(x, r). (Unfunded x, r)) (dec unfunded_codec rest) else None)\<rparr>"

definition escrow_state_codec :: "escrow_state codec" where
  "escrow_state_codec = iso_codec
     (\<lambda>s. (es_status s, es_created_at s, es_wallet s, es_destination s, es_payer s, es_request s))
     (\<lambda>(st, t, wl, dst, p, r). \<lparr>es_status = st, es_created_at = t, es_wallet = wl, es_destination = dst,
        es_payer = p, es_request = r\<rparr>)
     (pair_codec status_codec (pair_codec u64_codec (pair_codec key_codec (pair_codec key_codec
       (pair_codec key_codec request_codec)))))"

definition escrow_voucher_codec :: "escrow_voucher codec" where
  "escrow_voucher_codec = iso_codec (\<lambda>v. (ev_state v, ev_user v, ev_amount v))
     (\<lambda>(s, u, n). \<lparr>ev_state = s, ev_user = u, ev_amount = n\<rparr>)
     (pair_codec key_codec (pair_codec key_codec u64_codec))"

lemma status_codec_lawful: "lawful status_codec"
  unfolding lawful_def by (auto simp: status_codec_def split: request_status.split)

lemma request_codecs_lawful: "lawful funded_codec" "lawful unfunded_codec"
  unfolding funded_codec_def unfunded_codec_def by (intro iso_codec_lawful codec_lawful, simp)+

lemma request_codec_lawful: "lawful request_codec"
  unfolding lawful_def [of request_codec]
  by (auto simp: request_codec_def lawfulD [OF request_codecs_lawful(1)] lawfulD [OF request_codecs_lawful(2)]
      split: request.split)

lemma escrow_codecs_lawful: "lawful escrow_state_codec" "lawful escrow_voucher_codec"
  unfolding escrow_state_codec_def escrow_voucher_codec_def
  by (intro iso_codec_lawful codec_lawful status_codec_lawful request_codec_lawful, simp)+

lemma escrow_state_length:
  "length (enc escrow_state_codec s) =
    (case es_request s of Funded _ \<Rightarrow> 138 | Unfunded r \<Rightarrow> if ur_deadline r = None then 123 else 131)"
  by (auto simp: escrow_state_codec_def status_codec_def request_codec_def funded_codec_def unfunded_codec_def enc_simps
      split: request.split)

lemma zeros_unitialized:
  assumes "parse_all escrow_state_codec (replicate n 0) = Some s"
  shows "es_status s = ReqUnitialized"
  using assms
  by (cases n) (auto simp: parse_all_def escrow_state_codec_def iso_codec_def pair_codec_def status_codec_def
      Option.bind_eq_Some_conv split: option.splits list.splits)

definition demo_escrow :: escrow_ext where
  "demo_escrow = \<lparr>ee_state = escrow_state_codec, ee_voucher = escrow_voucher_codec,
     ee_parse = (\<lambda>bs. if bs = [2] then Some Refund else if bs = [3] then Some Cancel else if bs = [4] then Some Accept
       else if bs = [5] then Some Decline else None), ee_rent_id = 10, ee_clock_id = 9\<rparr>"

lemma demo_escrow_simps [simp]:
  "ee_state demo_escrow = escrow_state_codec" "ee_voucher demo_escrow = escrow_voucher_codec"
  "ee_clock_id demo_escrow = 9"
  by (simp_all add: demo_escrow_def)

interpretation demo_escrow: escrow_world "sim now" demo_escrow
  by (intro escrow_world.intro escrow_world_axioms.intro sim.token_program_axioms)
    (auto simp: escrow_codecs_lawful escrow_state_length state_size_def is_funded_def zeros_unitialized
      split: request.splits)

section \<open>A chain\<close>

definition escrow_wallet :: "pubkey \<Rightarrow> u64 \<Rightarrow> account" where
  "escrow_wallet own amount = \<lparr>lamports = 1000, acc_owner = 6, data = TokenData \<lparr>t_mint = 30, t_owner = own,
     t_amount = amount, t_delegate = None, t_is_native = None, t_delegated_amount = 0, t_close_authority = None\<rparr>\<rparr>"

text \<open>The state 5, its wallet 8 with 40 tokens, the same for 7 without tokens.\<close>

definition escrow_chain :: world where
  "escrow_chain = \<lparr>accts = (\<lambda>k. \<lparr>lamports = 0, acc_owner = 0, data = Raw []\<rparr>)
     (5 := \<lparr>lamports = 1000, acc_owner = 200, data = Raw (replicate 138 0)\<rparr>, 8 := escrow_wallet 200006001005 40,
      7 := \<lparr>lamports = 1000, acc_owner = 200, data = Raw (replicate 138 0)\<rparr>, 18 := escrow_wallet 200006001007 0,
      21030 := escrow_wallet 21 3),
     lam_locked = [], data_locked = []\<rparr>"

lemma escrow_chain_views:
  "data_of escrow_chain k = (if k = 5 \<or> k = 7 then Raw (replicate 138 0)
     else if k = 8 then data (escrow_wallet 200006001005 40) else if k = 18 then data (escrow_wallet 200006001007 0)
     else if k = 21030 then data (escrow_wallet 21 3) else Raw [])"
  "owner_of escrow_chain k = (if k = 5 \<or> k = 7 then 200 else if k = 8 \<or> k = 18 \<or> k = 21030 then 6 else 0)"
  "lamports_of escrow_chain k = (if k = 5 \<or> k = 7 \<or> k = 8 \<or> k = 18 \<or> k = 21030 then 1000 else 0)"
  "lam_locked escrow_chain = []" "data_locked escrow_chain = []"
  by (simp_all add: escrow_chain_def data_of_def owner_of_def lamports_of_def escrow_wallet_def)

lemma escrow_pdas [simp]: "sim_pda (authority_seeds 5) 200 = 200006001005" "sim_pda (authority_seeds 7) 200 = 200006001007"
  by (simp_all add: sim_pda_def authority_seeds_def)

lemma zeros_parse: "(case parse_all escrow_state_codec (replicate n 0) of Some old \<Rightarrow> es_status old \<noteq> ReqUnitialized | None \<Rightarrow> False) = False"
  using zeros_unitialized by (auto split: option.splits)

definition funded_args :: create_request_instruction where
  "funded_args = \<lparr>ci_dest = 21, ci_payer = 22, ci_rtype = CreateFunded 20\<rparr>"

definition unfunded_args :: create_request_instruction where
  "unfunded_args = \<lparr>ci_dest = 21, ci_payer = 22, ci_rtype = CreateUnfunded None 50\<rparr>"

definition plain_info :: "pubkey \<Rightarrow> account_info" where
  "plain_info k = \<lparr>key = k, is_signer = False, is_writable = True\<rparr>"

lemmas escrow_run_simps = Let_def next_account_info_def ensure_def read_data_def raw_bytes_def unpack_token_def or_panic_def
  next_owned_token_wallet_def rent_exempt_def write_state_def state_size_def plain_info_def escrow_wallet_def

lemma funded_run: "\<exists>w'. process_create demo_escrow (sim 0) 200 [plain_info 5, plain_info 8] funded_args escrow_chain = Inr w'"
  using zeros_parse [of 138] by (simp add: process_create_def escrow_run_simps escrow_chain_views funded_args_def)

lemma unfunded_run: "\<exists>w'. process_create demo_escrow (sim 0) 200 [plain_info 7, plain_info 18] unfunded_args escrow_chain = Inr w'"
  using zeros_parse [of 138] by (simp add: process_create_def escrow_run_simps escrow_chain_views unfunded_args_def)

section \<open>Properties\<close>

text \<open>
  C10: How a funded request ends. Accepting needs the signature of the destination and moves all
  tokens of the wallet to the account the caller names; declining needs the destination, cancelling the author,
  and both return everything to the author: the tokens to the associated wallet, wrapped SOL as
  lamports. The request was open; its wallet is closed and its state erased, and no handler
  accepts the state again.
\<close>
theorem escrow_settlement:
  assumes world: "escrow_world X E"
    and s: "next_state_account E accounts pid w = Inr (s, state_acc, it)" "es_request s = Funded r"
  shows "(process_accept E X pid accounts w = Inr w' \<longrightarrow> has_signed accounts (es_destination s)
      \<and> 0 < token_balance w (es_wallet s)
      \<and> request_settled (key state_acc) (es_wallet s) (key (accounts ! 3)) (es_payer s) w w')
    \<and> (process_decline E X pid accounts w = Inr w' \<longrightarrow> has_signed accounts (es_destination s)
      \<and> author_repaid X pid (key state_acc) (fr_author r) s w w')
    \<and> (process_cancel E X pid accounts w = Inr w' \<longrightarrow> has_signed accounts (fr_author r)
      \<and> author_repaid X pid (key state_acc) (fr_author r) s w w')
    \<and> (Inr w' \<in> {process_accept E X pid accounts w, process_decline E X pid accounts w, process_cancel E X pid accounts w}
      \<longrightarrow> is_open s \<and> (\<forall>x pid2. next_state_account E accounts pid2 w' \<noteq> Inr x))"
proof -
  have tokens: "token_program X"
    using world by (rule escrow_world.axioms)
  note accept = token_program.accept_effect [OF tokens s] and decline = token_program.decline_effect [OF tokens s]
    and cancel = token_program.cancel_effect [OF tokens s]
  have "next_state_account E accounts pid2 w' \<noteq> Inr x"
    if "Inr w' \<in> {process_accept E X pid accounts w, process_decline E X pid accounts w, process_cancel E X pid accounts w}"
    for x pid2
  proof -
    have "(\<exists>dest. request_settled (key state_acc) (es_wallet s) dest (es_payer s) w w')
      \<or> author_repaid X pid (key state_acc) (fr_author r) s w w'"
      using that accept [of w'] decline [of w'] cancel [of w'] by auto
    then obtain n where "data_of w' (key state_acc) = Raw (replicate n 0)"
      using settled_wiped by blast
    moreover have "accounts = state_acc # it"
      using s(1) by (simp add: res_simps)
    ultimately show ?thesis
      using escrow_world.settled_unreadable [OF world] by blast
  qed
  then show ?thesis
    using accept [of w'] decline [of w'] cancel [of w'] by auto
qed

definition accept_accounts :: "account_info list" where
  "accept_accounts = [plain_info 5, plain_info 8, (plain_info 21)\<lparr>is_signer := True\<rparr>, plain_info 21030, plain_info 22,
     plain_info 9]"

definition demo_request :: escrow_state where
  "demo_request = \<lparr>es_status = ReqOpen, es_created_at = 0, es_wallet = 8, es_destination = 21, es_payer = 22,
     es_request = Funded \<lparr>fr_author = 20\<rparr>\<rparr>"

definition open_chain :: world where
  "open_chain = set_data 5 (Raw (enc escrow_state_codec demo_request)) escrow_chain"

lemma open_chain_views:
  "data_of open_chain k = (if k = 5 then Raw (enc escrow_state_codec demo_request) else data_of escrow_chain k)"
  "owner_of open_chain k = owner_of escrow_chain k" "lamports_of open_chain k = lamports_of escrow_chain k"
  "lam_locked open_chain = []" "data_locked open_chain = []"
  by (simp_all add: open_chain_def escrow_chain_views)

lemma open_request: "next_state_account demo_escrow accept_accounts 200 open_chain = Inr (demo_request, plain_info 5, tl accept_accounts)"
  by (simp add: res_simps request_at_eq open_chain_views escrow_chain_views accept_accounts_def plain_info_def
      parse_all_enc escrow_codecs_lawful demo_request_def)

lemma accept_runs: "\<exists>w'. process_accept demo_escrow (sim 0) 200 accept_accounts open_chain = Inr w'"
  unfolding process_accept_def open_request
  by (simp add: accept_accounts_def demo_request_def escrow_run_simps open_chain_views escrow_chain_views
      next_expected_token_wallet_def next_signer_account_def next_sysvar_def expired_def is_open_def try_accept_def
      is_funded_def invoke_signed_def sim_transfer_tokens_def sim_close_def erase_state_def bytes_of_def
      borrow_lamports_def release_lamports_def assert_that_def checked_add_def)

theorem escrow_settlement_witness:
  "\<exists>w'. process_accept demo_escrow (sim 0) 200 accept_accounts open_chain = Inr w' \<and> token_balance w' 21030 = 43
    \<and> \<not> is_token w' 8"
proof -
  obtain w' where w': "process_accept demo_escrow (sim 0) 200 accept_accounts open_chain = Inr w'"
    using accept_runs by blast
  have "request_settled 5 8 21030 22 open_chain w'"
    using w' escrow_settlement [OF demo_escrow.escrow_world_axioms [of 0] open_request, of "\<lparr>fr_author = 20\<rparr>" w']
    by (simp add: demo_request_def plain_info_def accept_accounts_def)
  moreover have "token_balance open_chain 8 = 40" "token_balance open_chain 21030 = 3"
    by (simp_all add: token_balance_def open_chain_views escrow_chain_views escrow_wallet_def)
  ultimately show ?thesis
    using w' by (simp add: request_settled_def)
qed

text \<open>
  C39: An unfunded request is dead from the start. Creating it succeeds on any account large enough,
  but what is written leaves bytes over, so it never reads back: contributing, refunding, accepting,
  cancelling and declining all fail, whenever the state is as it was written, and anyone can create it again.
\<close>
theorem escrow_unfunded_dead:
  assumes world: "escrow_world X E"
    and made: "process_create E X pid (acc # wallet_acc # rest) args w = Inr w1" "ci_rtype args = CreateUnfunded dl threshold"
    and later: "data_of w2 (key acc) = data_of w1 (key acc)" "owner_of w2 (key acc) = pid" "key acc \<notin> set (data_locked w2)"
  shows "process_contribute E X pid (acc # it) user w2 = Inl (Err BorshIoError)
    \<and> process_refund E X pid (acc # it) w2 = Inl (Err BorshIoError)
    \<and> process_accept E X pid (acc # it) w2 = Inl (Err BorshIoError)
    \<and> process_cancel E X pid (acc # it) w2 = Inl (Err BorshIoError)
    \<and> process_decline E X pid (acc # it) w2 = Inl (Err BorshIoError)
    \<and> (\<exists>w3. process_create E X pid (acc # wallet_acc # rest)
          \<lparr>ci_dest = dest2, ci_payer = payer2, ci_rtype = CreateUnfunded dl2 threshold2\<rparr> w1 = Inr w3)"
proof -
  let ?s = "\<lparr>es_status = ReqOpen, es_created_at = x_now X, es_wallet = key wallet_acc, es_destination = ci_dest args,
    es_payer = ci_payer args, es_request = Unfunded \<lparr>ur_collected = 0, ur_deadline = dl, ur_accept_threshold = threshold\<rparr>\<rparr>"
  obtain t bytes where t: "data_of w (key wallet_acc) = TokenData t"
    and bytes: "data_of w (key acc) = Raw bytes" "state_size \<le> length bytes"
    and w1: "w1 = set_data (key acc) (Raw (copy_slice bytes (enc (ee_state E) ?s))) w"
    using create_effect [OF made(1)] made(2) by auto
  let ?bs = "copy_slice bytes (enc (ee_state E) ?s)"
  have short: "length (enc (ee_state E) ?s) < state_size"
    by (intro escrow_world.unfunded_length [OF world]) (simp add: is_funded_def)
  then have dead: "parse_all (ee_state E) ?bs = None" and len: "length ?bs = length bytes"
    using bytes(2) escrow_world.written_reads [OF world, of ?s bytes] by (simp_all add: copy_shorter)
  have "next_state_account E (acc # it) pid w2 = Inl (Err BorshIoError)"
    using later dead by (simp add: next_state_account_def next_account_info_def bytes_of_def read_data_def raw_bytes_def w1)
  moreover have "\<exists>w3. process_create E X pid (acc # wallet_acc # rest)
      \<lparr>ci_dest = dest2, ci_payer = payer2, ci_rtype = CreateUnfunded dl2 threshold2\<rparr> w1 = Inr w3"
  proof -
    have "key wallet_acc \<noteq> key acc"
      using t bytes(1) by auto
    then show ?thesis
      using made t bytes dead len unfolding process_create_def next_owned_token_wallet_def
      by (auto simp: res_simps w1 Let_def write_state_def)
  qed
  ultimately show ?thesis
    by (simp add: handlers_load)
qed

theorem escrow_unfunded_dead_witness:
  "\<exists>w1. process_create demo_escrow (sim 0) 200 [plain_info 7, plain_info 18] unfunded_args escrow_chain = Inr w1
    \<and> process_decline demo_escrow (sim 0) 200 [plain_info 7, plain_info 18] w1 = Inl (Err BorshIoError)"
proof -
  obtain w1 where w1: "process_create demo_escrow (sim 0) 200 [plain_info 7, plain_info 18] unfunded_args escrow_chain = Inr w1"
    using unfunded_run by blast
  then have "owner_of w1 7 = 200" "data_locked w1 = []"
    using create_effect [OF w1] by (auto simp: plain_info_def escrow_chain_views)
  then show ?thesis
    using w1 escrow_unfunded_dead [OF demo_escrow.escrow_world_axioms w1, of None 50 w1 "[plain_info 18]"]
    by (simp add: unfunded_args_def plain_info_def)
qed

text \<open>
  C40: A funded request reads back exactly as it was created when its account has 138 bytes, and then
  cannot be created again. On a longer account creation succeeds as well, but the request never
  reads back, so none of its exits works and the tokens stay.
\<close>
theorem escrow_funded_roundtrip:
  assumes world: "escrow_world X E"
    and made: "process_create E X pid (acc # wallet_acc # rest) args w = Inr w1" "ci_rtype args = CreateFunded author"
    and state: "owner_of w (key acc) = pid" "data_of w (key acc) = Raw bytes"
  shows "state_size \<le> length bytes
    \<and> (if length bytes = state_size
       then request_at E pid w1 (key acc) = Some \<lparr>es_status = ReqOpen, es_created_at = x_now X,
           es_wallet = key wallet_acc, es_destination = ci_dest args, es_payer = ci_payer args,
           es_request = Funded \<lparr>fr_author = author\<rparr>\<rparr>
         \<and> (\<forall>args2 w2. process_create E X pid (acc # wallet_acc # rest) args2 w1 \<noteq> Inr w2)
       else \<forall>it x. next_state_account E (acc # it) pid w1 \<noteq> Inr x)"
proof -
  let ?s = "\<lparr>es_status = ReqOpen, es_created_at = x_now X, es_wallet = key wallet_acc, es_destination = ci_dest args,
    es_payer = ci_payer args, es_request = Funded \<lparr>fr_author = author\<rparr>\<rparr>"
  have size: "state_size \<le> length bytes"
    and w1: "w1 = set_data (key acc) (Raw (copy_slice bytes (enc (ee_state E) ?s))) w"
    using create_effect [OF made(1)] made(2) state(2) by auto
  have full: "length (enc (ee_state E) ?s) = state_size"
    by (rule escrow_world.funded_length [OF world]) (simp add: is_funded_def)
  have reads: "parse_all (ee_state E) (copy_slice bytes (enc (ee_state E) ?s)) = (if length bytes = state_size then Some ?s else None)"
    using escrow_world.written_reads [OF world, of ?s bytes] size full by simp
  have "process_create E X pid (acc # wallet_acc # rest) args2 w1 \<noteq> Inr w2" if "length bytes = state_size" for args2 w2
    using reads that by (auto simp: process_create_def res_simps Let_def write_state_def w1)
  then show ?thesis
    using size reads state(1) by (auto simp: request_at_eq w1 res_simps)
qed

theorem escrow_funded_roundtrip_witness:
  "\<exists>w1. process_create demo_escrow (sim 0) 200 [plain_info 5, plain_info 8] funded_args escrow_chain = Inr w1
    \<and> request_at demo_escrow 200 w1 5 = Some \<lparr>es_status = ReqOpen, es_created_at = 0, es_wallet = 8,
        es_destination = 21, es_payer = 22, es_request = Funded \<lparr>fr_author = 20\<rparr>\<rparr>"
proof -
  obtain w1 where w1: "process_create demo_escrow (sim 0) 200 [plain_info 5, plain_info 8] funded_args escrow_chain = Inr w1"
    using funded_run by blast
  then show ?thesis
    using escrow_funded_roundtrip [OF demo_escrow.escrow_world_axioms w1, of 20 "replicate 138 0"]
    by (simp add: funded_args_def plain_info_def escrow_chain_views state_size_def)
qed

end
