(* ===== verification/Spec2Isabelle.thy ===== *)
theory Spec2Isabelle
  imports Fanout RoundProps RoyaltyProps HumanFlows EscrowProps
begin

text \<open>
  A model of the on-chain programs of the repository: five Solana programs in Rust and the crate
  that the three native ones share. A person's tokens are sold, held, vested and rewarded:

  \<^item> \<^bold>\<open>human\<close> (native) keeps the contract state of a token with its vault. It sells drops, vests
    the vault to the owner, mints posts and pays users for reposting them, deposits the collected
    commission into a swap pool, and offers tokens of the vault in rounds. For a round it calls
    the programs fanout and round.
  \<^item> \<^bold>\<open>round\<close> (Anchor) sells an offer for bids: bidders contribute until \<open>bidding_end\<close>, the
    heir accepts or rejects, vouchers are refunded or redeemed.
  \<^item> \<^bold>\<open>fanout\<close> (Anchor) divides the lamports of an account among fixed members.
  \<^item> \<^bold>\<open>royalty\<close> (native) lets holders stake tokens, divides the lamports a state receives in
    drops among the stakers, and records their voting weight for the governance program.
  \<^item> \<^bold>\<open>escrow\<close> (native) keeps tokens of a request until its destination accepts or declines it.

  \<^bold>\<open>How the model corresponds to the code.\<close>
  A definition has the name of the function it translates. Machine integers are words, with the
  checked and saturating operations of the code (\<open>Prelude\<close>); where Rust casts with \<open>as\<close>, the
  model casts the word. A \<open>Result\<close> is a sum with the failure on the left. A failure is an
  error code, or the panic of an \<open>unwrap\<close>, an index, a slice or a \<open>RefCell\<close> borrowed twice.
  The chain is a \<open>world\<close>, passed explicitly. A handler that fails returns no world, as the
  runtime rolls the transaction back.

  \<^item> \<open>Prelude\<close>, \<open>Errors\<close>: integers, results, error values (the \<open>error.rs\<close> files).
  \<^item> \<open>Accounts\<close>, \<open>Programs\<close>, \<open>Anchor\<close>: the accounts an instruction sees and their borrows, the
    system and token programs, the account attributes of Anchor.
  \<^item> \<open>Borsh\<close>, \<open>Entity\<close>: codecs, and \<open>common/src\<close> (\<open>Entity\<close> with its guards, the readers of the
    account iterator).
  \<^item> \<open>Precise\<close>: the fixed-point numbers of \<open>spl-math\<close>.
  \<^item> \<open>FanoutState\<close>, \<open>Fanout\<close>: \<open>fanout/src\<close>; \<open>split_ref\<close> is the reference for
    \<open>calculate_split\<close>.
  \<^item> \<open>RoundState\<close> (\<open>round/src/state.rs\<close>), \<open>RoundContexts\<close> (the contexts of
    \<open>round/src/lib.rs\<close> and \<open>event.rs\<close>), \<open>Round\<close> (its twelve instructions).
    \<open>RoundLedger\<close> is the abstract specification of a round, \<open>RoundSafety\<close> and \<open>RoundMachine\<close> the
    refinement and the reachable states, \<open>RoundProps\<close> the properties.
  \<^item> \<open>RoyaltyState\<close> (\<open>royalty/src/state.rs\<close>), \<open>Royalty\<close> (\<open>lib.rs\<close> and \<open>instruction.rs\<close>);
    \<open>RoyaltyLedger\<close>, \<open>RoyaltySafety\<close>, \<open>RoyaltyEffects\<close>, \<open>RoyaltyMachine\<close> and \<open>RoyaltyProps\<close> as
    for the round, \<open>RoyaltyDemo\<close> the run of the witnesses. \<open>Holdings\<close> is shared by both ledgers.
  \<^item> \<open>Vest\<close> (\<open>human/src/vest.rs\<close>), \<open>HumanState\<close> (\<open>state.rs\<close>, \<open>consts.rs\<close>), \<open>Human\<close>
    (\<open>lib.rs\<close>). \<open>HumanFix\<close> is about the repair of a damaged state, \<open>HumanSafety\<close> about the effects
    of the handlers, \<open>HumanPosts\<close> about reposts, \<open>HumanDemo\<close> holds the run of the witnesses,
    \<open>HumanProps\<close> and \<open>HumanFlows\<close> the properties.
  \<^item> \<open>Escrow\<close> (\<open>escrow/src/lib.rs\<close>), \<open>EscrowSafety\<close>, \<open>EscrowProps\<close>.

  \<^bold>\<open>What is a parameter.\<close>
  Code that the repository only calls is an argument of the definitions that use it: \<open>ext\<close> (the
  system and token programs, rent, clock, derived addresses), \<open>royalty_ext\<close> (governance and the
  instructions sysvar), \<open>human_ext\<close> (the programs for swaps, metadata and compression, with their
  instructions as the datatype \<open>human_cpi\<close>), \<open>escrow_ext\<close>, \<open>precise\<close>, and the codecs of the
  types that derive Borsh. What the proofs use of it is the assumption of a locale, each
  interpreted on the model:
\<close>

text \<open>
  \<^item> \<open>system_program\<close> and \<open>token_program\<close>: the effect of a successful transfer, creation, close
    and initialisation (on \<open>sim\<close>, and on \<open>human_sim\<close>, which has other derived addresses);
  \<^item> \<open>precise_number\<close>: the accuracy of the fixed-point operations (on \<open>fixed12\<close>);
  \<^item> \<open>entity_codec\<close> and \<open>fitting_entity\<close>: decoding inverts encoding, and a value fits into its
    account (on the entities of the royalty and the human program with the published format);
  \<^item> \<open>royalty_world\<close>, \<open>escrow_world\<close>: the programs and codecs of these two (on \<open>demo_royalty\<close> and
    \<open>demo_escrow\<close>);
  \<^item> \<open>human_world\<close>: in addition an approval sets the delegate, and calls of the fanout and the round
    program run \<open>Fanout.initialize\<close> and \<open>Round.create_round\<close> (on \<open>demo_human\<close>);
  \<^item> \<open>foreign_calls\<close>: other programs do not change accounts the human program owns.

  Further assumptions appear as hypotheses. \<open>royalty_apart\<close> says that the derived addresses of one
  royalty state are distinct, as the hash gives. The steps \<open>others\<close> of the two machines
  (\<open>elsewhere\<close> for the royalty program) are transactions that leave the accounts of the program and
  its wallets as only the program can change them; they may add lamports or tokens. The runtime
  rejects an instruction that wrote to an account its program does not own; the model does not
  check this at the end of a handler, so that what holds of the model's successes holds of the
  chain's. In \<open>copy_slice\<close> of the escrow program \<open>sol_memcpy\<close> may get more bytes than the
  slice has; what does not fit goes to the reserve behind the data, and the model drops it.

  \<^bold>\<open>What the lemmas show.\<close>
  For each handler: when it succeeds, what it needed and what it changed on every account. For the
  round and the royalty program: each instruction is a step of an abstract ledger, whatever the
  accounts passed, so the invariants of the ledger (solvency, counters, fair drops, covered stakes)
  hold in all reachable states, interleaved with other transactions. For the computations
  (distribution, redemption, split, share, vesting): agreement with a reference over the natural
  or real numbers, with bounds on the rounding. For stored values: round trips and what cannot be
  read back. Several properties prove what the code does against its intention: a voucher of another
  state empties a wallet, one lamport blocks the refunds of a round, unfunded requests cannot be
  used, a round of the human program can be created by anybody, compressed reposts cost nothing.

  \<^bold>\<open>Termination.\<close>
  The loops of the code run over account or member lists and are structural recursion;
  \<open>refund_all\<close> of the escrow program takes two accounts per round and has the number of accounts left
  as its measure. No definition has fuel.

  \<^bold>\<open>Not modelled.\<close>
  The integration tests, deployment scripts and build files; \<open>msg!\<close> and compute budgets; what
  the derive macros of Borsh and Anchor generate beyond the checks of the attributes; the crates
  named above as parameters. The constants are those of a build without the feature \<open>dev\<close>.

  \<^bold>\<open>Plan.\<close>
  Still to come: the effects of \<open>process_repost\<close>, \<open>process_register_post\<close> and
  \<open>process_deposit_commission\<close> on the accounts, and an abstract ledger of the vault of the human
  program with the instructions as its steps.
\<close>

end
